(* ===== verification/Go_Prelude.thy ===== *)
theory Go_Prelude
  imports Main "HOL-Library.Sublist" "HOL-Library.List_Lexorder" "HOL-Library.Char_ord"
    "HOL-Library.Word"
begin

text \<open>
  The part of Go and of its standard library that the operator's code uses, shared by every
  component theory:
  \<^item> the faults a Go program can stop with (nil dereference, index out of range, a call of
    \<open>panic\<close>, a call of \<open>os.Exit\<close>) as values of a sum type, with sequencing;
  \<^item> the functions of package \<open>strings\<close>, \<open>strconv\<close> and \<open>fmt\<close> on byte strings;
  \<^item> maps as partial functions, \<open>range\<close> loops over a map with the iteration order the
    runtime picks as an explicit argument, sets as sorted duplicate-free lists;
  \<^item> the named theorem collections of the development.
  Strings are byte strings. Case conversion and quoting are exact on ASCII; bytes above 127 are
  left as they are, which is what Go does for printable UTF-8 text without case.
\<close>

named_theorems go_simps \<open>equations that run the fault monad and the string functions\<close>
named_theorems obs_simps \<open>equations of the API helper functions\<close>
named_theorems wf_intros \<open>introduction rules of well-formedness predicates\<close>

section \<open>Faults and sequencing\<close>

datatype go_fault = NilDereference | IndexOutOfRange | ProcessExit | PanicWith string

type_synonym 'a go = "go_fault + 'a"

abbreviation ret :: "'a \<Rightarrow> 'a go" where
  "ret x \<equiv> Inr x"

fun go_bind :: "'a go \<Rightarrow> ('a \<Rightarrow> 'b go) \<Rightarrow> 'b go" where
  "go_bind (Inl e) f = Inl e"
| "go_bind (Inr x) f = f x"

definition deref :: "'a option \<Rightarrow> 'a go" where
  "deref p = (case p of None \<Rightarrow> Inl NilDereference | Some x \<Rightarrow> Inr x)"

definition index_at :: "'a list \<Rightarrow> nat \<Rightarrow> 'a go" where
  "index_at xs i = (if i < length xs then Inr (xs ! i) else Inl IndexOutOfRange)"

text \<open>A \<open>for\<close> loop over a slice whose body may stop the program.\<close>

fun go_fold :: "('s \<Rightarrow> 'a \<Rightarrow> 's go) \<Rightarrow> 's \<Rightarrow> 'a list \<Rightarrow> 's go" where
  "go_fold f s [] = Inr s"
| "go_fold f s (x # xs) = go_bind (f s x) (\<lambda>s'. go_fold f s' xs)"

fun go_mapM :: "('a \<Rightarrow> 'b go) \<Rightarrow> 'a list \<Rightarrow> 'b list go" where
  "go_mapM f [] = Inr []"
| "go_mapM f (x # xs) = go_bind (f x) (\<lambda>y. go_bind (go_mapM f xs) (\<lambda>ys. Inr (y # ys)))"

lemma deref_simps [simp, go_simps]:
  "deref None = Inl NilDereference" "deref (Some x) = Inr x"
  by (simp_all add: deref_def)

lemma go_bind_Inr_iff:
  "go_bind m f = Inr y \<longleftrightarrow> (\<exists>x. m = Inr x \<and> f x = Inr y)"
  by (cases m) auto

lemma go_bind_Inl_iff:
  "go_bind m f = Inl e \<longleftrightarrow> m = Inl e \<or> (\<exists>x. m = Inr x \<and> f x = Inl e)"
  by (cases m) auto

text \<open>A computation returns when it ends without a fault.\<close>

abbreviation returns :: "'a go \<Rightarrow> bool" where
  "returns m \<equiv> \<not> isl m"

lemma returns_go_bind: "returns (go_bind m f) \<longleftrightarrow> returns m \<and> returns (f (projr m))"
  by (cases m) simp_all

lemma returns_deref [simp]: "isl (deref v) \<longleftrightarrow> v = None"
  by (cases v) (simp_all add: deref_def)

lemma projr_deref [simp]: "v = Some x \<Longrightarrow> projr (deref v) = x"
  by (simp add: deref_def)

lemma returnsE: "returns m \<Longrightarrow> (\<And>r. m = Inr r \<Longrightarrow> P) \<Longrightarrow> P"
  by (cases m) simp_all

lemma go_bind_assoc: "go_bind (go_bind m f) g = go_bind m (\<lambda>x. go_bind (f x) g)"
  by (cases m) auto

lemma go_bind_ret [simp]: "go_bind m Inr = m"
  by (cases m) auto

lemma go_fold_append: "go_fold f s (xs @ ys) = go_bind (go_fold f s xs) (\<lambda>s'. go_fold f s' ys)"
  by (induction xs arbitrary: s) (simp_all add: go_bind_assoc)

lemma go_fold_ret: "go_fold (\<lambda>s x. Inr (f s x)) s xs = Inr (foldl f s xs)"
  by (induction xs arbitrary: s) simp_all

text \<open>An invariant kept by each turn of the loop is kept by the loop.\<close>

lemma go_fold_invariant:
  assumes "go_fold f s xs = Inr t" and "I s"
    and "\<And>s x s'. x \<in> set xs \<Longrightarrow> I s \<Longrightarrow> f s x = Inr s' \<Longrightarrow> I s'"
  shows "I t"
  using assms
proof (induction xs arbitrary: s)
  case Nil
  then show ?case by simp
next
  case (Cons x xs)
  from Cons.prems(1) obtain s' where s': "f s x = Inr s'" "go_fold f s' xs = Inr t"
    by (auto simp: go_bind_Inr_iff)
  moreover have "I s'" using Cons.prems(3)[of x s s'] Cons.prems(2) s'(1) by simp
  ultimately show ?case
    using Cons.IH[of s'] Cons.prems(3) by (meson list.set_intros(2))
qed

lemma go_mapM_Inr_iff:
  "go_mapM f xs = Inr ys \<longleftrightarrow> list_all2 (\<lambda>x y. f x = Inr y) xs ys"
  by (induction xs arbitrary: ys) (auto simp: go_bind_Inr_iff list_all2_Cons1)

lemma returns_go_mapM: "returns (go_mapM f xs) \<longleftrightarrow> (\<forall>x\<in>set xs. returns (f x))"
  by (induction xs) (auto simp: returns_go_bind)

lemma go_mapM_ret: "(\<And>x. x \<in> set xs \<Longrightarrow> f x = Inr (g x)) \<Longrightarrow> go_mapM f xs = Inr (map g xs)"
  by (induction xs) simp_all

lemma length_filter_all: "length (filter P xs) = length xs \<longleftrightarrow> (\<forall>x\<in>set xs. P x)"
proof (induction xs)
  case (Cons x xs)
  have "length (filter P xs) \<noteq> Suc (length xs)"
    using length_filter_le [of P xs] by linarith
  with Cons show ?case by auto
qed simp

section \<open>Strings\<close>

abbreviation dq :: char where "dq \<equiv> CHR 0x22"
abbreviation sq :: char where "sq \<equiv> CHR 0x27"
abbreviation bslash :: char where "bslash \<equiv> CHR 0x5C"
abbreviation newline :: char where "newline \<equiv> CHR 0x0A"
abbreviation carriage :: char where "carriage \<equiv> CHR 0x0D"
abbreviation dot :: char where "dot \<equiv> CHR ''.''"

text \<open>\<open>strings.HasPrefix\<close>, \<open>HasSuffix\<close>, \<open>Contains\<close>, \<open>ContainsAny\<close>, \<open>Join\<close>.\<close>

definition HasPrefix :: "string \<Rightarrow> string \<Rightarrow> bool" where
  "HasPrefix s p = (take (length p) s = p)"

definition HasSuffix :: "string \<Rightarrow> string \<Rightarrow> bool" where
  "HasSuffix s p = HasPrefix (rev s) (rev p)"

fun Contains :: "string \<Rightarrow> string \<Rightarrow> bool" where
  "Contains [] p = (p = [])"
| "Contains (c # cs) p = (HasPrefix (c # cs) p \<or> Contains cs p)"

definition ContainsAny :: "string \<Rightarrow> string \<Rightarrow> bool" where
  "ContainsAny s chars = list_ex (\<lambda>c. c \<in> set chars) s"

fun Join :: "string list \<Rightarrow> string \<Rightarrow> string" where
  "Join [] sep = []"
| "Join [x] sep = x"
| "Join (x # y # xs) sep = x @ sep @ Join (y # xs) sep"

text \<open>\<open>strings.Split\<close> with a one-byte separator; the result is never empty.\<close>

fun Split :: "string \<Rightarrow> char \<Rightarrow> string list" where
  "Split [] sep = [[]]"
| "Split (c # cs) sep =
     (if c = sep then [] # Split cs sep
      else (case Split cs sep of [] \<Rightarrow> [[c]] | x # xs \<Rightarrow> (c # x) # xs))"

definition char_to_lower :: "char \<Rightarrow> char" where
  "char_to_lower c =
     (if 65 \<le> (of_char c :: nat) \<and> (of_char c :: nat) \<le> 90
      then char_of ((of_char c :: nat) + 32) else c)"

lemma char_to_lower_idem: "char_to_lower (char_to_lower c) = char_to_lower c"
  by (simp add: char_to_lower_def)

definition ToLower :: "string \<Rightarrow> string" where
  "ToLower s = map char_to_lower s"

definition is_space :: "char \<Rightarrow> bool" where
  "is_space c = (c = CHR 0x20 \<or> (9 \<le> (of_char c :: nat) \<and> (of_char c :: nat) \<le> 13))"

definition TrimSpace :: "string \<Rightarrow> string" where
  "TrimSpace s = rev (dropWhile is_space (rev (dropWhile is_space s)))"

text \<open>\<open>strconv.Itoa\<close> on non-negative numbers.\<close>

definition digit_char :: "nat \<Rightarrow> char" where
  "digit_char d = char_of (48 + d)"

fun Itoa :: "nat \<Rightarrow> string" where
  "Itoa n = (if n < 10 then [digit_char n] else Itoa (n div 10) @ [digit_char (n mod 10)])"

declare Itoa.simps [simp del]

text \<open>\<open>fmt\<close>'s \<open>%q\<close> of a string and \<open>%v\<close>, \<open>%q\<close> of a string slice.\<close>

definition hex_digit :: "nat \<Rightarrow> char" where
  "hex_digit d = (if d < 10 then char_of (48 + d) else char_of (87 + d))"

definition quote_char :: "char \<Rightarrow> string" where
  "quote_char c =
     (if c = dq then [bslash, dq]
      else if c = bslash then [bslash, bslash]
      else if c = CHR 0x07 then bslash # ''a''
      else if c = CHR 0x08 then bslash # ''b''
      else if c = CHR 0x0C then bslash # ''f''
      else if c = newline then bslash # ''n''
      else if c = carriage then bslash # ''r''
      else if c = CHR 0x09 then bslash # ''t''
      else if c = CHR 0x0B then bslash # ''v''
      else if (of_char c :: nat) < 32 \<or> c = CHR 0x7F
      then bslash # ''x'' @ [hex_digit (of_char c div 16), hex_digit (of_char c mod 16)]
      else [c])"

definition Quote :: "string \<Rightarrow> string" where
  "Quote s = [dq] @ concat (map quote_char s) @ [dq]"

definition fmt_v_list :: "string list \<Rightarrow> string" where
  "fmt_v_list xs = ''['' @ Join xs '' '' @ '']''"

definition fmt_q_list :: "string list \<Rightarrow> string" where
  "fmt_q_list xs = ''['' @ Join (map Quote xs) '' '' @ '']''"

lemma HasPrefix_iff_prefix: "HasPrefix s p \<longleftrightarrow> prefix p s"
proof
  assume "HasPrefix s p"
  then have "s = p @ drop (length p) s"
    unfolding HasPrefix_def by (metis append_take_drop_id)
  then show "prefix p s" by (metis prefixI)
qed (auto simp: HasPrefix_def prefix_def)

lemma HasPrefix_append [simp]: "HasPrefix (p @ s) p"
  by (simp add: HasPrefix_def)

lemma HasPrefix_Nil [simp]: "HasPrefix s []"
  by (simp add: HasPrefix_def)

lemma HasSuffix_iff_suffix: "HasSuffix s p \<longleftrightarrow> suffix p s"
  by (simp add: HasSuffix_def HasPrefix_iff_prefix suffix_to_prefix)

lemma Contains_iff_sublist: "Contains s p \<longleftrightarrow> sublist p s"
  by (induction s) (auto simp: HasPrefix_iff_prefix sublist_Cons_right)

lemma Contains_append: "Contains (a @ p @ b) p"
  by (auto simp: Contains_iff_sublist sublist_def)

lemma ContainsAny_iff: "ContainsAny s cs \<longleftrightarrow> set s \<inter> set cs \<noteq> {}"
  by (auto simp: ContainsAny_def list_ex_iff)

lemma set_Join: "set (Join xs sep) \<subseteq> \<Union> (set (map set xs)) \<union> set sep"
  by (induction xs sep rule: Join.induct) auto

lemma Split_nonempty [simp]: "Split s c \<noteq> []"
  by (induction s) (auto split: list.splits)

lemma Split_no_sep: "c \<notin> set s \<Longrightarrow> Split s c = [s]"
  by (induction s) auto

text \<open>Splitting and joining with the same separator are inverse to each other.\<close>

lemma Join_Cons: "xs \<noteq> [] \<Longrightarrow> Join (x # xs) sep = x @ sep @ Join xs sep"
  by (cases xs) auto

lemma Join_Split: "Join (Split s c) [c] = s"
proof (induction s)
  case (Cons a s)
  then show ?case
    by (cases "Split s c"; cases "tl (Split s c)") (auto simp: Join_Cons)
qed simp

lemma Split_append_sep: "c \<notin> set x \<Longrightarrow> Split (x @ c # s) c = x # Split s c"
  by (induction x) auto

lemma Split_Join:
  "xs \<noteq> [] \<Longrightarrow> \<forall>x\<in>set xs. c \<notin> set x \<Longrightarrow> Split (Join xs [c]) c = xs"
proof (induction xs "[c]" rule: Join.induct)
  case (3 x y xs)
  then show ?case by (simp add: Split_append_sep del: Join.simps(2))
qed (auto simp: Split_no_sep)

section \<open>Decimal numerals\<close>

lemma Itoa_nonempty [simp]: "Itoa n \<noteq> []"
  by (subst Itoa.simps) simp

lemma digit_char_inj: "d < 10 \<Longrightarrow> e < 10 \<Longrightarrow> digit_char d = digit_char e \<Longrightarrow> d = e"
  by (drule arg_cong [where f = "of_char :: char \<Rightarrow> nat"]) (simp add: digit_char_def)

lemma digit_char_upt: "map digit_char [0..<10] = ''0123456789''"
  by code_simp

lemma digit_char_range: "d < 10 \<Longrightarrow> digit_char d \<in> set ''0123456789''"
  unfolding digit_char_upt [symmetric] by simp

lemma set_Itoa: "set (Itoa n) \<subseteq> set ''0123456789''"
proof (induction n rule: Itoa.induct)
  case (1 n)
  then show ?case
    by (subst Itoa.simps) (use digit_char_range[of n] digit_char_range[of "n mod 10"] in auto)
qed

lemma Itoa_digit [simp]: "n < 10 \<Longrightarrow> Itoa n = [digit_char n]"
  by (subst Itoa.simps) simp

lemma Itoa_snoc: "10 \<le> n \<Longrightarrow> Itoa n = Itoa (n div 10) @ [digit_char (n mod 10)]"
  by (subst Itoa.simps) simp

lemma Itoa_inj: "Itoa m = Itoa n \<Longrightarrow> m = n"
proof (induction m arbitrary: n rule: Itoa.induct)
  case (1 m)
  show ?case
  proof (cases "m < 10"; cases "n < 10")
    assume "m < 10" "n < 10"
    with "1.prems" show ?thesis by (simp add: digit_char_inj)
  next
    assume "m < 10" "\<not> n < 10"
    with "1.prems" show ?thesis by (simp add: Itoa_snoc Itoa_nonempty [symmetric])
  next
    assume "\<not> m < 10" "n < 10"
    with "1.prems" show ?thesis by (simp add: Itoa_snoc)
  next
    assume big: "\<not> m < 10" "\<not> n < 10"
    with "1.prems" have "Itoa (m div 10) = Itoa (n div 10)"
      and d: "digit_char (m mod 10) = digit_char (n mod 10)"
      by (simp_all add: Itoa_snoc)
    with "1.IH" big have "m div 10 = n div 10" by simp
    moreover have "m mod 10 = n mod 10" by (rule digit_char_inj [OF _ _ d]) simp_all
    ultimately show ?thesis by (metis div_mult_mod_eq)
  qed
qed

section \<open>Sets and maps\<close>

text \<open>
  \<open>set.New(xs...).SortedList()\<close> and \<open>sets.NewString(xs...).List()\<close>: the elements without
  duplicates in byte order. \<open>UnsortedList\<close> returns them in an order the runtime picks; a caller
  that uses it takes that order as an argument.
\<close>

definition sorted_set :: "string list \<Rightarrow> string list" where
  "sorted_set xs = sort (remdups xs)"

lemma set_sorted_set [simp]: "set (sorted_set xs) = set xs"
  by (simp add: sorted_set_def)

lemma distinct_sorted_set [simp]: "distinct (sorted_set xs)"
  by (simp add: sorted_set_def)

lemma sorted_sorted_set [simp]: "sorted (sorted_set xs)"
  by (simp add: sorted_set_def)

lemma sorted_set_unique: "set xs = set ys \<Longrightarrow> sorted_set xs = sorted_set ys"
  by (rule sorted_distinct_set_unique) simp_all

text \<open>
  \<open>ord\<close> is a possible iteration order of the map \<open>m\<close>: each key once, in any order.
\<close>

definition range_order :: "('k \<rightharpoonup> 'v) \<Rightarrow> 'k list \<Rightarrow> bool" where
  "range_order m ks \<longleftrightarrow> distinct ks \<and> set ks = dom m"

text \<open>A loop \<open>for _, x := range xs { m[key(x)] = val(x) }\<close>.\<close>

fun map_insert_all :: "('a \<Rightarrow> 'k) \<Rightarrow> ('a \<Rightarrow> 'v) \<Rightarrow> ('k \<rightharpoonup> 'v) \<Rightarrow> 'a list \<Rightarrow> ('k \<rightharpoonup> 'v)" where
  "map_insert_all k v m [] = m"
| "map_insert_all k v m (x # xs) = map_insert_all k v (m(k x \<mapsto> v x)) xs"

lemma dom_map_insert_all: "dom (map_insert_all k v m xs) = dom m \<union> k ` set xs"
  by (induction xs arbitrary: m) auto

lemma map_insert_all_notin: "q \<notin> k ` set xs \<Longrightarrow> map_insert_all k v m xs q = m q"
  by (induction xs arbitrary: m) auto

lemma map_insert_all_conv: "map_insert_all k v m xs = m ++ map_of (rev (map (\<lambda>x. (k x, v x)) xs))"
  by (induction xs arbitrary: m) simp_all

lemma map_insert_all_Some_elem:
  "map_insert_all k v m xs q = Some y \<Longrightarrow> m q = None \<Longrightarrow> \<exists>x\<in>set xs. k x = q \<and> v x = y"
  by (fastforce simp: map_insert_all_conv map_add_Some_iff dest: map_of_SomeD)

lemma map_insert_all_distinct:
  "distinct (map k xs) \<Longrightarrow> x \<in> set xs \<Longrightarrow> map_insert_all k v m xs (k x) = Some (v x)"
proof (induction xs arbitrary: m)
  case (Cons z zs)
  then show ?case by (cases "x = z") (auto simp: map_insert_all_notin)
qed simp

lemma range_order_lookup: "range_order m ks \<Longrightarrow> k \<in> set ks \<Longrightarrow> \<exists>v. m k = Some v"
  by (auto simp: range_order_def)

text \<open>
  Sorting the keys collected by a \<open>range\<close> loop removes the dependence on the iteration order.
\<close>

lemma sort_range_order: "range_order m ks \<Longrightarrow> range_order m ks' \<Longrightarrow> sort ks = sort (ks' :: string list)"
  by (rule sorted_distinct_set_unique) (auto simp: range_order_def)

end
