(* ===== verification/Obs_Types.thy ===== *)
theory Obs_Types
  imports Go_Prelude
begin

text \<open>
  The data of \<open>api/observability/v1\<close>: the ClusterLogForwarder resource with its inputs,
  outputs, filters, pipelines and status. A struct is a record with one field per Go field (a
  pointer is an \<open>option\<close>, a slice a list, a map a partial function), an enumerated string
  type is a datatype with the declared constants and a constructor \<open>...Other s\<close> for a value
  that is none of them, since a Go string type admits any string.

  Types of the Kubernetes libraries appear with the fields the operator reads. A
  \<open>Quantity\<close> is counted in thousandths, a \<open>Duration\<close> in nanoseconds. Values the operator
  only passes on (affinities, tolerations, security profiles) are opaque tokens.
\<close>

section \<open>Kubernetes data\<close>

type_synonym k8s_opaque = string
type_synonym Quantity = int
type_synonym Duration = int
type_synonym time = nat

datatype ConditionStatus = ConditionTrue | ConditionFalse | ConditionUnknown

record Condition =
  cond_Type :: string
  cond_Status :: ConditionStatus
  cond_Reason :: string
  cond_Message :: string
  cond_LastTransitionTime :: time

record Secret =
  secret_Name :: string
  secret_Data :: "string \<rightharpoonup> string"

record ConfigMap =
  configmap_Name :: string
  configmap_Data :: "string \<rightharpoonup> string"

record LabelSelectorRequirement =
  lsr_Key :: string
  lsr_Operator :: string
  lsr_Values :: "string list"

record LabelSelector =
  ls_MatchLabels :: "string \<rightharpoonup> string"
  ls_MatchExpressions :: "LabelSelectorRequirement list"

record ResourceRequirements =
  rr_Limits :: "string \<rightharpoonup> Quantity"
  rr_Requests :: "string \<rightharpoonup> Quantity"

record GroupResources =
  gr_Group :: string
  gr_Resources :: "string list"
  gr_ResourceNames :: "string list"

record PolicyRule =
  rule_Level :: string
  rule_Users :: "string list"
  rule_UserGroups :: "string list"
  rule_Verbs :: "string list"
  rule_Resources :: "GroupResources list"
  rule_Namespaces :: "string list"
  rule_NonResourceURLs :: "string list"
  rule_OmitStages :: "string list"
  rule_OmitManagedFields :: "bool option"

section \<open>Shared specifications (clusterlogforwarder_types.go)\<close>

type_synonym FieldPath = string

record LimitSpec =
  limit_MaxRecordsPerSecond :: int

record ValueReference =
  vref_Key :: string
  vref_ConfigMapName :: string
  vref_SecretName :: string

record SecretReference =
  sref_Key :: string
  sref_SecretName :: string

datatype BearerTokenFrom =
    BearerTokenFromSecret
  | BearerTokenFromServiceAccount
  | BearerTokenFromOther string

record BearerTokenSecretKey =
  btsk_Key :: string
  btsk_Name :: string

record BearerToken =
  token_From :: BearerTokenFrom
  token_Secret :: "BearerTokenSecretKey option"

record TLSSpec =
  tls_CA :: "ValueReference option"
  tls_Certificate :: "ValueReference option"
  tls_Key :: "SecretReference option"
  tls_KeyPassphrase :: "SecretReference option"

datatype ManagementState =
    ManagementStateManaged
  | ManagementStateUnmanaged
  | ManagementStateOther string

datatype NetworkPolicyRuleSetType =
    NetworkPolicyRuleSetTypeAllowAllIngressEgress
  | NetworkPolicyRuleSetTypeRestrictIngressEgress
  | NetworkPolicyRuleSetTypeOther string

record NetworkPolicy =
  np_RuleSet :: NetworkPolicyRuleSetType

record CollectorSpec =
  collector_Resources :: "ResourceRequirements option"
  collector_NodeSelector :: "string \<rightharpoonup> string"
  collector_Tolerations :: "k8s_opaque list"
  collector_Affinity :: "k8s_opaque option"
  collector_NetworkPolicy :: "NetworkPolicy option"
  collector_MaxUnavailable :: "string option"
  collector_TerminationGracePeriodSeconds :: "int option"

record PipelineSpec =
  pipeline_Name :: string
  pipeline_InputRefs :: "string list"
  pipeline_OutputRefs :: "string list"
  pipeline_FilterRefs :: "string list"

record ServiceAccount =
  sa_Name :: string

section \<open>Inputs (input_types.go)\<close>

datatype InputType =
    InputTypeApplication
  | InputTypeInfrastructure
  | InputTypeAudit
  | InputTypeReceiver
  | InputTypeOther string

fun InputType_String :: "InputType \<Rightarrow> string" where
  "InputType_String InputTypeApplication = ''application''"
| "InputType_String InputTypeInfrastructure = ''infrastructure''"
| "InputType_String InputTypeAudit = ''audit''"
| "InputType_String InputTypeReceiver = ''receiver''"
| "InputType_String (InputTypeOther s) = s"

datatype InfrastructureSource =
    InfrastructureSourceNode
  | InfrastructureSourceContainer
  | InfrastructureSourceOther string

fun InfrastructureSource_String :: "InfrastructureSource \<Rightarrow> string" where
  "InfrastructureSource_String InfrastructureSourceNode = ''node''"
| "InfrastructureSource_String InfrastructureSourceContainer = ''container''"
| "InfrastructureSource_String (InfrastructureSourceOther s) = s"

definition InfrastructureSources :: "InfrastructureSource list" where
  "InfrastructureSources = [InfrastructureSourceNode, InfrastructureSourceContainer]"

datatype AuditSource =
    AuditSourceKube
  | AuditSourceOpenShift
  | AuditSourceAuditd
  | AuditSourceOVN
  | AuditSourceOther string

fun AuditSource_String :: "AuditSource \<Rightarrow> string" where
  "AuditSource_String AuditSourceKube = ''kubeAPI''"
| "AuditSource_String AuditSourceOpenShift = ''openshiftAPI''"
| "AuditSource_String AuditSourceAuditd = ''auditd''"
| "AuditSource_String AuditSourceOVN = ''ovn''"
| "AuditSource_String (AuditSourceOther s) = s"

definition AuditSources :: "AuditSource list" where
  "AuditSources = [AuditSourceKube, AuditSourceOpenShift, AuditSourceAuditd, AuditSourceOVN]"

datatype ReceiverType = ReceiverTypeHTTP | ReceiverTypeSyslog | ReceiverTypeOther string

fun ReceiverType_String :: "ReceiverType \<Rightarrow> string" where
  "ReceiverType_String ReceiverTypeHTTP = ''http''"
| "ReceiverType_String ReceiverTypeSyslog = ''syslog''"
| "ReceiverType_String (ReceiverTypeOther s) = s"

definition ApplicationSourceContainer :: string where
  "ApplicationSourceContainer = ''container''"

definition HTTPReceiverFormatKubeAPIAudit :: string where
  "HTTPReceiverFormatKubeAPIAudit = ''kubeAPIAudit''"

record NamespaceContainerSpec =
  ncs_Namespace :: string
  ncs_Container :: string

record ContainerInputTuningSpec =
  citune_RateLimitPerContainer :: "LimitSpec option"
  citune_MaxMessageSize :: "Quantity option"

record Application =
  app_Selector :: "LabelSelector option"
  app_Tuning :: "ContainerInputTuningSpec option"
  app_Includes :: "NamespaceContainerSpec list"
  app_Excludes :: "NamespaceContainerSpec list"

record InfrastructureInputTuningSpec =
  infratune_Container :: "ContainerInputTuningSpec option"

record Infrastructure =
  infra_Sources :: "InfrastructureSource list"
  infra_Tuning :: "InfrastructureInputTuningSpec option"

record AuditInputTuningSpec =
  audittune_IgnoreOlder :: "Duration option"

record Audit =
  audit_Sources :: "AuditSource list"
  audit_Tuning :: "AuditInputTuningSpec option"

record HTTPReceiver =
  httprecv_Format :: string

record ReceiverSpec =
  recv_Type :: ReceiverType
  recv_TLS :: "TLSSpec option"
  recv_Port :: int
  recv_HTTP :: "HTTPReceiver option"

record InputSpec =
  input_Name :: string
  input_Type :: InputType
  input_Application :: "Application option"
  input_Infrastructure :: "Infrastructure option"
  input_Audit :: "Audit option"
  input_Receiver :: "ReceiverSpec option"

section \<open>Filters (filter_types.go, filter_api_audit_types.go)\<close>

datatype FilterType =
    FilterTypeDetectMultiline
  | FilterTypeDrop
  | FilterTypeKubeAPIAudit
  | FilterTypeOpenshiftLabels
  | FilterTypeParse
  | FilterTypePrune
  | FilterTypeOther string

record DropCondition =
  drop_OlderThan :: string
  drop_Field :: FieldPath
  drop_Matches :: string
  drop_NotMatches :: string

record DropTest =
  droptest_Conditions :: "DropCondition list"

text \<open>The prune lists are tested against \<open>nil\<close>, so an absent list differs from an empty one.\<close>

record PruneFilterSpec =
  prune_In :: "FieldPath list option"
  prune_NotIn :: "FieldPath list option"

record KubeAPIAudit =
  kaa_Rules :: "PolicyRule list"
  kaa_OmitStages :: "string list"
  kaa_OmitResponseCodes :: "int list option"

record FilterSpec =
  filter_Name :: string
  filter_Type :: FilterType
  filter_KubeAPIAudit :: "KubeAPIAudit option"
  filter_DropTestsSpec :: "DropTest list"
  filter_PruneFilterSpec :: "PruneFilterSpec option"
  filter_OpenshiftLabels :: "string \<rightharpoonup> string"

end
