(* ===== verification/Obs_Output_Types.thy ===== *)
theory Obs_Output_Types
  imports Obs_Types
begin

text \<open>
  The output half of \<open>api/observability/v1\<close> (\<open>output_types.go\<close>) and the ClusterLogForwarder
  resource itself (\<open>clusterlogforwarder_types.go\<close>). An embedded struct is a field of that
  record type; deprecated and tuning fields are kept as the source has them.
\<close>

section \<open>Output tuning and authentication\<close>

datatype OutputType =
    OutputTypeAzureLogsIngestion
  | OutputTypeAzureMonitor
  | OutputTypeCloudwatch
  | OutputTypeElasticsearch
  | OutputTypeGoogleCloudLogging
  | OutputTypeHTTP
  | OutputTypeKafka
  | OutputTypeLoki
  | OutputTypeLokiStack
  | OutputTypeOTLP
  | OutputTypeS3
  | OutputTypeSplunk
  | OutputTypeSyslog
  | OutputTypeOther string

fun OutputType_String :: "OutputType \<Rightarrow> string" where
  "OutputType_String OutputTypeAzureLogsIngestion = ''azureLogsIngestion''"
| "OutputType_String OutputTypeAzureMonitor = ''azureMonitor''"
| "OutputType_String OutputTypeCloudwatch = ''cloudwatch''"
| "OutputType_String OutputTypeElasticsearch = ''elasticsearch''"
| "OutputType_String OutputTypeGoogleCloudLogging = ''googleCloudLogging''"
| "OutputType_String OutputTypeHTTP = ''http''"
| "OutputType_String OutputTypeKafka = ''kafka''"
| "OutputType_String OutputTypeLoki = ''loki''"
| "OutputType_String OutputTypeLokiStack = ''lokiStack''"
| "OutputType_String OutputTypeOTLP = ''otlp''"
| "OutputType_String OutputTypeS3 = ''s3''"
| "OutputType_String OutputTypeSplunk = ''splunk''"
| "OutputType_String OutputTypeSyslog = ''syslog''"
| "OutputType_String (OutputTypeOther s) = s"

definition OutputTypes :: "OutputType list" where
  "OutputTypes =
     [OutputTypeAzureLogsIngestion, OutputTypeAzureMonitor, OutputTypeCloudwatch,
      OutputTypeElasticsearch, OutputTypeGoogleCloudLogging, OutputTypeHTTP, OutputTypeKafka,
      OutputTypeLoki, OutputTypeLokiStack, OutputTypeS3, OutputTypeSplunk, OutputTypeSyslog,
      OutputTypeOTLP]"

text \<open>
  The TLS profile types of \<open>openshift/api/config/v1\<close>, by the constants the operator names.
\<close>

datatype TLSGroup =
    TLSGroupX25519
  | TLSGroupSecP256r1
  | TLSGroupSecP384r1
  | TLSGroupSecP521r1
  | TLSGroupX25519MLKEM768
  | TLSGroupSecP256r1MLKEM768
  | TLSGroupSecP384r1MLKEM1024
  | TLSGroupOther string

datatype TLSProfileType =
    TLSProfileNone
  | TLSProfileOldType
  | TLSProfileIntermediateType
  | TLSProfileModernType
  | TLSProfileCustomType
  | TLSProfileOther string

record TLSProfileSpec =
  tlsprofile_Ciphers :: "string list"
  tlsprofile_MinTLSVersion :: string
  tlsprofile_Groups :: "TLSGroup list"

record TLSSecurityProfile =
  secprofile_Type :: TLSProfileType
  secprofile_Custom :: "TLSProfileSpec option"

record OutputTLSSpec =
  outtls_TLSSpec :: TLSSpec
  outtls_InsecureSkipVerify :: bool
  outtls_TLSSecurityProfile :: "TLSSecurityProfile option"

datatype DeliveryMode =
    DeliveryModeNone
  | DeliveryModeAtLeastOnce
  | DeliveryModeAtMostOnce
  | DeliveryModeOther string

record BaseOutputTuningSpec =
  base_DeliveryMode :: DeliveryMode
  base_MaxWrite :: "Quantity option"
  base_MinRetryDuration :: "Duration option"
  base_MaxRetryDuration :: "Duration option"

text \<open>
  The tuning specs of cloudwatch, elasticsearch, http, loki, splunk, otlp and s3 have the same
  two fields: the embedded base and a compression; those of the azure logs ingestion and google
  cloud logging outputs have the base only.
\<close>

record CompressedTuningSpec =
  ctune_Base :: BaseOutputTuningSpec
  ctune_Compression :: string

type_synonym CloudwatchTuningSpec = CompressedTuningSpec
type_synonym ElasticsearchTuningSpec = CompressedTuningSpec
type_synonym HTTPTuningSpec = CompressedTuningSpec
type_synonym LokiTuningSpec = CompressedTuningSpec
type_synonym SplunkTuningSpec = CompressedTuningSpec
type_synonym OTLPTuningSpec = CompressedTuningSpec
type_synonym S3TuningSpec = CompressedTuningSpec

record KafkaTuningSpec =
  ktune_DeliveryMode :: DeliveryMode
  ktune_MaxWrite :: "Quantity option"
  ktune_Compression :: string

record SyslogTuningSpec =
  systune_DeliveryMode :: DeliveryMode

record HTTPAuthentication =
  httpauth_Token :: "BearerToken option"
  httpauth_Username :: "SecretReference option"
  httpauth_Password :: "SecretReference option"

datatype AwsAuthType = AwsAuthTypeAccessKey | AwsAuthTypeIAMRole | AwsAuthTypeOther string

record AwsAccessKey =
  awskey_KeyId :: SecretReference
  awskey_KeySecret :: SecretReference

record AwsRole =
  awsrole_RoleARN :: SecretReference
  awsrole_Token :: BearerToken

record AwsAssumeRole =
  assume_RoleARN :: SecretReference
  assume_ExternalID :: string
  assume_SessionName :: string

record AwsAuthentication =
  aws_Type :: AwsAuthType
  aws_AwsAccessKey :: "AwsAccessKey option"
  aws_IamRole :: "AwsRole option"
  aws_AssumeRole :: "AwsAssumeRole option"

section \<open>Output specifications\<close>

datatype AzureLogsIngestionAuthType =
    AzureLogsIngestionAuthTypeClientSecret
  | AzureLogsIngestionAuthTypeWorkloadIdentity
  | AzureLogsIngestionAuthTypeOther string

record AzureLogsIngestionClientSecret =
  azcs_TenantId :: string
  azcs_ClientId :: string
  azcs_Secret :: "SecretReference option"

record AzureLogsIngestionWorkloadIdentity =
  azwi_TenantId :: string
  azwi_ClientId :: string
  azwi_Token :: "BearerToken option"

record AzureLogsIngestionAuthentication =
  azauth_Type :: AzureLogsIngestionAuthType
  azauth_ClientSecret :: "AzureLogsIngestionClientSecret option"
  azauth_WorkloadIdentity :: "AzureLogsIngestionWorkloadIdentity option"

record AzureLogsIngestion =
  azli_URL :: string
  azli_Authentication :: "AzureLogsIngestionAuthentication option"
  azli_DcrImmutableId :: string
  azli_StreamName :: string
  azli_TokenScope :: string
  azli_TimestampField :: string
  azli_Tuning :: "BaseOutputTuningSpec option"

record AzureMonitorAuthentication =
  azmauth_SharedKey :: "SecretReference option"

record AzureMonitor =
  azm_Authentication :: "AzureMonitorAuthentication option"
  azm_CustomerId :: string
  azm_LogType :: string
  azm_AzureResourceId :: string
  azm_Host :: string
  azm_Tuning :: "BaseOutputTuningSpec option"

record Cloudwatch =
  cw_URL :: string
  cw_Authentication :: "AwsAuthentication option"
  cw_Tuning :: "CloudwatchTuningSpec option"
  cw_Region :: string
  cw_GroupName :: string

record Elasticsearch =
  es_URL :: string
  es_Endpoints :: "string list"
  es_Authentication :: "HTTPAuthentication option"
  es_Tuning :: "ElasticsearchTuningSpec option"
  es_Index :: string
  es_Version :: int
  es_Headers :: "string \<rightharpoonup> string"

record GoogleCloudLoggingAuthentication =
  gclauth_Credentials :: "SecretReference option"
  gclauth_Token :: "BearerToken option"

datatype GoogleCloudLoggingIdType =
    GoogleCloudLoggingIdTypeBillingAccount
  | GoogleCloudLoggingIdTypeFolder
  | GoogleCloudLoggingIdTypeProject
  | GoogleCloudLoggingIdTypeOrganization
  | GoogleCloudLoggingIdTypeOther string

record GoogleCloudLoggingId =
  gclid_Type :: GoogleCloudLoggingIdType
  gclid_Value :: string

record GoogleCloudLogging =
  gcl_Authentication :: "GoogleCloudLoggingAuthentication option"
  gcl_ID :: GoogleCloudLoggingId
  gcl_LogId :: string
  gcl_Tuning :: "BaseOutputTuningSpec option"

record HTTP =
  http_URL :: string
  http_Authentication :: "HTTPAuthentication option"
  http_Tuning :: "HTTPTuningSpec option"
  http_Headers :: "string \<rightharpoonup> string"
  http_Timeout :: int
  http_Method :: string
  http_ProxyURL :: string
  http_Format :: string

record SASLAuthentication =
  sasl_Username :: "SecretReference option"
  sasl_Password :: "SecretReference option"
  sasl_Mechanism :: string

record KafkaAuthentication =
  kafkaauth_SASL :: "SASLAuthentication option"

record Kafka =
  kafka_URL :: string
  kafka_Authentication :: "KafkaAuthentication option"
  kafka_Tuning :: "KafkaTuningSpec option"
  kafka_Topic :: string
  kafka_Brokers :: "string list"

record LokiStackTarget =
  lstarget_Namespace :: string
  lstarget_Name :: string

record LokiStackAuthentication =
  lsauth_Token :: "BearerToken option"

record LokiStackTenantLabelKeys =
  tenantkeys_IgnoreGlobal :: bool
  tenantkeys_LabelKeys :: "string list"

record LokiStackLabelKeys =
  labelkeys_Global :: "string list"
  labelkeys_Application :: "LokiStackTenantLabelKeys option"
  labelkeys_Infrastructure :: "LokiStackTenantLabelKeys option"
  labelkeys_Audit :: "LokiStackTenantLabelKeys option"

datatype LokiStackDataModel =
    LokiStackDataModelNone
  | LokiStackDataModelViaq
  | LokiStackDataModelOpenTelemetry
  | LokiStackDataModelOther string

record LokiStack =
  lokistack_Authentication :: "LokiStackAuthentication option"
  lokistack_Target :: LokiStackTarget
  lokistack_Tuning :: "LokiTuningSpec option"
  lokistack_LabelKeys :: "LokiStackLabelKeys option"
  lokistack_DataModel :: LokiStackDataModel

record Loki =
  loki_Authentication :: "HTTPAuthentication option"
  loki_Tuning :: "LokiTuningSpec option"
  loki_URL :: string
  loki_LabelKeys :: "string list"
  loki_TenantKey :: string
  loki_ProxyURL :: string

record S3 =
  s3_Authentication :: "AwsAuthentication option"
  s3_Tuning :: "S3TuningSpec option"
  s3_Region :: string
  s3_Bucket :: string
  s3_KeyPrefix :: string
  s3_URL :: string

record SplunkAuthentication =
  splunkauth_Token :: "SecretReference option"

record Splunk =
  splunk_Authentication :: "SplunkAuthentication option"
  splunk_Tuning :: "SplunkTuningSpec option"
  splunk_URL :: string
  splunk_Index :: string
  splunk_IndexedFields :: "FieldPath list"
  splunk_Source :: string
  splunk_SourceType :: string
  splunk_PayloadKey :: FieldPath

datatype SyslogRFCType = SyslogRFC3164 | SyslogRFC5424 | SyslogRFCOther string

datatype EnrichmentType = EnrichmentTypeNone | EnrichmentTypeKubernetesMinimal | EnrichmentTypeOther string

record Syslog =
  syslog_URL :: string
  syslog_RFC :: SyslogRFCType
  syslog_Severity :: string
  syslog_Facility :: string
  syslog_PayloadKey :: string
  syslog_AppName :: string
  syslog_ProcId :: string
  syslog_MsgId :: string
  syslog_Enrichment :: EnrichmentType
  syslog_Tuning :: "SyslogTuningSpec option"

record OTLP =
  otlp_URL :: string
  otlp_Authentication :: "HTTPAuthentication option"
  otlp_Tuning :: "OTLPTuningSpec option"

record OutputSpec =
  output_Name :: string
  output_Type :: OutputType
  output_TLS :: "OutputTLSSpec option"
  output_Limit :: "LimitSpec option"
  output_AzureLogsIngestion :: "AzureLogsIngestion option"
  output_AzureMonitor :: "AzureMonitor option"
  output_Cloudwatch :: "Cloudwatch option"
  output_Elasticsearch :: "Elasticsearch option"
  output_GoogleCloudLogging :: "GoogleCloudLogging option"
  output_HTTP :: "HTTP option"
  output_Kafka :: "Kafka option"
  output_Loki :: "Loki option"
  output_LokiStack :: "LokiStack option"
  output_S3 :: "S3 option"
  output_Splunk :: "Splunk option"
  output_Syslog :: "Syslog option"
  output_OTLP :: "OTLP option"

text \<open>The zero value of an output specification, as \<open>obs.OutputSpec{...}\<close> leaves it.\<close>

definition OutputSpec_zero :: OutputSpec where
  "OutputSpec_zero =
     \<lparr>output_Name = [], output_Type = OutputTypeOther [], output_TLS = None, output_Limit = None,
      output_AzureLogsIngestion = None, output_AzureMonitor = None, output_Cloudwatch = None,
      output_Elasticsearch = None, output_GoogleCloudLogging = None, output_HTTP = None,
      output_Kafka = None, output_Loki = None, output_LokiStack = None, output_S3 = None,
      output_Splunk = None, output_Syslog = None, output_OTLP = None\<rparr>"

definition InputSpec_zero :: InputSpec where
  "InputSpec_zero =
     \<lparr>input_Name = [], input_Type = InputTypeOther [], input_Application = None,
      input_Infrastructure = None, input_Audit = None, input_Receiver = None\<rparr>"

section \<open>The ClusterLogForwarder resource\<close>

record ClusterLogForwarderSpec =
  spec_ManagementState :: ManagementState
  spec_Collector :: "CollectorSpec option"
  spec_Inputs :: "InputSpec list"
  spec_Outputs :: "OutputSpec list"
  spec_Filters :: "FilterSpec list"
  spec_Pipelines :: "PipelineSpec list"
  spec_ServiceAccount :: ServiceAccount

record ClusterLogForwarderStatus =
  status_Conditions :: "Condition list"
  status_InputConditions :: "Condition list"
  status_OutputConditions :: "Condition list"
  status_FilterConditions :: "Condition list"
  status_PipelineConditions :: "Condition list"

record ClusterLogForwarder =
  clf_Name :: string
  clf_Namespace :: string
  clf_Annotations :: "string \<rightharpoonup> string"
  clf_DeletionTimestamp :: "time option"
  clf_Spec :: ClusterLogForwarderSpec
  clf_Status :: ClusterLogForwarderStatus

text \<open>The condition types and reasons of \<open>conditions.go\<close> that the modelled code writes.\<close>

definition GroupName :: string where
  "GroupName = ''observability.openshift.io''"

definition ConditionTypeAuthorized :: string where
  "ConditionTypeAuthorized = GroupName @ ''/Authorized''"

definition ConditionTypeValid :: string where
  "ConditionTypeValid = GroupName @ ''/Valid''"

definition ConditionTypeValidInputPrefix :: string where
  "ConditionTypeValidInputPrefix = GroupName @ ''/ValidInput''"

definition ConditionTypeValidOutputPrefix :: string where
  "ConditionTypeValidOutputPrefix = GroupName @ ''/ValidOutput''"

definition ConditionTypeValidPipelinePrefix :: string where
  "ConditionTypeValidPipelinePrefix = GroupName @ ''/ValidPipeline''"

definition ConditionTypeValidFilterPrefix :: string where
  "ConditionTypeValidFilterPrefix = GroupName @ ''/ValidFilter''"

definition ReasonMissingSpec :: string where
  "ReasonMissingSpec = ''MissingSpec''"

definition ReasonValidationSuccess :: string where
  "ReasonValidationSuccess = ''ValidationSuccess''"

definition ReasonValidationFailure :: string where
  "ReasonValidationFailure = ''ValidationFailure''"

end
