(* ===== verification/Obs_Inputs.thy ===== *)
theory Obs_Inputs
  imports Obs_Output_Types
begin

text \<open>
  The helpers of \<open>internal/api/observability\<close> on inputs, pipelines, filters and TLS
  references (\<open>input_types.go\<close>, \<open>pipelines.go\<close>, \<open>filters.go\<close>, \<open>tls.go\<close> and the input
  half of \<open>forwarder.go\<close>). Slices the code takes from \<open>set.UnsortedList()\<close> have an
  unspecified order and are modelled as sets. The four \<open>Names\<close>/\<open>Map\<close> pairs share the locale
  \<open>named_specs\<close>.
\<close>

section \<open>Specs indexed by name\<close>

locale named_specs =
  fixes name_of :: "'a \<Rightarrow> string"
    and names :: "'a list \<Rightarrow> string list"
    and to_map :: "'a list \<Rightarrow> (string \<rightharpoonup> 'a)"
  assumes names_Nil: "names [] = []"
    and names_Cons: "names (x # xs) = name_of x # names xs"
    and to_map_Nil: "to_map [] = Map.empty"
    and to_map_snoc: "to_map (xs @ [x]) = (to_map xs)(name_of x \<mapsto> x)"
begin

lemma names_eq: "names xs = map name_of xs"
  by (induction xs) (simp_all add: names_Nil names_Cons)

lemma to_map_eq: "to_map xs = map_of (rev (map (\<lambda>x. (name_of x, x)) xs))"
  by (induction xs rule: rev_induct) (simp_all add: to_map_Nil to_map_snoc)

lemma dom_to_map: "dom (to_map xs) = set (names xs)"
  by (simp add: to_map_eq dom_map_of_conv_image_fst names_eq image_image)

lemma to_map_Some: "to_map xs n = Some x \<Longrightarrow> x \<in> set xs \<and> name_of x = n"
  by (induction xs rule: rev_induct) (auto simp: to_map_Nil to_map_snoc split: if_splits)

lemma to_map_None_iff: "to_map xs n = None \<longleftrightarrow> n \<notin> set (names xs)"
  using dom_to_map by auto

lemma to_map_distinct: "distinct (names xs) \<Longrightarrow> x \<in> set xs \<Longrightarrow> to_map xs (name_of x) = Some x"
  by (simp add: to_map_eq names_eq map_of_eq_Some_iff rev_map [symmetric] o_def)

lemma to_map_ref_iff: "distinct (names xs) \<Longrightarrow> to_map xs n = Some x \<longleftrightarrow> x \<in> set xs \<and> name_of x = n"
  using to_map_distinct to_map_Some by blast

text \<open>Ranging over the map visits every item once, in the order of the keys.\<close>

lemma range_lookup: "range_order (to_map xs) ks \<Longrightarrow> k \<in> set ks \<Longrightarrow>
    to_map xs k = Some (the (to_map xs k)) \<and> name_of (the (to_map xs k)) = k"
  using to_map_Some by (fastforce dest: range_order_lookup)

lemma range_names: "range_order (to_map xs) ks \<Longrightarrow> map name_of (map (\<lambda>k. the (to_map xs k)) ks) = ks"
  using range_lookup by (auto intro: map_idI)

lemma range_set:
  assumes "distinct (names xs)" "range_order (to_map xs) ks"
  shows "set (map (\<lambda>k. the (to_map xs k)) ks) = set xs"
proof -
  have "set ks = set (names xs)" using assms(2) by (simp add: range_order_def dom_to_map)
  moreover have "the (to_map xs (name_of x)) = x" if "x \<in> set xs" for x
    using to_map_distinct [OF assms(1) that] by simp
  ultimately show ?thesis by (force simp: names_eq)
qed

lemma range_length:
  assumes "distinct (names xs)" "range_order (to_map xs) ks"
  shows "length ks = length xs"
proof -
  have "distinct ks" "set ks = set (names xs)" using assms(2) by (auto simp: range_order_def dom_to_map)
  then show ?thesis using distinct_card [of ks] distinct_card [OF assms(1)] by (simp add: names_eq)
qed

end

definition Inputs_Names :: "InputSpec list \<Rightarrow> string list" where
  "Inputs_Names inputs = map input_Name inputs"

definition Inputs_Map :: "InputSpec list \<Rightarrow> (string \<rightharpoonup> InputSpec)" where
  "Inputs_Map inputs = map_insert_all input_Name id Map.empty inputs"

definition Outputs_Names :: "OutputSpec list \<Rightarrow> string list" where
  "Outputs_Names outputs = map output_Name outputs"

definition Outputs_Map :: "OutputSpec list \<Rightarrow> (string \<rightharpoonup> OutputSpec)" where
  "Outputs_Map outputs = map_insert_all output_Name id Map.empty outputs"

definition Pipelines_Names :: "PipelineSpec list \<Rightarrow> string list" where
  "Pipelines_Names pipelines = map pipeline_Name pipelines"

definition Pipelines_Map :: "PipelineSpec list \<Rightarrow> (string \<rightharpoonup> PipelineSpec)" where
  "Pipelines_Map pipelines = map_insert_all pipeline_Name id Map.empty pipelines"

definition Filters_Names :: "FilterSpec list \<Rightarrow> string list" where
  "Filters_Names filters = map filter_Name filters"

definition FilterMap :: "ClusterLogForwarderSpec \<Rightarrow> (string \<rightharpoonup> FilterSpec)" where
  "FilterMap spec = map_insert_all filter_Name id Map.empty (spec_Filters spec)"

definition FilterMap_of :: "FilterSpec list \<Rightarrow> (string \<rightharpoonup> FilterSpec)" where
  "FilterMap_of filters = map_insert_all filter_Name id Map.empty filters"

lemma FilterMap_eq: "FilterMap spec = FilterMap_of (spec_Filters spec)"
  by (simp add: FilterMap_def FilterMap_of_def)

lemma map_insert_all_snoc: "map_insert_all k v m (xs @ [x]) = (map_insert_all k v m xs)(k x \<mapsto> v x)"
  by (induction xs arbitrary: m) simp_all

interpretation inputs: named_specs input_Name Inputs_Names Inputs_Map
  by unfold_locales (simp_all add: Inputs_Names_def Inputs_Map_def map_insert_all_snoc)

interpretation outputs: named_specs output_Name Outputs_Names Outputs_Map
  by unfold_locales (simp_all add: Outputs_Names_def Outputs_Map_def map_insert_all_snoc)

interpretation pipelines: named_specs pipeline_Name Pipelines_Names Pipelines_Map
  by unfold_locales (simp_all add: Pipelines_Names_def Pipelines_Map_def map_insert_all_snoc)

interpretation filters: named_specs filter_Name Filters_Names FilterMap_of
  by unfold_locales (simp_all add: Filters_Names_def FilterMap_of_def map_insert_all_snoc)

definition ReferenceOutput :: "PipelineSpec list \<Rightarrow> OutputSpec \<Rightarrow> bool" where
  "ReferenceOutput pipelines out =
     list_ex (\<lambda>p. output_Name out \<in> set (pipeline_OutputRefs p)) pipelines"

section \<open>tls.go\<close>

definition SecretsForTLS :: "TLSSpec \<Rightarrow> string set" where
  "SecretsForTLS t =
     (case tls_Key t of None \<Rightarrow> {} | Some k \<Rightarrow> {sref_SecretName k})
     \<union> (case tls_CA t of None \<Rightarrow> {} | Some r \<Rightarrow> if vref_SecretName r \<noteq> [] then {vref_SecretName r} else {})
     \<union> (case tls_Certificate t of None \<Rightarrow> {}
        | Some r \<Rightarrow> if vref_SecretName r \<noteq> [] then {vref_SecretName r} else {})
     \<union> (case tls_KeyPassphrase t of None \<Rightarrow> {}
        | Some r \<Rightarrow> if sref_SecretName r \<noteq> [] then {sref_SecretName r} else {})"

definition ConfigmapsForTLS :: "TLSSpec \<Rightarrow> string set" where
  "ConfigmapsForTLS t =
     (case tls_CA t of None \<Rightarrow> {}
      | Some r \<Rightarrow> if vref_SecretName r = [] \<and> vref_ConfigMapName r \<noteq> [] then {vref_ConfigMapName r} else {})
     \<union> (case tls_Certificate t of None \<Rightarrow> {}
        | Some r \<Rightarrow> if vref_SecretName r = [] \<and> vref_ConfigMapName r \<noteq> [] then {vref_ConfigMapName r} else {})"

definition vref_of_secret :: "SecretReference \<Rightarrow> ValueReference" where
  "vref_of_secret r = \<lparr>vref_Key = sref_Key r, vref_ConfigMapName = [], vref_SecretName = sref_SecretName r\<rparr>"

definition ValueReferences :: "TLSSpec \<Rightarrow> ValueReference list" where
  "ValueReferences t =
     (case tls_CA t of None \<Rightarrow> [] | Some r \<Rightarrow> [r])
     @ (case tls_Certificate t of None \<Rightarrow> [] | Some r \<Rightarrow> [r])
     @ (case tls_Key t of None \<Rightarrow> [] | Some r \<Rightarrow> [vref_of_secret r])
     @ (case tls_KeyPassphrase t of None \<Rightarrow> [] | Some r \<Rightarrow> [vref_of_secret r])"

section \<open>input_types.go\<close>

definition ReservedInputTypes :: "string list" where
  "ReservedInputTypes =
     sorted_set [InputType_String InputTypeApplication, InputType_String InputTypeAudit,
       InputType_String InputTypeInfrastructure]"

definition ReservedApplicationSources :: "string list" where
  "ReservedApplicationSources = sorted_set [ApplicationSourceContainer]"

definition ReservedInfrastructureSources :: "string list" where
  "ReservedInfrastructureSources =
     sorted_set [InfrastructureSource_String InfrastructureSourceContainer,
       InfrastructureSource_String InfrastructureSourceNode]"

definition ReservedAuditSources :: "string list" where
  "ReservedAuditSources =
     sorted_set [AuditSource_String AuditSourceKube, AuditSource_String AuditSourceOpenShift,
       AuditSource_String AuditSourceAuditd, AuditSource_String AuditSourceOVN]"

text \<open>
  \<open>InfraNSRegex\<close> is
  \<^verbatim>\<open>^(?P<default>default)|(?P<openshift>openshift.*)|(?P<kube>kube.*)$\<close>.
  The alternation binds weaker than the anchors: \<open>^\<close> belongs to the first branch only and
  \<open>$\<close> to the last. The model is the leftmost match with the branches tried in order, and gives
  the named group that matched; the group's text is never empty.
\<close>

datatype infra_group = GroupDefault | GroupOpenshift | GroupKube

fun infra_match_from :: "bool \<Rightarrow> string \<Rightarrow> infra_group option" where
  "infra_match_from at_start s =
     (if at_start \<and> HasPrefix s ''default'' then Some GroupDefault
      else if HasPrefix s ''openshift'' then Some GroupOpenshift
      else if HasPrefix s ''kube'' \<and> newline \<notin> set s then Some GroupKube
      else (case s of [] \<Rightarrow> None | c # cs \<Rightarrow> infra_match_from False cs))"

declare infra_match_from.simps [simp del]

definition InfraNSRegex :: "string \<Rightarrow> infra_group option" where
  "InfraNSRegex s = infra_match_from True s"

definition Threshold :: "LimitSpec option \<Rightarrow> int \<times> bool" where
  "Threshold ls = (case ls of None \<Rightarrow> (0, False) | Some l \<Rightarrow> (limit_MaxRecordsPerSecond l, True))"

text \<open>
  The infrastructure branch reads \<open>tuning.Container.RateLimitPerContainer\<close> without testing
  \<open>Container\<close>, which is a pointer.
\<close>

definition infra_rate_limit :: "InputSpec \<Rightarrow> LimitSpec option go" where
  "infra_rate_limit inp =
     (case input_Infrastructure inp of
        None \<Rightarrow> Inr None
      | Some infra \<Rightarrow>
          (case infra_Tuning infra of
             None \<Rightarrow> Inr None
           | Some tuning \<Rightarrow>
               go_bind (deref (infratune_Container tuning))
                 (\<lambda>ctr. Inr (citune_RateLimitPerContainer ctr))))"

definition MaxRecordsPerSecond :: "InputSpec \<Rightarrow> (int \<times> bool) go" where
  "MaxRecordsPerSecond inp =
     (case Option.bind (input_Application inp)
             (\<lambda>app. Option.bind (app_Tuning app) citune_RateLimitPerContainer) of
        Some limit \<Rightarrow> Inr (Threshold (Some limit))
      | None \<Rightarrow>
          go_bind (infra_rate_limit inp)
            (\<lambda>l. case l of Some limit \<Rightarrow> Inr (Threshold (Some limit)) | None \<Rightarrow> Inr (0, False)))"

definition IncludesInfraNamespace :: "Application option \<Rightarrow> bool" where
  "IncludesInfraNamespace inp =
     (case inp of None \<Rightarrow> False
      | Some app \<Rightarrow> list_ex (\<lambda>ns. InfraNSRegex (ncs_Namespace ns) \<noteq> None) (app_Includes app))"

definition InputTypes_of :: "InputSpec list \<Rightarrow> InputType list" where
  "InputTypes_of inputs = sort_key InputType_String (remdups (map input_Type inputs))"

definition input_sources_of :: "InputSpec \<Rightarrow> string list" where
  "input_sources_of i =
     (case input_Type i of
        InputTypeApplication \<Rightarrow> ReservedApplicationSources
      | InputTypeInfrastructure \<Rightarrow>
          (case input_Infrastructure i of
             None \<Rightarrow> ReservedInfrastructureSources
           | Some infra \<Rightarrow>
               if infra_Sources infra = [] then ReservedInfrastructureSources
               else map InfrastructureSource_String (infra_Sources infra))
      | InputTypeAudit \<Rightarrow>
          (case input_Audit i of
             None \<Rightarrow> ReservedAuditSources
           | Some audit \<Rightarrow>
               if audit_Sources audit = [] then ReservedAuditSources
               else map AuditSource_String (audit_Sources audit))
      | _ \<Rightarrow> [])"

definition InputSources :: "InputSpec list \<Rightarrow> InputType \<Rightarrow> string list" where
  "InputSources inputs inputType =
     sorted_set (concat (map (\<lambda>i. if input_Type i = inputType then input_sources_of i else []) inputs))"

definition receiver_tls :: "InputSpec \<Rightarrow> TLSSpec option" where
  "receiver_tls i = Option.bind (input_Receiver i) recv_TLS"

definition Inputs_ConfigmapNames :: "InputSpec list \<Rightarrow> string set" where
  "Inputs_ConfigmapNames inputs =
     (\<Union>i\<in>set inputs. case receiver_tls i of None \<Rightarrow> {} | Some t \<Rightarrow> ConfigmapsForTLS t)"

definition Inputs_SecretNames :: "InputSpec list \<Rightarrow> string set" where
  "Inputs_SecretNames inputs =
     (\<Union>i\<in>set inputs. case receiver_tls i of None \<Rightarrow> {} | Some t \<Rightarrow> SecretsForTLS t)"

definition infra_has :: "InfrastructureSource \<Rightarrow> InputSpec \<Rightarrow> bool" where
  "infra_has src i =
     (input_Type i = InputTypeInfrastructure
      \<and> (case input_Infrastructure i of None \<Rightarrow> False
         | Some infra \<Rightarrow> infra_Sources infra = [] \<or> src \<in> set (infra_Sources infra)))"

definition HasJournalSource :: "InputSpec list \<Rightarrow> bool" where
  "HasJournalSource inputs = list_ex (infra_has InfrastructureSourceNode) inputs"

definition HasContainerSource :: "InputSpec list \<Rightarrow> bool" where
  "HasContainerSource inputs =
     list_ex (\<lambda>i. input_Type i = InputTypeApplication \<or> infra_has InfrastructureSourceContainer i) inputs"

definition HasAnyAuditSource :: "InputSpec list \<Rightarrow> bool" where
  "HasAnyAuditSource inputs =
     list_ex (\<lambda>i. input_Type i = InputTypeAudit \<and> input_Audit i \<noteq> None) inputs"

definition is_kube_receiver :: "InputSpec \<Rightarrow> bool" where
  "is_kube_receiver i =
     (input_Type i = InputTypeReceiver
      \<and> (case Option.bind (input_Receiver i) recv_HTTP of None \<Rightarrow> False
         | Some h \<Rightarrow> httprecv_Format h = HTTPReceiverFormatKubeAPIAudit))"

definition audit_has :: "AuditSource \<Rightarrow> InputSpec \<Rightarrow> bool" where
  "audit_has src i =
     (input_Type i = InputTypeAudit
      \<and> (case input_Audit i of None \<Rightarrow> False
         | Some audit \<Rightarrow> src \<in> set (audit_Sources audit) \<or> audit_Sources audit = []))"

definition HasAuditSource :: "InputSpec list \<Rightarrow> AuditSource \<Rightarrow> bool" where
  "HasAuditSource inputs logSource =
     list_ex (\<lambda>i. audit_has logSource i \<or> (logSource = AuditSourceKube \<and> is_kube_receiver i)) inputs"

definition HasReceiverSource :: "InputSpec list \<Rightarrow> bool" where
  "HasReceiverSource inputs =
     list_ex (\<lambda>i. input_Type i = InputTypeReceiver \<and> input_Receiver i \<noteq> None) inputs"

section \<open>forwarder.go: deployment kind and routing\<close>

definition AnnotationEnableCollectorAsDeployment :: string where
  "AnnotationEnableCollectorAsDeployment = ''logging.openshift.io/dev-preview-enable-collector-as-deployment''"

definition DeployAsDeployment :: "ClusterLogForwarder \<Rightarrow> bool" where
  "DeployAsDeployment forwarder =
     (case clf_Annotations forwarder AnnotationEnableCollectorAsDeployment of
        None \<Rightarrow> False
      | Some _ \<Rightarrow>
          (let inputTypes = InputTypes_of (spec_Inputs (clf_Spec forwarder))
           in length inputTypes = 1 \<and> inputTypes ! 0 = InputTypeReceiver))"

text \<open>
  \<open>InputSpecsTo\<close> collects the inputs of every pipeline that feeds the output; a reference
  with no input spec yields the zero value, as indexing a Go map does. The result is read from a
  map in the order \<open>ks\<close> the runtime picks.
\<close>

definition inputs_found :: "ClusterLogForwarderSpec \<Rightarrow> OutputSpec \<Rightarrow> (string \<rightharpoonup> InputSpec)" where
  "inputs_found spec out =
     (let inputs = Inputs_Map (spec_Inputs spec);
          refs = concat (map (\<lambda>p. if output_Name out \<in> set (pipeline_OutputRefs p)
                                  then pipeline_InputRefs p else []) (spec_Pipelines spec))
      in map_insert_all id
           (\<lambda>ref. case inputs ref of Some i \<Rightarrow> i | None \<Rightarrow> InputSpec_zero) Map.empty refs)"

definition InputSpecsTo :: "string list \<Rightarrow> ClusterLogForwarderSpec \<Rightarrow> OutputSpec \<Rightarrow> InputSpec list" where
  "InputSpecsTo ks spec out = map (\<lambda>k. the (inputs_found spec out k)) ks"

section \<open>What the helpers compute\<close>

text \<open>Which namespaces the infrastructure expression accepts.\<close>

lemma HasPrefix_kube_split:
  "HasPrefix s p \<and> newline \<notin> set s \<longleftrightarrow> (\<exists>b. s = p @ b \<and> newline \<notin> set (p @ b))"
  by (auto simp: HasPrefix_iff_prefix prefix_def)

lemma infra_match_from_Some_iff:
  "infra_match_from st s \<noteq> None \<longleftrightarrow>
     (st \<and> HasPrefix s ''default'') \<or> Contains s ''openshift''
     \<or> (\<exists>a b. s = a @ ''kube'' @ b \<and> newline \<notin> set b)"
proof (induction s arbitrary: st)
  case Nil
  show ?case by (subst infra_match_from.simps) (simp add: HasPrefix_def)
next
  case (Cons c s)
  have kube: "(\<exists>a b. c # s = a @ ''kube'' @ b \<and> newline \<notin> set b) \<longleftrightarrow>
      (HasPrefix (c # s) ''kube'' \<and> newline \<notin> set (c # s))
      \<or> (\<exists>a b. s = a @ ''kube'' @ b \<and> newline \<notin> set b)"
    unfolding HasPrefix_kube_split
    by (auto simp: Cons_eq_append_conv)
  show ?case
    unfolding kube Contains.simps
    by (subst infra_match_from.simps) (simp add: Cons.IH del: not_None_eq, blast)
qed

lemma InfraNSRegex_iff:
  "InfraNSRegex s \<noteq> None \<longleftrightarrow>
     HasPrefix s ''default'' \<or> Contains s ''openshift''
     \<or> (\<exists>a b. s = a @ ''kube'' @ b \<and> newline \<notin> set b)"
  by (simp only: InfraNSRegex_def infra_match_from_Some_iff simp_thms)

lemma set_InputTypes_of [simp]: "set (InputTypes_of inputs) = input_Type ` set inputs"
  by (simp add: InputTypes_of_def)

lemma distinct_InputTypes_of [simp]: "distinct (InputTypes_of inputs)"
  by (simp add: InputTypes_of_def)

lemma singleton_list_iff: "distinct xs \<Longrightarrow> length xs = 1 \<and> xs ! 0 = x \<longleftrightarrow> set xs = {x}"
proof
  assume "distinct xs" "set xs = {x}"
  then show "length xs = 1 \<and> xs ! 0 = x"
    by (cases xs; cases "tl xs") auto
qed (auto simp: length_Suc_conv)

lemma DeployAsDeployment_iff:
  "DeployAsDeployment f \<longleftrightarrow>
     clf_Annotations f AnnotationEnableCollectorAsDeployment \<noteq> None
     \<and> spec_Inputs (clf_Spec f) \<noteq> []
     \<and> (\<forall>i\<in>set (spec_Inputs (clf_Spec f)). input_Type i = InputTypeReceiver)"
proof -
  let ?is = "spec_Inputs (clf_Spec f)"
  have "input_Type ` set ?is = {InputTypeReceiver} \<longleftrightarrow>
      ?is \<noteq> [] \<and> (\<forall>i\<in>set ?is. input_Type i = InputTypeReceiver)"
    by (cases ?is) auto
  then show ?thesis
    by (simp add: DeployAsDeployment_def Let_def singleton_list_iff [OF distinct_InputTypes_of]
        del: One_nat_def split: option.splits)
qed

lemma inputs_found_dom:
  "dom (inputs_found spec out) =
     {ref. \<exists>p\<in>set (spec_Pipelines spec).
        output_Name out \<in> set (pipeline_OutputRefs p) \<and> ref \<in> set (pipeline_InputRefs p)}"
  by (auto simp: inputs_found_def Let_def dom_map_insert_all split: if_splits)

lemma inputs_found_lookup:
  "ref \<in> dom (inputs_found spec out) \<Longrightarrow>
   inputs_found spec out ref =
     Some (case Inputs_Map (spec_Inputs spec) ref of Some i \<Rightarrow> i | None \<Rightarrow> InputSpec_zero)"
proof -
  assume "ref \<in> dom (inputs_found spec out)"
  then obtain y where "inputs_found spec out ref = Some y" by auto
  then show ?thesis
    by (auto simp: inputs_found_def Let_def dest: map_insert_all_Some_elem)
qed

end
