(* ===== verification/Obs_Outputs.thy ===== *)
theory Obs_Outputs
  imports Obs_Inputs
begin

text \<open>
  The helpers of \<open>internal/api/observability\<close> on outputs (\<open>output_types.go\<close>), their tuning
  (\<open>tuning.go\<close>) and the secrets and config maps they refer to (\<open>secrets.go\<close>,
  \<open>configmap.go\<close>). Where the code follows a pointer it has not tested, the model stops with
  \<open>NilDereference\<close>; where it calls \<open>os.Exit\<close>, with \<open>ProcessExit\<close>.
\<close>

section \<open>Secret references of an output\<close>

definition sref :: "string \<Rightarrow> string \<Rightarrow> SecretReference" where
  "sref key secretName = \<lparr>sref_Key = key, sref_SecretName = secretName\<rparr>"

text \<open>The reference to the secret of a bearer token, when the token comes from one.\<close>

definition token_secret_ref :: "BearerToken option \<Rightarrow> SecretReference option list" where
  "token_secret_ref token =
     (case token of
        None \<Rightarrow> []
      | Some t \<Rightarrow>
          if token_From t = BearerTokenFromSecret
          then (case token_Secret t of None \<Rightarrow> [] | Some s \<Rightarrow> [Some (sref (btsk_Key s) (btsk_Name s))])
          else [])"

definition httpAuthKeys :: "HTTPAuthentication option \<Rightarrow> SecretReference option list" where
  "httpAuthKeys auth =
     (case auth of
        None \<Rightarrow> []
      | Some a \<Rightarrow> [httpauth_Username a, httpauth_Password a] @ token_secret_ref (httpauth_Token a))"

definition lokiStackKeys :: "LokiStackAuthentication option \<Rightarrow> SecretReference option list" where
  "lokiStackKeys auth = (case auth of None \<Rightarrow> [] | Some a \<Rightarrow> token_secret_ref (lsauth_Token a))"

definition appendAssumeRoleKeys ::
  "AwsAuthentication option \<Rightarrow> SecretReference option list \<Rightarrow> SecretReference option list" where
  "appendAssumeRoleKeys auth keys =
     (case auth of
        None \<Rightarrow> keys
      | Some a \<Rightarrow> (case aws_AssumeRole a of None \<Rightarrow> keys | Some r \<Rightarrow> keys @ [Some (assume_RoleARN r)]))"

definition awsSecretKeys :: "AwsAuthentication option \<Rightarrow> SecretReference option list go" where
  "awsSecretKeys auth =
     (case auth of
        None \<Rightarrow> Inr []
      | Some a \<Rightarrow>
          go_bind
            (case aws_Type a of
               AwsAuthTypeAccessKey \<Rightarrow>
                 go_bind (deref (aws_AwsAccessKey a))
                   (\<lambda>k. Inr [Some (awskey_KeyId k), Some (awskey_KeySecret k)])
             | AwsAuthTypeIAMRole \<Rightarrow>
                 go_bind (deref (aws_IamRole a))
                   (\<lambda>r. Inr (Some (awsrole_RoleARN r) # token_secret_ref (Some (awsrole_Token r))))
             | AwsAuthTypeOther _ \<Rightarrow> Inr [])
            (\<lambda>keys. Inr (appendAssumeRoleKeys auth keys)))"

definition gclSecretKeys :: "GoogleCloudLoggingAuthentication \<Rightarrow> SecretReference option list" where
  "gclSecretKeys auth =
     (case gclauth_Credentials auth of None \<Rightarrow> [] | Some c \<Rightarrow> [Some c])
     @ token_secret_ref (gclauth_Token auth)"

definition azureLogsIngestionKeys ::
  "AzureLogsIngestionAuthentication \<Rightarrow> SecretReference option list" where
  "azureLogsIngestionKeys auth =
     (case azauth_ClientSecret auth of None \<Rightarrow> [] | Some c \<Rightarrow> [azcs_Secret c])
     @ (case azauth_WorkloadIdentity auth of None \<Rightarrow> [] | Some w \<Rightarrow> token_secret_ref (azwi_Token w))"

definition SecretReferences :: "OutputSpec \<Rightarrow> SecretReference option list go" where
  "SecretReferences o' =
     (case output_Type o' of
        OutputTypeAzureLogsIngestion \<Rightarrow>
          Inr (case Option.bind (output_AzureLogsIngestion o') azli_Authentication of
                 None \<Rightarrow> [] | Some auth \<Rightarrow> azureLogsIngestionKeys auth)
      | OutputTypeAzureMonitor \<Rightarrow>
          Inr (case Option.bind (output_AzureMonitor o') azm_Authentication of
                 None \<Rightarrow> [] | Some auth \<Rightarrow> [azmauth_SharedKey auth])
      | OutputTypeCloudwatch \<Rightarrow>
          awsSecretKeys (Option.bind (output_Cloudwatch o') cw_Authentication)
      | OutputTypeS3 \<Rightarrow>
          awsSecretKeys (Option.bind (output_S3 o') s3_Authentication)
      | OutputTypeElasticsearch \<Rightarrow>
          Inr (httpAuthKeys (Option.bind (output_Elasticsearch o') es_Authentication))
      | OutputTypeGoogleCloudLogging \<Rightarrow>
          Inr (case Option.bind (output_GoogleCloudLogging o') gcl_Authentication of
                 None \<Rightarrow> [] | Some auth \<Rightarrow> gclSecretKeys auth)
      | OutputTypeHTTP \<Rightarrow>
          Inr (httpAuthKeys (Option.bind (output_HTTP o') http_Authentication))
      | OutputTypeOTLP \<Rightarrow>
          Inr (httpAuthKeys (Option.bind (output_OTLP o') otlp_Authentication))
      | OutputTypeKafka \<Rightarrow>
          (case Option.bind (output_Kafka o') kafka_Authentication of
             None \<Rightarrow> Inr []
           | Some a \<Rightarrow> go_bind (deref (kafkaauth_SASL a)) (\<lambda>s. Inr [sasl_Password s, sasl_Username s]))
      | OutputTypeLoki \<Rightarrow>
          Inr (case output_Loki o' of None \<Rightarrow> [] | Some l \<Rightarrow> httpAuthKeys (loki_Authentication l))
      | OutputTypeLokiStack \<Rightarrow>
          Inr (case output_LokiStack o' of None \<Rightarrow> [] | Some l \<Rightarrow> lokiStackKeys (lokistack_Authentication l))
      | OutputTypeSplunk \<Rightarrow>
          Inr (case Option.bind (output_Splunk o') splunk_Authentication of
                 None \<Rightarrow> [] | Some a \<Rightarrow> [splunkauth_Token a])
      | OutputTypeSyslog \<Rightarrow> Inr []
      | OutputTypeOther _ \<Rightarrow> Inl ProcessExit)"

definition SecretReferencesAsValueReferences :: "OutputSpec \<Rightarrow> ValueReference list go" where
  "SecretReferencesAsValueReferences o' =
     go_bind (SecretReferences o')
       (\<lambda>refs. Inr (concat (map (\<lambda>auth. case auth of None \<Rightarrow> [] | Some r \<Rightarrow> [vref_of_secret r]) refs)))"

definition output_secret_names :: "OutputSpec \<Rightarrow> string set go" where
  "output_secret_names o' =
     go_bind (SecretReferences o')
       (\<lambda>keys. Inr ((case output_TLS o' of None \<Rightarrow> {} | Some t \<Rightarrow> SecretsForTLS (outtls_TLSSpec t))
          \<union> sref_SecretName ` {k. Some k \<in> set keys}))"

definition Outputs_SecretNames :: "OutputSpec list \<Rightarrow> string set go" where
  "Outputs_SecretNames outputs =
     go_fold (\<lambda>secrets o'. go_bind (output_secret_names o') (\<lambda>ns. Inr (secrets \<union> ns))) {} outputs"

definition Outputs_ConfigmapNames :: "OutputSpec list \<Rightarrow> string set" where
  "Outputs_ConfigmapNames outputs =
     (\<Union>o'\<in>set outputs. case output_TLS o' of None \<Rightarrow> {} | Some t \<Rightarrow> ConfigmapsForTLS (outtls_TLSSpec t))"

section \<open>Bearer tokens\<close>

definition aws_role_token :: "AwsAuthentication option \<Rightarrow> BearerToken option go" where
  "aws_role_token auth =
     go_bind (deref auth)
       (\<lambda>a. if aws_Type a = AwsAuthTypeIAMRole
            then go_bind (deref (aws_IamRole a)) (\<lambda>r. Inr (Some (awsrole_Token r)))
            else Inr None)"

definition getOutputBearerToken :: "OutputSpec \<Rightarrow> BearerToken option go" where
  "getOutputBearerToken o' =
     (case output_Type o' of
        OutputTypeLoki \<Rightarrow>
          Inr (Option.bind (Option.bind (output_Loki o') loki_Authentication) httpauth_Token)
      | OutputTypeLokiStack \<Rightarrow>
          Inr (Option.bind (Option.bind (output_LokiStack o') lokistack_Authentication) lsauth_Token)
      | OutputTypeCloudwatch \<Rightarrow>
          (case output_Cloudwatch o' of None \<Rightarrow> Inr None | Some c \<Rightarrow> aws_role_token (cw_Authentication c))
      | OutputTypeS3 \<Rightarrow>
          (case output_S3 o' of None \<Rightarrow> Inr None | Some c \<Rightarrow> aws_role_token (s3_Authentication c))
      | OutputTypeElasticsearch \<Rightarrow>
          Inr (Option.bind (Option.bind (output_Elasticsearch o') es_Authentication) httpauth_Token)
      | OutputTypeOTLP \<Rightarrow>
          Inr (Option.bind (Option.bind (output_OTLP o') otlp_Authentication) httpauth_Token)
      | OutputTypeAzureLogsIngestion \<Rightarrow>
          Inr (Option.bind (Option.bind (output_AzureLogsIngestion o') azli_Authentication)
                 (\<lambda>a. if azauth_Type a = AzureLogsIngestionAuthTypeWorkloadIdentity
                      then Option.bind (azauth_WorkloadIdentity a) azwi_Token else None))
      | OutputTypeGoogleCloudLogging \<Rightarrow>
          Inr (Option.bind (Option.bind (output_GoogleCloudLogging o') gcl_Authentication) gclauth_Token)
      | _ \<Rightarrow> Inr None)"

definition needsServiceAccountToken :: "OutputSpec \<Rightarrow> bool go" where
  "needsServiceAccountToken o' =
     go_bind (getOutputBearerToken o')
       (\<lambda>token. Inr (case token of None \<Rightarrow> False
                    | Some t \<Rightarrow> token_From t = BearerTokenFromServiceAccount))"

fun NeedServiceAccountToken :: "OutputSpec list \<Rightarrow> bool go" where
  "NeedServiceAccountToken [] = Inr False"
| "NeedServiceAccountToken (o' # os) =
     go_bind (needsServiceAccountToken o') (\<lambda>b. if b then Inr True else NeedServiceAccountToken os)"

section \<open>tuning.go\<close>

record Tuning =
  tuning_Base :: BaseOutputTuningSpec
  tuning_Compression :: string

definition base_zero :: BaseOutputTuningSpec where
  "base_zero = \<lparr>base_DeliveryMode = DeliveryModeNone, base_MaxWrite = None,
     base_MinRetryDuration = None, base_MaxRetryDuration = None\<rparr>"

definition tuning_zero :: Tuning where
  "tuning_zero = \<lparr>tuning_Base = base_zero, tuning_Compression = []\<rparr>"

definition tuning_of_base :: "BaseOutputTuningSpec option \<Rightarrow> Tuning" where
  "tuning_of_base t = (case t of None \<Rightarrow> tuning_zero | Some b \<Rightarrow> tuning_zero\<lparr>tuning_Base := b\<rparr>)"

definition tuning_of_compressed :: "CompressedTuningSpec option \<Rightarrow> Tuning" where
  "tuning_of_compressed t =
     (case t of None \<Rightarrow> tuning_zero
      | Some c \<Rightarrow> \<lparr>tuning_Base = ctune_Base c, tuning_Compression = ctune_Compression c\<rparr>)"

definition NewTuning :: "OutputSpec \<Rightarrow> Tuning" where
  "NewTuning spec =
     (case output_Type spec of
        OutputTypeAzureLogsIngestion \<Rightarrow>
          tuning_of_base (Option.bind (output_AzureLogsIngestion spec) azli_Tuning)
      | OutputTypeAzureMonitor \<Rightarrow> tuning_of_base (Option.bind (output_AzureMonitor spec) azm_Tuning)
      | OutputTypeGoogleCloudLogging \<Rightarrow>
          tuning_of_base (Option.bind (output_GoogleCloudLogging spec) gcl_Tuning)
      | OutputTypeCloudwatch \<Rightarrow> tuning_of_compressed (Option.bind (output_Cloudwatch spec) cw_Tuning)
      | OutputTypeS3 \<Rightarrow> tuning_of_compressed (Option.bind (output_S3 spec) s3_Tuning)
      | OutputTypeElasticsearch \<Rightarrow>
          tuning_of_compressed (Option.bind (output_Elasticsearch spec) es_Tuning)
      | OutputTypeHTTP \<Rightarrow> tuning_of_compressed (Option.bind (output_HTTP spec) http_Tuning)
      | OutputTypeOTLP \<Rightarrow> tuning_of_compressed (Option.bind (output_OTLP spec) otlp_Tuning)
      | OutputTypeKafka \<Rightarrow>
          (case Option.bind (output_Kafka spec) kafka_Tuning of
             None \<Rightarrow> tuning_zero
           | Some k \<Rightarrow>
               \<lparr>tuning_Base = base_zero\<lparr>base_DeliveryMode := ktune_DeliveryMode k,
                                        base_MaxWrite := ktune_MaxWrite k\<rparr>,
                tuning_Compression = ktune_Compression k\<rparr>)
      | OutputTypeLoki \<Rightarrow> tuning_of_compressed (Option.bind (output_Loki spec) loki_Tuning)
      | OutputTypeLokiStack \<Rightarrow> tuning_of_compressed (Option.bind (output_LokiStack spec) lokistack_Tuning)
      | OutputTypeSplunk \<Rightarrow> tuning_of_compressed (Option.bind (output_Splunk spec) splunk_Tuning)
      | OutputTypeSyslog \<Rightarrow>
          (case Option.bind (output_Syslog spec) syslog_Tuning of
             None \<Rightarrow> tuning_zero
           | Some s \<Rightarrow>
               tuning_zero\<lparr>tuning_Base := base_zero\<lparr>base_DeliveryMode := systune_DeliveryMode s\<rparr>\<rparr>)
      | OutputTypeOther _ \<Rightarrow> tuning_zero)"

section \<open>Facts about the references\<close>

lemma token_secret_ref_simps [simp]:
  "token_secret_ref None = []"
  "token_From t \<noteq> BearerTokenFromSecret \<Longrightarrow> token_secret_ref (Some t) = []"
  "token_Secret t = None \<Longrightarrow> token_secret_ref (Some t) = []"
  "token_From t = BearerTokenFromSecret \<Longrightarrow> token_Secret t = Some s \<Longrightarrow>
   token_secret_ref (Some t) = [Some (sref (btsk_Key s) (btsk_Name s))]"
  by (simp_all add: token_secret_ref_def)

lemma set_token_secret_ref:
  "Some r \<in> set (token_secret_ref (Some t)) \<longleftrightarrow>
     token_From t = BearerTokenFromSecret
     \<and> map_option (\<lambda>s. sref (btsk_Key s) (btsk_Name s)) (token_Secret t) = Some r"
  by (cases "token_From t = BearerTokenFromSecret"; cases "token_Secret t") auto

lemma Outputs_SecretNames_Inr_iff:
  "Outputs_SecretNames os = Inr ns \<longleftrightarrow>
     (\<exists>nss. list_all2 (\<lambda>o' n. output_secret_names o' = Inr n) os nss \<and> ns = \<Union> (set nss))"
proof -
  have "go_fold (\<lambda>secrets o'. go_bind (output_secret_names o') (\<lambda>ns. Inr (secrets \<union> ns))) acc os = Inr ns
      \<longleftrightarrow> (\<exists>nss. list_all2 (\<lambda>o' n. output_secret_names o' = Inr n) os nss \<and> ns = acc \<union> \<Union> (set nss))"
    for acc
  proof (induction os arbitrary: acc)
    case (Cons x os)
    then show ?case
      by (cases "output_secret_names x") (fastforce simp: list_all2_Cons1)+
  qed auto
  from this [of "{}"] show ?thesis by (simp add: Outputs_SecretNames_def)
qed

lemma NeedServiceAccountToken_iff:
  assumes "\<forall>o'\<in>set os. \<exists>b. needsServiceAccountToken o' = Inr b"
  shows "NeedServiceAccountToken os = Inr (\<exists>o'\<in>set os. needsServiceAccountToken o' = Inr True)"
  using assms by (induction os) auto

end
