(* ===== verification/Obs_Secrets.thy ===== *)
theory Obs_Secrets
  imports Obs_Outputs
begin

text \<open>
  The secrets and config maps visible to the collector (\<open>secrets.go\<close>, \<open>configmap.go\<close> of
  \<open>internal/api/observability\<close>): lookup by reference, and the FNV-1a digest from which the
  operator derives the annotation that restarts the collector when its inputs change.

  Go ranges over a map in an unspecified order. That order is an argument here: \<open>ks\<close> lists
  the names and \<open>kord n\<close> the keys of object \<open>n\<close> as the range statement yields them. The digest
  arithmetic is on 64-bit words, as \<open>hash/fnv\<close> has it. The locale \<open>hashed_store\<close> carries the
  facts the two digests share.
\<close>

unbundle bit_operations_syntax

type_synonym Secrets = "string \<rightharpoonup> Secret"
type_synonym ConfigMaps = "string \<rightharpoonup> ConfigMap"

section \<open>hash/fnv, 64-bit variant 1a\<close>

definition fnv_offset64 :: "64 word" where
  "fnv_offset64 = 14695981039346656037"

definition fnv_prime64 :: "64 word" where
  "fnv_prime64 = 1099511628211"

definition fnv_byte :: "64 word \<Rightarrow> char \<Rightarrow> 64 word" where
  "fnv_byte h c = (h XOR word_of_nat (of_char c)) * fnv_prime64"

definition Write :: "64 word \<Rightarrow> string \<Rightarrow> 64 word" where
  "Write h data = foldl fnv_byte h data"

lemma Write_append: "Write h (a @ b) = Write (Write h a) b"
  by (simp add: Write_def)

lemma Write_Nil [simp]: "Write h [] = h"
  by (simp add: Write_def)

section \<open>Digest of a keyed store\<close>

text \<open>A key that is not in the map reads as the zero value, an empty slice.\<close>

definition map_value :: "(string \<rightharpoonup> string) \<Rightarrow> string \<Rightarrow> string" where
  "map_value m k = (case m k of None \<Rightarrow> [] | Some v \<Rightarrow> v)"

definition write_object :: "64 word \<Rightarrow> string \<Rightarrow> (string \<rightharpoonup> string) \<Rightarrow> string list \<Rightarrow> 64 word" where
  "write_object buffer name data keys =
     foldl (\<lambda>b k. Write (Write b k) (map_value data k)) (Write buffer name) (sort keys)"

definition Secrets_Names :: "string list \<Rightarrow> string list" where
  "Secrets_Names ks = sort ks"

definition ConfigMaps_Names :: "string list \<Rightarrow> string list" where
  "ConfigMaps_Names ks = sort ks"

definition Secrets_Hash64a :: "Secrets \<Rightarrow> string list \<Rightarrow> (string \<Rightarrow> string list) \<Rightarrow> string go" where
  "Secrets_Hash64a s ks kord =
     go_bind
       (go_fold (\<lambda>buffer name. go_bind (deref (s name))
                  (\<lambda>secret. Inr (write_object buffer name (secret_Data secret) (kord name))))
         fnv_offset64 (Secrets_Names ks))
       (\<lambda>buffer. Inr (Itoa (unat buffer)))"

definition ConfigMaps_Hash64a :: "ConfigMaps \<Rightarrow> string list \<Rightarrow> (string \<Rightarrow> string list) \<Rightarrow> string go" where
  "ConfigMaps_Hash64a c ks kord =
     go_bind
       (go_fold (\<lambda>buffer name. go_bind (deref (c name))
                  (\<lambda>cm. Inr (write_object buffer name (configmap_Data cm) (kord name))))
         fnv_offset64 (ConfigMaps_Names ks))
       (\<lambda>buffer. Inr (Itoa (unat buffer)))"

section \<open>Lookup (secrets.go)\<close>

definition Secrets_Value :: "Secrets \<Rightarrow> SecretReference option \<Rightarrow> string option" where
  "Secrets_Value s key =
     (case key of
        None \<Rightarrow> None
      | Some k \<Rightarrow>
          if sref_SecretName k \<noteq> []
          then (case s (sref_SecretName k) of
                  None \<Rightarrow> None
                | Some secret \<Rightarrow> secret_Data secret (sref_Key k))
          else None)"

definition AsString :: "Secrets \<Rightarrow> SecretReference option \<Rightarrow> string" where
  "AsString s key = (case Secrets_Value s key of None \<Rightarrow> [] | Some v \<Rightarrow> v)"

definition AsStringFromBearerToken :: "Secrets \<Rightarrow> BearerToken \<Rightarrow> string" where
  "AsStringFromBearerToken s key =
     (if token_From key = BearerTokenFromSecret
      then (case token_Secret key of
              None \<Rightarrow> []
            | Some sec \<Rightarrow> AsString s (Some (sref (btsk_Key sec) (btsk_Name sec))))
      else [])"

section \<open>The digest interface\<close>

text \<open>The bytes a digest is computed from, in the order they are written.\<close>

definition object_stream :: "string \<Rightarrow> (string \<rightharpoonup> string) \<Rightarrow> string list \<Rightarrow> string" where
  "object_stream name data keys = name @ concat (map (\<lambda>k. k @ map_value data k) (sort keys))"

lemma write_object_stream: "write_object h name data keys = Write h (object_stream name data keys)"
proof -
  have "foldl (\<lambda>b k. Write (Write b k) (map_value data k)) g ks
      = Write g (concat (map (\<lambda>k. k @ map_value data k) ks))" for g ks
    by (induction ks arbitrary: g) (simp_all add: Write_append)
  then show ?thesis by (simp add: write_object_def object_stream_def Write_append)
qed

text \<open>The orders in which a map of objects and the maps inside it may be ranged over.\<close>

definition store_order ::
  "('o \<Rightarrow> string \<rightharpoonup> string) \<Rightarrow> (string \<rightharpoonup> 'o) \<Rightarrow> string list \<Rightarrow> (string \<Rightarrow> string list) \<Rightarrow> bool" where
  "store_order data s ks kord \<longleftrightarrow>
     range_order s ks \<and> (\<forall>n ob. s n = Some ob \<longrightarrow> range_order (data ob) (kord n))"

locale hashed_store =
  fixes names :: "string list \<Rightarrow> string list"
    and hash :: "(string \<rightharpoonup> 'o) \<Rightarrow> string list \<Rightarrow> (string \<Rightarrow> string list) \<Rightarrow> string go"
    and data :: "'o \<Rightarrow> string \<rightharpoonup> string"
  assumes names_sorted: "names ks = sort ks"
    and hash_writes: "hash s ks kord =
      go_bind
        (go_fold (\<lambda>b n. go_bind (deref (s n)) (\<lambda>ob. Inr (write_object b n (data ob) (kord n))))
          fnv_offset64 (names ks))
        (\<lambda>b. Inr (Itoa (unat b)))"
begin

definition stream :: "(string \<rightharpoonup> 'o) \<Rightarrow> string list \<Rightarrow> (string \<Rightarrow> string list) \<Rightarrow> string" where
  "stream s ks kord = concat (map (\<lambda>n. object_stream n (data (the (s n))) (kord n)) (sort ks))"

lemma hash_stream:
  assumes "store_order data s ks kord"
  shows "hash s ks kord = Inr (Itoa (unat (Write fnv_offset64 (stream s ks kord))))"
proof -
  have sub: "set (sort ks) \<subseteq> dom s"
    using assms by (auto simp: store_order_def range_order_def)
  have "go_fold (\<lambda>b n. go_bind (deref (s n)) (\<lambda>ob. Inr (write_object b n (data ob) (kord n)))) h ns
      = Inr (Write h (concat (map (\<lambda>n. object_stream n (data (the (s n))) (kord n)) ns)))"
    if "set ns \<subseteq> dom s" for h ns
    using that by (induction ns arbitrary: h) (auto simp: write_object_stream Write_append)
  from this [OF sub] show ?thesis by (simp add: hash_writes names_sorted stream_def)
qed

lemma stream_order:
  assumes a: "store_order data s ks kord" and b: "store_order data s ks' kord'"
  shows "stream s ks kord = stream s ks' kord'"
proof -
  have ks: "sort ks = sort ks'"
    using a b by (auto simp: store_order_def intro: sort_range_order)
  have "object_stream n (data (the (s n))) (kord n) = object_stream n (data (the (s n))) (kord' n)"
    if "n \<in> set (sort ks')" for n
  proof -
    from that b obtain ob where ob: "s n = Some ob"
      by (auto simp: store_order_def dest: range_order_lookup)
    with a b have "sort (kord n) = sort (kord' n)"
      by (metis sort_range_order store_order_def)
    then show ?thesis by (simp add: object_stream_def)
  qed
  then show ?thesis unfolding stream_def ks by (metis (no_types, lifting) map_eq_conv)
qed

lemma hash_order:
  "store_order data s ks kord \<Longrightarrow> store_order data s ks' kord' \<Longrightarrow> hash s ks kord = hash s ks' kord'"
  using stream_order [of s ks kord ks' kord'] by (simp only: hash_stream)

end

interpretation secret_hash: hashed_store Secrets_Names Secrets_Hash64a secret_Data
  by unfold_locales (simp_all add: Secrets_Names_def Secrets_Hash64a_def)

interpretation configmap_hash: hashed_store ConfigMaps_Names ConfigMaps_Hash64a configmap_Data
  by unfold_locales (simp_all add: ConfigMaps_Names_def ConfigMaps_Hash64a_def)

lemma AsStringFromBearerToken_ref:
  "AsStringFromBearerToken s t =
     (case token_secret_ref (Some t) of [] \<Rightarrow> [] | r # rs \<Rightarrow> AsString s r)"
  by (simp add: AsStringFromBearerToken_def token_secret_ref_def split: option.split)

section \<open>Properties\<close>

text \<open>
  C33. The digest of the secrets, from which the collector's restart annotation is made, always
  exists and does not depend on the order in which Go ranges over the maps: two runs of the operator
  on the same secrets give the same digest, the FNV-1a sum of the names, keys and values written in
  sorted order.
\<close>

theorem Secrets_Hash64a_deterministic:
  assumes "store_order secret_Data s ks kord" "store_order secret_Data s ks' kord'"
  shows "Secrets_Hash64a s ks kord = Secrets_Hash64a s ks' kord'
    \<and> Secrets_Hash64a s ks kord =
        Inr (Itoa (unat (Write fnv_offset64
          (concat (map (\<lambda>n. object_stream n (secret_Data (the (s n))) (kord n)) (sort ks))))))"
  using secret_hash.hash_order [OF assms] secret_hash.hash_stream [OF assms(1)]
  by (simp add: secret_hash.stream_def)

definition sample_secrets :: Secrets where
  "sample_secrets = [''a'' \<mapsto> \<lparr>secret_Name = ''a'', secret_Data = [''k'' \<mapsto> ''v'', ''j'' \<mapsto> ''w'']\<rparr>]"

theorem Secrets_Hash64a_deterministic_witness:
  "Secrets_Hash64a sample_secrets [''a''] (\<lambda>_. [''k'', ''j'']) =
   Secrets_Hash64a sample_secrets [''a''] (\<lambda>_. [''j'', ''k''])"
proof -
  have "store_order secret_Data sample_secrets [''a''] (\<lambda>_. [''k'', ''j''])"
    and "store_order secret_Data sample_secrets [''a''] (\<lambda>_. [''j'', ''k''])"
    by (auto simp: store_order_def range_order_def sample_secrets_def split: if_splits)
  then show ?thesis by (rule Secrets_Hash64a_deterministic [THEN conjunct1])
qed

text \<open>
  The digest writes names, keys and values without separators, so it does not tell apart two
  stores that differ only in where a key ends and its value begins: moving bytes between them leaves
  the digest unchanged.
\<close>

theorem Secrets_Hash64a_shift_collision:
  "Secrets_Hash64a [n \<mapsto> \<lparr>secret_Name = n, secret_Data = [k @ x \<mapsto> v]\<rparr>] [n] (\<lambda>_. [k @ x]) =
   Secrets_Hash64a [n \<mapsto> \<lparr>secret_Name = n, secret_Data = [k \<mapsto> x @ v]\<rparr>] [n] (\<lambda>_. [k])"
  by (simp add: Secrets_Hash64a_def Secrets_Names_def write_object_stream object_stream_def map_value_def)

end
