(* ===== verification/Initialize.thy ===== *)
theory Initialize
  imports Obs_Secrets "HOL-Library.Multiset"
begin

text \<open>
  \<open>internal/api/initialize\<close>: what the operator fills into a ClusterLogForwarder before it
  validates it and generates a configuration. The three initializers run in the order of
  \<open>clfInitializers\<close>. Of the shared \<open>utils.Options\<close> map they touch one entry, the generated
  secrets, which is threaded through as \<open>gen_options\<close>. \<open>MigrateInputs\<close> ranges over a map; the
  order \<open>ks\<close> of its keys is an argument.
\<close>

section \<open>Constants\<close>

definition ClientCertKey :: string where "ClientCertKey = ''tls.crt''"

definition ClientPrivateKey :: string where "ClientPrivateKey = ''tls.key''"

definition mebi :: "int \<Rightarrow> Quantity" where
  "mebi n = n * 1024 * 1024 * 1000"

definition DefaultRequestMemory :: Quantity where "DefaultRequestMemory = mebi 64"

definition DefaultRequestCpu :: Quantity where "DefaultRequestCpu = 500"

definition DefaultLimitMemory :: Quantity where "DefaultLimitMemory = mebi 2048"

definition DefaultLimitCpu :: Quantity where "DefaultLimitCpu = 6000"

definition DefaultMaxWriteLokiStack :: Quantity where "DefaultMaxWriteLokiStack = mebi 3"

section \<open>init_resources.go\<close>

definition CollectorSpec_zero :: CollectorSpec where
  "CollectorSpec_zero =
     \<lparr>collector_Resources = None, collector_NodeSelector = Map.empty, collector_Tolerations = [],
      collector_Affinity = None, collector_NetworkPolicy = None, collector_MaxUnavailable = None,
      collector_TerminationGracePeriodSeconds = None\<rparr>"

definition default_resources :: ResourceRequirements where
  "default_resources =
     \<lparr>rr_Limits = [''memory'' \<mapsto> DefaultLimitMemory, ''cpu'' \<mapsto> DefaultLimitCpu],
      rr_Requests = [''memory'' \<mapsto> DefaultRequestMemory, ''cpu'' \<mapsto> DefaultRequestCpu]\<rparr>"

definition Resources :: "ClusterLogForwarder \<Rightarrow> ClusterLogForwarder" where
  "Resources forwarder =
     (let spec = clf_Spec forwarder;
          collector = (case spec_Collector spec of None \<Rightarrow> CollectorSpec_zero | Some c \<Rightarrow> c);
          collector' = (if collector_Resources collector = None
                        then collector\<lparr>collector_Resources := Some default_resources\<rparr> else collector)
      in forwarder\<lparr>clf_Spec := spec\<lparr>spec_Collector := Some collector'\<rparr>\<rparr>)"

section \<open>init_inputs.go\<close>

type_synonym gen_options = "Secret list option"

definition Update_GeneratedSecrets :: "gen_options \<Rightarrow> Secret list \<Rightarrow> gen_options" where
  "Update_GeneratedSecrets options secrets =
     (case options of None \<Rightarrow> Some secrets | Some existing \<Rightarrow> Some (existing @ secrets))"

definition application_input :: InputSpec where
  "application_input =
     InputSpec_zero\<lparr>input_Name := InputType_String InputTypeApplication,
       input_Type := InputTypeApplication,
       input_Application := Some \<lparr>app_Selector = None, app_Tuning = None, app_Includes = [],
         app_Excludes = []\<rparr>\<rparr>"

definition infrastructure_input :: InputSpec where
  "infrastructure_input =
     InputSpec_zero\<lparr>input_Name := InputType_String InputTypeInfrastructure,
       input_Type := InputTypeInfrastructure,
       input_Infrastructure := Some \<lparr>infra_Sources = InfrastructureSources, infra_Tuning = None\<rparr>\<rparr>"

definition audit_input :: InputSpec where
  "audit_input =
     InputSpec_zero\<lparr>input_Name := InputType_String InputTypeAudit,
       input_Type := InputTypeAudit,
       input_Audit := Some \<lparr>audit_Sources = AuditSources, audit_Tuning = None\<rparr>\<rparr>"

definition reserved_input :: "string \<Rightarrow> InputSpec option" where
  "reserved_input i =
     (if i = InputType_String InputTypeApplication then Some application_input
      else if i = InputType_String InputTypeInfrastructure then Some infrastructure_input
      else if i = InputType_String InputTypeAudit then Some audit_input
      else None)"

definition migrate_ref :: "(string \<rightharpoonup> InputSpec) \<Rightarrow> string \<Rightarrow> (string \<rightharpoonup> InputSpec)" where
  "migrate_ref inputs i =
     (case reserved_input i of None \<Rightarrow> inputs | Some spec \<Rightarrow> inputs(i \<mapsto> spec))"

definition migrated_inputs :: "ClusterLogForwarderSpec \<Rightarrow> (string \<rightharpoonup> InputSpec)" where
  "migrated_inputs spec =
     foldl (\<lambda>inputs p. foldl migrate_ref inputs (pipeline_InputRefs p))
       (Inputs_Map (spec_Inputs spec)) (spec_Pipelines spec)"

definition receiver_secret_name :: "string \<Rightarrow> InputSpec \<Rightarrow> string" where
  "receiver_secret_name forwarderName spec = forwarderName @ ''-'' @ input_Name spec"

definition receiver_secret :: "string \<Rightarrow> InputSpec \<Rightarrow> Secret" where
  "receiver_secret forwarderName spec =
     \<lparr>secret_Name = receiver_secret_name forwarderName spec,
      secret_Data = [ClientPrivateKey \<mapsto> [], ClientCertKey \<mapsto> []]\<rparr>"

definition receiver_tls_spec :: "string \<Rightarrow> TLSSpec" where
  "receiver_tls_spec secretName =
     \<lparr>tls_CA = None,
      tls_Certificate = Some \<lparr>vref_Key = ClientCertKey, vref_ConfigMapName = [], vref_SecretName = secretName\<rparr>,
      tls_Key = Some \<lparr>sref_Key = ClientPrivateKey, sref_SecretName = secretName\<rparr>,
      tls_KeyPassphrase = None\<rparr>"

definition migrateInputReceiver ::
  "InputSpec \<Rightarrow> string \<Rightarrow> gen_options \<Rightarrow> (InputSpec \<times> gen_options) go" where
  "migrateInputReceiver spec forwarderName options =
     (if input_Type spec \<noteq> InputTypeReceiver then Inr (spec, options)
      else if Option.bind (input_Receiver spec) recv_TLS \<noteq> None then Inr (spec, options)
      else go_bind (deref (input_Receiver spec))
        (\<lambda>receiver.
           Inr (spec\<lparr>input_Receiver := Some (receiver\<lparr>recv_TLS :=
                  Some (receiver_tls_spec (receiver_secret_name forwarderName spec))\<rparr>)\<rparr>,
                Update_GeneratedSecrets options [receiver_secret forwarderName spec])))"

definition MigrateInputs ::
  "string list \<Rightarrow> ClusterLogForwarder \<Rightarrow> gen_options \<Rightarrow> (ClusterLogForwarder \<times> gen_options) go" where
  "MigrateInputs ks forwarder options =
     (let inputs = migrated_inputs (clf_Spec forwarder)
      in go_bind
        (go_fold (\<lambda>(acc, opts) k.
            case inputs k of
              None \<Rightarrow> Inr (acc, opts)
            | Some i \<Rightarrow>
                go_bind (migrateInputReceiver i (clf_Name forwarder) opts)
                  (\<lambda>(i', opts'). Inr (acc @ [i'], opts')))
          ([], options) ks)
        (\<lambda>(inputs', opts').
           Inr (forwarder\<lparr>clf_Spec := (clf_Spec forwarder)\<lparr>spec_Inputs := inputs'\<rparr>\<rparr>, opts')))"

section \<open>init_outputs.go\<close>

definition LokiTuningSpec_zero :: LokiTuningSpec where
  "LokiTuningSpec_zero = \<lparr>ctune_Base = base_zero, ctune_Compression = []\<rparr>"

definition default_max_write :: "LokiTuningSpec option \<Rightarrow> LokiTuningSpec" where
  "default_max_write tuning0 =
     (let tuning = (case tuning0 of None \<Rightarrow> LokiTuningSpec_zero | Some t \<Rightarrow> t)
      in if base_MaxWrite (ctune_Base tuning) = None
         then tuning\<lparr>ctune_Base := (ctune_Base tuning)\<lparr>base_MaxWrite := Some DefaultMaxWriteLokiStack\<rparr>\<rparr>
         else tuning)"

definition init_output :: "OutputSpec \<Rightarrow> OutputSpec go" where
  "init_output o' =
     (if output_Type o' = OutputTypeLokiStack
      then go_bind (deref (output_LokiStack o'))
        (\<lambda>ls. Inr (o'\<lparr>output_LokiStack :=
                  Some (ls\<lparr>lokistack_Tuning := Some (default_max_write (lokistack_Tuning ls))\<rparr>)\<rparr>))
      else Inr o')"

definition InitOutputs :: "ClusterLogForwarder \<Rightarrow> ClusterLogForwarder go" where
  "InitOutputs forwarder =
     go_bind (go_mapM init_output (spec_Outputs (clf_Spec forwarder)))
       (\<lambda>outputs. Inr (forwarder\<lparr>clf_Spec := (clf_Spec forwarder)\<lparr>spec_Outputs := outputs\<rparr>\<rparr>))"

section \<open>initializations.go\<close>

definition initialize_forwarder ::
  "string list \<Rightarrow> ClusterLogForwarder \<Rightarrow> gen_options \<Rightarrow> (ClusterLogForwarder \<times> gen_options) go" where
  "initialize_forwarder ks forwarder options =
     go_bind (MigrateInputs ks (Resources forwarder) options)
       (\<lambda>(f, opts). go_bind (InitOutputs f) (\<lambda>f'. Inr (f', opts)))"

section \<open>What initialization does to the inputs\<close>

text \<open>The references of the pipelines, and the effect of a receiver's migration on its own.\<close>

definition pipeline_refs :: "ClusterLogForwarderSpec \<Rightarrow> string set" where
  "pipeline_refs spec = (\<Union>p\<in>set (spec_Pipelines spec). set (pipeline_InputRefs p))"

definition needs_receiver_tls :: "InputSpec \<Rightarrow> bool" where
  "needs_receiver_tls i \<longleftrightarrow>
     input_Type i = InputTypeReceiver \<and> Option.bind (input_Receiver i) recv_TLS = None"

definition with_receiver_tls :: "string \<Rightarrow> InputSpec \<Rightarrow> InputSpec" where
  "with_receiver_tls name i =
     (if needs_receiver_tls i
      then i\<lparr>input_Receiver := map_option (\<lambda>r. r\<lparr>recv_TLS :=
             Some (receiver_tls_spec (receiver_secret_name name i))\<rparr>) (input_Receiver i)\<rparr>
      else i)"

definition receiver_present :: "InputSpec \<Rightarrow> bool" where
  "receiver_present i \<longleftrightarrow> (input_Type i = InputTypeReceiver \<longrightarrow> input_Receiver i \<noteq> None)"

definition add_secrets :: "gen_options \<Rightarrow> Secret list \<Rightarrow> gen_options" where
  "add_secrets opts ss = (if ss = [] then opts else Update_GeneratedSecrets opts ss)"

lemma add_secrets_append: "add_secrets (add_secrets opts ss) ts = add_secrets opts (ss @ ts)"
  by (simp add: add_secrets_def Update_GeneratedSecrets_def split: option.split)

lemma reserved_input_name: "reserved_input n = Some i \<Longrightarrow> input_Name i = n"
  by (auto simp: reserved_input_def application_input_def infrastructure_input_def audit_input_def
      InputSpec_zero_def split: if_splits)

lemma reserved_input_no_receiver: "reserved_input n = Some i \<Longrightarrow> \<not> needs_receiver_tls i"
  by (auto simp: reserved_input_def application_input_def infrastructure_input_def audit_input_def
      needs_receiver_tls_def split: if_splits)

lemma foldl_migrate_ref:
  "foldl migrate_ref m refs n =
     (if n \<in> set refs \<and> reserved_input n \<noteq> None then reserved_input n else m n)"
  by (induction refs arbitrary: m) (auto simp: migrate_ref_def split: option.splits)

lemma migrated_inputs_conv:
  "migrated_inputs spec n =
     (if n \<in> pipeline_refs spec \<and> reserved_input n \<noteq> None then reserved_input n
      else Inputs_Map (spec_Inputs spec) n)"
proof -
  have "foldl (\<lambda>inputs p. foldl migrate_ref inputs (pipeline_InputRefs p)) m ps n =
      (if n \<in> (\<Union>p\<in>set ps. set (pipeline_InputRefs p)) \<and> reserved_input n \<noteq> None
       then reserved_input n else m n)" for m ps
    by (induction ps arbitrary: m) (auto simp: foldl_migrate_ref)
  then show ?thesis unfolding migrated_inputs_def pipeline_refs_def by blast
qed

lemma migrated_inputs_name: "migrated_inputs spec n = Some i \<Longrightarrow> input_Name i = n"
  by (auto simp: migrated_inputs_conv reserved_input_name dest: inputs.to_map_Some split: if_splits)

lemma migrateInputReceiver_run:
  "receiver_present i \<Longrightarrow>
   migrateInputReceiver i name opts =
     Inr (with_receiver_tls name i,
          add_secrets opts (if needs_receiver_tls i then [receiver_secret name i] else []))"
  by (auto simp: migrateInputReceiver_def receiver_present_def with_receiver_tls_def
      needs_receiver_tls_def add_secrets_def)

lemma migrateInputReceiver_fault:
  "\<not> receiver_present i \<Longrightarrow> migrateInputReceiver i name opts = Inl NilDereference"
  by (auto simp: migrateInputReceiver_def receiver_present_def)

definition migrated_list :: "ClusterLogForwarderSpec \<Rightarrow> string list \<Rightarrow> InputSpec list" where
  "migrated_list spec ks = map (\<lambda>k. the (migrated_inputs spec k)) ks"

lemma MigrateInputs_run:
  assumes ks: "range_order (migrated_inputs (clf_Spec f)) ks"
    and ok: "\<forall>i\<in>set (migrated_list (clf_Spec f) ks). receiver_present i"
  shows "MigrateInputs ks f opts =
    Inr (f\<lparr>clf_Spec := (clf_Spec f)\<lparr>spec_Inputs :=
            map (with_receiver_tls (clf_Name f)) (migrated_list (clf_Spec f) ks)\<rparr>\<rparr>,
         add_secrets opts (map (receiver_secret (clf_Name f))
            (filter needs_receiver_tls (migrated_list (clf_Spec f) ks))))"
proof -
  let ?m = "migrated_inputs (clf_Spec f)"
  have "go_fold (\<lambda>(acc, opts) k. case ?m k of None \<Rightarrow> Inr (acc, opts)
            | Some i \<Rightarrow> go_bind (migrateInputReceiver i (clf_Name f) opts)
                          (\<lambda>(i', opts'). Inr (acc @ [i'], opts'))) (acc, os) ns =
      Inr (acc @ map (with_receiver_tls (clf_Name f)) (map (\<lambda>k. the (?m k)) ns),
           add_secrets os (map (receiver_secret (clf_Name f))
             (filter needs_receiver_tls (map (\<lambda>k. the (?m k)) ns))))"
    if "\<forall>n\<in>set ns. \<exists>i. ?m n = Some i \<and> receiver_present i" for ns acc os
    using that
  proof (induction ns arbitrary: acc os)
    case (Cons n ns)
    then obtain i where i: "?m n = Some i" "receiver_present i" by auto
    from Cons show ?case
      by (simp add: i migrateInputReceiver_run add_secrets_append del: not_None_eq)
  qed (simp add: add_secrets_def)
  moreover have "\<forall>n\<in>set ks. \<exists>i. ?m n = Some i \<and> receiver_present i"
    using ok range_order_lookup [OF ks] by (fastforce simp: migrated_list_def)
  ultimately show ?thesis by (simp add: MigrateInputs_def Let_def migrated_list_def)
qed

lemma MigrateInputs_returns:
  assumes ks: "range_order (migrated_inputs (clf_Spec f)) ks" and run: "MigrateInputs ks f opts = Inr r"
  shows "\<forall>i\<in>set (migrated_list (clf_Spec f) ks). receiver_present i"
proof -
  let ?m = "migrated_inputs (clf_Spec f)"
  let ?step = "\<lambda>(acc, opts) k. case ?m k of None \<Rightarrow> Inr (acc, opts)
            | Some i \<Rightarrow> go_bind (migrateInputReceiver i (clf_Name f) opts)
                          (\<lambda>(i', opts'). Inr (acc @ [i'], opts'))"
  have "receiver_present i"
    if "go_fold ?step (acc, os) ns = Inr x" "n \<in> set ns" "?m n = Some i" for acc os ns x n i
    using that
  proof (induction ns arbitrary: acc os)
    case (Cons k ns)
    show ?case
    proof (cases "?m k")
      case (Some j)
      show ?thesis
      proof (cases "receiver_present j")
        case True
        with Cons Some show ?thesis by (cases "n = k") (auto simp: migrateInputReceiver_run)
      next
        case False
        with Cons.prems Some show ?thesis by (simp add: migrateInputReceiver_fault)
      qed
    qed (use Cons in auto)
  qed simp
  moreover from run obtain x where "go_fold ?step ([], opts) ks = Inr x"
    by (auto simp: MigrateInputs_def Let_def go_bind_Inr_iff)
  ultimately show ?thesis
    using range_order_lookup [OF ks] by (fastforce simp: migrated_list_def)
qed

lemma MigrateInputs_Inr_iff:
  "range_order (migrated_inputs (clf_Spec f)) ks \<Longrightarrow>
   (\<exists>r. MigrateInputs ks f opts = Inr r) \<longleftrightarrow>
   (\<forall>i\<in>set (migrated_list (clf_Spec f) ks). receiver_present i)"
  using MigrateInputs_run MigrateInputs_returns by blast

section \<open>Initializers one by one\<close>

lemma Resources_frame [simp]:
  "clf_Name (Resources f) = clf_Name f"
  "spec_Inputs (clf_Spec (Resources f)) = spec_Inputs (clf_Spec f)"
  "spec_Outputs (clf_Spec (Resources f)) = spec_Outputs (clf_Spec f)"
  "spec_Pipelines (clf_Spec (Resources f)) = spec_Pipelines (clf_Spec f)"
  by (simp_all add: Resources_def Let_def)

lemma Resources_collector:
  "\<exists>c. spec_Collector (clf_Spec (Resources f)) = Some c \<and> collector_Resources c \<noteq> None"
  by (cases "spec_Collector (clf_Spec f)") (auto simp: Resources_def Let_def CollectorSpec_zero_def)

lemma Resources_fixed:
  "spec_Collector (clf_Spec f) = Some c \<Longrightarrow> collector_Resources c \<noteq> None \<Longrightarrow> Resources f = f"
  by (simp add: Resources_def Let_def del: not_None_eq)

lemma migrated_inputs_Resources [simp]:
  "migrated_inputs (clf_Spec (Resources f)) = migrated_inputs (clf_Spec f)"
  "migrated_list (clf_Spec (Resources f)) = migrated_list (clf_Spec f)"
  by (simp_all add: migrated_list_def [abs_def] migrated_inputs_def)

definition lokistack_present :: "OutputSpec \<Rightarrow> bool" where
  "lokistack_present o' \<longleftrightarrow> (output_Type o' = OutputTypeLokiStack \<longrightarrow> output_LokiStack o' \<noteq> None)"

lemma init_output_returns: "returns (init_output o') \<longleftrightarrow> lokistack_present o'"
  by (simp add: init_output_def lokistack_present_def Let_def returns_go_bind)

lemma default_max_write_set: "base_MaxWrite (ctune_Base (default_max_write t)) \<noteq> None"
  by (simp add: default_max_write_def Let_def)

lemma default_max_write_fixed:
  "base_MaxWrite (ctune_Base t) \<noteq> None \<Longrightarrow> default_max_write (Some t) = t"
  by (simp add: default_max_write_def)

text \<open>A LokiStack output gets a write limit, the one it has if it has one; the rest is untouched.\<close>

lemma init_output_lokistack:
  "output_Type o' = OutputTypeLokiStack \<Longrightarrow> output_LokiStack o' = Some ls \<Longrightarrow>
   init_output o' = Inr (o'\<lparr>output_LokiStack :=
     Some (ls\<lparr>lokistack_Tuning := Some (default_max_write (lokistack_Tuning ls))\<rparr>)\<rparr>)"
  by (simp add: init_output_def)

lemma init_output_other: "output_Type o' \<noteq> OutputTypeLokiStack \<Longrightarrow> init_output o' = Inr o'"
  by (simp add: init_output_def)

lemma init_output_idem: "init_output o' = Inr r \<Longrightarrow> init_output r = Inr r"
proof (cases "output_Type o' = OutputTypeLokiStack")
  case True
  assume run: "init_output o' = Inr r"
  with True obtain ls where "output_LokiStack o' = Some ls"
    using init_output_returns [of o'] by (auto simp: lokistack_present_def)
  with True run show ?thesis
    using default_max_write_fixed [OF default_max_write_set]
    by (auto simp: init_output_lokistack)
qed (simp add: init_output_other)

lemma InitOutputs_returns:
  "returns (InitOutputs f) \<longleftrightarrow> (\<forall>o'\<in>set (spec_Outputs (clf_Spec f)). lokistack_present o')"
  by (simp add: InitOutputs_def returns_go_bind returns_go_mapM init_output_returns)

lemma InitOutputs_frame:
  "InitOutputs f = Inr r \<Longrightarrow>
   r = f\<lparr>clf_Spec := (clf_Spec f)\<lparr>spec_Outputs := spec_Outputs (clf_Spec r)\<rparr>\<rparr>
   \<and> list_all2 (\<lambda>o' x. init_output o' = Inr x) (spec_Outputs (clf_Spec f)) (spec_Outputs (clf_Spec r))"
  by (auto simp: InitOutputs_def go_bind_Inr_iff go_mapM_Inr_iff)

section \<open>The initializers together\<close>

lemma MigrateInputs_returns_iff:
  "range_order (migrated_inputs (clf_Spec f)) ks \<Longrightarrow>
   returns (MigrateInputs ks f opts) \<longleftrightarrow>
   (\<forall>i\<in>set (migrated_list (clf_Spec f) ks). receiver_present i)"
  by (metis MigrateInputs_run MigrateInputs_returns returnsE sum.disc(2))

lemma initialize_cases:
  assumes ks: "range_order (migrated_inputs (clf_Spec f)) ks"
    and run: "initialize_forwarder ks f opts = Inr (f', opts')"
  shows "spec_Inputs (clf_Spec f') = map (with_receiver_tls (clf_Name f)) (migrated_list (clf_Spec f) ks)"
    and "opts' = add_secrets opts (map (receiver_secret (clf_Name f))
            (filter needs_receiver_tls (migrated_list (clf_Spec f) ks)))"
    and "\<forall>i\<in>set (migrated_list (clf_Spec f) ks). receiver_present i"
    and "list_all2 (\<lambda>o' x. init_output o' = Inr x) (spec_Outputs (clf_Spec f)) (spec_Outputs (clf_Spec f'))"
    and "spec_Pipelines (clf_Spec f') = spec_Pipelines (clf_Spec f)"
    and "clf_Name f' = clf_Name f"
    and "spec_Collector (clf_Spec f') = spec_Collector (clf_Spec (Resources f))"
proof -
  from run obtain g os where g: "MigrateInputs ks (Resources f) opts = Inr (g, os)"
    and h: "InitOutputs g = Inr f'" "os = opts'"
    by (auto simp: initialize_forwarder_def go_bind_Inr_iff)
  have present: "\<forall>i\<in>set (migrated_list (clf_Spec (Resources f)) ks). receiver_present i"
    by (rule MigrateInputs_returns [OF _ g]) (simp add: ks)
  from MigrateInputs_run [OF _ present, of opts] ks g
  have ge: "g = (Resources f)\<lparr>clf_Spec := (clf_Spec (Resources f))\<lparr>spec_Inputs :=
        map (with_receiver_tls (clf_Name f)) (migrated_list (clf_Spec f) ks)\<rparr>\<rparr>"
    and oe: "os = add_secrets opts (map (receiver_secret (clf_Name f))
            (filter needs_receiver_tls (migrated_list (clf_Spec f) ks)))"
    by simp_all
  from InitOutputs_frame [OF h(1)]
  have fe: "f' = g\<lparr>clf_Spec := (clf_Spec g)\<lparr>spec_Outputs := spec_Outputs (clf_Spec f')\<rparr>\<rparr>"
    and outs: "list_all2 (\<lambda>o' x. init_output o' = Inr x) (spec_Outputs (clf_Spec g)) (spec_Outputs (clf_Spec f'))"
    by blast+
  have "spec_Inputs (clf_Spec f') = spec_Inputs (clf_Spec g)" by (subst fe) simp
  with ge show "spec_Inputs (clf_Spec f') = map (with_receiver_tls (clf_Name f)) (migrated_list (clf_Spec f) ks)"
    by simp
  from present show "\<forall>i\<in>set (migrated_list (clf_Spec f) ks). receiver_present i" by simp
  from oe h show "opts' = add_secrets opts (map (receiver_secret (clf_Name f))
            (filter needs_receiver_tls (migrated_list (clf_Spec f) ks)))" by simp
  from outs ge show "list_all2 (\<lambda>o' x. init_output o' = Inr x) (spec_Outputs (clf_Spec f)) (spec_Outputs (clf_Spec f'))"
    by simp
  have "spec_Pipelines (clf_Spec f') = spec_Pipelines (clf_Spec g)" by (subst fe) simp
  with ge show "spec_Pipelines (clf_Spec f') = spec_Pipelines (clf_Spec f)" by simp
  have "clf_Name f' = clf_Name g" by (subst fe) simp
  with ge show "clf_Name f' = clf_Name f" by simp
  have "spec_Collector (clf_Spec f') = spec_Collector (clf_Spec g)" by (subst fe) simp
  with ge show "spec_Collector (clf_Spec f') = spec_Collector (clf_Spec (Resources f))" by simp
qed

lemma input_Name_with_receiver_tls [simp]: "input_Name (with_receiver_tls name i) = input_Name i"
  by (simp add: with_receiver_tls_def)

lemma with_receiver_tls_done: "receiver_present i \<Longrightarrow> \<not> needs_receiver_tls (with_receiver_tls name i)"
  by (auto simp: with_receiver_tls_def needs_receiver_tls_def receiver_present_def)

lemma receiver_present_with_receiver_tls:
  "receiver_present i \<Longrightarrow> receiver_present (with_receiver_tls name i)"
  by (auto simp: with_receiver_tls_def receiver_present_def)

lemma with_receiver_tls_fixed: "\<not> needs_receiver_tls i \<Longrightarrow> with_receiver_tls name i = i"
  by (simp add: with_receiver_tls_def)

lemma names_migrated_list:
  "range_order (migrated_inputs spec) ks \<Longrightarrow> map input_Name (migrated_list spec ks) = ks"
  by (auto simp: migrated_list_def range_order_def domIff intro!: map_idI)
    (metis domIff migrated_inputs_name option.collapse)

lemma Inputs_Map_migrated:
  assumes ks: "range_order (migrated_inputs spec) ks"
  shows "Inputs_Map (map (with_receiver_tls name) (migrated_list spec ks)) n =
    map_option (with_receiver_tls name) (migrated_inputs spec n)"
proof -
  let ?is = "map (with_receiver_tls name) (migrated_list spec ks)"
  have names: "Inputs_Names ?is = ks"
    using names_migrated_list [OF ks] by (simp add: Inputs_Names_def o_def)
  have d: "distinct ks" and dom: "set ks = dom (migrated_inputs spec)"
    using ks by (auto simp: range_order_def)
  show ?thesis
  proof (cases "migrated_inputs spec n")
    case None
    then have "n \<notin> set ks" using dom by auto
    with names None show ?thesis by (simp add: inputs.to_map_None_iff)
  next
    case (Some i)
    then have "n \<in> set ks" using dom by auto
    with Some have "with_receiver_tls name i \<in> set ?is"
      by (force simp: migrated_list_def)
    with names d have "Inputs_Map ?is (input_Name (with_receiver_tls name i)) = Some (with_receiver_tls name i)"
      by (intro inputs.to_map_distinct) simp_all
    with Some migrated_inputs_name [OF Some] show ?thesis by simp
  qed
qed

lemma set_migrated_list:
  "range_order (migrated_inputs spec) ks \<Longrightarrow> set (migrated_list spec ks) = ran (migrated_inputs spec)"
  by (force simp: migrated_list_def range_order_def ran_def image_iff)

lemma initialize_returns:
  assumes "range_order (migrated_inputs (clf_Spec f)) ks"
  shows "returns (initialize_forwarder ks f opts) \<longleftrightarrow>
    (\<forall>i\<in>ran (migrated_inputs (clf_Spec f)). receiver_present i)
    \<and> (\<forall>o'\<in>set (spec_Outputs (clf_Spec f)). lokistack_present o')"
proof -
  have outs: "spec_Outputs (clf_Spec (fst (projr (MigrateInputs ks (Resources f) opts)))) = spec_Outputs (clf_Spec f)"
    if "returns (MigrateInputs ks (Resources f) opts)"
    using that by (auto simp: MigrateInputs_def Let_def returns_go_bind elim!: returnsE split: prod.splits)
  with MigrateInputs_returns_iff [of "Resources f" ks opts] assms set_migrated_list [OF assms]
  show ?thesis
    by (auto simp: initialize_forwarder_def returns_go_bind InitOutputs_returns split_beta)
qed

section \<open>Properties\<close>

text \<open>
  C12. Initialization returns exactly when no receiver input lacks its receiver block and no
  LokiStack output lacks its LokiStack block; otherwise the operator follows a nil pointer. Inputs
  replaced by a reserved definition do not count.
\<close>

theorem initialize_returns_iff:
  assumes "range_order (migrated_inputs (clf_Spec f)) ks"
  shows "returns (initialize_forwarder ks f opts) \<longleftrightarrow>
    (\<forall>i\<in>ran (migrated_inputs (clf_Spec f)). input_Type i = InputTypeReceiver \<longrightarrow> input_Receiver i \<noteq> None)
    \<and> (\<forall>o'\<in>set (spec_Outputs (clf_Spec f)).
          output_Type o' = OutputTypeLokiStack \<longrightarrow> output_LokiStack o' \<noteq> None)"
  using initialize_returns [OF assms] by (simp only: receiver_present_def lokistack_present_def)

text \<open>
  C9. After initialization the input names are unique, and a name resolves to the reserved
  definition when it is a reserved name that a pipeline references, whatever input of that name the
  user wrote, and otherwise to the user's last input of that name; receivers without TLS settings
  get the generated ones.
\<close>

theorem initialized_inputs_resolve:
  assumes "range_order (migrated_inputs (clf_Spec f)) ks"
    and "initialize_forwarder ks f opts = Inr (f', opts')"
  shows "distinct (Inputs_Names (spec_Inputs (clf_Spec f'))) \<and>
    Inputs_Map (spec_Inputs (clf_Spec f')) n =
      map_option (with_receiver_tls (clf_Name f))
        (if n \<in> pipeline_refs (clf_Spec f) \<and> reserved_input n \<noteq> None then reserved_input n
         else Inputs_Map (spec_Inputs (clf_Spec f)) n)"
proof
  show "distinct (Inputs_Names (spec_Inputs (clf_Spec f')))"
    using names_migrated_list [OF assms(1)] assms(1)
    by (simp add: initialize_cases(1) [OF assms] Inputs_Names_def o_def range_order_def)
  show "Inputs_Map (spec_Inputs (clf_Spec f')) n = map_option (with_receiver_tls (clf_Name f))
        (if n \<in> pipeline_refs (clf_Spec f) \<and> reserved_input n \<noteq> None then reserved_input n
         else Inputs_Map (spec_Inputs (clf_Spec f)) n)"
    by (simp add: initialize_cases(1) [OF assms] Inputs_Map_migrated [OF assms(1)]
        migrated_inputs_conv del: not_None_eq)
qed

text \<open>A forwarder on which no initializer has anything left to do.\<close>

definition settled :: "ClusterLogForwarder \<Rightarrow> bool" where
  "settled f \<longleftrightarrow>
     distinct (Inputs_Names (spec_Inputs (clf_Spec f)))
     \<and> migrated_inputs (clf_Spec f) = Inputs_Map (spec_Inputs (clf_Spec f))
     \<and> (\<forall>i\<in>set (spec_Inputs (clf_Spec f)). receiver_present i \<and> \<not> needs_receiver_tls i)
     \<and> Resources f = f
     \<and> go_mapM init_output (spec_Outputs (clf_Spec f)) = Inr (spec_Outputs (clf_Spec f))"

lemma initialize_settles:
  assumes ks: "range_order (migrated_inputs (clf_Spec f)) ks"
    and run: "initialize_forwarder ks f opts = Inr (f', opts')"
  shows "settled f'"
proof -
  note init = initialize_cases [OF ks run]
  have "distinct (Inputs_Names (spec_Inputs (clf_Spec f')))"
    using names_migrated_list [OF ks] ks by (simp add: init(1) Inputs_Names_def o_def range_order_def)
  moreover have "migrated_inputs (clf_Spec f') n = Inputs_Map (spec_Inputs (clf_Spec f')) n" for n
    unfolding init(1) Inputs_Map_migrated [OF ks] migrated_inputs_conv [of "clf_Spec f'"]
    by (auto simp: init(1,5) pipeline_refs_def migrated_inputs_conv with_receiver_tls_fixed
        reserved_input_no_receiver Inputs_Map_migrated [OF ks])
  moreover have "\<forall>i\<in>set (spec_Inputs (clf_Spec f')). receiver_present i \<and> \<not> needs_receiver_tls i"
    using init(3) by (auto simp: init(1) with_receiver_tls_done receiver_present_with_receiver_tls)
  moreover have "Resources f' = f'"
    using Resources_collector [of f] init(7) Resources_fixed by metis
  moreover have "go_mapM init_output (spec_Outputs (clf_Spec f')) = Inr (spec_Outputs (clf_Spec f'))"
    using init(4) by (auto simp: go_mapM_Inr_iff list_all2_conv_all_nth intro: init_output_idem)
  ultimately show ?thesis by (auto simp: settled_def)
qed

lemma settled_order_perm:
  assumes "settled f" "range_order (migrated_inputs (clf_Spec f)) ks"
  shows "mset (migrated_list (clf_Spec f) ks) = mset (spec_Inputs (clf_Spec f))"
proof -
  let ?is = "spec_Inputs (clf_Spec f)"
  have d: "distinct (Inputs_Names ?is)" and same: "migrated_inputs (clf_Spec f) = Inputs_Map ?is"
    using assms(1) by (simp_all add: settled_def)
  have "set ks = set (Inputs_Names ?is)"
    using assms(2) same by (simp add: range_order_def inputs.dom_to_map)
  then have "mset ks = mset (Inputs_Names ?is)"
    using assms(2) d by (simp add: range_order_def set_eq_iff_mset_eq_distinct [symmetric])
  then have "mset (map (\<lambda>k. the (Inputs_Map ?is k)) ks)
      = mset (map (\<lambda>k. the (Inputs_Map ?is k)) (Inputs_Names ?is))"
    by (simp only: mset_map)
  also have "map (\<lambda>k. the (Inputs_Map ?is k)) (Inputs_Names ?is) = ?is"
    using inputs.to_map_distinct [OF d] by (auto simp: inputs.names_eq intro: map_idI)
  finally show ?thesis by (simp add: migrated_list_def same)
qed

lemma initialize_settled:
  assumes "settled f" and ks: "range_order (migrated_inputs (clf_Spec f)) ks"
  shows "initialize_forwarder ks f opts =
    Inr (f\<lparr>clf_Spec := (clf_Spec f)\<lparr>spec_Inputs := migrated_list (clf_Spec f) ks\<rparr>\<rparr>, opts)"
proof -
  have fixed: "\<forall>i\<in>set (migrated_list (clf_Spec f) ks). receiver_present i \<and> \<not> needs_receiver_tls i"
    using assms(1) mset_eq_setD [OF settled_order_perm [OF assms]] by (auto simp: settled_def)
  then have keep: "map (with_receiver_tls (clf_Name f)) (migrated_list (clf_Spec f) ks) = migrated_list (clf_Spec f) ks"
    and none: "filter needs_receiver_tls (migrated_list (clf_Spec f) ks) = []"
    by (auto simp: with_receiver_tls_fixed filter_empty_conv intro: map_idI)
  from MigrateInputs_run [OF ks, of opts] fixed
  have "MigrateInputs ks f opts =
      Inr (f\<lparr>clf_Spec := (clf_Spec f)\<lparr>spec_Inputs := migrated_list (clf_Spec f) ks\<rparr>\<rparr>, opts)"
    by (simp add: keep none add_secrets_def)
  then show ?thesis using assms(1) by (simp add: settled_def initialize_forwarder_def InitOutputs_def)
qed

text \<open>
  C10. Initialization is idempotent: running it again on its own result, whatever order the second
  run ranges over the inputs in, generates no further secret and changes nothing but the order of
  the inputs.
\<close>

theorem initialize_idempotent:
  assumes ks: "range_order (migrated_inputs (clf_Spec f)) ks"
    and run: "initialize_forwarder ks f opts = Inr (f', opts')"
    and ks': "range_order (migrated_inputs (clf_Spec f')) ks'"
  shows "initialize_forwarder ks' f' opts' =
      Inr (f'\<lparr>clf_Spec := (clf_Spec f')\<lparr>spec_Inputs := migrated_list (clf_Spec f') ks'\<rparr>\<rparr>, opts')
    \<and> mset (migrated_list (clf_Spec f') ks') = mset (spec_Inputs (clf_Spec f'))"
  using initialize_settled [OF initialize_settles [OF ks run] ks']
    settled_order_perm [OF initialize_settles [OF ks run] ks'] by simp

lemma receiver_secret_resolves:
  "\<forall>r\<in>set (ValueReferences (receiver_tls_spec (receiver_secret_name name i))).
     vref_SecretName r = secret_Name (receiver_secret name i)
     \<and> secret_Data (receiver_secret name i) (vref_Key r) = Some []"
  by (simp add: ValueReferences_def receiver_tls_spec_def receiver_secret_def vref_of_secret_def
      ClientCertKey_def ClientPrivateKey_def)

lemma generated_secret_recorded:
  assumes ks: "range_order (migrated_inputs (clf_Spec f)) ks"
    and run: "initialize_forwarder ks f opts = Inr (f', opts')"
    and i: "migrated_inputs (clf_Spec f) n = Some i" "needs_receiver_tls i"
  shows "\<exists>new. opts' = Some ((case opts of None \<Rightarrow> [] | Some old \<Rightarrow> old) @ new)
           \<and> receiver_secret (clf_Name f) i \<in> set new"
proof -
  let ?new = "map (receiver_secret (clf_Name f)) (filter needs_receiver_tls (migrated_list (clf_Spec f) ks))"
  have "i \<in> set (migrated_list (clf_Spec f) ks)"
    using ks i(1) by (force simp: migrated_list_def range_order_def)
  then have "receiver_secret (clf_Name f) i \<in> set ?new" using i(2) by simp
  moreover from this have "opts' = Some ((case opts of None \<Rightarrow> [] | Some old \<Rightarrow> old) @ ?new)"
    using initialize_cases(2) [OF ks run]
    by (auto simp: add_secrets_def Update_GeneratedSecrets_def filter_empty_conv split: option.splits)
  ultimately show ?thesis by blast
qed

lemma generated_receiver_input:
  assumes ks: "range_order (migrated_inputs (clf_Spec f)) ks"
    and run: "initialize_forwarder ks f opts = Inr (f', opts')"
    and i: "migrated_inputs (clf_Spec f) n = Some i" "needs_receiver_tls i"
  shows "\<exists>r. input_Receiver i = Some r \<and> Inputs_Map (spec_Inputs (clf_Spec f')) n =
    Some (i\<lparr>input_Receiver := Some (r\<lparr>recv_TLS := Some (receiver_tls_spec (receiver_secret_name (clf_Name f) i))\<rparr>)\<rparr>)"
proof -
  have "i \<in> set (migrated_list (clf_Spec f) ks)"
    using ks i(1) by (force simp: migrated_list_def range_order_def)
  then have "receiver_present i" using initialize_cases(3) [OF ks run] by blast
  then obtain r where "input_Receiver i = Some r"
    using i(2) by (auto simp: receiver_present_def needs_receiver_tls_def)
  with i show ?thesis
    by (simp add: initialize_cases(1) [OF ks run] Inputs_Map_migrated [OF ks] with_receiver_tls_def)
qed

text \<open>
  C11. A receiver input without TLS settings is given some: a secret named after the forwarder and
  the input is added behind the secrets already recorded, and every reference in the input's new
  settings names that secret and a key it holds.
\<close>

theorem generated_secrets_resolve:
  assumes ks: "range_order (migrated_inputs (clf_Spec f)) ks"
    and run: "initialize_forwarder ks f opts = Inr (f', opts')"
    and i: "migrated_inputs (clf_Spec f) n = Some i" "input_Type i = InputTypeReceiver"
      "receiver_tls i = None"
  shows "(\<exists>new. opts' = Some ((case opts of None \<Rightarrow> [] | Some old \<Rightarrow> old) @ new)
            \<and> receiver_secret (clf_Name f) i \<in> set new)
    \<and> secret_Name (receiver_secret (clf_Name f) i) = clf_Name f @ ''-'' @ n
    \<and> Option.bind (Inputs_Map (spec_Inputs (clf_Spec f')) n) receiver_tls
        = Some (receiver_tls_spec (receiver_secret_name (clf_Name f) i))
    \<and> (\<forall>r\<in>set (ValueReferences (receiver_tls_spec (receiver_secret_name (clf_Name f) i))).
          vref_SecretName r = secret_Name (receiver_secret (clf_Name f) i)
          \<and> secret_Data (receiver_secret (clf_Name f) i) (vref_Key r) = Some [])"
proof (intro conjI)
  have need: "needs_receiver_tls i" using i by (simp add: needs_receiver_tls_def receiver_tls_def)
  show "\<exists>new. opts' = Some ((case opts of None \<Rightarrow> [] | Some old \<Rightarrow> old) @ new)
            \<and> receiver_secret (clf_Name f) i \<in> set new"
    by (rule generated_secret_recorded [OF ks run i(1) need])
  show "secret_Name (receiver_secret (clf_Name f) i) = clf_Name f @ ''-'' @ n"
    using migrated_inputs_name [OF i(1)] by (simp add: receiver_secret_def receiver_secret_name_def)
  show "Option.bind (Inputs_Map (spec_Inputs (clf_Spec f')) n) receiver_tls
        = Some (receiver_tls_spec (receiver_secret_name (clf_Name f) i))"
    using generated_receiver_input [OF ks run i(1) need] by (auto simp: receiver_tls_def)
qed (rule receiver_secret_resolves)

section \<open>A concrete forwarder\<close>

text \<open>
  A forwarder with an HTTP receiver that has no TLS settings, a user input under the reserved name
  \<open>application\<close>, which a pipeline references, and a LokiStack output.
\<close>

definition sample_receiver :: InputSpec where
  "sample_receiver = InputSpec_zero\<lparr>input_Name := ''in'', input_Type := InputTypeReceiver,
     input_Receiver := Some \<lparr>recv_Type = ReceiverTypeHTTP, recv_TLS = None, recv_Port = 8443,
       recv_HTTP = Some \<lparr>httprecv_Format = HTTPReceiverFormatKubeAPIAudit\<rparr>\<rparr>\<rparr>"

definition sample_spec :: ClusterLogForwarderSpec where
  "sample_spec =
     \<lparr>spec_ManagementState = ManagementStateManaged, spec_Collector = None,
      spec_Inputs = [sample_receiver, InputSpec_zero\<lparr>input_Name := ''application''\<rparr>],
      spec_Outputs = [OutputSpec_zero\<lparr>output_Name := ''loki'', output_Type := OutputTypeLokiStack,
        output_LokiStack := Some \<lparr>lokistack_Authentication = None,
          lokistack_Target = \<lparr>lstarget_Namespace = ''ns'', lstarget_Name = ''ls''\<rparr>,
          lokistack_Tuning = None, lokistack_LabelKeys = None, lokistack_DataModel = LokiStackDataModelNone\<rparr>\<rparr>],
      spec_Filters = [],
      spec_Pipelines = [\<lparr>pipeline_Name = ''p'', pipeline_InputRefs = [''application'', ''in''],
        pipeline_OutputRefs = [''loki''], pipeline_FilterRefs = []\<rparr>],
      spec_ServiceAccount = \<lparr>sa_Name = ''collector''\<rparr>\<rparr>"

definition sample_forwarder :: ClusterLogForwarder where
  "sample_forwarder =
     \<lparr>clf_Name = ''fwd'', clf_Namespace = ''ns'', clf_Annotations = Map.empty,
      clf_DeletionTimestamp = None, clf_Spec = sample_spec,
      clf_Status = \<lparr>status_Conditions = [], status_InputConditions = [], status_OutputConditions = [],
        status_FilterConditions = [], status_PipelineConditions = []\<rparr>\<rparr>"

lemma sample_migrated:
  "migrated_inputs (clf_Spec sample_forwarder) =
     [''in'' \<mapsto> sample_receiver, ''application'' \<mapsto> application_input]"
  by (rule ext) (simp add: migrated_inputs_conv sample_forwarder_def sample_spec_def pipeline_refs_def
      reserved_input_def Inputs_Map_def sample_receiver_def)

lemma sample_order: "range_order (migrated_inputs (clf_Spec sample_forwarder)) [''in'', ''application'']"
  by (auto simp: sample_migrated range_order_def)

definition sample_initialized :: ClusterLogForwarder where
  "sample_initialized = fst (projr (initialize_forwarder [''in'', ''application''] sample_forwarder None))"

definition sample_generated :: gen_options where
  "sample_generated = snd (projr (initialize_forwarder [''in'', ''application''] sample_forwarder None))"

lemma sample_blocks:
  "\<forall>i\<in>ran (migrated_inputs (clf_Spec sample_forwarder)).
     input_Type i = InputTypeReceiver \<longrightarrow> input_Receiver i \<noteq> None"
  "\<forall>o'\<in>set (spec_Outputs (clf_Spec sample_forwarder)).
     output_Type o' = OutputTypeLokiStack \<longrightarrow> output_LokiStack o' \<noteq> None"
  by (simp add: sample_migrated ran_map_upd sample_receiver_def application_input_def)
    (simp add: sample_forwarder_def sample_spec_def)

lemma sample_run:
  "initialize_forwarder [''in'', ''application''] sample_forwarder None
     = Inr (sample_initialized, sample_generated)"
proof -
  have "returns (initialize_forwarder [''in'', ''application''] sample_forwarder None)"
    using sample_blocks
    by (simp only: initialize_returns [OF sample_order] receiver_present_def lokistack_present_def)
  then show ?thesis by (auto simp: sample_initialized_def sample_generated_def elim: returnsE)
qed

theorem initialize_returns_iff_witness:
  "returns (initialize_forwarder [''in'', ''application''] sample_forwarder None)"
  using initialize_returns_iff [OF sample_order, of None] sample_blocks by blast

theorem initialized_inputs_resolve_witness:
  "Inputs_Map (spec_Inputs (clf_Spec sample_initialized)) ''application'' = Some application_input"
  using initialized_inputs_resolve [OF sample_order sample_run, of "''application''"]
  by (simp add: sample_forwarder_def sample_spec_def pipeline_refs_def reserved_input_def
      with_receiver_tls_def needs_receiver_tls_def application_input_def)

lemma sample_names: "set (Inputs_Names (spec_Inputs (clf_Spec sample_initialized))) = {''in'', ''application''}"
  using initialize_cases(1) [OF sample_order sample_run]
  by (simp add: Inputs_Names_def migrated_list_def sample_migrated sample_receiver_def
      application_input_def)

lemma sample_order':
  "range_order (migrated_inputs (clf_Spec sample_initialized)) [''application'', ''in'']"
  using initialize_settles [OF sample_order sample_run] sample_names
  by (simp add: settled_def range_order_def inputs.dom_to_map insert_commute)

theorem initialize_idempotent_witness:
  "initialize_forwarder [''application'', ''in''] sample_initialized sample_generated =
     Inr (sample_initialized\<lparr>clf_Spec := (clf_Spec sample_initialized)\<lparr>spec_Inputs :=
       migrated_list (clf_Spec sample_initialized) [''application'', ''in'']\<rparr>\<rparr>, sample_generated)"
  using initialize_idempotent [OF sample_order sample_run sample_order'] by (rule conjunct1)

theorem generated_secrets_resolve_witness:
  "Option.bind (Inputs_Map (spec_Inputs (clf_Spec sample_initialized)) ''in'') receiver_tls
     = Some (receiver_tls_spec ''fwd-in'')"
proof -
  have "migrated_inputs (clf_Spec sample_forwarder) ''in'' = Some sample_receiver"
    by (simp add: sample_migrated)
  then show ?thesis
    using generated_secrets_resolve [OF sample_order sample_run, of "''in''" sample_receiver]
    by (simp add: sample_receiver_def receiver_tls_def sample_forwarder_def receiver_secret_name_def)
qed

end
