(* ===== verification/Cluster_Rbac.thy ===== *)
theory Cluster_Rbac
  imports Initialize
begin

text \<open>
  The names of the objects the operator creates (\<open>internal/factory\<close>) and the role based access
  control it sets up for the collector (\<open>internal/auth/rbac.go\<close>, \<open>internal/reconcile/rbac.go\<close>).
  The state is the part of the API server's store these functions read and write. The argument
  \<open>fails\<close> decides for every API call whether it is refused, and with which error text; a call that
  is refused leaves the store as it is. The store is not changed by others in between.
\<close>

section \<open>factory/resource\_names.go\<close>

record ForwarderResourceNames =
  CommonName :: string
  SecretMetrics :: string
  ConfigMap_Name :: string
  MetadataReaderClusterRoleBinding :: string
  MetricsAuthClusterRoleBinding :: string
  CaTrustBundle :: string
  ServiceAccount_Name :: string
  InternalLogStoreSecret :: string
  ServiceAccountTokenSecret :: string
  ForwarderName :: string
  Secrets_Name :: string
  AwsCredentialsFile :: string

definition AwsCredentialsConfigMapName :: string where
  "AwsCredentialsConfigMapName = ''aws-creds''"

definition ResourceNames :: "ClusterLogForwarder \<Rightarrow> ForwarderResourceNames" where
  "ResourceNames clf =
     (let resBaseName = clf_Name clf; sa = sa_Name (spec_ServiceAccount (clf_Spec clf))
      in \<lparr>CommonName = resBaseName,
          SecretMetrics = resBaseName @ ''-metrics'',
          ConfigMap_Name = resBaseName @ ''-config'',
          MetadataReaderClusterRoleBinding =
            ''cluster-logging-'' @ clf_Namespace clf @ ''-'' @ resBaseName @ ''-metadata-reader'',
          MetricsAuthClusterRoleBinding =
            ''cluster-logging-'' @ clf_Namespace clf @ ''-'' @ resBaseName @ ''-metrics-auth'',
          CaTrustBundle = resBaseName @ ''-trustbundle'',
          ServiceAccount_Name = sa,
          InternalLogStoreSecret = sa @ ''-default'',
          ServiceAccountTokenSecret = sa @ ''-token'',
          ForwarderName = clf_Name clf,
          Secrets_Name = resBaseName @ ''-secrets'',
          AwsCredentialsFile = resBaseName @ ''-'' @ AwsCredentialsConfigMapName\<rparr>)"

definition DaemonSetName :: "ForwarderResourceNames \<Rightarrow> string" where
  "DaemonSetName f = CommonName f"

definition GenerateInputServiceName :: "ForwarderResourceNames \<Rightarrow> string \<Rightarrow> string" where
  "GenerateInputServiceName f serviceName = CommonName f @ ''-'' @ serviceName"

section \<open>Objects and store\<close>

record OwnerReference =
  owner_APIVersion :: string
  owner_Kind :: string
  owner_Name :: string
  owner_UID :: string
  owner_Controller :: bool

record RoleRef =
  roleref_APIGroup :: string
  roleref_Kind :: string
  roleref_Name :: string

record Subject =
  subject_Kind :: string
  subject_Name :: string
  subject_Namespace :: string

record RbacRule =
  rule_APIGroups :: "string list"
  rule_ResourceNames :: "string list"
  rule_Resources :: "string list"
  rule_Verbs :: "string list"

record ClusterRoleBinding =
  crb_Name :: string
  crb_RoleRef :: RoleRef
  crb_Subjects :: "Subject list"

record Role =
  role_Namespace :: string
  role_Name :: string
  role_Rules :: "RbacRule list"
  role_OwnerReferences :: "OwnerReference list"

record RoleBinding =
  rb_Namespace :: string
  rb_Name :: string
  rb_RoleRef :: RoleRef
  rb_Subjects :: "Subject list"
  rb_OwnerReferences :: "OwnerReference list"

record rbac_store =
  st_ClusterRoleBindings :: "string \<rightharpoonup> ClusterRoleBinding"
  st_Roles :: "string \<times> string \<rightharpoonup> Role"
  st_RoleBindings :: "string \<times> string \<rightharpoonup> RoleBinding"

datatype rbac_kind = KindClusterRoleBinding | KindRole | KindRoleBinding

datatype rbac_call =
    Get rbac_kind string string
  | Create rbac_kind string string
  | Update rbac_kind string string
  | Delete rbac_kind string string
  | List_RoleBindings string

type_synonym rbac_api = "rbac_call \<Rightarrow> string option"

type_synonym rbac_result = "rbac_store \<times> string option"

text \<open>The next step runs when the one before returned no error.\<close>

definition unless_error :: "rbac_result \<Rightarrow> (rbac_store \<Rightarrow> rbac_result) \<Rightarrow> rbac_result" where
  "unless_error r k = (case r of (s, Some e) \<Rightarrow> (s, Some e) | (s, None) \<Rightarrow> k s)"

definition do_call :: "rbac_api \<Rightarrow> rbac_call \<Rightarrow> (rbac_store \<Rightarrow> rbac_store) \<Rightarrow> rbac_store \<Rightarrow> rbac_result" where
  "do_call fails c f s = (case fails c of Some e \<Rightarrow> (s, Some e) | None \<Rightarrow> (f s, None))"

definition put_crb :: "ClusterRoleBinding \<Rightarrow> rbac_store \<Rightarrow> rbac_store" where
  "put_crb b s = s\<lparr>st_ClusterRoleBindings := (st_ClusterRoleBindings s)(crb_Name b \<mapsto> b)\<rparr>"

definition drop_crb :: "string \<Rightarrow> rbac_store \<Rightarrow> rbac_store" where
  "drop_crb n s = s\<lparr>st_ClusterRoleBindings := (st_ClusterRoleBindings s)(n := None)\<rparr>"

definition put_role :: "Role \<Rightarrow> rbac_store \<Rightarrow> rbac_store" where
  "put_role r s = s\<lparr>st_Roles := (st_Roles s)((role_Namespace r, role_Name r) \<mapsto> r)\<rparr>"

definition drop_role :: "string \<Rightarrow> string \<Rightarrow> rbac_store \<Rightarrow> rbac_store" where
  "drop_role ns n s = s\<lparr>st_Roles := (st_Roles s)((ns, n) := None)\<rparr>"

definition put_rb :: "RoleBinding \<Rightarrow> rbac_store \<Rightarrow> rbac_store" where
  "put_rb b s = s\<lparr>st_RoleBindings := (st_RoleBindings s)((rb_Namespace b, rb_Name b) \<mapsto> b)\<rparr>"

definition drop_rb :: "string \<Rightarrow> string \<Rightarrow> rbac_store \<Rightarrow> rbac_store" where
  "drop_rb ns n s = s\<lparr>st_RoleBindings := (st_RoleBindings s)((ns, n) := None)\<rparr>"

section \<open>reconcile/rbac.go\<close>

definition reconcile_ClusterRoleBinding ::
  "rbac_api \<Rightarrow> string \<Rightarrow> ClusterRoleBinding \<Rightarrow> rbac_store \<Rightarrow> rbac_result" where
  "reconcile_ClusterRoleBinding fails name desired s =
     (case fails (Get KindClusterRoleBinding [] name) of
        Some e \<Rightarrow> (s, Some e)
      | None \<Rightarrow>
          (case st_ClusterRoleBindings s name of
             None \<Rightarrow> do_call fails (Create KindClusterRoleBinding [] (crb_Name desired)) (put_crb desired) s
           | Some existing \<Rightarrow>
               if crb_RoleRef existing \<noteq> crb_RoleRef desired
               then unless_error
                 (do_call fails (Delete KindClusterRoleBinding [] name) (drop_crb name) s)
                 (do_call fails (Create KindClusterRoleBinding [] (crb_Name desired)) (put_crb desired))
               else do_call fails (Update KindClusterRoleBinding [] name)
                      (put_crb (existing\<lparr>crb_Subjects := crb_Subjects desired\<rparr>)) s))"

definition reconcile_RoleBinding :: "rbac_api \<Rightarrow> RoleBinding \<Rightarrow> rbac_store \<Rightarrow> rbac_result" where
  "reconcile_RoleBinding fails desired s =
     (let ns = rb_Namespace desired; n = rb_Name desired
      in case fails (Get KindRoleBinding ns n) of
        Some e \<Rightarrow> (s, Some e)
      | None \<Rightarrow>
          (case st_RoleBindings s (ns, n) of
             None \<Rightarrow> do_call fails (Create KindRoleBinding ns n) (put_rb desired) s
           | Some existing \<Rightarrow>
               if rb_RoleRef existing \<noteq> rb_RoleRef desired
               then unless_error
                 (do_call fails (Delete KindRoleBinding ns n) (drop_rb ns n) s)
                 (do_call fails (Create KindRoleBinding ns n) (put_rb desired))
               else do_call fails (Update KindRoleBinding ns n)
                      (put_rb (existing\<lparr>rb_Subjects := rb_Subjects desired,
                         rb_OwnerReferences := rb_OwnerReferences desired\<rparr>)) s))"

text \<open>
  \<open>Role\<close> goes through \<open>controllerutil.CreateOrUpdate\<close>, which creates the object when it is not
  there and updates it when the mutation changes it.
\<close>

definition reconcile_Role :: "rbac_api \<Rightarrow> Role \<Rightarrow> rbac_store \<Rightarrow> rbac_result" where
  "reconcile_Role fails desired s =
     (let ns = role_Namespace desired; n = role_Name desired
      in case fails (Get KindRole ns n) of
        Some e \<Rightarrow> (s, Some e)
      | None \<Rightarrow>
          (case st_Roles s (ns, n) of
             None \<Rightarrow> do_call fails (Create KindRole ns n) (put_role desired) s
           | Some existing \<Rightarrow>
               (let role = existing\<lparr>role_Rules := role_Rules desired,
                      role_OwnerReferences := role_OwnerReferences desired\<rparr>
                in if role = existing then (s, None)
                   else do_call fails (Update KindRole ns n) (put_role role) s)))"

text \<open>Deleting an object that is not there is no error.\<close>

definition DeleteClusterRoleBinding :: "rbac_api \<Rightarrow> string \<Rightarrow> rbac_store \<Rightarrow> rbac_result" where
  "DeleteClusterRoleBinding fails name s =
     do_call fails (Delete KindClusterRoleBinding [] name) (drop_crb name) s"

definition DeleteRole :: "rbac_api \<Rightarrow> string \<Rightarrow> string \<Rightarrow> rbac_store \<Rightarrow> rbac_result" where
  "DeleteRole fails namespace name s =
     do_call fails (Delete KindRole namespace name) (drop_role namespace name) s"

section \<open>auth/rbac.go\<close>

definition rbac_GroupName :: string where "rbac_GroupName = ''rbac.authorization.k8s.io''"

definition sccName :: string where "sccName = ''logging-scc''"

definition systemAuthDelegatorClusterRoleName :: string where
  "systemAuthDelegatorClusterRoleName = ''system:auth-delegator''"

definition service_account_subject :: "string \<Rightarrow> string \<Rightarrow> Subject" where
  "service_account_subject namespace name =
     \<lparr>subject_Kind = ''ServiceAccount'', subject_Name = name, subject_Namespace = namespace\<rparr>"

definition NewMetricsAuthClusterRoleBinding :: "string \<Rightarrow> string \<Rightarrow> string \<Rightarrow> ClusterRoleBinding" where
  "NewMetricsAuthClusterRoleBinding name saNamespace saName =
     \<lparr>crb_Name = name,
      crb_RoleRef = \<lparr>roleref_APIGroup = rbac_GroupName, roleref_Kind = ''ClusterRole'',
        roleref_Name = systemAuthDelegatorClusterRoleName\<rparr>,
      crb_Subjects = [service_account_subject saNamespace saName]\<rparr>"

definition NewMetaDataReaderClusterRoleBinding :: "string \<Rightarrow> string \<Rightarrow> ClusterRoleBinding" where
  "NewMetaDataReaderClusterRoleBinding saNamespace saName =
     \<lparr>crb_Name = ''metadata-reader-'' @ saNamespace @ ''-'' @ saName,
      crb_RoleRef = \<lparr>roleref_APIGroup = rbac_GroupName, roleref_Kind = ''ClusterRole'',
        roleref_Name = ''metadata-reader''\<rparr>,
      crb_Subjects = [service_account_subject saNamespace saName]\<rparr>"

definition NewServiceAccountSCCRole :: "string \<Rightarrow> string \<Rightarrow> string \<Rightarrow> OwnerReference \<Rightarrow> Role" where
  "NewServiceAccountSCCRole namespace name saName owner =
     \<lparr>role_Namespace = namespace, role_Name = name @ ''-'' @ saName @ ''-scc'',
      role_Rules = [\<lparr>rule_APIGroups = [''security.openshift.io''], rule_ResourceNames = [sccName],
        rule_Resources = [''securitycontextconstraints''], rule_Verbs = [''use'']\<rparr>],
      role_OwnerReferences = [owner]\<rparr>"

definition NewServiceAccountSCCRoleBinding ::
  "string \<Rightarrow> string \<Rightarrow> string \<Rightarrow> OwnerReference \<Rightarrow> RoleBinding" where
  "NewServiceAccountSCCRoleBinding namespace name saName owner =
     \<lparr>rb_Namespace = namespace, rb_Name = name @ ''-scc'',
      rb_RoleRef = \<lparr>roleref_APIGroup = rbac_GroupName, roleref_Kind = ''Role'',
        roleref_Name = name @ ''-'' @ saName @ ''-scc''\<rparr>,
      rb_Subjects = [service_account_subject namespace saName],
      rb_OwnerReferences = [owner]\<rparr>"

text \<open>The role bindings of a namespace that refer to a role of the given name.\<close>

definition role_referenced :: "rbac_store \<Rightarrow> string \<Rightarrow> string \<Rightarrow> bool" where
  "role_referenced s namespace roleName \<longleftrightarrow>
     (\<exists>n b. st_RoleBindings s (namespace, n) = Some b \<and> roleref_Name (rb_RoleRef b) = roleName)"

definition ReconcileRBAC ::
  "rbac_api \<Rightarrow> string \<Rightarrow> string \<Rightarrow> string \<Rightarrow> OwnerReference \<Rightarrow> rbac_store \<Rightarrow> rbac_result" where
  "ReconcileRBAC fails rbacName saNamespace saName owner s =
     (let desiredCRB = NewMetaDataReaderClusterRoleBinding saNamespace saName;
          oldRoleName = saName @ ''-scc''
      in unless_error (reconcile_ClusterRoleBinding fails (crb_Name desiredCRB) desiredCRB s)
      (\<lambda>s. unless_error (reconcile_Role fails (NewServiceAccountSCCRole saNamespace rbacName saName owner) s)
      (\<lambda>s. unless_error
             (reconcile_RoleBinding fails (NewServiceAccountSCCRoleBinding saNamespace rbacName saName owner) s)
      (\<lambda>s. unless_error (do_call fails (List_RoleBindings saNamespace) id s)
      (\<lambda>s. if \<not> role_referenced s saNamespace oldRoleName
           then DeleteRole fails saNamespace oldRoleName s else (s, None))))))"

definition ReconcileMetricsAuthRBAC ::
  "rbac_api \<Rightarrow> string \<Rightarrow> string \<Rightarrow> string \<Rightarrow> rbac_store \<Rightarrow> rbac_result" where
  "ReconcileMetricsAuthRBAC fails name saNamespace saName s =
     reconcile_ClusterRoleBinding fails name (NewMetricsAuthClusterRoleBinding name saNamespace saName) s"

definition DeleteMetricsAuthRBAC :: "rbac_api \<Rightarrow> string \<Rightarrow> rbac_store \<Rightarrow> rbac_result" where
  "DeleteMetricsAuthRBAC fails name s = DeleteClusterRoleBinding fails name s"

section \<open>What reconciling an object achieves\<close>

text \<open>
  The contract of a function that brings one object into its desired state: when it returns no
  error the object is the desired one and nothing else has changed; when it returns an error the
  object is as before or gone. A client that retries on error therefore ends where a single
  successful run ends, whatever failed before.
\<close>

locale object_reconciler =
  fixes run :: "'f \<Rightarrow> 'd \<Rightarrow> 's \<Rightarrow> 's \<times> string option"
    and put :: "'d \<Rightarrow> 's \<Rightarrow> 's"
    and drop_it :: "'d \<Rightarrow> 's \<Rightarrow> 's"
    and good :: "'s \<Rightarrow> bool"
  assumes success: "good s \<Longrightarrow> run fails d s = (s', None) \<Longrightarrow> s' = put d s"
    and failure: "good s \<Longrightarrow> run fails d s = (s', Some e) \<Longrightarrow> s' = s \<or> s' = drop_it d s"
    and good_put: "good s \<Longrightarrow> good (put d s)"
    and good_drop: "good s \<Longrightarrow> good (drop_it d s)"
    and put_put: "put d (put d s) = put d s"
    and put_drop: "put d (drop_it d s) = put d s"
begin

lemma put_after: "good s \<Longrightarrow> run fails d s = (s', r) \<Longrightarrow> put d s' = put d s"
  using success [of s fails d s'] failure [of s fails d s'] by (cases r) (auto simp: put_put put_drop)

lemma good_after: "good s \<Longrightarrow> run fails d s = (s', r) \<Longrightarrow> good s'"
  using success [of s fails d s'] failure [of s fails d s'] good_put good_drop by (cases r) auto

lemma retry: "good s \<Longrightarrow> run fails d s = (s1, r) \<Longrightarrow> run fails' d s1 = (s2, None) \<Longrightarrow> s2 = put d s"
  using success [OF good_after, of s fails d s1 r fails' d s2] put_after [of s fails d s1 r] by simp

lemma again: "good s \<Longrightarrow> run fails d s = (s1, None) \<Longrightarrow> run fails' d s1 = (s2, None) \<Longrightarrow> s2 = s1"
  using retry success by metis

end

text \<open>Every object is stored under its own name.\<close>

definition keyed :: "rbac_store \<Rightarrow> bool" where
  "keyed s \<longleftrightarrow>
     (\<forall>n b. st_ClusterRoleBindings s n = Some b \<longrightarrow> crb_Name b = n)
     \<and> (\<forall>ns n r. st_Roles s (ns, n) = Some r \<longrightarrow> role_Namespace r = ns \<and> role_Name r = n)
     \<and> (\<forall>ns n b. st_RoleBindings s (ns, n) = Some b \<longrightarrow> rb_Namespace b = ns \<and> rb_Name b = n)"

lemma do_call_cases:
  "do_call fails c f s = (s', r) \<Longrightarrow> (r = None \<and> s' = f s) \<or> (r \<noteq> None \<and> s' = s)"
  by (auto simp: do_call_def split: option.splits)

lemmas store_defs = put_crb_def drop_crb_def put_role_def drop_role_def put_rb_def drop_rb_def

lemma put_drop_simps:
  "put_crb b (drop_crb (crb_Name b) s) = put_crb b s" "put_crb b (put_crb b s) = put_crb b s"
  "put_role r (drop_role (role_Namespace r) (role_Name r) s) = put_role r s" "put_role r (put_role r s) = put_role r s"
  "put_rb d (drop_rb (rb_Namespace d) (rb_Name d) s) = put_rb d s" "put_rb d (put_rb d s) = put_rb d s"
  by (simp_all add: store_defs)

lemma keyed_put [simp]:
  "keyed s \<Longrightarrow> keyed (put_crb b s)" "keyed s \<Longrightarrow> keyed (put_role r s)" "keyed s \<Longrightarrow> keyed (put_rb d s)"
  by (auto simp: keyed_def store_defs)

lemma keyed_drop [simp]:
  "keyed s \<Longrightarrow> keyed (drop_crb n s)" "keyed s \<Longrightarrow> keyed (drop_role ns n s)" "keyed s \<Longrightarrow> keyed (drop_rb ns n s)"
  by (auto simp: keyed_def store_defs)

lemma keyed_crb: "keyed s \<Longrightarrow> st_ClusterRoleBindings s n = Some b \<Longrightarrow> crb_Name b = n"
  by (simp add: keyed_def)

lemma keyed_role: "keyed s \<Longrightarrow> st_Roles s (ns, n) = Some r \<Longrightarrow> role_Namespace r = ns \<and> role_Name r = n"
  by (simp add: keyed_def)

lemma keyed_rb: "keyed s \<Longrightarrow> st_RoleBindings s (ns, n) = Some b \<Longrightarrow> rb_Namespace b = ns \<and> rb_Name b = n"
  by (simp add: keyed_def)

lemma crb_updated:
  "keyed s \<Longrightarrow> st_ClusterRoleBindings s (crb_Name d) = Some b \<Longrightarrow> crb_RoleRef b = crb_RoleRef d \<Longrightarrow>
   b\<lparr>crb_Subjects := crb_Subjects d\<rparr> = d"
  by (rule ClusterRoleBinding.equality) (auto dest: keyed_crb)

lemma rb_updated:
  "keyed s \<Longrightarrow> st_RoleBindings s (rb_Namespace d, rb_Name d) = Some b \<Longrightarrow> rb_RoleRef b = rb_RoleRef d \<Longrightarrow>
   b\<lparr>rb_Subjects := rb_Subjects d, rb_OwnerReferences := rb_OwnerReferences d\<rparr> = d"
  by (rule RoleBinding.equality) (auto dest: keyed_rb)

lemma role_updated:
  "keyed s \<Longrightarrow> st_Roles s (role_Namespace d, role_Name d) = Some b \<Longrightarrow>
   b\<lparr>role_Rules := role_Rules d, role_OwnerReferences := role_OwnerReferences d\<rparr> = d"
  by (rule Role.equality) (auto dest: keyed_role)

lemma reconcile_crb_cases:
  assumes "keyed s" "reconcile_ClusterRoleBinding fails (crb_Name d) d s = (s', r)"
  shows "(r = None \<and> s' = put_crb d s) \<or> (r \<noteq> None \<and> (s' = s \<or> s' = drop_crb (crb_Name d) s))"
  using assms crb_updated [OF assms(1), of d]
  by (auto simp: reconcile_ClusterRoleBinding_def unless_error_def do_call_def put_drop_simps
      split: option.splits if_splits)

lemma reconcile_rb_cases:
  assumes "keyed s" "reconcile_RoleBinding fails d s = (s', r)"
  shows "(r = None \<and> s' = put_rb d s) \<or> (r \<noteq> None \<and> (s' = s \<or> s' = drop_rb (rb_Namespace d) (rb_Name d) s))"
  using assms rb_updated [OF assms(1), of d]
  by (auto simp: reconcile_RoleBinding_def Let_def unless_error_def do_call_def put_drop_simps
      split: option.splits if_splits)

lemma put_role_same:
  "st_Roles s (role_Namespace d, role_Name d) = Some d \<Longrightarrow> put_role d s = s"
  by (simp add: put_role_def fun_upd_idem)

lemma reconcile_role_cases:
  assumes "keyed s" "reconcile_Role fails d s = (s', r)"
  shows "(r = None \<and> s' = put_role d s) \<or> (r \<noteq> None \<and> s' = s)"
proof (cases "st_Roles s (role_Namespace d, role_Name d)")
  case None
  with assms(2) show ?thesis
    by (auto simp: reconcile_Role_def Let_def do_call_def split: option.splits)
next
  case (Some b)
  note upd = role_updated [OF assms(1) Some]
  show ?thesis
  proof (cases "d = b")
    case True
    then have "put_role d s = s" using put_role_same [of s d] Some by simp
    with assms(2) show ?thesis
      by (simp add: reconcile_Role_def Let_def Some upd split: option.splits) (use True in auto)
  next
    case False
    with assms(2) show ?thesis
      by (auto simp: reconcile_Role_def Let_def Some upd do_call_def split: option.splits)
  qed
qed


interpretation crb: object_reconciler
  "\<lambda>fails d. reconcile_ClusterRoleBinding fails (crb_Name d) d" put_crb "\<lambda>d. drop_crb (crb_Name d)" keyed
  by unfold_locales (auto simp: put_drop_simps dest: reconcile_crb_cases)

interpretation role: object_reconciler
  reconcile_Role put_role "\<lambda>d. drop_role (role_Namespace d) (role_Name d)" keyed
  by unfold_locales (auto simp: put_drop_simps dest: reconcile_role_cases)

interpretation rb: object_reconciler
  reconcile_RoleBinding put_rb "\<lambda>d. drop_rb (rb_Namespace d) (rb_Name d)" keyed
  by unfold_locales (auto simp: put_drop_simps dest: reconcile_rb_cases)

text \<open>
  The store in which a collector's service account has what it needs: the three objects are the
  desired ones, and the role of the previous naming scheme is gone unless a role binding of the
  namespace still refers to it.
\<close>

definition put_rbac ::
  "string \<Rightarrow> string \<Rightarrow> string \<Rightarrow> OwnerReference \<Rightarrow> rbac_store \<Rightarrow> rbac_store" where
  "put_rbac rbacName ns sa owner s =
     put_rb (NewServiceAccountSCCRoleBinding ns rbacName sa owner)
       (put_role (NewServiceAccountSCCRole ns rbacName sa owner)
         (put_crb (NewMetaDataReaderClusterRoleBinding ns sa) s))"

definition drop_old_role :: "string \<Rightarrow> string \<Rightarrow> rbac_store \<Rightarrow> rbac_store" where
  "drop_old_role ns sa s =
     (if role_referenced s ns (sa @ ''-scc'') then s else drop_role ns (sa @ ''-scc'') s)"

definition rbac_goal ::
  "string \<Rightarrow> string \<Rightarrow> string \<Rightarrow> OwnerReference \<Rightarrow> rbac_store \<Rightarrow> rbac_store" where
  "rbac_goal rbacName ns sa owner s = drop_old_role ns sa (put_rbac rbacName ns sa owner s)"

lemma unless_error_None: "unless_error r k = (s', None) \<longleftrightarrow> (\<exists>s. r = (s, None) \<and> k s = (s', None))"
  by (auto simp: unless_error_def split: prod.splits option.splits)

lemma do_call_None: "do_call fails c f s = (s', None) \<longleftrightarrow> fails c = None \<and> s' = f s"
  by (auto simp: do_call_def split: option.splits)

lemma ReconcileRBAC_success:
  assumes "keyed s" "ReconcileRBAC fails n ns sa owner s = (s', None)"
  shows "s' = rbac_goal n ns sa owner s"
proof -
  let ?crb = "NewMetaDataReaderClusterRoleBinding ns sa"
  let ?role = "NewServiceAccountSCCRole ns n sa owner"
  let ?rb = "NewServiceAccountSCCRoleBinding ns n sa owner"
  from assms(2) obtain s1 s2 s3 where
    r: "reconcile_ClusterRoleBinding fails (crb_Name ?crb) ?crb s = (s1, None)"
      "reconcile_Role fails ?role s1 = (s2, None)" "reconcile_RoleBinding fails ?rb s2 = (s3, None)"
    and last: "(if \<not> role_referenced s3 ns (sa @ ''-scc'') then DeleteRole fails ns (sa @ ''-scc'') s3
        else (s3, None)) = (s', None)"
    by (auto simp: ReconcileRBAC_def Let_def unless_error_None do_call_None)
  note s1 = crb.success [OF assms(1) r(1)]
  note g1 = crb.good_after [OF assms(1) r(1)]
  note s2 = role.success [OF g1 r(2)] and g2 = role.good_after [OF g1 r(2)]
  note s3 = rb.success [OF g2 r(3)]
  from last show ?thesis
    unfolding rbac_goal_def put_rbac_def s1 [symmetric] s2 [symmetric] s3 [symmetric]
    by (auto simp: drop_old_role_def DeleteRole_def do_call_None split: if_splits)
qed

text \<open>The writes to the four objects commute with each other.\<close>

lemma put_commute:
  "put_role r (put_crb b s) = put_crb b (put_role r s)" "put_rb d (put_crb b s) = put_crb b (put_rb d s)"
  "put_rb d (put_role r s) = put_role r (put_rb d s)" "put_role r (drop_crb n s) = drop_crb n (put_role r s)"
  "put_rb d (drop_crb n s) = drop_crb n (put_rb d s)" "put_rb d (drop_role ns n s) = drop_role ns n (put_rb d s)"
  by (simp_all add: store_defs)

lemma put_commute_crb: "put_crb b (put_crb b' s) = put_crb b' (put_crb b s)" if "crb_Name b \<noteq> crb_Name b'"
  using that by (simp add: store_defs fun_upd_twist)

lemma put_rbac_step:
  "put_crb (NewMetaDataReaderClusterRoleBinding ns sa) s1 = put_crb (NewMetaDataReaderClusterRoleBinding ns sa) s
   \<Longrightarrow> put_rbac n ns sa owner s1 = put_rbac n ns sa owner s"
  "put_role (NewServiceAccountSCCRole ns n sa owner) s1 = put_role (NewServiceAccountSCCRole ns n sa owner) s
   \<Longrightarrow> put_rbac n ns sa owner s1 = put_rbac n ns sa owner s"
  "put_rb (NewServiceAccountSCCRoleBinding ns n sa owner) s1 = put_rb (NewServiceAccountSCCRoleBinding ns n sa owner) s
   \<Longrightarrow> put_rbac n ns sa owner s1 = put_rbac n ns sa owner s"
  by (simp_all only: put_rbac_def put_commute)

lemma referenced_put_rbac:
  "role_referenced (drop_role ns' n' s) ns r \<longleftrightarrow> role_referenced s ns r"
  by (simp add: role_referenced_def store_defs)

lemma old_role_name: "sa @ ''-scc'' \<noteq> n @ ''-'' @ sa @ ''-scc''"
proof
  assume "sa @ ''-scc'' = n @ ''-'' @ sa @ ''-scc''"
  then have "length (sa @ ''-scc'') = length (n @ ''-'' @ sa @ ''-scc'')" by (rule arg_cong)
  then show False by simp
qed

lemma put_rbac_goal: "put_rbac n ns sa owner (rbac_goal n ns sa owner s) =
    (if role_referenced (put_rbac n ns sa owner s) ns (sa @ ''-scc'') then put_rbac n ns sa owner s
     else drop_role ns (sa @ ''-scc'') (put_rbac n ns sa owner s))"
proof -
  let ?P = "put_rbac n ns sa owner s"
  have idem: "put_rbac n ns sa owner ?P = ?P"
    by (simp only: put_rbac_def put_commute put_drop_simps)
  have "put_role (NewServiceAccountSCCRole ns n sa owner) (drop_role ns (sa @ ''-scc'') t) =
      drop_role ns (sa @ ''-scc'') (put_role (NewServiceAccountSCCRole ns n sa owner) t)" for t
    using old_role_name [of sa n] by (simp add: store_defs NewServiceAccountSCCRole_def fun_upd_twist)
  moreover have "put_crb b (drop_role ns m t) = drop_role ns m (put_crb b t)" for b m t
    by (simp add: store_defs)
  ultimately have "put_rbac n ns sa owner (drop_role ns (sa @ ''-scc'') ?P) =
      drop_role ns (sa @ ''-scc'') (put_rbac n ns sa owner ?P)"
    by (simp only: put_rbac_def put_commute)
  with idem show ?thesis by (simp add: rbac_goal_def drop_old_role_def)
qed

lemma rbac_goal_idem: "rbac_goal n ns sa owner (rbac_goal n ns sa owner s) = rbac_goal n ns sa owner s"
proof -
  have "drop_role ns r (drop_role ns r t) = drop_role ns r t" for r t
    by (simp add: store_defs)
  then show ?thesis
    unfolding rbac_goal_def [of n ns sa owner "rbac_goal n ns sa owner s"] put_rbac_goal
    by (simp add: drop_old_role_def referenced_put_rbac) (simp add: rbac_goal_def drop_old_role_def)
qed

lemma unless_error_Some:
  "unless_error r k = (s', Some e) \<longleftrightarrow> r = (s', Some e) \<or> (\<exists>s. r = (s, None) \<and> k s = (s', Some e))"
  by (cases r; cases "snd r") (auto simp: unless_error_def)

lemma do_call_Some: "do_call fails c f s = (s', Some e) \<longleftrightarrow> fails c = Some e \<and> s' = s"
  by (auto simp: do_call_def split: option.splits)

lemma ReconcileRBAC_failure:
  assumes k: "keyed s" and run: "ReconcileRBAC fails n ns sa owner s = (s', Some e)"
  shows "keyed s' \<and> put_rbac n ns sa owner s' = put_rbac n ns sa owner s"
proof -
  let ?crb = "NewMetaDataReaderClusterRoleBinding ns sa"
  let ?role = "NewServiceAccountSCCRole ns n sa owner"
  let ?rb = "NewServiceAccountSCCRoleBinding ns n sa owner"
  let ?P = "put_rbac n ns sa owner"
  have crb: "keyed t \<and> ?P t = ?P s" if "reconcile_ClusterRoleBinding fails (crb_Name ?crb) ?crb s = (t, r)" for t r
    using crb.good_after [OF k that] put_rbac_step(1) [OF crb.put_after [OF k that]] by blast
  have role: "keyed u \<and> ?P u = ?P t" if "reconcile_Role fails ?role t = (u, r)" "keyed t" for t u r
    using role.good_after [OF that(2,1)] put_rbac_step(2) [OF role.put_after [OF that(2,1)]] by blast
  have rb: "keyed u \<and> ?P u = ?P t" if "reconcile_RoleBinding fails ?rb t = (u, r)" "keyed t" for t u r
    using rb.good_after [OF that(2,1)] put_rbac_step(3) [OF rb.put_after [OF that(2,1)]] by blast
  show ?thesis
    using run unfolding ReconcileRBAC_def Let_def unless_error_Some do_call_Some do_call_None DeleteRole_def
    by (elim disjE exE conjE) (auto dest!: crb role rb simp: do_call_Some split: if_splits)
qed

text \<open>An order of API calls that all succeed.\<close>

lemma ReconcileRBAC_no_failure:
  assumes "\<And>c. fails c = None"
  shows "snd (ReconcileRBAC fails n ns sa owner s) = None"
proof -
  have call: "do_call fails c f t = (f t, None)" for c f t by (simp add: do_call_def assms)
  have "snd (reconcile_ClusterRoleBinding fails m b t) = None" for m b t
    by (simp add: reconcile_ClusterRoleBinding_def assms call unless_error_def split: option.split)
  moreover have "snd (reconcile_Role fails r t) = None" for r t
    by (simp add: reconcile_Role_def Let_def assms call split: option.split)
  moreover have "snd (reconcile_RoleBinding fails b t) = None" for b t
    by (simp add: reconcile_RoleBinding_def Let_def assms call unless_error_def split: option.split)
  moreover have "unless_error r k = k (fst r)" if "snd r = None" for r k
    using that by (cases r) (simp add: unless_error_def)
  ultimately show ?thesis
    by (simp add: ReconcileRBAC_def Let_def call DeleteRole_def)
qed

section \<open>Properties\<close>

text \<open>
  C34. When \<open>ReconcileRBAC\<close> returns no error, the cluster role binding, the role and the role binding
  of the collector are the desired ones, whatever was stored under their names; the role of the old
  naming scheme is removed exactly when no role binding of the namespace refers to it; nothing else
  has changed. It does return no error when no API call is refused.
\<close>

theorem ReconcileRBAC_establishes:
  assumes "keyed s"
  shows "(\<forall>s'. ReconcileRBAC fails n ns sa owner s = (s', None) \<longrightarrow> s' = rbac_goal n ns sa owner s)
    \<and> ((\<forall>c. fails c = None) \<longrightarrow> ReconcileRBAC fails n ns sa owner s = (rbac_goal n ns sa owner s, None))"
proof (intro conjI allI impI)
  show "s' = rbac_goal n ns sa owner s" if "ReconcileRBAC fails n ns sa owner s = (s', None)" for s'
    by (rule ReconcileRBAC_success [OF assms that])
  assume "\<forall>c. fails c = None"
  then have "snd (ReconcileRBAC fails n ns sa owner s) = None" by (intro ReconcileRBAC_no_failure) simp
  then show "ReconcileRBAC fails n ns sa owner s = (rbac_goal n ns sa owner s, None)"
    using ReconcileRBAC_success [OF assms] by (metis prod.collapse)
qed

definition sample_owner :: OwnerReference where
  "sample_owner = \<lparr>owner_APIVersion = ''observability.openshift.io/v1'', owner_Kind = ''ClusterLogForwarder'',
     owner_Name = ''fwd'', owner_UID = ''1'', owner_Controller = True\<rparr>"

definition empty_store :: rbac_store where
  "empty_store = \<lparr>st_ClusterRoleBindings = Map.empty, st_Roles = Map.empty, st_RoleBindings = Map.empty\<rparr>"

theorem ReconcileRBAC_establishes_witness:
  "ReconcileRBAC (\<lambda>_. None) ''fwd'' ''ns'' ''sa'' sample_owner empty_store
     = (rbac_goal ''fwd'' ''ns'' ''sa'' sample_owner empty_store, None)"
proof -
  have "keyed empty_store" by (simp add: keyed_def empty_store_def)
  then show ?thesis using ReconcileRBAC_establishes [of empty_store "\<lambda>_. None"] by blast
qed

text \<open>
  C35. Retrying converges: after a run of \<open>ReconcileRBAC\<close> that stopped at any refused API call, or
  that succeeded, a later run that returns no error leaves the store that one successful run would
  have left.
\<close>

theorem ReconcileRBAC_retry:
  assumes k: "keyed s" and first: "ReconcileRBAC fails n ns sa owner s = (s1, r)"
    and second: "ReconcileRBAC fails' n ns sa owner s1 = (s2, None)"
  shows "s2 = rbac_goal n ns sa owner s"
proof (cases r)
  case (Some e)
  note part = ReconcileRBAC_failure [OF k first [unfolded Some]]
  then have "s2 = rbac_goal n ns sa owner s1" using ReconcileRBAC_success [OF _ second] by blast
  with part show ?thesis by (simp add: rbac_goal_def)
next
  case None
  note s1 = ReconcileRBAC_success [OF k first [unfolded None]]
  have "keyed s1" unfolding s1 using k by (simp add: rbac_goal_def drop_old_role_def put_rbac_def)
  then have "s2 = rbac_goal n ns sa owner s1" by (rule ReconcileRBAC_success [OF _ second])
  then show ?thesis by (simp add: s1 rbac_goal_idem)
qed

text \<open>Refuses the creation of role bindings.\<close>

definition refuse_role_binding :: rbac_api where
  "refuse_role_binding c = (case c of Create KindRoleBinding _ _ \<Rightarrow> Some ''forbidden'' | _ \<Rightarrow> None)"

theorem ReconcileRBAC_retry_witness:
  "fst (ReconcileRBAC (\<lambda>_. None) ''fwd'' ''ns'' ''sa'' sample_owner
      (fst (ReconcileRBAC refuse_role_binding ''fwd'' ''ns'' ''sa'' sample_owner empty_store)))
    = rbac_goal ''fwd'' ''ns'' ''sa'' sample_owner empty_store"
proof -
  let ?s1 = "ReconcileRBAC refuse_role_binding ''fwd'' ''ns'' ''sa'' sample_owner empty_store"
  let ?s2 = "ReconcileRBAC (\<lambda>_. None) ''fwd'' ''ns'' ''sa'' sample_owner (fst ?s1)"
  have k: "keyed empty_store" by (simp add: keyed_def empty_store_def)
  have "snd ?s2 = None" by (rule ReconcileRBAC_no_failure) simp
  then have "?s2 = (fst ?s2, None)" by (metis prod.collapse)
  from ReconcileRBAC_retry [OF k _ this, of refuse_role_binding "snd ?s1"] show ?thesis by simp
qed

text \<open>
  The name of the cluster role binding does not determine namespace and service account: the
  service accounts \<open>y-z\<close> of namespace \<open>x\<close> and \<open>z\<close> of namespace \<open>x-y\<close> share one. Reconciling the
  second takes the binding away from the first, although the two collectors are independent.
\<close>

theorem metadata_reader_binding_shared:
  "fst (ReconcileRBAC (\<lambda>_. None) ''b'' ''logs-app'' ''sa'' sample_owner
      (fst (ReconcileRBAC (\<lambda>_. None) ''a'' ''logs'' ''app-sa'' sample_owner empty_store)))
    = rbac_goal ''b'' ''logs-app'' ''sa'' sample_owner
        (rbac_goal ''a'' ''logs'' ''app-sa'' sample_owner empty_store)
   \<and> crb_Subjects (the (st_ClusterRoleBindings
       (rbac_goal ''b'' ''logs-app'' ''sa'' sample_owner
          (rbac_goal ''a'' ''logs'' ''app-sa'' sample_owner empty_store))
       (crb_Name (NewMetaDataReaderClusterRoleBinding ''logs'' ''app-sa''))))
     = [service_account_subject ''logs-app'' ''sa'']"
proof
  have k: "keyed empty_store" by (simp add: keyed_def empty_store_def)
  have run: "fst (ReconcileRBAC (\<lambda>_. None) n ns sa o' s) = rbac_goal n ns sa o' s" if "keyed s" for n ns sa o' s
    using ReconcileRBAC_success [OF that] ReconcileRBAC_no_failure [of "\<lambda>_. None"] by (metis prod.collapse)
  have "keyed (rbac_goal n ns sa o' s)" if "keyed s" for n ns sa o' s
    using that by (simp add: rbac_goal_def drop_old_role_def put_rbac_def)
  with k run show "fst (ReconcileRBAC (\<lambda>_. None) ''b'' ''logs-app'' ''sa'' sample_owner
      (fst (ReconcileRBAC (\<lambda>_. None) ''a'' ''logs'' ''app-sa'' sample_owner empty_store)))
    = rbac_goal ''b'' ''logs-app'' ''sa'' sample_owner
        (rbac_goal ''a'' ''logs'' ''app-sa'' sample_owner empty_store)" by simp
  show "crb_Subjects (the (st_ClusterRoleBindings
       (rbac_goal ''b'' ''logs-app'' ''sa'' sample_owner
          (rbac_goal ''a'' ''logs'' ''app-sa'' sample_owner empty_store))
       (crb_Name (NewMetaDataReaderClusterRoleBinding ''logs'' ''app-sa''))))
     = [service_account_subject ''logs-app'' ''sa'']"
    by (simp add: rbac_goal_def drop_old_role_def put_rbac_def store_defs NewMetaDataReaderClusterRoleBinding_def)
qed

text \<open>
  The same holds for the binding that authorizes the metrics endpoint, which is named after
  namespace and forwarder: when the forwarder \<open>y-z\<close> of namespace \<open>x\<close> is deleted, the clean-up
  deletes the binding of the forwarder \<open>z\<close> of namespace \<open>x-y\<close>.
\<close>

theorem metrics_auth_binding_shared:
  "clf_Namespace f = x \<and> clf_Name f = y @ ''-'' @ z \<and> clf_Namespace g = x @ ''-'' @ y \<and> clf_Name g = z
   \<longrightarrow> st_ClusterRoleBindings
        (fst (DeleteMetricsAuthRBAC (\<lambda>_. None) (MetricsAuthClusterRoleBinding (ResourceNames f)) s))
        (MetricsAuthClusterRoleBinding (ResourceNames g)) = None"
  by (simp add: DeleteMetricsAuthRBAC_def DeleteClusterRoleBinding_def do_call_def drop_crb_def
      ResourceNames_def Let_def)

theorem metrics_auth_binding_shared_witness:
  "st_ClusterRoleBindings
     (fst (DeleteMetricsAuthRBAC (\<lambda>_. None) (MetricsAuthClusterRoleBinding
         (ResourceNames (sample_forwarder\<lparr>clf_Namespace := ''logs'', clf_Name := ''app-fwd''\<rparr>)))
       empty_store))
     (MetricsAuthClusterRoleBinding
       (ResourceNames (sample_forwarder\<lparr>clf_Namespace := ''logs-app'', clf_Name := ''fwd''\<rparr>))) = None"
  using metrics_auth_binding_shared
    [of "sample_forwarder\<lparr>clf_Namespace := ''logs'', clf_Name := ''app-fwd''\<rparr>" "''logs''" "''app''" "''fwd''"
      "sample_forwarder\<lparr>clf_Namespace := ''logs-app'', clf_Name := ''fwd''\<rparr>" empty_store] by simp

end
