(* ===== verification/Obs_Status.thy ===== *)
theory Obs_Status
  imports Obs_Output_Types
begin

text \<open>
  Status conditions (\<open>internal/api/observability/conditions.go\<close>) and the verdict the
  controller draws from them (\<open>forwarder.go\<close>). A condition list is a small keyed store: the
  locale \<open>condition_store\<close> states what its clients, the validators, rely on, and the model of
  \<open>SetCondition\<close> interprets it. The clock is an argument.
\<close>

section \<open>conditions.go\<close>

definition NewCondition ::
  "time \<Rightarrow> string \<Rightarrow> ConditionStatus \<Rightarrow> string \<Rightarrow> string \<Rightarrow> Condition" where
  "NewCondition now conditionType status reason message =
     \<lparr>cond_Type = conditionType, cond_Status = status, cond_Reason = reason,
      cond_Message = message, cond_LastTransitionTime = now\<rparr>"

definition NewConditionFromPrefix ::
  "time \<Rightarrow> string \<Rightarrow> string \<Rightarrow> bool \<Rightarrow> string \<Rightarrow> string \<Rightarrow> Condition" where
  "NewConditionFromPrefix now pre name conditionMet reason message =
     NewCondition now (pre @ ''-'' @ name)
       (if \<not> conditionMet then ConditionFalse else ConditionTrue) reason message"

fun SetCondition :: "time \<Rightarrow> Condition list \<Rightarrow> Condition \<Rightarrow> Condition list \<times> bool" where
  "SetCondition now [] newCond = ([newCond\<lparr>cond_LastTransitionTime := now\<rparr>], True)"
| "SetCondition now (condition # conditions) newCond =
     (if cond_Type condition = cond_Type newCond
      then
        ((if cond_Status condition = cond_Status newCond
          then newCond\<lparr>cond_LastTransitionTime := cond_LastTransitionTime condition\<rparr>
          else newCond\<lparr>cond_LastTransitionTime := now\<rparr>) # conditions,
         cond_Status condition \<noteq> cond_Status newCond
         \<or> cond_Reason condition \<noteq> cond_Reason newCond
         \<or> cond_Message condition \<noteq> cond_Message newCond)
      else (case SetCondition now conditions newCond of
              (conditions', changed) \<Rightarrow> (condition # conditions', changed)))"

definition PruneConditions :: "Condition list \<Rightarrow> string list \<Rightarrow> string \<Rightarrow> Condition list" where
  "PruneConditions conditions names conditionTypePrefix =
     concat (map (\<lambda>condition.
       concat (map (\<lambda>name. if cond_Type condition = conditionTypePrefix @ ''-'' @ name
                           then [condition] else []) names)) conditions)"

definition RemoveConditionByType :: "Condition list \<Rightarrow> string \<Rightarrow> Condition list" where
  "RemoveConditionByType conditions conditionType =
     filter (\<lambda>condition. cond_Type condition \<noteq> conditionType) conditions"

section \<open>The condition store interface\<close>

text \<open>What a condition says, without the time at which it started to say it.\<close>

definition verdict :: "Condition \<Rightarrow> string \<times> ConditionStatus \<times> string \<times> string" where
  "verdict c = (cond_Type c, cond_Status c, cond_Reason c, cond_Message c)"

locale condition_store =
  fixes set_cond :: "'s \<Rightarrow> Condition \<Rightarrow> 's"
    and lookup :: "'s \<Rightarrow> string \<Rightarrow> Condition option"
    and size_of :: "'s \<Rightarrow> nat"
  assumes lookup_set_same:
      "map_option verdict (lookup (set_cond s c) (cond_Type c)) = Some (verdict c)"
    and lookup_set_other: "t \<noteq> cond_Type c \<Longrightarrow> lookup (set_cond s c) t = lookup s t"
    and size_set: "size_of (set_cond s c) =
      (if lookup s (cond_Type c) = None then Suc (size_of s) else size_of s)"
begin

lemma lookup_set_all_other:
  "t \<notin> cond_Type ` set cs \<Longrightarrow> lookup (foldl set_cond s cs) t = lookup s t"
  by (induction cs arbitrary: s) (auto simp: lookup_set_other)

lemma lookup_set_all_same:
  "distinct (map cond_Type cs) \<Longrightarrow> c \<in> set cs \<Longrightarrow>
   map_option verdict (lookup (foldl set_cond s cs) (cond_Type c)) = Some (verdict c)"
proof (induction cs arbitrary: s)
  case (Cons d cs)
  then show ?case
  proof (cases "c = d")
    case True
    with Cons.prems have "cond_Type c \<notin> cond_Type ` set cs" by auto
    with True show ?thesis by (simp add: lookup_set_all_other lookup_set_same)
  qed simp
qed simp

lemma size_set_all_present:
  "cond_Type ` set cs \<subseteq> {t. lookup s t \<noteq> None} \<Longrightarrow> size_of (foldl set_cond s cs) = size_of s"
proof (induction cs arbitrary: s)
  case (Cons c cs)
  have "lookup (set_cond s c) t \<noteq> None" if "t \<in> cond_Type ` set cs" for t
    using that Cons.prems lookup_set_same [of s c]
    by (cases "t = cond_Type c") (auto simp: lookup_set_other)
  then have "cond_Type ` set cs \<subseteq> {t. lookup (set_cond s c) t \<noteq> None}" by blast
  with Cons.IH [of "set_cond s c"] Cons.prems show ?case by (simp add: size_set)
qed simp

lemma size_set_all_fresh:
  "distinct (map cond_Type cs) \<Longrightarrow> \<forall>c\<in>set cs. lookup s (cond_Type c) = None \<Longrightarrow>
   size_of (foldl set_cond s cs) = size_of s + length cs"
proof (induction cs arbitrary: s)
  case (Cons c cs)
  then have "lookup (set_cond s c) (cond_Type d) = None" if "d \<in> set cs" for d
    using that by (simp add: lookup_set_other image_iff) (metis lookup_set_other)
  with Cons show ?case by (simp add: size_set)
qed simp

end

definition find_condition :: "Condition list \<Rightarrow> string \<Rightarrow> Condition option" where
  "find_condition cs t = find (\<lambda>c. cond_Type c = t) cs"

lemma verdict_update [simp]: "verdict (c\<lparr>cond_LastTransitionTime := t\<rparr>) = verdict c"
  by (simp add: verdict_def)

lemma find_SetCondition_same:
  "map_option verdict (find_condition (fst (SetCondition now cs c)) (cond_Type c)) = Some (verdict c)"
  by (induction cs) (auto simp: find_condition_def split: prod.splits)

lemma find_SetCondition_other:
  "t \<noteq> cond_Type c \<Longrightarrow> find_condition (fst (SetCondition now cs c)) t = find_condition cs t"
  by (induction cs) (auto simp: find_condition_def split: prod.splits)

lemma length_SetCondition:
  "length (fst (SetCondition now cs c)) =
     (if find_condition cs (cond_Type c) = None then Suc (length cs) else length cs)"
  by (induction cs) (auto simp: find_condition_def split: prod.splits)

interpretation conds: condition_store "\<lambda>cs c. fst (SetCondition now cs c)" find_condition length
  for now
  by unfold_locales
    (simp_all add: find_SetCondition_same find_SetCondition_other length_SetCondition)

text \<open>Condition types stay unique, and the types are the old ones plus the new one.\<close>

lemma types_SetCondition:
  "map cond_Type (fst (SetCondition now cs c)) =
     (if cond_Type c \<in> cond_Type ` set cs then map cond_Type cs
      else map cond_Type cs @ [cond_Type c])"
  by (induction cs) (auto split: prod.splits)

lemma distinct_types_SetCondition:
  "distinct (map cond_Type cs) \<Longrightarrow> distinct (map cond_Type (fst (SetCondition now cs c)))"
  by (auto simp: types_SetCondition)

lemma set_types_SetCondition:
  "cond_Type ` set (fst (SetCondition now cs c)) = insert (cond_Type c) (cond_Type ` set cs)"
proof -
  have "cond_Type ` set (fst (SetCondition now cs c)) = set (map cond_Type (fst (SetCondition now cs c)))"
    by simp
  then show ?thesis by (auto simp only: types_SetCondition) (auto split: if_splits)
qed

text \<open>The condition list after a validator has set all of its results.\<close>

definition SetConditions :: "time \<Rightarrow> Condition list \<Rightarrow> Condition list \<Rightarrow> Condition list" where
  "SetConditions now conditions results =
     foldl (\<lambda>cs c. fst (SetCondition now cs c)) conditions results"

lemma SetConditions_simps [simp]:
  "SetConditions now cs [] = cs"
  "SetConditions now cs (r # rs) = SetConditions now (fst (SetCondition now cs r)) rs"
  by (simp_all add: SetConditions_def)

lemma distinct_types_SetConditions:
  "distinct (map cond_Type cs) \<Longrightarrow> distinct (map cond_Type (SetConditions now cs rs))"
  by (induction rs arbitrary: cs) (simp_all add: distinct_types_SetCondition)

lemma set_types_SetConditions:
  "cond_Type ` set (SetConditions now cs rs) = cond_Type ` set cs \<union> cond_Type ` set rs"
  by (induction rs arbitrary: cs) (auto simp: set_types_SetCondition)

lemma find_condition_mem:
  "distinct (map cond_Type cs) \<Longrightarrow> c \<in> set cs \<Longrightarrow> find_condition cs (cond_Type c) = Some c"
  by (induction cs) (auto simp: find_condition_def)

lemma find_condition_None_iff: "find_condition cs t = None \<longleftrightarrow> t \<notin> cond_Type ` set cs"
  by (auto simp: find_condition_def find_None_iff)

section \<open>forwarder.go: the verdict on a spec\<close>

definition isValid :: "string \<Rightarrow> Condition list \<Rightarrow> nat \<Rightarrow> bool" where
  "isValid pre conditions expConditions =
     (if length conditions \<noteq> expConditions then False
      else length (filter (\<lambda>cond. HasPrefix (cond_Type cond) pre \<and> cond_Status cond = ConditionTrue)
                    conditions) = expConditions)"

definition isAuthorized :: "Condition list \<Rightarrow> bool" where
  "isAuthorized conditions =
     list_ex (\<lambda>cond. cond_Type cond = ConditionTypeAuthorized \<and> cond_Status cond = ConditionTrue)
       conditions"

definition IsValidSpec :: "ClusterLogForwarder \<Rightarrow> bool" where
  "IsValidSpec forwarder =
     (isAuthorized (status_Conditions (clf_Status forwarder))
      \<and> isValid ConditionTypeValidInputPrefix (status_InputConditions (clf_Status forwarder))
          (length (spec_Inputs (clf_Spec forwarder)))
      \<and> isValid ConditionTypeValidOutputPrefix (status_OutputConditions (clf_Status forwarder))
          (length (spec_Outputs (clf_Spec forwarder)))
      \<and> isValid ConditionTypeValidPipelinePrefix (status_PipelineConditions (clf_Status forwarder))
          (length (spec_Pipelines (clf_Spec forwarder)))
      \<and> isValid ConditionTypeValidFilterPrefix (status_FilterConditions (clf_Status forwarder))
          (length (spec_Filters (clf_Spec forwarder))))"

lemma isValid_iff:
  "isValid pre cs n \<longleftrightarrow>
     length cs = n \<and> (\<forall>c\<in>set cs. HasPrefix (cond_Type c) pre \<and> cond_Status c = ConditionTrue)"
  by (auto simp: isValid_def length_filter_all)

text \<open>
  A validator that reports one result per item of the spec, under a type made of its prefix and
  the item's name, and that starts from a status pruned to those items: the spec is valid exactly
  when every result is positive.
\<close>

lemma isValid_SetConditions:
  assumes d: "distinct (map cond_Type cs)" and dr: "distinct (map cond_Type rs)"
    and sub: "cond_Type ` set cs \<subseteq> cond_Type ` set rs"
    and pre: "\<forall>r\<in>set rs. HasPrefix (cond_Type r) p"
  shows "isValid p (SetConditions now cs rs) (length rs)
         \<longleftrightarrow> (\<forall>r\<in>set rs. cond_Status r = ConditionTrue)"
proof -
  let ?cs' = "SetConditions now cs rs"
  have types: "cond_Type ` set ?cs' = cond_Type ` set rs"
    using sub by (auto simp: set_types_SetConditions)
  have d': "distinct (map cond_Type ?cs')" using d by (rule distinct_types_SetConditions)
  have len: "length ?cs' = length rs"
    using distinct_card [OF d'] distinct_card [OF dr] types by simp
  have same: "\<exists>c\<in>set ?cs'. verdict c = verdict r" if "r \<in> set rs" for r
    using conds.lookup_set_all_same [OF dr that, where now = now and s = cs]
    by (auto simp: SetConditions_def find_condition_def find_Some_iff)
  have conv: "\<exists>r\<in>set rs. verdict c = verdict r" if c: "c \<in> set ?cs'" for c
  proof -
    from c types obtain r where r: "r \<in> set rs" "cond_Type r = cond_Type c"
      by (metis image_iff)
    from conds.lookup_set_all_same [OF dr r(1), where now = now and s = cs]
      find_condition_mem [OF d' c] r show ?thesis
      by (auto simp: SetConditions_def)
  qed
  show ?thesis
    using len same conv pre unfolding isValid_iff verdict_def
    by (metis (no_types, lifting) prod.inject)
qed

end
