(* ===== verification/Validate_Common.thy ===== *)
theory Validate_Common
  imports Initialize Obs_Status
begin

text \<open>
  What the validators share (\<open>internal/validations/observability/common\<close>,
  \<open>internal/api/context\<close>): the context they run in, the check that a value cannot end the TOML
  literal it is rendered into, and the check that a reference resolves. The locale
  \<open>item_validator\<close> is the contract of a validator that reports one condition per named item of
  the spec; inputs, filters and outputs interpret it.
\<close>

section \<open>ForwarderContext\<close>

text \<open>The two maps may be nil, which one validator tests for; the clients are arguments of their users.\<close>

record ForwarderContext =
  ctx_Forwarder :: ClusterLogForwarder
  ctx_Secrets :: "Secrets option"
  ctx_ConfigMaps :: "ConfigMaps option"
  ctx_AdditionalContext :: gen_options

definition nil_map :: "(string \<rightharpoonup> 'v) option \<Rightarrow> (string \<rightharpoonup> 'v)" where
  "nil_map m = (case m of None \<Rightarrow> Map.empty | Some m' \<Rightarrow> m')"

definition map_status ::
  "(ClusterLogForwarderStatus \<Rightarrow> ClusterLogForwarderStatus) \<Rightarrow> ForwarderContext \<Rightarrow> ForwarderContext" where
  "map_status g ctx =
     ctx\<lparr>ctx_Forwarder := (ctx_Forwarder ctx)\<lparr>clf_Status := g (clf_Status (ctx_Forwarder ctx))\<rparr>\<rparr>"

section \<open>common/validate.go\<close>

definition tomlLiteralTerminator :: string where
  "tomlLiteralTerminator = [sq, sq, sq]"

definition ValidateTOMLLiteralSafe :: "string \<Rightarrow> string \<Rightarrow> string" where
  "ValidateTOMLLiteralSafe fieldName value =
     (if Contains value tomlLiteralTerminator
      then fieldName @ '' must not contain the sequence '' @ Quote tomlLiteralTerminator
      else if ContainsAny value [newline, carriage]
      then fieldName @ '' must not contain newlines or carriage returns''
      else [])"

definition validateSecret :: "string \<Rightarrow> string \<Rightarrow> Secrets \<Rightarrow> string list" where
  "validateSecret secretName key secrets =
     (case secrets secretName of
        None \<Rightarrow> [''secret['' @ secretName @ ''] not found'']
      | Some secret \<Rightarrow>
          (case secret_Data secret key of
             None \<Rightarrow> [''secret['' @ secretName @ ''.'' @ key @ ''] not found'']
           | Some value \<Rightarrow>
               if value = [] then [''secret['' @ secretName @ ''.'' @ key @ ''] value is empty''] else []))"

definition validateConfigMap :: "string \<Rightarrow> string \<Rightarrow> ConfigMaps \<Rightarrow> string list" where
  "validateConfigMap configMapName key configMaps =
     (case configMaps configMapName of
        None \<Rightarrow> [''configmap['' @ configMapName @ ''] not found'']
      | Some cm \<Rightarrow>
          (case configmap_Data cm key of
             None \<Rightarrow> [''configmap['' @ configMapName @ ''.'' @ key @ ''] not found'']
           | Some value \<Rightarrow>
               if TrimSpace value = []
               then [''configmap['' @ configMapName @ ''.'' @ key @ ''] value is empty''] else []))"

definition validate_reference :: "Secrets \<Rightarrow> ConfigMaps \<Rightarrow> ValueReference \<Rightarrow> string list" where
  "validate_reference secrets configMaps entry =
     (if vref_SecretName entry \<noteq> [] then validateSecret (vref_SecretName entry) (vref_Key entry) secrets
      else if vref_ConfigMapName entry \<noteq> []
      then validateConfigMap (vref_ConfigMapName entry) (vref_Key entry) configMaps
      else [])"

definition ValidateValueReference :: "ValueReference list \<Rightarrow> Secrets \<Rightarrow> ConfigMaps \<Rightarrow> string list" where
  "ValidateValueReference configs secrets configMaps =
     concat (map (validate_reference secrets configMaps) configs)"

definition IsEnabledAnnotation :: "ForwarderContext \<Rightarrow> string \<Rightarrow> bool" where
  "IsEnabledAnnotation ctx annotation =
     (case clf_Annotations (ctx_Forwarder ctx) annotation of
        None \<Rightarrow> False
      | Some value \<Rightarrow> value \<in> set (sorted_set [''true'', ''enabled'']))"

section \<open>What an empty list of messages means\<close>

definition toml_safe :: "string \<Rightarrow> bool" where
  "toml_safe v \<longleftrightarrow> \<not> sublist tomlLiteralTerminator v \<and> newline \<notin> set v \<and> carriage \<notin> set v"

lemma ValidateTOMLLiteralSafe_iff: "ValidateTOMLLiteralSafe f v = [] \<longleftrightarrow> toml_safe v"
  by (auto simp: ValidateTOMLLiteralSafe_def toml_safe_def Contains_iff_sublist ContainsAny_iff)

text \<open>A reference resolves to a value that is there and not empty; one that names nothing is ignored.\<close>

definition ref_resolves :: "Secrets \<Rightarrow> ConfigMaps \<Rightarrow> ValueReference \<Rightarrow> bool" where
  "ref_resolves secrets configMaps r \<longleftrightarrow>
     (if vref_SecretName r \<noteq> []
      then (\<exists>v. Option.bind (secrets (vref_SecretName r)) (\<lambda>s. secret_Data s (vref_Key r)) = Some v \<and> v \<noteq> [])
      else vref_ConfigMapName r \<noteq> [] \<longrightarrow>
        (\<exists>v. Option.bind (configMaps (vref_ConfigMapName r)) (\<lambda>c. configmap_Data c (vref_Key r)) = Some v
          \<and> TrimSpace v \<noteq> []))"

lemma validate_reference_iff: "validate_reference s c r = [] \<longleftrightarrow> ref_resolves s c r"
  by (auto simp: validate_reference_def ref_resolves_def validateSecret_def validateConfigMap_def
      split: option.splits if_splits)

lemma ValidateValueReference_iff:
  "ValidateValueReference rs s c = [] \<longleftrightarrow> (\<forall>r\<in>set rs. ref_resolves s c r)"
  by (simp add: ValidateValueReference_def validate_reference_iff)

section \<open>Per-item validators\<close>

text \<open>
  A validator looks at each named item of the spec and reports one condition of type
  \<open>prefix-name\<close>. Its client is the verdict of \<open>forwarder.go\<close>, which counts conditions: on a
  status that holds conditions of current items only, and with unique names, the verdict is the
  conjunction of the per-item checks.
\<close>

locale item_validator =
  fixes prefix :: string
    and name_of :: "'a \<Rightarrow> string"
    and report :: "'a \<Rightarrow> Condition"
    and ok :: "'a \<Rightarrow> bool"
  assumes report_type: "cond_Type (report x) = prefix @ ''-'' @ name_of x"
    and report_status: "cond_Status (report x) = ConditionTrue \<longleftrightarrow> ok x"
begin

lemma distinct_types: "distinct (map name_of xs) \<Longrightarrow> distinct (map cond_Type (map report xs))"
  by (auto simp: report_type distinct_map inj_on_def)

lemma verdict_iff:
  assumes d: "distinct (map name_of xs)" and dc: "distinct (map cond_Type cs)"
    and pruned: "cond_Type ` set cs \<subseteq> (\<lambda>x. prefix @ ''-'' @ name_of x) ` set xs"
  shows "isValid prefix (SetConditions now cs (map report xs)) (length xs) \<longleftrightarrow> (\<forall>x\<in>set xs. ok x)"
proof -
  have "cond_Type ` set cs \<subseteq> cond_Type ` set (map report xs)"
    using pruned by (auto simp: report_type image_image)
  moreover have "\<forall>r\<in>set (map report xs). HasPrefix (cond_Type r) prefix"
    by (simp add: report_type)
  ultimately show ?thesis
    using isValid_SetConditions [OF dc distinct_types [OF d], of prefix now]
    by (simp add: report_status)
qed

end

text \<open>A status pruned to the current items (\<open>PruneConditions\<close>) meets the locale's premises.\<close>

lemma PruneConditions_types:
  "cond_Type ` set (PruneConditions cs names p) = cond_Type ` set cs \<inter> (\<lambda>n. p @ ''-'' @ n) ` set names"
  by (auto simp: PruneConditions_def split: if_splits)

lemma PruneConditions_filter:
  "distinct names \<Longrightarrow>
   PruneConditions cs names p = filter (\<lambda>c. cond_Type c \<in> (\<lambda>n. p @ ''-'' @ n) ` set names) cs"
proof -
  assume d: "distinct names"
  have "concat (map (\<lambda>n. if cond_Type c = p @ ''-'' @ n then [c] else []) ns) =
      (if cond_Type c \<in> (\<lambda>n. p @ ''-'' @ n) ` set ns then [c] else [])" if "distinct ns" for c ns
    using that by (induction ns) (auto simp: image_iff)
  note step = this [OF d]
  show ?thesis unfolding PruneConditions_def step by (induction cs) simp_all
qed

lemma PruneConditions_distinct:
  "distinct names \<Longrightarrow> distinct (map cond_Type cs) \<Longrightarrow> distinct (map cond_Type (PruneConditions cs names p))"
  by (simp add: PruneConditions_filter distinct_map_filter)

text \<open>A context on which the properties of the validators are exercised.\<close>

definition sample_context :: ForwarderContext where
  "sample_context =
     \<lparr>ctx_Forwarder = sample_forwarder\<lparr>clf_Spec := sample_spec\<lparr>spec_Inputs := [application_input]\<rparr>\<rparr>,
      ctx_Secrets = Some Map.empty, ctx_ConfigMaps = Some Map.empty, ctx_AdditionalContext = None\<rparr>"

end
