(* ===== verification/Vrl_Paths.thy ===== *)
theory Vrl_Paths
  imports Obs_Secrets
begin

text \<open>
  String helpers of the generator (\<open>internal/generator/vector/helpers/helpers.go\<close>,
  \<open>node.go\<close>): component identifiers, secret and config map paths, and field paths with quoted
  segments. \<open>pathExpRegex\<close> of the filter validation is here too, as the scanner that splits a
  path into the segments the expression reads, so that the two can be compared.
\<close>

section \<open>Component identifiers (helpers.go, node.go)\<close>

definition Replacer_char :: "char \<Rightarrow> char" where
  "Replacer_char c = (if c = CHR '' '' \<or> c = CHR ''-'' \<or> c = dot then CHR ''_'' else c)"

definition FormatComponentID :: "string \<Rightarrow> string" where
  "FormatComponentID name = ToLower (map Replacer_char name)"

definition TrimSpaces :: "string list \<Rightarrow> string list" where
  "TrimSpaces xs = map TrimSpace xs"

definition MakeID :: "string list \<Rightarrow> string" where
  "MakeID parts = FormatComponentID (Join parts ''_'')"

definition MakeRouteInputID :: "string \<Rightarrow> string \<Rightarrow> string" where
  "MakeRouteInputID rerouteId sourceType = ToLower (Join [rerouteId, sourceType] ''.'')"

definition MakeInputID :: "string list \<Rightarrow> string" where
  "MakeInputID parts = MakeID (''input'' # parts)"

definition MakePipelineID :: "string list \<Rightarrow> string" where
  "MakePipelineID parts = MakeID (''pipeline'' # parts)"

definition MakeOutputID :: "string list \<Rightarrow> string" where
  "MakeOutputID parts = MakeID (''output'' # parts)"

lemma FormatComponentID_append: "FormatComponentID (a @ b) = FormatComponentID a @ FormatComponentID b"
  by (simp add: FormatComponentID_def ToLower_def)

lemma Replacer_lower: "Replacer_char (char_to_lower (Replacer_char c)) = char_to_lower (Replacer_char c)"
proof (cases "char_to_lower (Replacer_char c) = Replacer_char c")
  case True
  then show ?thesis by (simp add: Replacer_char_def)
next
  case False
  then have "65 \<le> (of_char (Replacer_char c) :: nat)" "(of_char (Replacer_char c) :: nat) \<le> 90"
    "char_to_lower (Replacer_char c) = char_of ((of_char (Replacer_char c) :: nat) + 32)"
    by (auto simp: char_to_lower_def split: if_splits)
  then have "(of_char (char_to_lower (Replacer_char c)) :: nat) > 96" by simp
  moreover have "(of_char (CHR '' '') :: nat) \<le> 96" "(of_char (CHR ''-'') :: nat) \<le> 96"
    "(of_char dot :: nat) \<le> 96" by simp_all
  ultimately show ?thesis by (auto simp: Replacer_char_def)
qed

lemma FormatComponentID_idem [simp]: "FormatComponentID (FormatComponentID s) = FormatComponentID s"
  by (simp add: FormatComponentID_def ToLower_def Replacer_lower char_to_lower_idem comp_def)

section \<open>Paths of secrets and config maps (helpers.go, secrets.go)\<close>

text \<open>
  \<open>filepath.Join\<close> of a rooted path: empty elements are dropped, and \<open>Clean\<close> resolves
  \<open>.\<close> and \<open>..\<close> against what precedes them.
\<close>

fun clean_segments :: "string list \<Rightarrow> string list \<Rightarrow> string list" where
  "clean_segments stack [] = rev stack"
| "clean_segments stack (s # ss) =
     (if s = [] \<or> s = ''.'' then clean_segments stack ss
      else if s = ''..'' then clean_segments (tl stack) ss
      else clean_segments (s # stack) ss)"

definition rooted_Join :: "string list \<Rightarrow> string" where
  "rooted_Join elems =
     ''/'' @ Join (clean_segments [] (Split (Join (filter (\<lambda>e. e \<noteq> []) elems) ''/'') (CHR ''/''))) ''/''"

definition CollectorSecretsDir :: string where
  "CollectorSecretsDir = ''/var/run/ocp-collector/secrets''"

definition ConfigMapBaseDir :: string where
  "ConfigMapBaseDir = ''/var/run/ocp-collector/config''"

text \<open>The callers pass no formatter, which quotes the path, or \<open>%s\<close>, which does not.\<close>

datatype path_format = FormatQuoted | FormatPlain

fun format_path :: "path_format \<Rightarrow> string \<Rightarrow> string" where
  "format_path FormatQuoted p = Quote p"
| "format_path FormatPlain p = p"

definition ConfigPath :: "path_format \<Rightarrow> string \<Rightarrow> string \<Rightarrow> string" where
  "ConfigPath fmt name file = format_path fmt (rooted_Join [ConfigMapBaseDir, name, file])"

definition SecretPath :: "path_format \<Rightarrow> string \<Rightarrow> string \<Rightarrow> string" where
  "SecretPath fmt secretName file = format_path fmt (rooted_Join [CollectorSecretsDir, secretName, file])"

definition Secrets_Path :: "Secrets \<Rightarrow> path_format \<Rightarrow> SecretReference option \<Rightarrow> string" where
  "Secrets_Path s fmt key =
     (case (key, Secrets_Value s key) of
        (Some k, Some _) \<Rightarrow> SecretPath fmt (sref_SecretName k) (sref_Key k)
      | _ \<Rightarrow> [])"

definition VectorSecretID :: string where
  "VectorSecretID = ''kubernetes_secret''"

definition SecretFrom :: "SecretReference option \<Rightarrow> string" where
  "SecretFrom secretKey =
     (case secretKey of
        None \<Rightarrow> []
      | Some k \<Rightarrow>
          if sref_SecretName k \<noteq> [] \<and> sref_Key k \<noteq> []
          then ''SECRET['' @ VectorSecretID @ ''.'' @ sref_SecretName k @ ''/'' @ sref_Key k @ '']''
          else [])"

section \<open>Field paths (helpers.go)\<close>

definition split_part :: "string list \<times> string \<Rightarrow> string \<Rightarrow> string list \<times> string" where
  "split_part st part =
     (case st of (result, currSegment) \<Rightarrow>
        if part = [] then (result, currSegment)
        else if HasPrefix part [dq] \<and> HasSuffix part [dq] then (result @ [part], currSegment)
        else if HasPrefix part [dq] then (result, part)
        else if HasSuffix part [dq] then (result @ [currSegment @ ''.'' @ part], [])
        else if currSegment \<noteq> [] then (result, currSegment @ ''.'' @ part)
        else (result @ [part], currSegment))"

definition SplitPath :: "string \<Rightarrow> string list" where
  "SplitPath path = fst (foldl split_part ([], []) (Split path dot))"

text \<open>\<open>quoteRegex\<close> is \<^verbatim>\<open>^".+"$\<close>; the dot does not match a newline.\<close>

definition quoteRegex :: "string \<Rightarrow> bool" where
  "quoteRegex s \<longleftrightarrow> 3 \<le> length s \<and> HasPrefix s [dq] \<and> HasSuffix s [dq] \<and> newline \<notin> set s"

definition QuotePathSegments :: "string list \<Rightarrow> string list" where
  "QuotePathSegments pathArray = map (\<lambda>field. if quoteRegex field then field else Quote field) pathArray"

definition flatten_char :: "char \<Rightarrow> string" where
  "flatten_char c = (if c = dot \<or> c = CHR ''/'' then ''_'' else if c = dq then [] else [c])"

definition TrimPrefix :: "string \<Rightarrow> string \<Rightarrow> string" where
  "TrimPrefix s p = (if HasPrefix s p then drop (length p) s else s)"

definition flatten_path :: "string \<Rightarrow> string" where
  "flatten_path pathStr = TrimPrefix (concat (map flatten_char pathStr)) ''_''"

definition quoted_path :: "string \<Rightarrow> string" where
  "quoted_path pathStr = ''['' @ Join (QuotePathSegments (SplitPath pathStr)) '','' @ '']''"

definition GenerateQuotedPathSegmentArrayStr :: "FieldPath list \<Rightarrow> string \<times> string list" where
  "GenerateQuotedPathSegmentArrayStr fieldPathArray =
     (''['' @ Join (map quoted_path fieldPathArray) '','' @ '']'',
      map flatten_path (filter (\<lambda>p. ContainsAny p ''/.'') fieldPathArray))"

section \<open>The path expression of the filter validation\<close>

definition word_char :: "char \<Rightarrow> bool" where
  "word_char c \<longleftrightarrow>
     (CHR ''a'' \<le> c \<and> c \<le> CHR ''z'') \<or> (CHR ''A'' \<le> c \<and> c \<le> CHR ''Z'')
     \<or> (CHR ''0'' \<le> c \<and> c \<le> CHR ''9'') \<or> c = CHR ''_''"

text \<open>
  \<open>pathExpRegex\<close> is a sequence of segments, each a dot and then either word characters or a
  quoted string without quotes inside. The scanner gives the segments, quotes included.
\<close>

function (sequential) path_segments :: "string \<Rightarrow> string list option" where
  "path_segments [] = Some []"
| "path_segments (c # s) =
     (if c \<noteq> dot then None
      else (case s of
        [] \<Rightarrow> None
      | q # r \<Rightarrow>
          if q = dq
          then (let body = takeWhile (\<lambda>x. x \<noteq> dq) r; rest = dropWhile (\<lambda>x. x \<noteq> dq) r
                in if body = [] \<or> rest = [] then None
                   else map_option ((#) (dq # body @ [dq])) (path_segments (tl rest)))
          else (let w = takeWhile word_char s
                in if w = [] then None
                   else map_option ((#) w) (path_segments (dropWhile word_char s)))))"
  by pat_completeness auto

termination
proof (relation "measure length", goal_cases)
  case 1
  then show ?case by simp
next
  case (2 c s q r body rest)
  then show ?case using length_dropWhile_le [of "\<lambda>x. x \<noteq> dq" r] by simp
next
  case (3 c s q r w)
  then show ?case using length_dropWhile_le [of word_char "q # r"] by simp
qed

definition pathExpRegex :: "string \<Rightarrow> bool" where
  "pathExpRegex s \<longleftrightarrow> s \<noteq> [] \<and> path_segments s \<noteq> None"

section \<open>SplitPath reads the segments of a valid path\<close>

lemma Split_append_char: "Split (a @ c # r) c = Split a c @ Split r c"
proof (induction a)
  case (Cons x a)
  then show ?case by (cases "Split a c") auto
qed simp

lemma Split_last: "c \<noteq> d \<Longrightarrow> Split (a @ [d]) c = butlast (Split a c) @ [last (Split a c) @ [d]]"
proof (induction a)
  case (Cons x a)
  then show ?case by (cases "Split a c") auto
qed simp

lemma Split_Cons_other:
  "c \<noteq> d \<Longrightarrow> Split (d # a) c = (d # hd (Split a c)) # tl (Split a c)"
  by (cases "Split a c") auto

lemma set_Split: "x \<in> set (Split s c) \<Longrightarrow> y \<in> set x \<Longrightarrow> y \<in> set s \<and> y \<noteq> c"
proof (induction s arbitrary: x)
  case (Cons d s)
  then show ?case by (cases "Split s c") (fastforce split: if_splits)+
qed simp

lemma path_segments_concat: "path_segments p = Some segs \<Longrightarrow> p = concat (map ((#) dot) segs)"
proof (induction p arbitrary: segs rule: path_segments.induct)
  case (2 c s)
  show ?case
  proof (cases s)
    case Nil
    with 2 show ?thesis by (auto split: if_splits)
  next
    case (Cons q r)
    show ?thesis
    proof (cases "q = dq")
      case True
      let ?rest = "dropWhile (\<lambda>x. x \<noteq> dq) r"
      from 2(3) Cons True obtain segs' where rest: "c = dot" "?rest \<noteq> []" "takeWhile (\<lambda>x. x \<noteq> dq) r \<noteq> []"
        and segs': "path_segments (tl ?rest) = Some segs'"
        and segs: "segs = (dq # takeWhile (\<lambda>x. x \<noteq> dq) r @ [dq]) # segs'"
        by (auto simp: Let_def split: if_splits)
      from 2(1) [OF _ Cons True refl refl _ segs'] rest have IH: "tl ?rest = concat (map ((#) dot) segs')"
        by blast
      have "hd ?rest = dq" using hd_dropWhile [OF rest(2)] by simp
      then have "r = takeWhile (\<lambda>x. x \<noteq> dq) r @ dq # tl ?rest"
        using rest(2) by (metis list.collapse takeWhile_dropWhile_id)
      with IH segs rest(1) Cons True show ?thesis by simp
    next
      case False
      from 2(3) Cons False obtain segs' where w: "c = dot" "takeWhile word_char s \<noteq> []"
        and segs': "path_segments (dropWhile word_char s) = Some segs'"
        and segs: "segs = takeWhile word_char s # segs'"
        by (auto simp: Let_def split: if_splits)
      from 2(2) [OF _ Cons False refl _] w segs' Cons have "dropWhile word_char s = concat (map ((#) dot) segs')"
        by blast
      with segs w takeWhile_dropWhile_id [of word_char s] show ?thesis by simp
    qed
  qed
qed simp

lemma Split_segments:
  "Split (concat (map ((#) c) segs)) c = [] # concat (map (\<lambda>s. Split s c) segs)"
proof (induction segs)
  case (Cons s segs)
  then show ?case
    by (cases segs) (simp_all add: Split_append_char)
qed simp

text \<open>A word segment, and a quoted segment none of whose dot-separated pieces is empty.\<close>

definition plain_segment :: "string \<Rightarrow> bool" where
  "plain_segment seg \<longleftrightarrow> seg \<noteq> [] \<and> list_all word_char seg"

definition quoted_segment :: "string \<Rightarrow> bool" where
  "quoted_segment seg \<longleftrightarrow>
     (\<exists>body. seg = dq # body @ [dq] \<and> dq \<notin> set body \<and> [] \<notin> set (Split body dot))"

lemma HasPrefix_single: "HasPrefix s [c] \<longleftrightarrow> s \<noteq> [] \<and> hd s = c"
  by (cases s) (auto simp: HasPrefix_def)

lemma HasSuffix_single: "HasSuffix s [c] \<longleftrightarrow> s \<noteq> [] \<and> last s = c"
  by (cases s rule: rev_cases) (auto simp: HasSuffix_def HasPrefix_def)

lemma word_char_not: "word_char c \<Longrightarrow> c \<noteq> dot \<and> c \<noteq> dq"
  by (auto simp: word_char_def)

lemma fold_plain_segment:
  assumes "plain_segment seg"
  shows "foldl split_part (res, []) (Split seg dot) = (res @ [seg], [])"
proof -
  have chars: "\<forall>c\<in>set seg. c \<noteq> dot \<and> c \<noteq> dq"
    using assms word_char_not by (auto simp: plain_segment_def list_all_iff)
  then have "Split seg dot = [seg]" by (auto intro: Split_no_sep)
  moreover have "seg \<noteq> []" "hd seg \<noteq> dq"
    using assms chars hd_in_set [of seg] by (auto simp: plain_segment_def)
  moreover have "last seg \<noteq> dq"
    using calculation(2) chars last_in_set [of seg] by auto
  ultimately show ?thesis by (simp add: split_part_def HasPrefix_single HasSuffix_single)
qed

lemma fold_open_segment:
  "ps \<noteq> [] \<Longrightarrow> \<forall>p\<in>set ps. p \<noteq> [] \<and> dq \<notin> set p \<Longrightarrow> cur \<noteq> [] \<Longrightarrow>
   foldl split_part (res, cur) (butlast ps @ [last ps @ [dq]]) =
     (res @ [cur @ concat (map ((#) dot) ps) @ [dq]], [])"
proof (induction ps arbitrary: cur)
  case (Cons p ps)
  then have "p \<noteq> []" "dq \<notin> set p" by simp_all
  then have p: "p \<noteq> []" "hd p \<noteq> dq" "last p \<noteq> dq"
    using hd_in_set [of p] last_in_set [of p] by metis+
  show ?case
  proof (cases ps)
    case Nil
    with p show ?thesis
      by (simp add: split_part_def HasPrefix_single HasSuffix_single hd_append)
  next
    case (Cons a list)
    have "split_part (res, cur) p = (res, cur @ dot # p)"
      using p Cons.prems by (simp add: split_part_def HasPrefix_single HasSuffix_single)
    with Cons Cons.IH [of "cur @ dot # p"] Cons.prems show ?thesis by simp
  qed
qed simp

lemma fold_quoted_segment:
  assumes "quoted_segment seg"
  shows "foldl split_part (res, []) (Split seg dot) = (res @ [seg], [])"
proof -
  obtain body where seg: "seg = dq # body @ [dq]" and no: "dq \<notin> set body" "[] \<notin> set (Split body dot)"
    using assms by (auto simp: quoted_segment_def)
  obtain b bs where split: "Split body dot = b # bs" by (cases "Split body dot") auto
  have pieces: "\<forall>p\<in>set (b # bs). p \<noteq> [] \<and> dq \<notin> set p"
    using no split set_Split [of _ body dot] by (metis)
  have join: "body = b @ concat (map ((#) dot) bs)"
  proof -
    have "Join (b # xs) [dot] = b @ concat (map ((#) dot) xs)" for xs b
      by (induction xs arbitrary: b) simp_all
    then show ?thesis using Join_Split [of body dot] split by simp
  qed
  show ?thesis
  proof (cases bs)
    case Nil
    then have "Split seg dot = [seg]"
      using join split by (simp add: seg Split_Cons_other Split_last)
    then show ?thesis by (simp add: seg split_part_def HasPrefix_single HasSuffix_single)
  next
    case (Cons x xs)
    have "Split seg dot = (dq # b) # butlast bs @ [last bs @ [dq]]"
      using split Cons by (simp add: seg Split_Cons_other Split_last)
    moreover have "last (dq # b) \<noteq> dq"
      using pieces by (metis last_ConsR last_in_set list.set_intros(1))
    then have "split_part (res, []) (dq # b) = (res, dq # b)"
      by (simp add: split_part_def HasPrefix_single HasSuffix_single)
    ultimately show ?thesis
      using fold_open_segment [of bs "dq # b" res] pieces Cons join by (simp add: seg)
  qed
qed

lemma SplitPath_segments:
  assumes "\<forall>s\<in>set segs. plain_segment s \<or> quoted_segment s"
  shows "SplitPath (concat (map ((#) dot) segs)) = segs"
proof -
  have "foldl split_part (res, []) (concat (map (\<lambda>s. Split s dot) segs)) = (res @ segs, [])" for res
    using assms
    by (induction segs arbitrary: res) (auto simp: fold_plain_segment fold_quoted_segment)
  moreover have "split_part ([], []) [] = ([], [])" by (simp add: split_part_def)
  ultimately show ?thesis by (simp add: SplitPath_def Split_segments)
qed

lemma path_segments_shape:
  "path_segments p = Some segs \<Longrightarrow> s \<in> set segs \<Longrightarrow>
   plain_segment s \<or> (\<exists>body. s = dq # body @ [dq] \<and> dq \<notin> set body \<and> body \<noteq> [])"
proof (induction p arbitrary: segs rule: path_segments.induct)
  case (2 c t)
  show ?case
  proof (cases t)
    case Nil
    with 2 show ?thesis by (auto split: if_splits)
  next
    case (Cons q r)
    let ?body = "takeWhile (\<lambda>x. x \<noteq> dq) r" and ?w = "takeWhile word_char t"
    have "dq \<notin> set ?body" by (auto dest: set_takeWhileD)
    moreover have "?w \<noteq> [] \<Longrightarrow> plain_segment ?w"
      by (auto simp: plain_segment_def list_all_iff dest: set_takeWhileD)
    ultimately show ?thesis
      using 2 Cons by (cases "q = dq") (auto simp: Let_def split: if_splits)
  qed
qed simp

section \<open>Properties\<close>

text \<open>
  C37. On every path that the validation's path expression accepts, and in which no quoted segment
  has an empty piece between its dots, \<open>SplitPath\<close> returns exactly the segments the
  expression reads.
\<close>

theorem SplitPath_correct:
  assumes "path_segments p = Some segs"
    and "\<forall>body. dq # body @ [dq] \<in> set segs \<longrightarrow> [] \<notin> set (Split body dot)"
  shows "SplitPath p = segs"
proof -
  have "\<forall>s\<in>set segs. plain_segment s \<or> quoted_segment s"
    using path_segments_shape [OF assms(1)] assms(2) by (fastforce simp: quoted_segment_def)
  then show ?thesis
    using SplitPath_segments path_segments_concat [OF assms(1)] by simp
qed

definition sample_path :: string where
  "sample_path = ''.kubernetes.labels.'' @ [dq] @ ''app.io/name'' @ [dq]"

theorem SplitPath_correct_witness:
  "SplitPath sample_path = [''kubernetes'', ''labels'', [dq] @ ''app.io/name'' @ [dq]]"
proof -
  have segs: "path_segments sample_path = Some [''kubernetes'', ''labels'', [dq] @ ''app.io/name'' @ [dq]]"
    by (simp add: sample_path_def word_char_def)
  show ?thesis by (rule SplitPath_correct [OF segs]) auto
qed

text \<open>
  Outside that condition \<open>SplitPath\<close> changes the path: it loses the second of two adjacent
  dots in a quoted segment, and it breaks up a quoted segment that starts with a dot, although the
  validation accepts both paths as one segment.
\<close>

theorem SplitPath_mangles:
  "path_segments (''.'' @ [dq] @ ''a..b'' @ [dq]) = Some [[dq] @ ''a..b'' @ [dq]]
   \<and> SplitPath (''.'' @ [dq] @ ''a..b'' @ [dq]) = [[dq] @ ''a.b'' @ [dq]]
   \<and> path_segments (''.'' @ [dq] @ ''.a'' @ [dq]) = Some [[dq] @ ''.a'' @ [dq]]
   \<and> SplitPath (''.'' @ [dq] @ ''.a'' @ [dq]) = [[dq], ''.a'' @ [dq]]"
  by (simp add: SplitPath_def split_part_def HasPrefix_single HasSuffix_single)

text \<open>
  Component identifiers are injective on names that the identifier format leaves alone; the
  names of a ClusterLogForwarder may also hold dashes, which it does not.
\<close>

definition id_char :: "char \<Rightarrow> bool" where
  "id_char c \<longleftrightarrow> (CHR ''a'' \<le> c \<and> c \<le> CHR ''z'') \<or> (CHR ''0'' \<le> c \<and> c \<le> CHR ''9'')"

definition id_safe :: "string \<Rightarrow> bool" where
  "id_safe s \<longleftrightarrow> list_all id_char s"

lemma id_char_format: "id_char c \<Longrightarrow> char_to_lower (Replacer_char c) = c \<and> c \<noteq> CHR ''_''"
proof -
  assume c: "id_char c"
  moreover have "\<not> id_char (CHR '' '')" "\<not> id_char (CHR ''-'')" "\<not> id_char dot" "\<not> id_char (CHR ''_'')"
    by (simp_all add: id_char_def less_eq_char_def)
  ultimately have "c \<noteq> CHR '' ''" "c \<noteq> CHR ''-''" "c \<noteq> dot" "c \<noteq> CHR ''_''" by metis+
  with c show ?thesis by (auto simp: id_char_def Replacer_char_def char_to_lower_def less_eq_char_def)
qed

lemma format_id_safe: "id_safe s \<Longrightarrow> FormatComponentID s = s"
proof -
  assume "id_safe s"
  then have "\<forall>c\<in>set s. char_to_lower (Replacer_char c) = c"
    unfolding id_safe_def list_all_iff using id_char_format by blast
  then show ?thesis by (simp add: FormatComponentID_def ToLower_def map_idI)
qed

lemma id_safe_underscore: "id_safe s \<Longrightarrow> CHR ''_'' \<notin> set s"
  unfolding id_safe_def list_all_iff using id_char_format by blast

lemma FormatComponentID_Join:
  "FormatComponentID (Join xs ''_'') = Join (map FormatComponentID xs) ''_''"
proof (induction xs "''_''" rule: Join.induct)
  case 1
  then show ?case by (simp add: FormatComponentID_def ToLower_def)
next
  case (3 x y xs)
  have "FormatComponentID (a @ ''_'' @ b) = FormatComponentID a @ ''_'' @ FormatComponentID b" for a b
    by (simp add: FormatComponentID_def ToLower_def Replacer_char_def char_to_lower_def)
  with 3 show ?case by simp
qed simp

text \<open>
  C38. Component identifiers built from names of lower-case letters and digits tell their parts
  apart: equal identifiers come from equal lists of names.
\<close>

theorem MakeID_injective:
  assumes "\<forall>x\<in>set xs. id_safe x" "\<forall>y\<in>set ys. id_safe y" "xs \<noteq> []" "ys \<noteq> []"
    and "MakeID xs = MakeID ys"
  shows "xs = ys"
proof -
  have "Join xs ''_'' = Join ys ''_''"
    using assms by (simp add: MakeID_def FormatComponentID_Join format_id_safe cong: map_cong)
  moreover have "\<forall>x\<in>set xs. CHR ''_'' \<notin> set x" "\<forall>y\<in>set ys. CHR ''_'' \<notin> set y"
    using assms(1,2) id_safe_underscore by blast+
  ultimately show ?thesis using Split_Join assms(3,4) by metis
qed

theorem MakeID_injective_witness: "MakeID [''pipeline'', ''a'', ''b''] \<noteq> MakeID [''pipeline'', ''ab'', ''0'']"
  using MakeID_injective [of "[''pipeline'', ''a'', ''b'']" "[''pipeline'', ''ab'', ''0'']"]
  by (auto simp: id_safe_def id_char_def less_eq_char_def)


end
