(* ===== verification/Go_Url.thy ===== *)
theory Go_Url
  imports Vrl_Paths
begin

text \<open>
  \<open>net/url.Parse\<close> as far as the operator looks at the result: whether the URL parses, its
  scheme, host and path; and \<open>internal/generator/url\<close> on top of it. A URL that does not parse is
  \<open>None\<close>, the nil pointer that \<open>Parse\<close> returns.
\<close>

section \<open>net/url\<close>

record URL =
  url_Scheme :: string
  url_Host :: string
  url_Path :: string
  url_Opaque :: string

definition alpha_char :: "char \<Rightarrow> bool" where
  "alpha_char c \<longleftrightarrow> (CHR ''a'' \<le> c \<and> c \<le> CHR ''z'') \<or> (CHR ''A'' \<le> c \<and> c \<le> CHR ''Z'')"

definition num_char :: "char \<Rightarrow> bool" where
  "num_char c \<longleftrightarrow> CHR ''0'' \<le> c \<and> c \<le> CHR ''9''"

text \<open>The scheme and the rest; \<open>None\<close> when the URL starts with a colon.\<close>

fun scan_scheme :: "string \<Rightarrow> string \<Rightarrow> (string \<times> string) option" where
  "scan_scheme acc [] = Some ([], rev acc)"
| "scan_scheme acc (c # s) =
     (if alpha_char c then scan_scheme (c # acc) s
      else if num_char c \<or> c = CHR ''+'' \<or> c = CHR ''-'' \<or> c = dot
      then (if acc = [] then Some ([], c # s) else scan_scheme (c # acc) s)
      else if c = CHR '':'' then (if acc = [] then None else Some (rev acc, s))
      else Some ([], rev acc @ c # s))"

definition getScheme :: "string \<Rightarrow> (string \<times> string) option" where
  "getScheme rawURL = scan_scheme [] rawURL"

definition Cut :: "char \<Rightarrow> string \<Rightarrow> string \<times> string" where
  "Cut c s = (takeWhile (\<lambda>x. x \<noteq> c) s, tl (dropWhile (\<lambda>x. x \<noteq> c) s))"

text \<open>The part before and from the last occurrence of a character.\<close>

definition CutLast :: "char \<Rightarrow> string \<Rightarrow> (string \<times> string) option" where
  "CutLast c s =
     (if c \<in> set s
      then Some (rev (tl (dropWhile (\<lambda>x. x \<noteq> c) (rev s))), rev (takeWhile (\<lambda>x. x \<noteq> c) (rev s)))
      else None)"

datatype escape_mode = EncodePlain | EncodeHost | EncodeZone

definition host_char :: "char \<Rightarrow> bool" where
  "host_char c \<longleftrightarrow> alpha_char c \<or> num_char c
     \<or> c \<in> set (''-_.~!$&()*+,;=:[]<>'' @ [sq, dq]) \<or> 128 \<le> (of_char c :: nat)"

definition hex_val :: "char \<Rightarrow> nat option" where
  "hex_val c =
     (if num_char c then Some (of_char c - 48)
      else if CHR ''a'' \<le> c \<and> c \<le> CHR ''f'' then Some (of_char c - 87)
      else if CHR ''A'' \<le> c \<and> c \<le> CHR ''F'' then Some (of_char c - 55)
      else None)"

fun unescape :: "escape_mode \<Rightarrow> string \<Rightarrow> string option" where
  "unescape mode [] = Some []"
| "unescape mode (c # s) =
     (if c = CHR ''%''
      then (case s of
              h # l # r \<Rightarrow>
                (case (hex_val h, hex_val l) of
                   (Some x, Some y) \<Rightarrow>
                     (let v = (char_of (16 * x + y) :: char)
                      in if mode = EncodeHost \<and> x < 8 \<and> \<not> (h = CHR ''2'' \<and> l = CHR ''5'') then None
                         else if mode = EncodeZone \<and> \<not> (h = CHR ''2'' \<and> l = CHR ''5'')
                                 \<and> v \<noteq> CHR '' '' \<and> \<not> host_char v then None
                         else map_option ((#) v) (unescape mode r))
                 | _ \<Rightarrow> None)
            | _ \<Rightarrow> None)
      else if mode \<noteq> EncodePlain \<and> \<not> host_char c then None
      else map_option ((#) c) (unescape mode s))"

definition validOptionalPort :: "string \<Rightarrow> bool" where
  "validOptionalPort port \<longleftrightarrow>
     (case port of [] \<Rightarrow> True | c # ds \<Rightarrow> c = CHR '':'' \<and> list_all num_char ds)"

fun find_zone :: "string \<Rightarrow> string \<Rightarrow> (string \<times> string) option" where
  "find_zone acc s =
     (if HasPrefix s ''%25'' then Some (rev acc, s)
      else (case s of [] \<Rightarrow> None | c # r \<Rightarrow> find_zone (c # acc) r))"

declare find_zone.simps [simp del]

definition parseHost :: "string \<Rightarrow> string option" where
  "parseHost host =
     (if HasPrefix host ''[''
      then (case CutLast (CHR '']'') host of
              None \<Rightarrow> None
            | Some (inner, colonPort) \<Rightarrow>
                if \<not> validOptionalPort colonPort then None
                else (case find_zone [] inner of
                        None \<Rightarrow> unescape EncodeHost host
                      | Some (host1, host2) \<Rightarrow>
                          (case (unescape EncodeHost host1, unescape EncodeZone host2,
                                 unescape EncodeHost ('']'' @ colonPort)) of
                             (Some a, Some b, Some c) \<Rightarrow> Some (a @ b @ c)
                           | _ \<Rightarrow> None)))
      else (case CutLast (CHR '':'') host of
              None \<Rightarrow> unescape EncodeHost host
            | Some (_, port) \<Rightarrow>
                if \<not> validOptionalPort ('':'' @ port) then None else unescape EncodeHost host))"

definition userinfo_char :: "char \<Rightarrow> bool" where
  "userinfo_char c \<longleftrightarrow> alpha_char c \<or> num_char c \<or> c \<in> set (''-._:~!$&()*+,;=%@'' @ [sq])"

definition parseAuthority :: "string \<Rightarrow> string option" where
  "parseAuthority authority =
     (case CutLast (CHR ''@'') authority of
        None \<Rightarrow> parseHost authority
      | Some (userinfo, host) \<Rightarrow>
          (case parseHost host of
             None \<Rightarrow> None
           | Some h \<Rightarrow>
               if \<not> list_all userinfo_char userinfo then None
               else (case Cut (CHR '':'') userinfo of
                       (username, password) \<Rightarrow>
                         if unescape EncodePlain username = None \<or> unescape EncodePlain password = None
                         then None else Some h)))"

definition ctl_byte :: "char \<Rightarrow> bool" where
  "ctl_byte c \<longleftrightarrow> (of_char c :: nat) < 32 \<or> c = CHR 0x7F"

definition parse_rest :: "string \<Rightarrow> string \<Rightarrow> URL option" where
  "parse_rest scheme rest0 =
     (let rest = fst (Cut (CHR ''?'') rest0)
      in if \<not> HasPrefix rest ''/'' \<and> scheme \<noteq> []
         then Some \<lparr>url_Scheme = scheme, url_Host = [], url_Path = [], url_Opaque = rest\<rparr>
         else if \<not> HasPrefix rest ''/'' \<and> CHR '':'' \<in> set (fst (Cut (CHR ''/'') rest)) then None
         else
           (let (host, path) =
              (if (scheme \<noteq> [] \<or> \<not> HasPrefix rest ''///'') \<and> HasPrefix rest ''//''
               then (parseAuthority (takeWhile (\<lambda>x. x \<noteq> CHR ''/'') (drop 2 rest)),
                     dropWhile (\<lambda>x. x \<noteq> CHR ''/'') (drop 2 rest))
               else (Some [], rest))
            in case (host, unescape EncodePlain path) of
                 (Some h, Some p) \<Rightarrow>
                   Some \<lparr>url_Scheme = scheme, url_Host = h, url_Path = p, url_Opaque = []\<rparr>
               | _ \<Rightarrow> None))"

definition url_Parse :: "string \<Rightarrow> URL option" where
  "url_Parse rawURL =
     (case Cut (CHR ''#'') rawURL of
        (u, frag) \<Rightarrow>
          if list_ex ctl_byte u \<or> unescape EncodePlain frag = None then None
          else if u = ''*''
          then Some \<lparr>url_Scheme = [], url_Host = [], url_Path = ''*'', url_Opaque = []\<rparr>
          else (case getScheme u of
                  None \<Rightarrow> None
                | Some (scheme, rest) \<Rightarrow> parse_rest (ToLower scheme) rest))"

section \<open>internal/generator/url\<close>

definition secureSchemes :: "string \<rightharpoonup> string" where
  "secureSchemes = [''https'' \<mapsto> ''http'', ''tls'' \<mapsto> ''tcp'', ''ssl'' \<mapsto> ''tcp'']"

definition IsTLSScheme :: "string \<Rightarrow> bool" where
  "IsTLSScheme scheme \<longleftrightarrow> (case secureSchemes (ToLower scheme) of None \<Rightarrow> False | Some s \<Rightarrow> s \<noteq> [])"

definition IsSecure :: "string \<Rightarrow> bool" where
  "IsSecure urlString = (case url_Parse urlString of None \<Rightarrow> True | Some u \<Rightarrow> IsTLSScheme (url_Scheme u))"

definition PlainScheme :: "string \<Rightarrow> string" where
  "PlainScheme scheme =
     (case secureSchemes (ToLower scheme) of Some base \<Rightarrow> base | None \<Rightarrow> ToLower scheme)"

datatype url_error = UrlEmpty | NoScheme URL | NoHost URL

definition CheckAbsolute :: "URL option \<Rightarrow> url_error option" where
  "CheckAbsolute u =
     (case u of
        None \<Rightarrow> Some UrlEmpty
      | Some v \<Rightarrow>
          if url_Scheme v = [] then Some (NoScheme v)
          else if url_Host v = [] then Some (NoHost v)
          else None)"

lemma ToLower_idem [simp]: "ToLower (ToLower s) = ToLower s"
  by (simp add: ToLower_def char_to_lower_idem)

lemma PlainScheme_not_TLS: "\<not> IsTLSScheme (PlainScheme scheme)"
proof (cases "secureSchemes (ToLower scheme)")
  case (Some base)
  then have "base = ''http'' \<or> base = ''tcp''" by (auto simp: secureSchemes_def split: if_splits)
  then show ?thesis
    using Some by (auto simp: PlainScheme_def IsTLSScheme_def secureSchemes_def ToLower_def char_to_lower_def)
qed (simp add: PlainScheme_def IsTLSScheme_def)

end
