(* ===== verification/Validate_Outputs.thy ===== *)
theory Validate_Outputs
  imports Validate_Common Go_Url
begin

text \<open>
  Validation of outputs (\<open>internal/validations/observability/outputs\<close>), with the AWS role helpers
  of \<open>internal/collector/aws\<close> that it calls. Arguments stand for what the sources do not
  determine: \<open>unmarshal\<close> is \<open>json.Unmarshal\<close> into the credential file struct, \<open>hord\<close> the order
  in which a header map is ranged over, \<open>content_order\<close> the order of the keys of
  \<open>validContentTypes\<close>.
\<close>

section \<open>AWS roles (credentials.go, aws_auth.go)\<close>

definition cw_auth :: "OutputSpec \<Rightarrow> AwsAuthentication option" where
  "cw_auth o' = Option.bind (output_Cloudwatch o') cw_Authentication"

definition s3_auth :: "OutputSpec \<Rightarrow> AwsAuthentication option" where
  "s3_auth o' = Option.bind (output_S3 o') s3_Authentication"

definition OutputIsAwsRoleAuth :: "OutputSpec \<Rightarrow> AwsAuthentication option" where
  "OutputIsAwsRoleAuth o' =
     (if Option.bind (cw_auth o') aws_IamRole \<noteq> None then cw_auth o'
      else if Option.bind (s3_auth o') aws_IamRole \<noteq> None then s3_auth o'
      else None)"

definition OutputIsAssumeRole :: "OutputSpec \<Rightarrow> AwsAssumeRole option" where
  "OutputIsAssumeRole o' =
     (if Option.bind (cw_auth o') aws_AssumeRole \<noteq> None then Option.bind (cw_auth o') aws_AssumeRole
      else Option.bind (s3_auth o') aws_AssumeRole)"

text \<open>
  The role expression is \<^verbatim>\<open>(arn:aws(.*)?:(iam|sts)::\d{12}:role\/\S+)\s?\<close>. \<open>arn_tail\<close> reads
  what follows the wildcard, \<open>arn_wild\<close> the longest wildcard that lets it match, \<open>find_arn\<close>
  the leftmost start.
\<close>

definition regex_space :: "char \<Rightarrow> bool" where
  "regex_space c \<longleftrightarrow> c \<in> {CHR '' '', CHR 0x09, newline, CHR 0x0C, carriage}"

definition arn_tail :: "string \<Rightarrow> string option" where
  "arn_tail s =
     (let res = takeWhile (\<lambda>c. \<not> regex_space c) (drop 24 s)
      in if (HasPrefix s '':iam::'' \<or> HasPrefix s '':sts::'') \<and> 24 \<le> length s
            \<and> list_all num_char (take 12 (drop 6 s)) \<and> take 6 (drop 18 s) = '':role/'' \<and> res \<noteq> []
         then Some (take 24 s @ res) else None)"

fun arn_wild :: "string \<Rightarrow> string option" where
  "arn_wild [] = arn_tail []"
| "arn_wild (c # s) =
     (case (if c \<noteq> newline then arn_wild s else None) of
        Some m \<Rightarrow> Some (c # m)
      | None \<Rightarrow> arn_tail (c # s))"

fun find_arn :: "string \<Rightarrow> string option" where
  "find_arn [] = None"
| "find_arn (c # s) =
     (case (if HasPrefix (c # s) ''arn:aws'' then arn_wild (drop 7 (c # s)) else None) of
        Some m \<Rightarrow> Some (''arn:aws'' @ m)
      | None \<Rightarrow> find_arn s)"

definition findSubstring :: "string \<Rightarrow> string" where
  "findSubstring roleString =
     (if roleString \<noteq> [] then (case find_arn roleString of Some m \<Rightarrow> m | None \<Rightarrow> []) else [])"

definition ParseRoleArn :: "AwsAuthentication \<Rightarrow> Secrets \<Rightarrow> string" where
  "ParseRoleArn authSpec secrets =
     findSubstring (case aws_IamRole authSpec of None \<Rightarrow> [] | Some r \<Rightarrow> AsString secrets (Some (awsrole_RoleARN r)))"

definition ParseAssumeRoleArn :: "AwsAssumeRole \<Rightarrow> Secrets \<Rightarrow> string" where
  "ParseAssumeRoleArn assumeRoleSpec secrets =
     findSubstring (AsString secrets (Some (assume_RoleARN assumeRoleSpec)))"

definition ValidateAwsAuth :: "OutputSpec \<Rightarrow> Secrets \<Rightarrow> string list" where
  "ValidateAwsAuth o' secrets =
     (case OutputIsAwsRoleAuth o' of
        None \<Rightarrow> []
      | Some awsAuth \<Rightarrow> if ParseRoleArn awsAuth secrets = [] then [''AWS RoleARN is invalid''] else [])
     @ (case OutputIsAssumeRole o' of
          None \<Rightarrow> []
        | Some spec \<Rightarrow> if ParseAssumeRoleArn spec secrets = [] then [''AWS AssumeRole RoleARN is invalid''] else [])"

section \<open>Size limits (validate_cloudwatch.go, validate_azurelogsingestion.go)\<close>

definition CloudwatchDefaultMaxBytes :: int where "CloudwatchDefaultMaxBytes = 1048576"

definition AzureDefaultMaxBytes :: int where "AzureDefaultMaxBytes = 1000000"

text \<open>\<open>Quantity.Value\<close> rounds away from zero.\<close>

definition Quantity_Value :: "Quantity \<Rightarrow> int" where
  "Quantity_Value q = (if 0 \<le> q then (q + 999) div 1000 else - ((999 - q) div 1000))"

definition Itoa_int :: "int \<Rightarrow> string" where
  "Itoa_int n = (if n < 0 then ''-'' @ Itoa (nat (- n)) else Itoa (nat n))"

definition max_write_message :: "string \<Rightarrow> int \<Rightarrow> Quantity option \<Rightarrow> string list" where
  "max_write_message kind limit maxWrite =
     (case maxWrite of
        None \<Rightarrow> []
      | Some q \<Rightarrow>
          if limit < Quantity_Value q
          then [''maxWrite must not exceed '' @ Itoa_int limit @ '' bytes for '' @ kind @ '', got ''
                  @ Itoa_int (Quantity_Value q) @ '' bytes'']
          else [])"

definition validateCloudwatchMaxWrite :: "OutputSpec \<Rightarrow> string list" where
  "validateCloudwatchMaxWrite o' =
     (if output_Type o' \<noteq> OutputTypeCloudwatch then []
      else max_write_message ''CloudWatch'' CloudwatchDefaultMaxBytes
        (Option.bind (Option.bind (output_Cloudwatch o') cw_Tuning) (base_MaxWrite \<circ> ctune_Base)))"

definition validateAzureLogsIngestionMaxWrite :: "OutputSpec \<Rightarrow> string list" where
  "validateAzureLogsIngestionMaxWrite o' =
     (if output_Type o' \<noteq> OutputTypeAzureLogsIngestion then []
      else max_write_message ''AzureLogsIngestion'' AzureDefaultMaxBytes
        (Option.bind (Option.bind (output_AzureLogsIngestion o') azli_Tuning) base_MaxWrite))"

section \<open>Google Cloud credentials (validate_gcl_auth.go)\<close>

record gcpCredentialFile =
  gcp_Type :: string
  gcp_CredentialSourceFile :: "string option"

definition ServiceAccountSecretPath :: string where
  "ServiceAccountSecretPath = ''/var/run/ocp-collector/serviceaccount''"

definition TokenKey :: string where "TokenKey = ''token''"

definition expectedTokenPath :: "BearerToken option \<Rightarrow> string" where
  "expectedTokenPath token =
     (case token of
        None \<Rightarrow> []
      | Some t \<Rightarrow>
          (case token_From t of
             BearerTokenFromServiceAccount \<Rightarrow> rooted_Join [ServiceAccountSecretPath, TokenKey]
           | BearerTokenFromSecret \<Rightarrow>
               (case token_Secret t of
                  None \<Rightarrow> []
                | Some s \<Rightarrow> rooted_Join [CollectorSecretsDir, btsk_Name s, btsk_Key s])
           | BearerTokenFromOther _ \<Rightarrow> []))"

definition validateGCLExternalAccount :: "gcpCredentialFile \<Rightarrow> BearerToken option \<Rightarrow> string list" where
  "validateGCLExternalAccount creds token =
     (case gcp_CredentialSourceFile creds of
        None \<Rightarrow> [''GCP external account credentials missing required field '' @ Quote ''credential_source'']
      | Some file \<Rightarrow>
          let expectedPath = expectedTokenPath token
          in if expectedPath \<noteq> [] \<and> file \<noteq> expectedPath
             then [''GCP external account credential_source.file '' @ Quote file
                     @ '' does not match expected token path '' @ Quote expectedPath]
             else [])"

definition ValidateGCLAuth ::
  "(string \<Rightarrow> gcpCredentialFile option) \<Rightarrow> OutputSpec \<Rightarrow> Secrets \<Rightarrow> string list" where
  "ValidateGCLAuth unmarshal o' secrets =
     (case Option.bind (output_GoogleCloudLogging o') gcl_Authentication of
        None \<Rightarrow> []
      | Some auth \<Rightarrow>
          (case gclauth_Credentials auth of
             None \<Rightarrow> [''GCP authentication is missing credentials'']
           | Some ref \<Rightarrow>
               (case Secrets_Value secrets (Some ref) of
                  None \<Rightarrow> [''GCP credentials secret '' @ Quote (sref_SecretName ref) @ '' with key ''
                            @ Quote (sref_Key ref) @ '' not found'']
                | Some data \<Rightarrow>
                    (case unmarshal data of
                       None \<Rightarrow> [''GCP credentials secret is not valid JSON'']
                     | Some creds \<Rightarrow>
                         if gcp_Type creds = ''service_account'' then []
                         else if gcp_Type creds = ''external_account''
                         then validateGCLExternalAccount creds (gclauth_Token auth)
                         else [''GCP credentials file has unsupported type '' @ Quote (gcp_Type creds)
                                 @ '', expected '' @ Quote ''service_account'' @ '' or ''
                                 @ Quote ''external_account'']))))"

section \<open>Headers\<close>

definition header_byte :: "char \<Rightarrow> bool" where
  "header_byte c \<longleftrightarrow> alpha_char c \<or> num_char c \<or> c \<in> set (''!#$%&*+-.^_`|~'' @ [sq])"

definition char_to_upper :: "char \<Rightarrow> char" where
  "char_to_upper c = (if CHR ''a'' \<le> c \<and> c \<le> CHR ''z'' then char_of ((of_char c :: nat) - 32) else c)"

fun canonical_chars :: "bool \<Rightarrow> string \<Rightarrow> string" where
  "canonical_chars upper [] = []"
| "canonical_chars upper (c # s) =
     (let d = (if upper then char_to_upper c else char_to_lower c)
      in d # canonical_chars (d = CHR ''-'') s)"

definition CanonicalHeaderKey :: "string \<Rightarrow> string" where
  "CanonicalHeaderKey s = (if list_all header_byte s then canonical_chars True s else s)"

definition validateElasticsearchHeaders :: "string list \<Rightarrow> OutputSpec \<Rightarrow> string list" where
  "validateElasticsearchHeaders hs o' =
     (if output_Type o' = OutputTypeElasticsearch \<and> output_Elasticsearch o' \<noteq> None
      then
        (let invalidHeaders = filter (\<lambda>h. CanonicalHeaderKey h \<in> {''Authorization'', ''Content-Type''}) hs;
             canonicalKeys = sorted_set (map CanonicalHeaderKey hs)
         in (if invalidHeaders \<noteq> [] then [''invalid headers found: '' @ Join (sort invalidHeaders) '',''] else [])
            @ concat (map (\<lambda>canonicalName.
                let originals = filter (\<lambda>h. CanonicalHeaderKey h = canonicalName) hs
                in if 1 < length originals
                   then [''duplicate case-variant headers '' @ [sq]
                           @ Join (sort originals) ([sq] @ '', '' @ [sq]) @ [sq] @ '' found, use canonical form ''
                           @ [sq] @ canonicalName @ [sq]]
                   else []) canonicalKeys))
      else [])"

definition validContentTypes :: "string \<rightharpoonup> string" where
  "validContentTypes = [''application/json'' \<mapsto> ''json'', ''application/x-ndjson'' \<mapsto> ''ndjson'']"

definition validateHttpContentTypeHeaders :: "string list \<Rightarrow> OutputSpec \<Rightarrow> string list" where
  "validateHttpContentTypeHeaders content_order o' =
     (if output_Type o' = OutputTypeHTTP
      then (case Option.bind (output_HTTP o') (\<lambda>h. http_Headers h ''Content-Type'') of
              None \<Rightarrow> []
            | Some contentType \<Rightarrow>
                if map_value validContentTypes (ToLower contentType) = []
                then [''not valid content type set in headers: '' @ contentType @ '' , supported types: ''
                        @ fmt_v_list content_order]
                else [])
      else [])"

section \<open>URLs and TLS (validate_url_to_output_tls.go)\<close>

definition tls_checked_urls :: "OutputSpec \<Rightarrow> string list go" where
  "tls_checked_urls o' =
     (case output_Type o' of
        OutputTypeCloudwatch \<Rightarrow> go_bind (deref (output_Cloudwatch o')) (\<lambda>c. Inr [cw_URL c])
      | OutputTypeElasticsearch \<Rightarrow>
          go_bind (deref (output_Elasticsearch o'))
            (\<lambda>e. Inr ((if es_URL e \<noteq> [] then [es_URL e] else []) @ es_Endpoints e))
      | OutputTypeHTTP \<Rightarrow> go_bind (deref (output_HTTP o')) (\<lambda>h. Inr [http_URL h])
      | OutputTypeKafka \<Rightarrow> go_bind (deref (output_Kafka o')) (\<lambda>k. Inr [kafka_URL k])
      | OutputTypeLoki \<Rightarrow> go_bind (deref (output_Loki o')) (\<lambda>l. Inr [loki_URL l])
      | OutputTypeSplunk \<Rightarrow> go_bind (deref (output_Splunk o')) (\<lambda>s. Inr [splunk_URL s])
      | OutputTypeSyslog \<Rightarrow> go_bind (deref (output_Syslog o')) (\<lambda>s. Inr [syslog_URL s])
      | OutputTypeOTLP \<Rightarrow> go_bind (deref (output_OTLP o')) (\<lambda>p. Inr [otlp_URL p])
      | _ \<Rightarrow> Inr [])"

text \<open>The error of \<open>url.Parse\<close> is ignored and the URL it returns, nil then, is followed.\<close>

definition url_tls_message :: "OutputTLSSpec \<Rightarrow> string \<Rightarrow> string list go" where
  "url_tls_message tls specURL =
     (if specURL = [] then Inr []
      else go_bind (deref (url_Parse specURL))
        (\<lambda>u. let scheme = ToLower (url_Scheme u)
             in Inr (if \<not> IsTLSScheme scheme \<and> (outtls_InsecureSkipVerify tls \<or> outtls_TLSSecurityProfile tls \<noteq> None)
                     then [''URL scheme not secure: '' @ scheme @ '', but output has TLS configuration parameters'']
                     else [])))"

definition validateURLAccordingToTLS :: "OutputSpec \<Rightarrow> string list go" where
  "validateURLAccordingToTLS o' =
     go_bind (tls_checked_urls o')
       (\<lambda>urls. case output_TLS o' of
          None \<Rightarrow> Inr []
        | Some tls \<Rightarrow> go_bind (go_mapM (url_tls_message tls) urls) (\<lambda>ms. Inr (concat ms)))"

section \<open>validate.go\<close>

definition output_templates :: "OutputSpec \<Rightarrow> (string \<times> string) list" where
  "output_templates o' =
     (case output_Cloudwatch o' of None \<Rightarrow> [] | Some c \<Rightarrow> [(''cloudwatch.groupName'', cw_GroupName c)])
     @ (case output_Elasticsearch o' of None \<Rightarrow> [] | Some e \<Rightarrow> [(''elasticsearch.index'', es_Index e)])
     @ (case output_GoogleCloudLogging o' of None \<Rightarrow> [] | Some g \<Rightarrow> [(''googleCloudLogging.logId'', gcl_LogId g)])
     @ (case output_Kafka o' of None \<Rightarrow> [] | Some k \<Rightarrow> [(''kafka.topic'', kafka_Topic k)])
     @ (case output_Loki o' of None \<Rightarrow> [] | Some l \<Rightarrow> [(''loki.tenantKey'', loki_TenantKey l)])
     @ (case output_S3 o' of None \<Rightarrow> [] | Some s \<Rightarrow> [(''s3.keyPrefix'', s3_KeyPrefix s)])
     @ (case output_Splunk o' of None \<Rightarrow> []
        | Some s \<Rightarrow>
            [(''splunk.index'', splunk_Index s), (''splunk.source'', splunk_Source s),
             (''splunk.sourceType'', splunk_SourceType s), (''splunk.payloadKey'', splunk_PayloadKey s)]
            @ map (\<lambda>(i, f). (''splunk.indexedFields['' @ Itoa i @ '']'', f)) (enumerate 0 (splunk_IndexedFields s)))
     @ (case output_Syslog o' of None \<Rightarrow> []
        | Some s \<Rightarrow>
            [(''syslog.facility'', syslog_Facility s), (''syslog.severity'', syslog_Severity s),
             (''syslog.appName'', syslog_AppName s), (''syslog.procId'', syslog_ProcId s),
             (''syslog.msgId'', syslog_MsgId s), (''syslog.payloadKey'', syslog_PayloadKey s)])"

definition validateOutputTemplates :: "OutputSpec \<Rightarrow> string list" where
  "validateOutputTemplates o' =
     filter (\<lambda>m. m \<noteq> []) (map (\<lambda>(fieldName, value). ValidateTOMLLiteralSafe fieldName value) (output_templates o'))"

definition validateOutputIsReferencedByPipelines :: "OutputSpec \<Rightarrow> PipelineSpec list \<Rightarrow> string list" where
  "validateOutputIsReferencedByPipelines o' pipelines =
     (if \<not> ReferenceOutput pipelines o' then [''not referenced by any pipeline''] else [])"

record output_env =
  oe_unmarshal :: "string \<Rightarrow> gcpCredentialFile option"
  oe_header_order :: "string \<Rightarrow> string list"
  oe_content_order :: "string list"

definition type_messages :: "output_env \<Rightarrow> OutputSpec \<Rightarrow> Secrets \<Rightarrow> string list" where
  "type_messages env o' secrets =
     (case output_Type o' of
        OutputTypeCloudwatch \<Rightarrow> ValidateAwsAuth o' secrets @ validateCloudwatchMaxWrite o'
      | OutputTypeS3 \<Rightarrow> ValidateAwsAuth o' secrets
      | OutputTypeGoogleCloudLogging \<Rightarrow> ValidateGCLAuth (oe_unmarshal env) o' secrets
      | OutputTypeHTTP \<Rightarrow> validateHttpContentTypeHeaders (oe_content_order env) o'
      | OutputTypeElasticsearch \<Rightarrow> validateElasticsearchHeaders (oe_header_order env (output_Name o')) o'
      | OutputTypeAzureLogsIngestion \<Rightarrow> validateAzureLogsIngestionMaxWrite o'
      | _ \<Rightarrow> [])"

definition output_messages ::
  "output_env \<Rightarrow> Secrets \<Rightarrow> ConfigMaps \<Rightarrow> PipelineSpec list \<Rightarrow> OutputSpec \<Rightarrow> string list go" where
  "output_messages env secrets cms pipelines o' =
     go_bind (SecretReferencesAsValueReferences o')
       (\<lambda>configs.
          go_bind (if output_TLS o' \<noteq> None then validateURLAccordingToTLS o' else Inr [])
            (\<lambda>urlMessages.
               let configs' = configs @ (case output_TLS o' of None \<Rightarrow> [] | Some t \<Rightarrow> ValueReferences (outtls_TLSSpec t))
               in Inr (urlMessages @ ValidateValueReference configs' secrets cms
                       @ validateOutputIsReferencedByPipelines o' pipelines
                       @ validateOutputTemplates o' @ type_messages env o' secrets)))"

definition output_condition :: "time \<Rightarrow> string list \<Rightarrow> OutputSpec \<Rightarrow> Condition" where
  "output_condition now messages o' =
     (if messages \<noteq> []
      then NewConditionFromPrefix now ConditionTypeValidOutputPrefix (output_Name o') False
             ReasonValidationFailure (Join messages '','')
      else NewConditionFromPrefix now ConditionTypeValidOutputPrefix (output_Name o') True
             ReasonValidationSuccess (''output '' @ Quote (output_Name o') @ '' is valid''))"

definition outputs_Validate :: "time \<Rightarrow> output_env \<Rightarrow> ForwarderContext \<Rightarrow> ForwarderContext go" where
  "outputs_Validate now env ctx =
     (let f = ctx_Forwarder ctx
      in go_bind
        (go_fold (\<lambda>conditions o'.
            go_bind (output_messages env (nil_map (ctx_Secrets ctx)) (nil_map (ctx_ConfigMaps ctx))
                       (spec_Pipelines (clf_Spec f)) o')
              (\<lambda>messages. Inr (fst (SetCondition now conditions (output_condition now messages o')))))
           (status_OutputConditions (clf_Status f)) (spec_Outputs (clf_Spec f)))
        (\<lambda>conditions. Inr (map_status (\<lambda>st. st\<lparr>status_OutputConditions := conditions\<rparr>) ctx)))"

section \<open>The loop and what a valid output is\<close>

definition output_report ::
  "time \<Rightarrow> output_env \<Rightarrow> Secrets \<Rightarrow> ConfigMaps \<Rightarrow> PipelineSpec list \<Rightarrow> OutputSpec \<Rightarrow> Condition" where
  "output_report now env s c ps o' = output_condition now (projr (output_messages env s c ps o')) o'"

interpretation output_validator: item_validator ConditionTypeValidOutputPrefix output_Name
  "output_report now env s c ps" "\<lambda>o'. projr (output_messages env s c ps o') = []" for now env s c ps
  by unfold_locales
    (simp_all add: output_report_def output_condition_def NewConditionFromPrefix_def NewCondition_def)

lemma outputs_loop:
  assumes "\<forall>o'\<in>set os. returns (output_messages env s c ps o')"
  shows "go_fold (\<lambda>conditions o'. go_bind (output_messages env s c ps o')
      (\<lambda>messages. Inr (fst (SetCondition now conditions (output_condition now messages o'))))) cs os
    = Inr (SetConditions now cs (map (output_report now env s c ps) os))"
  using assms
proof (induction os arbitrary: cs)
  case (Cons x os)
  then obtain ms where "output_messages env s c ps x = Inr ms" by (auto elim: returnsE)
  with Cons show ?case by (simp add: output_report_def)
qed simp

lemma outputs_Validate_run:
  assumes "\<forall>o'\<in>set (spec_Outputs (clf_Spec (ctx_Forwarder ctx))).
      returns (output_messages env (nil_map (ctx_Secrets ctx)) (nil_map (ctx_ConfigMaps ctx))
        (spec_Pipelines (clf_Spec (ctx_Forwarder ctx))) o')"
  shows "outputs_Validate now env ctx =
    Inr (map_status (\<lambda>st. st\<lparr>status_OutputConditions :=
       SetConditions now (status_OutputConditions (clf_Status (ctx_Forwarder ctx)))
         (map (output_report now env (nil_map (ctx_Secrets ctx)) (nil_map (ctx_ConfigMaps ctx))
            (spec_Pipelines (clf_Spec (ctx_Forwarder ctx)))) (spec_Outputs (clf_Spec (ctx_Forwarder ctx))))\<rparr>) ctx)"
  by (simp add: outputs_Validate_def Let_def outputs_loop [OF assms])

text \<open>The references of an output: its authentication secrets and its TLS files.\<close>

definition output_refs :: "OutputSpec \<Rightarrow> ValueReference list go" where
  "output_refs o' =
     go_bind (SecretReferencesAsValueReferences o')
       (\<lambda>refs. Inr (refs @ (case output_TLS o' of None \<Rightarrow> [] | Some t \<Rightarrow> ValueReferences (outtls_TLSSpec t))))"

definition url_fits_tls :: "OutputTLSSpec \<Rightarrow> string \<Rightarrow> bool" where
  "url_fits_tls tls u \<longleftrightarrow>
     u = [] \<or> (\<exists>v. url_Parse u = Some v
       \<and> (IsTLSScheme (url_Scheme v) \<or> (\<not> outtls_InsecureSkipVerify tls \<and> outtls_TLSSecurityProfile tls = None)))"

text \<open>What the checks of each type demand.\<close>

definition aws_roles_ok :: "Secrets \<Rightarrow> OutputSpec \<Rightarrow> bool" where
  "aws_roles_ok s o' \<longleftrightarrow>
     (\<forall>a. OutputIsAwsRoleAuth o' = Some a \<longrightarrow> ParseRoleArn a s \<noteq> [])
     \<and> (\<forall>r. OutputIsAssumeRole o' = Some r \<longrightarrow> ParseAssumeRoleArn r s \<noteq> [])"

definition within_limit :: "int \<Rightarrow> Quantity option \<Rightarrow> bool" where
  "within_limit limit q \<longleftrightarrow> (\<forall>v. q = Some v \<longrightarrow> Quantity_Value v \<le> limit)"

definition gcl_ok :: "(string \<Rightarrow> gcpCredentialFile option) \<Rightarrow> Secrets \<Rightarrow> OutputSpec \<Rightarrow> bool" where
  "gcl_ok unmarshal s o' \<longleftrightarrow>
     (\<forall>auth. Option.bind (output_GoogleCloudLogging o') gcl_Authentication = Some auth \<longrightarrow>
        (\<exists>ref data creds. gclauth_Credentials auth = Some ref \<and> Secrets_Value s (Some ref) = Some data
           \<and> unmarshal data = Some creds
           \<and> (gcp_Type creds = ''service_account''
              \<or> gcp_Type creds = ''external_account''
                \<and> (\<exists>file. gcp_CredentialSourceFile creds = Some file
                     \<and> expectedTokenPath (gclauth_Token auth) \<in> {[], file}))))"

definition type_ok :: "output_env \<Rightarrow> Secrets \<Rightarrow> OutputSpec \<Rightarrow> bool" where
  "type_ok env s o' \<longleftrightarrow>
     (case output_Type o' of
        OutputTypeCloudwatch \<Rightarrow> aws_roles_ok s o' \<and> within_limit 1048576
          (Option.bind (Option.bind (output_Cloudwatch o') cw_Tuning) (base_MaxWrite \<circ> ctune_Base))
      | OutputTypeS3 \<Rightarrow> aws_roles_ok s o'
      | OutputTypeGoogleCloudLogging \<Rightarrow> gcl_ok (oe_unmarshal env) s o'
      | OutputTypeHTTP \<Rightarrow>
          (\<forall>h ct. output_HTTP o' = Some h \<longrightarrow> http_Headers h ''Content-Type'' = Some ct \<longrightarrow>
             ToLower ct \<in> {''application/json'', ''application/x-ndjson''})
      | OutputTypeElasticsearch \<Rightarrow>
          output_Elasticsearch o' \<noteq> None \<longrightarrow>
            (let hs = oe_header_order env (output_Name o')
             in (\<forall>h\<in>set hs. CanonicalHeaderKey h \<notin> {''Authorization'', ''Content-Type''})
                \<and> distinct (map CanonicalHeaderKey hs))
      | OutputTypeAzureLogsIngestion \<Rightarrow> within_limit 1000000
          (Option.bind (Option.bind (output_AzureLogsIngestion o') azli_Tuning) base_MaxWrite)
      | _ \<Rightarrow> True)"

definition output_ok ::
  "output_env \<Rightarrow> Secrets \<Rightarrow> ConfigMaps \<Rightarrow> PipelineSpec list \<Rightarrow> OutputSpec \<Rightarrow> bool" where
  "output_ok env s c ps o' \<longleftrightarrow>
     (case output_refs o' of Inl _ \<Rightarrow> False | Inr refs \<Rightarrow> \<forall>r\<in>set refs. ref_resolves s c r)
     \<and> (case output_TLS o' of None \<Rightarrow> True
        | Some tls \<Rightarrow> (case tls_checked_urls o' of Inl _ \<Rightarrow> False | Inr us \<Rightarrow> \<forall>u\<in>set us. url_fits_tls tls u))
     \<and> (\<exists>p\<in>set ps. output_Name o' \<in> set (pipeline_OutputRefs p))
     \<and> (\<forall>(field, value)\<in>set (output_templates o'). toml_safe value)
     \<and> type_ok env s o'"

lemma IsTLSScheme_ToLower: "IsTLSScheme (ToLower s) \<longleftrightarrow> IsTLSScheme s"
  by (simp add: IsTLSScheme_def)

lemma url_tls_message_Nil: "url_tls_message tls u = Inr [] \<longleftrightarrow> url_fits_tls tls u"
  by (cases "url_Parse u")
    (auto simp: url_tls_message_def url_fits_tls_def Let_def IsTLSScheme_ToLower)

lemma go_mapM_concat_Nil:
  "go_bind (go_mapM f xs) (\<lambda>ms. Inr (concat ms)) = Inr [] \<longleftrightarrow> (\<forall>x\<in>set xs. f x = Inr [])"
proof -
  have "(\<exists>ms. go_mapM f xs = Inr ms \<and> concat ms = []) \<longleftrightarrow> (\<forall>x\<in>set xs. f x = Inr [])"
  proof (induction xs)
    case (Cons x xs)
    then show ?case by (cases "f x"; cases "go_mapM f xs") auto
  qed simp
  then show ?thesis by (cases "go_mapM f xs") auto
qed

lemma concat_map_if_Nil: "concat (map (\<lambda>k. if P k then [m k] else []) ks) = [] \<longleftrightarrow> (\<forall>k\<in>set ks. \<not> P k)"
  by (induction ks) simp_all

lemma max_write_Nil: "max_write_message kind limit q = [] \<longleftrightarrow> within_limit limit q"
  by (auto simp: max_write_message_def within_limit_def split: option.split)

lemma ValidateAwsAuth_Nil: "ValidateAwsAuth o' s = [] \<longleftrightarrow> aws_roles_ok s o'"
  by (auto simp: ValidateAwsAuth_def aws_roles_ok_def split: option.split)

lemma ValidateGCLAuth_Nil: "ValidateGCLAuth u o' s = [] \<longleftrightarrow> gcl_ok u s o'"
  by (auto simp: ValidateGCLAuth_def gcl_ok_def validateGCLExternalAccount_def Let_def split: option.split)

lemma distinct_map_iff_filter:
  "distinct (map f xs) \<longleftrightarrow> (\<forall>k\<in>f ` set xs. \<not> 1 < length (filter (\<lambda>x. f x = k) xs))"
proof (induction xs)
  case (Cons x xs)
  show ?case
  proof (cases "f x \<in> f ` set xs")
    case True
    then have "filter (\<lambda>y. f y = f x) xs \<noteq> []" by (force simp: filter_empty_conv)
    with True show ?thesis by (auto simp: length_greater_0_conv [symmetric] simp del: length_greater_0_conv)
  next
    case False
    then have "filter (\<lambda>y. f y = f x) xs = []" unfolding filter_empty_conv by (metis image_eqI)
    moreover have "\<forall>k\<in>f ` set xs. f x \<noteq> k" using False by blast
    ultimately show ?thesis using Cons.IH False by simp
  qed
qed simp

lemma headers_Nil:
  assumes "output_Type o' = OutputTypeElasticsearch" "output_Elasticsearch o' \<noteq> None"
  shows "validateElasticsearchHeaders hs o' = [] \<longleftrightarrow>
    (\<forall>h\<in>set hs. CanonicalHeaderKey h \<notin> {''Authorization'', ''Content-Type''})
    \<and> distinct (map CanonicalHeaderKey hs)"
proof -
  have "validateElasticsearchHeaders hs o' = [] \<longleftrightarrow>
      filter (\<lambda>h. CanonicalHeaderKey h \<in> {''Authorization'', ''Content-Type''}) hs = []
      \<and> (\<forall>k\<in>CanonicalHeaderKey ` set hs. \<not> 1 < length (filter (\<lambda>h. CanonicalHeaderKey h = k) hs))"
    using assms unfolding validateElasticsearchHeaders_def Let_def
    by (simp only: simp_thms if_True append_is_Nil_conv concat_map_if_Nil set_sorted_set set_map) auto
  then show ?thesis by (simp only: distinct_map_iff_filter filter_empty_conv)
qed

lemma content_type_Nil:
  assumes "output_Type o' = OutputTypeHTTP"
  shows "validateHttpContentTypeHeaders order o' = [] \<longleftrightarrow>
    (\<forall>h ct. output_HTTP o' = Some h \<longrightarrow> http_Headers h ''Content-Type'' = Some ct \<longrightarrow>
       ToLower ct \<in> {''application/json'', ''application/x-ndjson''})"
  using assms by (cases "output_HTTP o'")
    (auto simp: validateHttpContentTypeHeaders_def map_value_def validContentTypes_def split: option.split if_splits)

lemma type_messages_Nil: "type_messages env o' s = [] \<longleftrightarrow> type_ok env s o'"
proof (cases "output_Type o'")
  case OutputTypeElasticsearch
  then have m: "type_messages env o' s = validateElasticsearchHeaders (oe_header_order env (output_Name o')) o'"
    by (simp add: type_messages_def)
  show ?thesis
  proof (cases "output_Elasticsearch o' = None")
    case True
    with m OutputTypeElasticsearch show ?thesis by (simp add: type_ok_def validateElasticsearchHeaders_def)
  next
    case False
    with OutputTypeElasticsearch show ?thesis
      unfolding m headers_Nil [OF OutputTypeElasticsearch False] by (simp add: type_ok_def Let_def)
  qed
qed (auto simp: type_messages_def type_ok_def ValidateAwsAuth_Nil ValidateGCLAuth_Nil max_write_Nil
    validateCloudwatchMaxWrite_def validateAzureLogsIngestionMaxWrite_def CloudwatchDefaultMaxBytes_def
    AzureDefaultMaxBytes_def content_type_Nil)

lemma templates_Nil:
  "validateOutputTemplates o' = [] \<longleftrightarrow> (\<forall>(field, value)\<in>set (output_templates o'). toml_safe value)"
  by (auto simp: validateOutputTemplates_def filter_empty_conv ValidateTOMLLiteralSafe_iff split_beta)

lemma validateURL_Nil:
  assumes "output_TLS o' = Some tls"
  shows "validateURLAccordingToTLS o' = Inr [] \<longleftrightarrow>
    (case tls_checked_urls o' of Inl _ \<Rightarrow> False | Inr us \<Rightarrow> \<forall>u\<in>set us. url_fits_tls tls u)"
  by (cases "tls_checked_urls o'")
    (simp_all add: validateURLAccordingToTLS_def assms go_mapM_concat_Nil url_tls_message_Nil)

lemma output_messages_Nil: "output_messages env s c ps o' = Inr [] \<longleftrightarrow> output_ok env s c ps o'"
proof (cases "SecretReferencesAsValueReferences o'")
  case (Inr refs)
  have ref: "validateOutputIsReferencedByPipelines o' ps = [] \<longleftrightarrow>
      (\<exists>p\<in>set ps. output_Name o' \<in> set (pipeline_OutputRefs p))"
    by (simp add: validateOutputIsReferencedByPipelines_def ReferenceOutput_def list_ex_iff)
  show ?thesis
  proof (cases "output_TLS o'")
    case None
    with Inr ref show ?thesis
      by (simp add: output_messages_def output_ok_def output_refs_def ValidateValueReference_iff
          templates_Nil type_messages_Nil Let_def)
  next
    case (Some tls)
    have "output_messages env s c ps o' = Inr [] \<longleftrightarrow>
        validateURLAccordingToTLS o' = Inr [] \<and>
        ValidateValueReference (refs @ ValueReferences (outtls_TLSSpec tls)) s c = [] \<and>
        validateOutputIsReferencedByPipelines o' ps = [] \<and> validateOutputTemplates o' = [] \<and>
        type_messages env o' s = []"
      by (cases "validateURLAccordingToTLS o'") (auto simp: output_messages_def Inr Some Let_def)
    with ref show ?thesis
      by (simp only: output_ok_def output_refs_def Inr Some go_bind.simps sum.case option.case
          ValidateValueReference_iff templates_Nil type_messages_Nil validateURL_Nil [OF Some]) blast
  qed
qed (simp add: output_messages_def output_ok_def output_refs_def)

section \<open>Properties\<close>

text \<open>
  C14. The verdict on the outputs: on a status pruned to the current outputs, with unique names,
  and when no output makes the validation fault, the output part of the spec counts as valid exactly
  when for every output each secret and config map reference resolves to a non-empty value, each URL
  fits its TLS settings, a pipeline references it, its templates cannot end a TOML literal, and the
  checks of its type pass.
\<close>

theorem outputs_Validate_verdict:
  fixes ctx :: ForwarderContext
  defines "outs \<equiv> spec_Outputs (clf_Spec (ctx_Forwarder ctx))"
    and "s \<equiv> nil_map (ctx_Secrets ctx)" and "c \<equiv> nil_map (ctx_ConfigMaps ctx)"
    and "ps \<equiv> spec_Pipelines (clf_Spec (ctx_Forwarder ctx))"
  assumes ret: "\<forall>o'\<in>set outs. returns (output_messages env s c ps o')"
    and d: "distinct (Outputs_Names outs)"
    and pruned: "status_OutputConditions (clf_Status (ctx_Forwarder ctx)) =
      PruneConditions old (Outputs_Names outs) ConditionTypeValidOutputPrefix"
    and old: "distinct (map cond_Type old)"
  shows "\<exists>ctx'. outputs_Validate now env ctx = Inr ctx' \<and>
    (isValid ConditionTypeValidOutputPrefix (status_OutputConditions (clf_Status (ctx_Forwarder ctx'))) (length outs)
     \<longleftrightarrow> (\<forall>o'\<in>set outs. output_ok env s c ps o'))"
proof -
  let ?cs = "status_OutputConditions (clf_Status (ctx_Forwarder ctx))"
  have "isValid ConditionTypeValidOutputPrefix (SetConditions now ?cs (map (output_report now env s c ps) outs)) (length outs)
    \<longleftrightarrow> (\<forall>o'\<in>set outs. projr (output_messages env s c ps o') = [])"
    using d pruned old PruneConditions_types [of old "Outputs_Names outs" ConditionTypeValidOutputPrefix]
    by (intro output_validator.verdict_iff) (auto simp: Outputs_Names_def PruneConditions_distinct image_image)
  also have "\<dots> \<longleftrightarrow> (\<forall>o'\<in>set outs. output_ok env s c ps o')"
  proof (intro ball_cong refl)
    fix o'
    assume "o' \<in> set outs"
    with ret obtain ms where "output_messages env s c ps o' = Inr ms" by (auto elim: returnsE)
    then show "projr (output_messages env s c ps o') = [] \<longleftrightarrow> output_ok env s c ps o'"
      by (simp add: output_messages_Nil [symmetric])
  qed
  finally show ?thesis
    using outputs_Validate_run [OF ret [unfolded outs_def s_def c_def ps_def], of now]
    by (simp add: outs_def s_def c_def ps_def map_status_def)
qed

definition sample_output_env :: output_env where
  "sample_output_env =
     \<lparr>oe_unmarshal = \<lambda>_. None, oe_header_order = \<lambda>_. [], oe_content_order = []\<rparr>"

theorem outputs_Validate_verdict_witness:
  "\<exists>ctx'. outputs_Validate 7 sample_output_env sample_context = Inr ctx' \<and>
     isValid ConditionTypeValidOutputPrefix (status_OutputConditions (clf_Status (ctx_Forwarder ctx')))
       (length (spec_Outputs (clf_Spec (ctx_Forwarder sample_context))))"
proof -
  let ?outs = "spec_Outputs (clf_Spec (ctx_Forwarder sample_context))"
  let ?ps = "spec_Pipelines (clf_Spec (ctx_Forwarder sample_context))"
  let ?s = "nil_map (ctx_Secrets sample_context)" and ?c = "nil_map (ctx_ConfigMaps sample_context)"
  have "\<forall>o'\<in>set ?outs. output_ok sample_output_env ?s ?c ?ps o'"
    by (simp add: sample_context_def sample_spec_def output_ok_def output_refs_def
        SecretReferencesAsValueReferences_def SecretReferences_def lokiStackKeys_def OutputSpec_zero_def
        output_templates_def type_ok_def)
  then have ok: "\<forall>o'\<in>set ?outs. output_messages sample_output_env ?s ?c ?ps o' = Inr []"
    by (simp only: output_messages_Nil)
  have "distinct (Outputs_Names ?outs)"
    and "status_OutputConditions (clf_Status (ctx_Forwarder sample_context)) =
      PruneConditions [] (Outputs_Names ?outs) ConditionTypeValidOutputPrefix"
    by (simp_all add: sample_context_def sample_spec_def Outputs_Names_def sample_forwarder_def PruneConditions_def)
  with ok show ?thesis
    using outputs_Validate_verdict [of sample_context sample_output_env "[]" 7]
    by (simp add: output_messages_Nil [symmetric])
qed

text \<open>
  C39. The header check of an Elasticsearch output gives the same messages in whatever order Go
  ranges over the header map, and passes exactly when no header is, up to case, one the operator
  sets itself and no two headers differ in case only.
\<close>

theorem validateElasticsearchHeaders_correct:
  assumes "output_Type o' = OutputTypeElasticsearch" "output_Elasticsearch o' = Some es"
    and hs: "range_order (es_Headers es) hs" and hs': "range_order (es_Headers es) hs'"
  shows "validateElasticsearchHeaders hs o' = validateElasticsearchHeaders hs' o'
    \<and> (validateElasticsearchHeaders hs o' = [] \<longleftrightarrow>
        (\<forall>h\<in>dom (es_Headers es). CanonicalHeaderKey h \<notin> {''Authorization'', ''Content-Type''})
        \<and> inj_on CanonicalHeaderKey (dom (es_Headers es)))"
proof
  have d: "distinct hs" "distinct hs'" "set hs = dom (es_Headers es)" "set hs' = dom (es_Headers es)"
    using hs hs' by (auto simp: range_order_def)
  then have "mset hs = mset hs'" by (simp add: set_eq_iff_mset_eq_distinct [symmetric])
  then have same: "mset (filter P hs) = mset (filter P hs')" for P by simp
  then have sorted: "sort (filter P hs) = sort (filter P hs')"
    and len: "length (filter P hs) = length (filter P hs')"
    and nil: "filter P hs = [] \<longleftrightarrow> filter P hs' = []" for P
    using mset_eq_length [OF same [of P]] by (auto intro: properties_for_sort simp: length_0_conv [symmetric] simp del: length_0_conv)
  have keys: "sorted_set (map CanonicalHeaderKey hs) = sorted_set (map CanonicalHeaderKey hs')"
    using d by (intro sorted_set_unique) simp
  show "validateElasticsearchHeaders hs o' = validateElasticsearchHeaders hs' o'"
    unfolding validateElasticsearchHeaders_def Let_def keys sorted len nil ..
  have es: "output_Elasticsearch o' \<noteq> None" using assms(2) by simp
  show "validateElasticsearchHeaders hs o' = [] \<longleftrightarrow>
        (\<forall>h\<in>dom (es_Headers es). CanonicalHeaderKey h \<notin> {''Authorization'', ''Content-Type''})
        \<and> inj_on CanonicalHeaderKey (dom (es_Headers es))"
    unfolding headers_Nil [OF assms(1) es] d(3) [symmetric] distinct_map using d(1) by auto
qed

definition sample_es_output :: OutputSpec where
  "sample_es_output = OutputSpec_zero\<lparr>output_Type := OutputTypeElasticsearch,
     output_Elasticsearch := Some \<lparr>es_URL = [], es_Endpoints = [], es_Authentication = None, es_Tuning = None,
       es_Index = [], es_Version = 8, es_Headers = [''accept'' \<mapsto> ''x'', ''Accept'' \<mapsto> ''y'']\<rparr>\<rparr>"

theorem validateElasticsearchHeaders_correct_witness:
  "validateElasticsearchHeaders [''accept'', ''Accept''] sample_es_output
     = validateElasticsearchHeaders [''Accept'', ''accept''] sample_es_output
   \<and> validateElasticsearchHeaders [''accept'', ''Accept''] sample_es_output \<noteq> []"
proof -
  let ?hs = "[''accept'' \<mapsto> ''x'', ''Accept'' \<mapsto> ''y''] :: string \<rightharpoonup> string"
  have "CanonicalHeaderKey ''accept'' = CanonicalHeaderKey ''Accept''"
    by code_simp
  then have "\<not> inj_on CanonicalHeaderKey (dom ?hs)" by (auto simp: inj_on_def)
  moreover have "range_order ?hs [''accept'', ''Accept'']" "range_order ?hs [''Accept'', ''accept'']"
    by (auto simp: range_order_def)
  moreover have "output_Type sample_es_output = OutputTypeElasticsearch"
    and "output_Elasticsearch sample_es_output = Some (the (output_Elasticsearch sample_es_output))"
    and "es_Headers (the (output_Elasticsearch sample_es_output)) = ?hs"
    by (simp_all add: sample_es_output_def)
  ultimately show ?thesis
    using validateElasticsearchHeaders_correct [of sample_es_output "the (output_Elasticsearch sample_es_output)"
        "[''accept'', ''Accept'']" "[''Accept'', ''accept'']"]
    by metis
qed

end
