(* ===== verification/Validate_Permissions.thy ===== *)
theory Validate_Permissions
  imports Validate_Common
begin

text \<open>
  The permission check (\<open>validate_permissions.go\<close>) and the annotation checks
  (\<open>validate_annotations.go\<close>) of \<open>internal/validations/observability\<close>. The Kubernetes API
  is an argument: \<open>get\<close> fetches the service account, \<open>create\<close> runs a subject access review and
  gives the error text or whether it is allowed.
\<close>

section \<open>Conditions of conditions.go written here\<close>

definition ConditionTypeLogLevel :: string where
  "ConditionTypeLogLevel = GroupName @ ''/LogLevel''"

definition ConditionTypeMaxUnavailable :: string where
  "ConditionTypeMaxUnavailable = GroupName @ ''/MaxUnavailableAnnotation''"

definition ReasonClusterRolesExist :: string where "ReasonClusterRolesExist = ''ClusterRolesExist''"

definition ReasonClusterRoleMissing :: string where "ReasonClusterRoleMissing = ''ClusterRoleMissing''"

definition ReasonLogLevelSupported :: string where "ReasonLogLevelSupported = ''LogLevelSupported''"

definition ReasonMaxUnavailableSupported :: string where
  "ReasonMaxUnavailableSupported = ''MaxUnavailableAnnotationSupported''"

definition ReasonServiceAccountDoesNotExist :: string where
  "ReasonServiceAccountDoesNotExist = ''ServiceAccountDoesNotExist''"

definition ReasonServiceAccountCheckFailure :: string where
  "ReasonServiceAccountCheckFailure = ''ServiceAccountCheckFailure''"

definition AnnotationVectorLogLevel :: string where
  "AnnotationVectorLogLevel = ''observability.openshift.io/log-level''"

definition AnnotationMaxUnavailable :: string where
  "AnnotationMaxUnavailable = ''observability.openshift.io/max-unavailable-rollout''"

section \<open>validate_annotations.go\<close>

definition set_status_condition :: "time \<Rightarrow> Condition \<Rightarrow> ForwarderContext \<Rightarrow> ForwarderContext" where
  "set_status_condition now c ctx =
     map_status (\<lambda>st. st\<lparr>status_Conditions := fst (SetCondition now (status_Conditions st) c)\<rparr>) ctx"

definition remove_status_condition :: "string \<Rightarrow> ForwarderContext \<Rightarrow> ForwarderContext" where
  "remove_status_condition t ctx =
     map_status (\<lambda>st. st\<lparr>status_Conditions := RemoveConditionByType (status_Conditions st) t\<rparr>) ctx"

definition digit_1_9 :: "char \<Rightarrow> bool" where
  "digit_1_9 c \<longleftrightarrow> CHR ''1'' \<le> c \<and> c \<le> CHR ''9''"

definition digit_0_9 :: "char \<Rightarrow> bool" where
  "digit_0_9 c \<longleftrightarrow> CHR ''0'' \<le> c \<and> c \<le> CHR ''9''"

text \<open>\<open>validMaxUnavailableRegex\<close>: 100%, or a percentage of one or two digits, or a number.\<close>

definition IsPercentOrWholeNumber :: "string \<Rightarrow> bool" where
  "IsPercentOrWholeNumber val \<longleftrightarrow>
     val = ''100%''
     \<or> (case val of
          [d, p] \<Rightarrow> digit_1_9 d \<and> p = CHR ''%''
        | [d, e, p] \<Rightarrow> digit_1_9 d \<and> digit_0_9 e \<and> p = CHR ''%''
        | _ \<Rightarrow> False)
     \<or> (case val of [] \<Rightarrow> False | d # ds \<Rightarrow> digit_1_9 d \<and> list_all digit_0_9 ds)"

definition validateMaxUnavailableAnnotation :: "time \<Rightarrow> ForwarderContext \<Rightarrow> ForwarderContext" where
  "validateMaxUnavailableAnnotation now ctx =
     (case clf_Annotations (ctx_Forwarder ctx) AnnotationMaxUnavailable of
        Some value \<Rightarrow>
          if \<not> IsPercentOrWholeNumber value
          then set_status_condition now
                 (NewCondition now ConditionTypeMaxUnavailable ConditionFalse ReasonMaxUnavailableSupported
                    (''max-unavailable-rollout value '' @ Quote value
                     @ '' must be an absolute number or a valid percentage'')) ctx
          else remove_status_condition ConditionTypeMaxUnavailable ctx
      | None \<Rightarrow> remove_status_condition ConditionTypeMaxUnavailable ctx)"

definition allowedLogLevels :: "string list" where
  "allowedLogLevels = sorted_set [''trace'', ''debug'', ''info'', ''warn'', ''error'', ''off'']"

definition validateLogLevelAnnotation :: "time \<Rightarrow> ForwarderContext \<Rightarrow> ForwarderContext" where
  "validateLogLevelAnnotation now ctx =
     (case clf_Annotations (ctx_Forwarder ctx) AnnotationVectorLogLevel of
        Some level \<Rightarrow>
          if level \<notin> set allowedLogLevels
          then set_status_condition now
                 (NewCondition now ConditionTypeLogLevel ConditionFalse ReasonLogLevelSupported
                    (''log level '' @ Quote level @ '' must be one of ['' @ Join allowedLogLevels '', '' @ '']'')) ctx
          else remove_status_condition ConditionTypeLogLevel ctx
      | None \<Rightarrow> remove_status_condition ConditionTypeLogLevel ctx)"

definition IsEnabledValue :: "string \<Rightarrow> bool" where
  "IsEnabledValue val \<longleftrightarrow> ToLower val \<in> set (sorted_set [''true'', ''enabled''])"

section \<open>validate_permissions.go\<close>

datatype client_error = NotFound string | ClientError string

fun Error :: "client_error \<Rightarrow> string" where
  "Error (NotFound s) = s"
| "Error (ClientError s) = s"

record ResourceAttributes =
  ra_Resource :: string
  ra_Namespace :: string
  ra_Group :: string
  ra_Verb :: string
  ra_Name :: string

datatype access_attributes = NonResourceAttributes string string | ResourceAccess ResourceAttributes

record SubjectAccessReview =
  sar_User :: string
  sar_Attributes :: access_attributes

definition createSubjectAccessReview ::
  "string \<Rightarrow> string \<Rightarrow> string \<Rightarrow> string \<Rightarrow> string \<Rightarrow> string \<Rightarrow> SubjectAccessReview" where
  "createSubjectAccessReview user namespace verb resource name resourceAPIGroup =
     \<lparr>sar_User = user,
      sar_Attributes =
        (if HasPrefix resource ''/'' then NonResourceAttributes resource verb
         else ResourceAccess \<lparr>ra_Resource = resource, ra_Namespace = namespace, ra_Group = resourceAPIGroup,
                ra_Verb = verb, ra_Name = name\<rparr>)\<rparr>"

definition ServiceAccountUsername :: "string \<Rightarrow> string \<Rightarrow> string" where
  "ServiceAccountUsername namespace name = ''system:serviceaccount:'' @ namespace @ '':'' @ name"

text \<open>The regular expression \<^verbatim>\<open>^default$|^openshift.*$|^kube.*$\<close>; the dot excludes newlines.\<close>

definition infraNamespaces :: "string \<Rightarrow> bool" where
  "infraNamespaces ns \<longleftrightarrow>
     ns = ''default'' \<or> (newline \<notin> set ns \<and> (HasPrefix ns ''openshift'' \<or> HasPrefix ns ''kube''))"

definition input_permission_types :: "InputSpec \<Rightarrow> string list go" where
  "input_permission_types i =
     (case input_Type i of
        InputTypeApplication \<Rightarrow>
          Inr (InputType_String InputTypeApplication #
               (case input_Application i of
                  None \<Rightarrow> []
                | Some app \<Rightarrow>
                    if list_ex (\<lambda>inc. infraNamespaces (ncs_Namespace inc)) (app_Includes app)
                    then [InputType_String InputTypeInfrastructure] else []))
      | InputTypeInfrastructure \<Rightarrow> Inr [InputType_String InputTypeInfrastructure]
      | InputTypeAudit \<Rightarrow> Inr [InputType_String InputTypeAudit]
      | InputTypeReceiver \<Rightarrow>
          go_bind (deref (input_Receiver i))
            (\<lambda>r. Inr (if recv_Type r = ReceiverTypeSyslog then [InputType_String InputTypeInfrastructure] else []))
      | InputTypeOther _ \<Rightarrow> Inr [])"

definition referenced_inputs :: "ClusterLogForwarderSpec \<Rightarrow> InputSpec list" where
  "referenced_inputs spec = filter (\<lambda>i. input_Name i \<in> pipeline_refs spec) (spec_Inputs spec)"

definition gatherPipelineInputs :: "ClusterLogForwarderSpec \<Rightarrow> (string list \<times> bool) go" where
  "gatherPipelineInputs spec =
     (let inputRefs = concat (map pipeline_InputRefs (spec_Pipelines spec));
          inputTypes = filter (\<lambda>ref. ref \<in> set ReservedInputTypes) inputRefs
      in go_bind (go_mapM input_permission_types
             (filter (\<lambda>i. input_Name i \<in> set inputRefs) (spec_Inputs spec)))
           (\<lambda>types. Inr (sorted_set (inputTypes @ concat types),
              list_ex (\<lambda>i. input_Type i = InputTypeReceiver)
                (filter (\<lambda>i. input_Name i \<in> set inputRefs) (spec_Inputs spec)))))"

fun failed_inputs ::
  "(SubjectAccessReview \<Rightarrow> string + bool) \<Rightarrow> string \<Rightarrow> string list \<Rightarrow> string + string list" where
  "failed_inputs create username [] = Inr []"
| "failed_inputs create username (i # is) =
     (case create (createSubjectAccessReview username [] ''collect'' ''logs'' i GroupName) of
        Inl err \<Rightarrow> Inl err
      | Inr allowed \<Rightarrow>
          (case failed_inputs create username is of
             Inl err \<Rightarrow> Inl err
           | Inr failed \<Rightarrow> Inr (if \<not> allowed then i # failed else failed)))"

text \<open>The result is the error text, \<open>None\<close> when the permissions suffice.\<close>

definition validateServiceAccountPermissions ::
  "(SubjectAccessReview \<Rightarrow> string + bool) \<Rightarrow> string list \<Rightarrow> bool \<Rightarrow> string \<Rightarrow> string option" where
  "validateServiceAccountPermissions create inputs hasReceiverInputs username =
     (if inputs = [] \<and> hasReceiverInputs then None
      else if inputs = []
      then Some ''There is an error in the input permission validation; no inputs were found to evaluate''
      else (case failed_inputs create username inputs of
              Inl err \<Rightarrow> Some err
            | Inr failed \<Rightarrow>
                if failed \<noteq> []
                then Some (''insufficient permissions on service account, not authorized to collect ''
                       @ fmt_q_list failed @ '' logs'')
                else None))"

definition ValidatePermissions ::
  "time \<Rightarrow> (string \<Rightarrow> string \<Rightarrow> client_error + (string \<times> string)) \<Rightarrow> (SubjectAccessReview \<Rightarrow> string + bool)
   \<Rightarrow> ForwarderContext \<Rightarrow> ForwarderContext go" where
  "ValidatePermissions now get create ctx =
     (let clf = ctx_Forwarder ctx;
          deny = (\<lambda>reason msg. set_status_condition now
                    (NewCondition now ConditionTypeAuthorized ConditionFalse reason msg) ctx)
      in case get (sa_Name (spec_ServiceAccount (clf_Spec clf))) (clf_Namespace clf) of
           Inl (NotFound msg) \<Rightarrow> Inr (deny ReasonServiceAccountDoesNotExist msg)
         | Inl (ClientError msg) \<Rightarrow> Inr (deny ReasonServiceAccountCheckFailure msg)
         | Inr (sa_namespace, sa_name) \<Rightarrow>
             go_bind (gatherPipelineInputs (clf_Spec clf))
               (\<lambda>(clfInputs, hasReceiverInputs).
                  Inr (case validateServiceAccountPermissions create clfInputs hasReceiverInputs
                              (ServiceAccountUsername sa_namespace sa_name) of
                         Some msg \<Rightarrow> deny ReasonClusterRoleMissing msg
                       | None \<Rightarrow> set_status_condition now
                           (NewCondition now ConditionTypeAuthorized ConditionTrue ReasonClusterRolesExist
                              (''permitted to collect log types: '' @ fmt_v_list clfInputs)) ctx)))"

definition MustUndeployCollector :: "Condition list \<Rightarrow> bool" where
  "MustUndeployCollector conditions =
     list_ex (\<lambda>c. cond_Type c = ConditionTypeAuthorized \<and> cond_Status c = ConditionFalse) conditions"

section \<open>What authorization means\<close>

text \<open>The log types an input collects, and those the pipelines of a spec need permission for.\<close>

definition collected_types :: "InputSpec \<Rightarrow> string set" where
  "collected_types i =
     (case input_Type i of
        InputTypeApplication \<Rightarrow>
          insert ''application''
            (if \<exists>app. input_Application i = Some app \<and> (\<exists>inc\<in>set (app_Includes app). infraNamespaces (ncs_Namespace inc))
             then {''infrastructure''} else {})
      | InputTypeInfrastructure \<Rightarrow> {''infrastructure''}
      | InputTypeAudit \<Rightarrow> {''audit''}
      | InputTypeReceiver \<Rightarrow>
          (if map_option recv_Type (input_Receiver i) = Some ReceiverTypeSyslog then {''infrastructure''} else {})
      | InputTypeOther _ \<Rightarrow> {})"

definition needs_permission :: "ClusterLogForwarderSpec \<Rightarrow> string \<Rightarrow> bool" where
  "needs_permission spec t \<longleftrightarrow>
     (t \<in> pipeline_refs spec \<and> t \<in> {''application'', ''infrastructure'', ''audit''})
     \<or> (\<exists>i\<in>set (referenced_inputs spec). t \<in> collected_types i)"

definition has_receivers :: "ClusterLogForwarderSpec \<Rightarrow> bool" where
  "has_receivers spec \<longleftrightarrow> (\<exists>i\<in>set (referenced_inputs spec). input_Type i = InputTypeReceiver)"

definition permitted :: "(SubjectAccessReview \<Rightarrow> string + bool) \<Rightarrow> string \<Rightarrow> string \<Rightarrow> bool" where
  "permitted create username t \<longleftrightarrow>
     create (createSubjectAccessReview username [] ''collect'' ''logs'' t GroupName) = Inr True"

lemma input_permission_types_run:
  "receiver_present i \<Longrightarrow>
   \<exists>ts. input_permission_types i = Inr ts \<and> set ts = collected_types i"
  by (cases "input_Type i"; cases "input_Application i"; cases "input_Receiver i")
    (auto simp: input_permission_types_def collected_types_def receiver_present_def list_ex_iff)

lemma ReservedInputTypes_set: "set ReservedInputTypes = {''application'', ''infrastructure'', ''audit''}"
  by (auto simp: ReservedInputTypes_def)

lemma go_mapM_witness:
  "\<forall>x\<in>set xs. \<exists>y. f x = Inr y \<and> P x y \<Longrightarrow> \<exists>ys. go_mapM f xs = Inr ys \<and> list_all2 P xs ys"
  by (induction xs) auto

lemma gatherPipelineInputs_run:
  assumes "\<forall>i\<in>set (referenced_inputs spec). receiver_present i"
  shows "\<exists>ts. gatherPipelineInputs spec = Inr (ts, has_receivers spec) \<and> set ts = {t. needs_permission spec t}"
proof -
  have refs: "set (concat (map pipeline_InputRefs (spec_Pipelines spec))) = pipeline_refs spec"
    by (simp add: pipeline_refs_def)
  have ri: "filter (\<lambda>i. input_Name i \<in> set (concat (map pipeline_InputRefs (spec_Pipelines spec)))) (spec_Inputs spec)
      = referenced_inputs spec"
    unfolding refs referenced_inputs_def ..
  have "\<forall>i\<in>set (referenced_inputs spec).
      \<exists>ts. input_permission_types i = Inr ts \<and> set ts = collected_types i"
    using assms input_permission_types_run by blast
  from go_mapM_witness [OF this] obtain tss where
    run: "go_mapM input_permission_types (referenced_inputs spec) = Inr tss"
    and each: "list_all2 (\<lambda>i ts. set ts = collected_types i) (referenced_inputs spec) tss" by blast
  from each have "set (concat tss) = (\<Union>i\<in>set (referenced_inputs spec). collected_types i)"
    by (induction rule: list_all2_induct) auto
  then have "set (filter (\<lambda>ref. ref \<in> set ReservedInputTypes) (concat (map pipeline_InputRefs (spec_Pipelines spec)))
      @ concat tss) = {t. needs_permission spec t}"
    unfolding set_append set_filter refs by (auto simp: needs_permission_def ReservedInputTypes_set)
  then show ?thesis
    using run unfolding gatherPipelineInputs_def Let_def ri has_receivers_def by (simp add: list_ex_iff)
qed

lemma failed_inputs_Nil:
  "failed_inputs create username ts = Inr [] \<longleftrightarrow> (\<forall>t\<in>set ts. permitted create username t)"
  by (induction ts) (auto simp: permitted_def split: sum.splits if_splits)

lemma validateServiceAccountPermissions_None:
  "validateServiceAccountPermissions create ts recv username = None \<longleftrightarrow>
     (\<forall>t\<in>set ts. permitted create username t) \<and> (ts \<noteq> [] \<or> recv)"
  using failed_inputs_Nil [of create username ts]
  by (auto simp: validateServiceAccountPermissions_def split: sum.splits if_splits)

lemma isAuthorized_find:
  "distinct (map cond_Type cs) \<Longrightarrow>
   isAuthorized cs \<longleftrightarrow> map_option cond_Status (find_condition cs ConditionTypeAuthorized) = Some ConditionTrue"
  by (induction cs) (auto simp: isAuthorized_def find_condition_def list_ex_iff image_iff)

lemma isAuthorized_SetCondition:
  assumes "distinct (map cond_Type cs)" "cond_Type c = ConditionTypeAuthorized"
  shows "isAuthorized (fst (SetCondition now cs c)) \<longleftrightarrow> cond_Status c = ConditionTrue"
  using isAuthorized_find [OF distinct_types_SetCondition [OF assms(1)], of now c]
    find_SetCondition_same [of now cs c] assms(2)
  by (cases "find_condition (fst (SetCondition now cs c)) ConditionTypeAuthorized")
    (auto simp: verdict_def)

lemma MustUndeploy_find:
  "distinct (map cond_Type cs) \<Longrightarrow>
   MustUndeployCollector cs \<longleftrightarrow>
     map_option cond_Status (find_condition cs ConditionTypeAuthorized) = Some ConditionFalse"
  by (induction cs) (auto simp: MustUndeployCollector_def find_condition_def list_ex_iff image_iff)

lemma isAuthorized_set_status:
  "distinct (map cond_Type (status_Conditions (clf_Status (ctx_Forwarder ctx)))) \<Longrightarrow>
   cond_Type c = ConditionTypeAuthorized \<Longrightarrow>
   isAuthorized (status_Conditions (clf_Status (ctx_Forwarder (set_status_condition now c ctx)))) \<longleftrightarrow>
     cond_Status c = ConditionTrue"
  by (simp add: set_status_condition_def map_status_def isAuthorized_SetCondition)

text \<open>The service account is there and may collect every type the pipelines need.\<close>

definition authorized_for ::
  "(string \<Rightarrow> string \<Rightarrow> client_error + (string \<times> string)) \<Rightarrow> (SubjectAccessReview \<Rightarrow> string + bool)
   \<Rightarrow> ClusterLogForwarder \<Rightarrow> bool" where
  "authorized_for get create clf \<longleftrightarrow>
     (case get (sa_Name (spec_ServiceAccount (clf_Spec clf))) (clf_Namespace clf) of
        Inl _ \<Rightarrow> False
      | Inr (ns, n) \<Rightarrow>
          (\<forall>t. needs_permission (clf_Spec clf) t \<longrightarrow> permitted create (ServiceAccountUsername ns n) t)
          \<and> ((\<exists>t. needs_permission (clf_Spec clf) t) \<or> has_receivers (clf_Spec clf)))"

lemma NewCondition_sel:
  "cond_Type (NewCondition now t s r m) = t" "cond_Status (NewCondition now t s r m) = s"
  by (simp_all add: NewCondition_def)

lemma ValidatePermissions_run:
  assumes present: "\<forall>i\<in>set (referenced_inputs (clf_Spec (ctx_Forwarder ctx))). receiver_present i"
  shows "\<exists>c. ValidatePermissions now get create ctx = Inr (set_status_condition now c ctx)
    \<and> cond_Type c = ConditionTypeAuthorized
    \<and> cond_Status c = (if authorized_for get create (ctx_Forwarder ctx) then ConditionTrue else ConditionFalse)"
proof (cases "get (sa_Name (spec_ServiceAccount (clf_Spec (ctx_Forwarder ctx)))) (clf_Namespace (ctx_Forwarder ctx))")
  case (Inl e)
  then show ?thesis
    by (cases e) (force simp: ValidatePermissions_def Let_def authorized_for_def NewCondition_sel)+
next
  case (Inr sa)
  obtain ns n where sa: "sa = (ns, n)" by (cases sa)
  obtain ts where ts: "gatherPipelineInputs (clf_Spec (ctx_Forwarder ctx)) = Inr (ts, has_receivers (clf_Spec (ctx_Forwarder ctx)))"
    and set: "set ts = {t. needs_permission (clf_Spec (ctx_Forwarder ctx)) t}"
    using gatherPipelineInputs_run [OF present] by blast
  have auth: "authorized_for get create (ctx_Forwarder ctx) \<longleftrightarrow>
      validateServiceAccountPermissions create ts (has_receivers (clf_Spec (ctx_Forwarder ctx)))
        (ServiceAccountUsername ns n) = None"
  proof -
    have "ts \<noteq> [] \<longleftrightarrow> (\<exists>t. needs_permission (clf_Spec (ctx_Forwarder ctx)) t)"
      using set by (cases ts) auto
    with set show ?thesis by (simp add: validateServiceAccountPermissions_None authorized_for_def Inr sa)
  qed
  show ?thesis
    by (cases "validateServiceAccountPermissions create ts (has_receivers (clf_Spec (ctx_Forwarder ctx)))
        (ServiceAccountUsername ns n)")
      (force simp: ValidatePermissions_def Let_def Inr sa ts auth NewCondition_sel)+
qed

section \<open>Properties\<close>

text \<open>
  C8. A forwarder is authorized exactly when its service account exists, the API server allows that
  account to collect every log type its pipelines need, and they need some or read a receiver:
  application logs for application inputs, infrastructure logs for infrastructure inputs, syslog
  receivers and application inputs that include an infrastructure namespace, audit logs for audit
  inputs.
\<close>

theorem ValidatePermissions_authorized:
  assumes "\<forall>i\<in>set (referenced_inputs (clf_Spec (ctx_Forwarder ctx))). receiver_present i"
    and "distinct (map cond_Type (status_Conditions (clf_Status (ctx_Forwarder ctx))))"
  shows "\<exists>ctx'. ValidatePermissions now get create ctx = Inr ctx'
    \<and> (isAuthorized (status_Conditions (clf_Status (ctx_Forwarder ctx')))
       \<longleftrightarrow> authorized_for get create (ctx_Forwarder ctx))"
proof -
  obtain c where "ValidatePermissions now get create ctx = Inr (set_status_condition now c ctx)"
    and "cond_Type c = ConditionTypeAuthorized"
    and "cond_Status c = ConditionTrue \<longleftrightarrow> authorized_for get create (ctx_Forwarder ctx)"
    using ValidatePermissions_run [OF assms(1), of now get create] by (auto split: if_splits)
  then show ?thesis using isAuthorized_set_status [OF assms(2), of c now] by simp
qed

definition only_application :: "SubjectAccessReview \<Rightarrow> string + bool" where
  "only_application sar =
     (case sar_Attributes sar of
        ResourceAccess ra \<Rightarrow> Inr (ra_Name ra = ''application'')
      | NonResourceAttributes _ _ \<Rightarrow> Inr False)"

definition sample_app_context :: "string \<Rightarrow> ForwarderContext" where
  "sample_app_context namespace =
     \<lparr>ctx_Forwarder = sample_forwarder\<lparr>clf_Spec := sample_spec\<lparr>
        spec_Inputs := [InputSpec_zero\<lparr>input_Name := ''app'', input_Type := InputTypeApplication,
          input_Application := Some \<lparr>app_Selector = None, app_Tuning = None,
            app_Includes = [\<lparr>ncs_Namespace = namespace, ncs_Container = []\<rparr>], app_Excludes = []\<rparr>\<rparr>],
        spec_Pipelines := [\<lparr>pipeline_Name = ''p'', pipeline_InputRefs = [''app''],
          pipeline_OutputRefs = [''loki''], pipeline_FilterRefs = []\<rparr>]\<rparr>\<rparr>,
      ctx_Secrets = Some Map.empty, ctx_ConfigMaps = Some Map.empty, ctx_AdditionalContext = None\<rparr>"

theorem ValidatePermissions_authorized_witness:
  "\<exists>ctx'. ValidatePermissions 7 (\<lambda>n ns. Inr (ns, n)) only_application (sample_app_context ''openshift-logging'')
      = Inr ctx' \<and> \<not> isAuthorized (status_Conditions (clf_Status (ctx_Forwarder ctx')))"
proof -
  let ?ctx = "sample_app_context ''openshift-logging''"
  have "needs_permission (clf_Spec (ctx_Forwarder ?ctx)) ''infrastructure''"
    by (simp add: needs_permission_def sample_app_context_def referenced_inputs_def pipeline_refs_def
        collected_types_def infraNamespaces_def HasPrefix_def)
  moreover have "\<not> permitted only_application u ''infrastructure''" for u
    by (simp add: permitted_def only_application_def createSubjectAccessReview_def HasPrefix_def)
  ultimately have "\<not> authorized_for (\<lambda>n ns. Inr (ns, n)) only_application (ctx_Forwarder ?ctx)"
    by (auto simp: authorized_for_def)
  moreover have "\<forall>i\<in>set (referenced_inputs (clf_Spec (ctx_Forwarder ?ctx))). receiver_present i"
    "distinct (map cond_Type (status_Conditions (clf_Status (ctx_Forwarder ?ctx))))"
    by (simp_all add: sample_app_context_def referenced_inputs_def receiver_present_def sample_forwarder_def)
  ultimately show ?thesis
    using ValidatePermissions_authorized [of ?ctx 7 "\<lambda>n ns. Inr (ns, n)" only_application] by blast
qed

end
