(* ===== verification/Collector_Deploy.thy ===== *)
theory Collector_Deploy
  imports Cluster_Rbac Validate_Outputs Validate_Permissions
begin

text \<open>
  The deployment of a collector: \<open>ReconcileCollector\<close>
  (\<open>internal/controller/observability/collector.go\<close>), the services of receiver inputs
  (\<open>internal/collector/input\_service.go\<close>) and the removal of a workload
  (\<open>internal/collector/daemonset.go\<close>, \<open>deployment.go\<close>). What these functions do to the cluster is
  a trace of operations, each of which the cluster may refuse; an operation stands for one call into
  the reconcile packages or the client, with the arguments that identify the object. The contents of
  the objects are not part of the trace, apart from the generated configuration.
\<close>

section \<open>Operations, traces and their composition\<close>

datatype workload = DaemonSet | Deployment

datatype cluster_op =
    Op_SecurityContextConstraints
  | Op_Get_ServiceAccount string string
  | Op_ServiceAccountTokenSecret string string
  | Op_RBAC string string string
  | Op_MetricsAuthRBAC string string string
  | Op_TrustedCABundle string string
  | Op_CredsFile string string
  | Op_CollectorConfig string string string
  | Op_Workload workload string string string
  | Op_List_Services string ReceiverType
  | Op_Delete_Service string string
  | Op_InputService string string int ReceiverType
  | Op_NetworkPolicy string string
  | Op_Remove_NetworkPolicy string string
  | Op_MetricsService string string
  | Op_ServiceMonitor string string string
  | Op_Get_Workload workload string string
  | Op_Delete_Workload workload string string
  | Op_Delete_ClusterRoleBinding string
  | Op_Patch_Status string string ClusterLogForwarderStatus

text \<open>A function ends with a value, with an error it returns, or with a fault.\<close>

datatype stop = Failed string | Fault go_fault

type_synonym 'a action = "cluster_op list \<times> (stop + 'a)"

definition act_bind :: "'a action \<Rightarrow> ('a \<Rightarrow> 'b action) \<Rightarrow> 'b action" where
  "act_bind m f =
     (case m of
        (ops, Inl e) \<Rightarrow> (ops, Inl e)
      | (ops, Inr x) \<Rightarrow> (case f x of (ops', r) \<Rightarrow> (ops @ ops', r)))"

definition done_with :: "'a \<Rightarrow> 'a action" where
  "done_with x = ([], Inr x)"

definition pure_go :: "'a go \<Rightarrow> 'a action" where
  "pure_go m = ([], case m of Inl e \<Rightarrow> Inl (Fault e) | Inr x \<Rightarrow> Inr x)"

fun act_each :: "('a \<Rightarrow> unit action) \<Rightarrow> 'a list \<Rightarrow> unit action" where
  "act_each f [] = done_with ()"
| "act_each f (x # xs) = act_bind (f x) (\<lambda>_. act_each f xs)"

record service =
  svc_Namespace :: string
  svc_Name :: string
  svc_OwnerReferences :: "OwnerReference list"

text \<open>
  The cluster: what an operation answers, the services a listing returns, the configuration
  generator, the MD5 digest, and the credentials file of the AWS outputs (\<open>None\<close> when there is
  nothing to write).
\<close>

record cluster =
  cl_answer :: "cluster_op \<Rightarrow> client_error option"
  cl_services :: "string \<Rightarrow> ReceiverType \<Rightarrow> service list"
  cl_generate :: "ClusterLogForwarder \<Rightarrow> ForwarderResourceNames \<Rightarrow> Secrets \<Rightarrow> string option \<Rightarrow> string + string"
  cl_md5 :: "string \<Rightarrow> string"
  cl_token_secret :: "string \<Rightarrow> string \<Rightarrow> Secret"
  cl_creds :: "Secrets \<Rightarrow> string"
  cl_owner :: "ClusterLogForwarder \<Rightarrow> OwnerReference"

definition perform :: "cluster \<Rightarrow> cluster_op \<Rightarrow> unit action" where
  "perform cl op =
     ([op], case cl_answer cl op of None \<Rightarrow> Inr () | Some e \<Rightarrow> Inl (Failed (Error e)))"

text \<open>Deletions treat an object that is not there as deleted.\<close>

definition perform_delete :: "cluster \<Rightarrow> string \<Rightarrow> cluster_op \<Rightarrow> unit action" where
  "perform_delete cl what op =
     ([op], case cl_answer cl op of
              Some (ClientError e) \<Rightarrow> Inl (Failed (what @ e))
            | _ \<Rightarrow> Inr ())"

section \<open>collector/daemonset.go, collector/deployment.go\<close>

fun workload_name :: "workload \<Rightarrow> string" where
  "workload_name DaemonSet = ''daemonset''"
| "workload_name Deployment = ''deployment''"

definition remove_workload :: "cluster \<Rightarrow> workload \<Rightarrow> string \<Rightarrow> string \<Rightarrow> unit action" where
  "remove_workload cl kind namespace name =
     (case cl_answer cl (Op_Get_Workload kind namespace name) of
        Some (NotFound _) \<Rightarrow> ([Op_Get_Workload kind namespace name], Inr ())
      | Some (ClientError e) \<Rightarrow>
          ([Op_Get_Workload kind namespace name],
           Inl (Failed (''failure checking '' @ workload_name kind @ '' '' @ namespace @ ''/'' @ name @ '': '' @ e)))
      | None \<Rightarrow>
          act_bind ([Op_Get_Workload kind namespace name], Inr ())
            (\<lambda>_. perform_delete cl
                   (''failure deleting '' @ workload_name kind @ '' '' @ namespace @ ''/'' @ name @ '': '')
                   (Op_Delete_Workload kind namespace name)))"

definition RemoveDaemonset :: "cluster \<Rightarrow> string \<Rightarrow> string \<Rightarrow> unit action" where
  "RemoveDaemonset cl = remove_workload cl DaemonSet"

definition RemoveDeployment :: "cluster \<Rightarrow> string \<Rightarrow> string \<Rightarrow> unit action" where
  "RemoveDeployment cl = remove_workload cl Deployment"

section \<open>collector/input\_service.go\<close>

definition ReceiverTypes :: "ReceiverType list" where
  "ReceiverTypes = [ReceiverTypeHTTP, ReceiverTypeSyslog]"

definition receiver_services ::
  "ForwarderResourceNames \<Rightarrow> ReceiverType \<Rightarrow> InputSpec list \<Rightarrow> string list go" where
  "receiver_services names t inputs =
     go_bind (go_mapM (\<lambda>i.
         if input_Type i = InputTypeReceiver
         then go_bind (deref (input_Receiver i))
                (\<lambda>r. Inr (if recv_Type r = t then [GenerateInputServiceName names (input_Name i)] else []))
         else Inr []) inputs)
       (\<lambda>ns. Inr (concat ns))"

definition RemoveOrphanedInputServices ::
  "cluster \<Rightarrow> string \<Rightarrow> ClusterLogForwarderSpec \<Rightarrow> ForwarderResourceNames \<Rightarrow> OwnerReference \<Rightarrow> unit action" where
  "RemoveOrphanedInputServices cl namespace spec names owner =
     act_each (\<lambda>t.
       act_bind (perform cl (Op_List_Services namespace t))
       (\<lambda>_. act_bind (pure_go (receiver_services names t (spec_Inputs spec)))
       (\<lambda>inputs. act_each (\<lambda>item.
          if svc_OwnerReferences item = [owner] \<and> svc_Name item \<notin> set inputs
          then perform_delete cl
            (''failure deleting service '' @ svc_Namespace item @ ''/'' @ svc_Name item @ '': '')
            (Op_Delete_Service (svc_Namespace item) (svc_Name item))
          else done_with ()) (cl_services cl namespace t)))) ReceiverTypes"

definition ReconcileInputServices ::
  "cluster \<Rightarrow> string \<Rightarrow> ClusterLogForwarderSpec \<Rightarrow> ForwarderResourceNames \<Rightarrow> OwnerReference \<Rightarrow> unit action" where
  "ReconcileInputServices cl namespace spec names owner =
     act_bind (RemoveOrphanedInputServices cl namespace spec names owner)
       (\<lambda>_. act_each (\<lambda>i.
          case input_Receiver i of
            None \<Rightarrow> done_with ()
          | Some r \<Rightarrow> perform cl (Op_InputService namespace (GenerateInputServiceName names (input_Name i))
                        (recv_Port r) (recv_Type r))) (spec_Inputs spec))"

section \<open>collector/aws: which outputs need a credentials file\<close>

definition RequiresProfilesConfigMap :: "OutputSpec list \<Rightarrow> bool" where
  "RequiresProfilesConfigMap outputs =
     list_ex (\<lambda>o'. Option.bind (s3_auth o') aws_IamRole \<noteq> None
                  \<or> Option.bind (cw_auth o') aws_IamRole \<noteq> None) outputs"

section \<open>collector.go\<close>

definition CollectorName :: string where "CollectorName = ''collector''"

definition MetricsCollectionProfileFull :: string where "MetricsCollectionProfileFull = ''full''"

definition MetricsCollectionProfileMinimal :: string where "MetricsCollectionProfileMinimal = ''minimal''"

definition MetricsCollectionProfileTelemetry :: string where "MetricsCollectionProfileTelemetry = ''telemetry''"

definition assign_secret :: "Secrets option \<Rightarrow> Secret \<Rightarrow> Secrets go" where
  "assign_secret m s =
     (case m of None \<Rightarrow> Inl (PanicWith ''assignment to entry in nil map'') | Some m' \<Rightarrow> Inr (m'(secret_Name s \<mapsto> s)))"

text \<open>The service account token, when an output authenticates with it: the secrets and the option.\<close>

definition token_secret ::
  "cluster \<Rightarrow> ForwarderContext \<Rightarrow> ForwarderResourceNames \<Rightarrow> (Secrets option \<times> string option) action" where
  "token_secret cl ctx names =
     (let f = ctx_Forwarder ctx; ns = clf_Namespace f
      in act_bind (pure_go (NeedServiceAccountToken (spec_Outputs (clf_Spec f))))
        (\<lambda>need. if need
           then act_bind (perform cl (Op_Get_ServiceAccount ns (sa_Name (spec_ServiceAccount (clf_Spec f)))))
             (\<lambda>_. act_bind (perform cl (Op_ServiceAccountTokenSecret ns (ServiceAccountTokenSecret names)))
             (\<lambda>_. act_bind (pure_go (assign_secret (ctx_Secrets ctx)
                     (cl_token_secret cl ns (ServiceAccountTokenSecret names))))
             (\<lambda>secrets. done_with (Some secrets, Some (ServiceAccountTokenSecret names)))))
           else done_with (ctx_Secrets ctx, None)))"

definition creds_file :: "cluster \<Rightarrow> ForwarderContext \<Rightarrow> ForwarderResourceNames \<Rightarrow> Secrets \<Rightarrow> unit action" where
  "creds_file cl ctx names secrets =
     (let f = ctx_Forwarder ctx
      in if RequiresProfilesConfigMap (spec_Outputs (clf_Spec f)) \<and> cl_creds cl secrets \<noteq> []
         then perform cl (Op_CredsFile (clf_Namespace f) (AwsCredentialsFile names))
         else done_with ())"

definition network_policy :: "cluster \<Rightarrow> ClusterLogForwarder \<Rightarrow> ForwarderResourceNames \<Rightarrow> unit action" where
  "network_policy cl f names =
     (let name = CollectorName @ ''-'' @ CommonName names
      in case Option.bind (spec_Collector (clf_Spec f)) collector_NetworkPolicy of
           Some _ \<Rightarrow> perform cl (Op_NetworkPolicy (clf_Namespace f) name)
         | None \<Rightarrow> perform_delete cl
             (''failure deleting networkPolicy '' @ clf_Namespace f @ ''/'' @ name @ '': '')
             (Op_Remove_NetworkPolicy (clf_Namespace f) name))"

definition deployed_as :: "ClusterLogForwarder \<Rightarrow> workload" where
  "deployed_as f = (if DeployAsDeployment f then Deployment else DaemonSet)"

text \<open>
  \<open>ReconcileCollector\<close> up to the written configuration, which it yields, and what follows the
  workload. The generated configuration and the secrets it reads are those of the forwarder with the
  token secret added.
\<close>

definition collector_setup :: "cluster \<Rightarrow> ForwarderContext \<Rightarrow> string action" where
  "collector_setup cl ctx =
     (let f = ctx_Forwarder ctx; ns = clf_Namespace f; names = ResourceNames f;
          sa = sa_Name (spec_ServiceAccount (clf_Spec f))
      in act_bind (perform cl Op_SecurityContextConstraints)
      (\<lambda>_. act_bind (token_secret cl ctx names)
      (\<lambda>(secrets, token). act_bind (perform cl (Op_RBAC (clf_Name f) ns sa))
      (\<lambda>_. act_bind (perform cl (Op_MetricsAuthRBAC (MetricsAuthClusterRoleBinding names) ns sa))
      (\<lambda>_. act_bind (perform cl (Op_TrustedCABundle ns (CaTrustBundle names)))
      (\<lambda>_. act_bind (creds_file cl ctx names (nil_map secrets))
      (\<lambda>_. case cl_generate cl f names (nil_map secrets) token of
             Inl e \<Rightarrow> ([], Inl (Failed e))
           | Inr config \<Rightarrow>
               act_bind (perform cl (Op_CollectorConfig ns (ConfigMap_Name names) config))
                 (\<lambda>_. done_with config))))))))"

definition collector_services :: "cluster \<Rightarrow> ForwarderContext \<Rightarrow> unit action" where
  "collector_services cl ctx =
     (let f = ctx_Forwarder ctx; ns = clf_Namespace f; names = ResourceNames f
      in act_bind (ReconcileInputServices cl ns (clf_Spec f) names (cl_owner cl f))
      (\<lambda>_. act_bind (network_policy cl f names)
      (\<lambda>_. act_bind (perform cl (Op_MetricsService ns (CommonName names)))
      (\<lambda>_. act_bind (perform cl (Op_ServiceMonitor ns (CommonName names) MetricsCollectionProfileFull))
      (\<lambda>_. act_bind (perform cl (Op_ServiceMonitor ns
               (MetricsCollectionProfileMinimal @ ''-'' @ CommonName names) MetricsCollectionProfileMinimal))
      (\<lambda>_. perform cl (Op_ServiceMonitor ns
               (MetricsCollectionProfileTelemetry @ ''-'' @ CommonName names)
               MetricsCollectionProfileTelemetry)))))))"

definition ReconcileCollector :: "cluster \<Rightarrow> ForwarderContext \<Rightarrow> unit action" where
  "ReconcileCollector cl ctx =
     (let f = ctx_Forwarder ctx
      in act_bind (collector_setup cl ctx)
      (\<lambda>config. act_bind (perform cl (Op_Workload (deployed_as f) (clf_Namespace f)
                             (DaemonSetName (ResourceNames f)) (cl_md5 cl config)))
      (\<lambda>_. collector_services cl ctx)))"

section \<open>Traces\<close>

lemma fst_act_bind: "fst (act_bind m f) = fst m @ (case snd m of Inl _ \<Rightarrow> [] | Inr x \<Rightarrow> fst (f x))"
  by (cases m; cases "snd m") (auto simp: act_bind_def split: prod.splits)

lemma snd_act_bind: "snd (act_bind m f) = (case snd m of Inl e \<Rightarrow> Inl e | Inr x \<Rightarrow> snd (f x))"
  by (cases m; cases "snd m") (auto simp: act_bind_def split: prod.splits)

lemma done_with_sel [simp]: "fst (done_with x) = []" "snd (done_with x) = Inr x"
  by (simp_all add: done_with_def)

lemma pure_go_sel [simp]: "fst (pure_go m) = []" "snd (pure_go m) = Inr x \<longleftrightarrow> m = Inr x"
  by (cases m; simp add: pure_go_def)+

lemma perform_sel [simp]:
  "fst (perform cl op) = [op]" "snd (perform cl op) = Inr u \<longleftrightarrow> cl_answer cl op = None"
  by (simp_all add: perform_def split: option.split)

lemma perform_delete_sel [simp]:
  "fst (perform_delete cl w op) = [op]"
  "snd (perform_delete cl w op) = Inr u \<longleftrightarrow> (\<forall>e. cl_answer cl op \<noteq> Some (ClientError e))"
  by (auto simp: perform_delete_def split: option.split client_error.split)

lemma act_bind_pure [simp]: "act_bind (pure_go (Inr x)) f = f x"
  by (simp add: act_bind_def pure_go_def)

lemma act_bind_Inr:
  "snd (act_bind m f) = Inr y \<longleftrightarrow> (\<exists>x. snd m = Inr x \<and> snd (f x) = Inr y)"
  by (cases "snd m") (simp_all add: snd_act_bind)

lemma fst_act_bind_Inr: "snd m = Inr x \<Longrightarrow> fst (act_bind m f) = fst m @ fst (f x)"
  by (simp add: fst_act_bind)

lemma set_act_bind:
  "op \<in> set (fst (act_bind m f)) \<longleftrightarrow> op \<in> set (fst m) \<or> (\<exists>x. snd m = Inr x \<and> op \<in> set (fst (f x)))"
  by (cases "snd m") (auto simp: fst_act_bind)

lemma act_each_Inr: "snd (act_each f xs) = Inr u \<longleftrightarrow> (\<forall>x\<in>set xs. snd (f x) = Inr ())"
  by (induction xs) (auto simp: act_bind_Inr)

lemma set_act_each_sub: "op \<in> set (fst (act_each f xs)) \<Longrightarrow> \<exists>x\<in>set xs. op \<in> set (fst (f x))"
  by (induction xs) (auto simp: set_act_bind)

lemma fst_act_each_Inr: "snd (act_each f xs) = Inr u \<Longrightarrow> fst (act_each f xs) = concat (map (\<lambda>x. fst (f x)) xs)"
  by (induction xs) (auto simp: act_bind_Inr fst_act_bind)

section \<open>Input services\<close>

text \<open>A listed service of this forwarder that no receiver of the listed type stands behind.\<close>

definition orphaned ::
  "cluster \<Rightarrow> string \<Rightarrow> ClusterLogForwarderSpec \<Rightarrow> ForwarderResourceNames \<Rightarrow> OwnerReference \<Rightarrow> service \<Rightarrow> bool" where
  "orphaned cl namespace spec names owner svc \<longleftrightarrow>
     (\<exists>t\<in>set ReceiverTypes. svc \<in> set (cl_services cl namespace t)
        \<and> svc_OwnerReferences svc = [owner]
        \<and> (\<forall>i\<in>set (spec_Inputs spec). input_Type i = InputTypeReceiver
             \<and> map_option recv_Type (input_Receiver i) = Some t
             \<longrightarrow> svc_Name svc \<noteq> GenerateInputServiceName names (input_Name i)))"

lemma go_mapM_projr: "go_mapM f xs = Inr ys \<Longrightarrow> ys = map (\<lambda>x. projr (f x)) xs"
  by (induction xs arbitrary: ys) (auto simp: go_bind_Inr_iff)

lemma receiver_services_set:
  assumes "receiver_services names t is = Inr ns"
  shows "set ns = {GenerateInputServiceName names (input_Name i) | i. i \<in> set is \<and> input_Type i = InputTypeReceiver
     \<and> map_option recv_Type (input_Receiver i) = Some t}"
proof -
  let ?f = "\<lambda>i. if input_Type i = InputTypeReceiver
         then go_bind (deref (input_Receiver i))
                (\<lambda>r. Inr (if recv_Type r = t then [GenerateInputServiceName names (input_Name i)] else []))
         else Inr []"
  obtain nss where nss: "go_mapM ?f is = Inr nss" "ns = concat nss"
    using assms by (auto simp: receiver_services_def go_bind_Inr_iff)
  have each: "set (projr (?f i)) = {m. m = GenerateInputServiceName names (input_Name i)
      \<and> input_Type i = InputTypeReceiver \<and> map_option recv_Type (input_Receiver i) = Some t}"
    if "returns (?f i)" for i
    using that by (cases "input_Receiver i") (auto split: if_splits)
  have ret: "returns (?f i)" if "i \<in> set is" for i
    using nss(1) that returns_go_mapM [of ?f "is"] by simp
  have "set ns = (\<Union>i\<in>set is. set (projr (?f i)))"
    unfolding nss(2) using go_mapM_projr [OF nss(1)] by simp
  also have "\<dots> = (\<Union>i\<in>set is. {m. m = GenerateInputServiceName names (input_Name i)
      \<and> input_Type i = InputTypeReceiver \<and> map_option recv_Type (input_Receiver i) = Some t})"
    by (rule SUP_cong [OF refl each [OF ret]])
  finally have "set ns = (\<Union>i\<in>set is. {m. m = GenerateInputServiceName names (input_Name i)
      \<and> input_Type i = InputTypeReceiver \<and> map_option recv_Type (input_Receiver i) = Some t})"
    .
  then show ?thesis by blast
qed

lemma orphans_sub:
  assumes "op \<in> set (fst (RemoveOrphanedInputServices cl ns spec names owner))"
  shows "(\<exists>t\<in>set ReceiverTypes. op = Op_List_Services ns t)
    \<or> (\<exists>svc. orphaned cl ns spec names owner svc \<and> op = Op_Delete_Service (svc_Namespace svc) (svc_Name svc))"
proof -
  from set_act_each_sub [OF assms [unfolded RemoveOrphanedInputServices_def]] obtain t where
    t: "t \<in> set ReceiverTypes" and op: "op \<in> set (fst (act_bind (perform cl (Op_List_Services ns t))
       (\<lambda>_. act_bind (pure_go (receiver_services names t (spec_Inputs spec)))
       (\<lambda>inputs. act_each (\<lambda>item.
          if svc_OwnerReferences item = [owner] \<and> svc_Name item \<notin> set inputs
          then perform_delete cl
            (''failure deleting service '' @ svc_Namespace item @ ''/'' @ svc_Name item @ '': '')
            (Op_Delete_Service (svc_Namespace item) (svc_Name item))
          else done_with ()) (cl_services cl ns t)))))" by blast
  show ?thesis
  proof (cases "op = Op_List_Services ns t")
    case False
    with op obtain inputs where inputs: "receiver_services names t (spec_Inputs spec) = Inr inputs"
      and each: "op \<in> set (fst (act_each (\<lambda>item.
          if svc_OwnerReferences item = [owner] \<and> svc_Name item \<notin> set inputs
          then perform_delete cl
            (''failure deleting service '' @ svc_Namespace item @ ''/'' @ svc_Name item @ '': '')
            (Op_Delete_Service (svc_Namespace item) (svc_Name item))
          else done_with ()) (cl_services cl ns t)))"
      by (auto simp: set_act_bind)
    from set_act_each_sub [OF each] obtain svc where svc: "svc \<in> set (cl_services cl ns t)"
      "svc_OwnerReferences svc = [owner]" "svc_Name svc \<notin> set inputs"
      "op = Op_Delete_Service (svc_Namespace svc) (svc_Name svc)"
      by (auto split: if_splits)
    then have "orphaned cl ns spec names owner svc"
      using t unfolding orphaned_def receiver_services_set [OF inputs] by blast
    with svc(4) show ?thesis by blast
  qed (use t in blast)
qed

lemma orphans_sup:
  assumes run: "snd (RemoveOrphanedInputServices cl ns spec names owner) = Inr u"
    and orphan: "orphaned cl ns spec names owner svc"
  shows "Op_Delete_Service (svc_Namespace svc) (svc_Name svc)
    \<in> set (fst (RemoveOrphanedInputServices cl ns spec names owner))"
proof -
  obtain t where t: "t \<in> set ReceiverTypes" "svc \<in> set (cl_services cl ns t)" "svc_OwnerReferences svc = [owner]"
    and name: "\<forall>i\<in>set (spec_Inputs spec). input_Type i = InputTypeReceiver
             \<and> map_option recv_Type (input_Receiver i) = Some t
             \<longrightarrow> svc_Name svc \<noteq> GenerateInputServiceName names (input_Name i)"
    using orphan unfolding orphaned_def by blast
  let ?del = "\<lambda>inputs item. if svc_OwnerReferences item = [owner] \<and> svc_Name item \<notin> set inputs
          then perform_delete cl
            (''failure deleting service '' @ svc_Namespace item @ ''/'' @ svc_Name item @ '': '')
            (Op_Delete_Service (svc_Namespace item) (svc_Name item))
          else done_with ()"
  from run t(1) obtain inputs where inputs: "receiver_services names t (spec_Inputs spec) = Inr inputs"
    and "cl_answer cl (Op_List_Services ns t) = None"
    and each: "snd (act_each (?del inputs) (cl_services cl ns t)) = Inr ()"
    by (auto simp: RemoveOrphanedInputServices_def act_each_Inr act_bind_Inr)
  moreover have "svc_Name svc \<notin> set inputs"
    using name unfolding receiver_services_set [OF inputs] by blast
  then have "Op_Delete_Service (svc_Namespace svc) (svc_Name svc) \<in> set (fst (act_each (?del inputs) (cl_services cl ns t)))"
    unfolding fst_act_each_Inr [OF each] using t by force
  ultimately show ?thesis
    unfolding RemoveOrphanedInputServices_def
      fst_act_each_Inr [OF run [unfolded RemoveOrphanedInputServices_def]]
    using t(1) by (auto simp: set_act_bind intro!: bexI [of _ t])
qed

section \<open>What a deployment does, and in which order\<close>

lemma token_secret_ops:
  "op \<in> set (fst (token_secret cl ctx names)) \<Longrightarrow>
   (\<exists>ns n. op = Op_Get_ServiceAccount ns n) \<or> (\<exists>ns n. op = Op_ServiceAccountTokenSecret ns n)"
  by (auto simp: token_secret_def Let_def set_act_bind split: if_splits)

lemma creds_file_ops:
  "op \<in> set (fst (creds_file cl ctx names s)) \<Longrightarrow> \<exists>ns n. op = Op_CredsFile ns n"
  by (auto simp: creds_file_def Let_def split: if_splits)

lemma network_policy_ops:
  "op \<in> set (fst (network_policy cl f names)) \<Longrightarrow>
   (\<exists>ns n. op = Op_NetworkPolicy ns n) \<or> (\<exists>ns n. op = Op_Remove_NetworkPolicy ns n)"
  by (auto simp: network_policy_def Let_def split: option.splits)

lemma input_services_ops:
  "op \<in> set (fst (ReconcileInputServices cl ns spec names owner)) \<Longrightarrow>
   (\<exists>t. op = Op_List_Services ns t) \<or> (\<exists>m n. op = Op_Delete_Service m n)
   \<or> (\<exists>n p t. op = Op_InputService ns n p t)"
  unfolding ReconcileInputServices_def set_act_bind
  by (auto dest!: orphans_sub set_act_each_sub split: option.splits)

text \<open>No other function of the deployment touches a workload.\<close>

fun workload_op :: "cluster_op \<Rightarrow> bool" where
  "workload_op (Op_Workload _ _ _ _) = True"
| "workload_op (Op_Get_Workload _ _ _) = True"
| "workload_op (Op_Delete_Workload _ _ _) = True"
| "workload_op (Op_Patch_Status _ _ _) = True"
| "workload_op (Op_Delete_ClusterRoleBinding _) = True"
| "workload_op _ = False"

lemma generated_Inr:
  "snd (case g of Inl e \<Rightarrow> ([], Inl (Failed e)) | Inr c \<Rightarrow> F c) = Inr y \<longleftrightarrow> (\<exists>c. g = Inr c \<and> snd (F c) = Inr y)"
  by (cases g) simp_all

lemma generated_ops:
  "op \<in> set (fst (case g of Inl e \<Rightarrow> ([], Inl (Failed e)) | Inr c \<Rightarrow> F c)) \<longleftrightarrow>
   (\<exists>c. g = Inr c \<and> op \<in> set (fst (F c)))"
  by (cases g) simp_all

text \<open>An action that ends with a value has had no operation refused.\<close>

definition clean :: "cluster \<Rightarrow> 'a action \<Rightarrow> bool" where
  "clean cl m \<longleftrightarrow> (\<forall>x. snd m = Inr x \<longrightarrow> (\<forall>op\<in>set (fst m). cl_answer cl op = None))"

lemma clean_bind: "clean cl m \<Longrightarrow> (\<And>x. clean cl (f x)) \<Longrightarrow> clean cl (act_bind m f)"
  unfolding clean_def Ball_def act_bind_Inr set_act_bind by (metis sum.inject(2))

lemma clean_basic: "clean cl (done_with x)" "clean cl (perform cl op)" "clean cl (pure_go g)"
  "clean cl ([], Inl e)"
  by (simp_all add: clean_def)

lemma clean_token_secret: "clean cl (token_secret cl ctx names)"
  by (auto simp: token_secret_def Let_def intro!: clean_bind clean_basic)

lemma clean_creds_file: "clean cl (creds_file cl ctx names s)"
  by (auto simp: creds_file_def Let_def intro!: clean_basic)

lemma clean_setup: "clean cl (collector_setup cl ctx)"
  by (auto simp: collector_setup_def Let_def intro!: clean_bind clean_basic clean_token_secret clean_creds_file
      split: prod.split sum.split)

lemma setup_no_workload: "op \<in> set (fst (collector_setup cl ctx)) \<Longrightarrow> \<not> workload_op op"
  by (auto simp: collector_setup_def Let_def set_act_bind generated_ops dest!: token_secret_ops creds_file_ops)

lemma services_no_workload: "op \<in> set (fst (collector_services cl ctx)) \<Longrightarrow> \<not> workload_op op"
  by (auto simp: collector_services_def Let_def set_act_bind dest!: input_services_ops network_policy_ops)

text \<open>What has been done when the configuration is in place.\<close>

definition set_up :: "cluster \<Rightarrow> ForwarderContext \<Rightarrow> string \<Rightarrow> cluster_op set" where
  "set_up cl ctx config =
     (let f = ctx_Forwarder ctx; ns = clf_Namespace f; names = ResourceNames f;
          sa = sa_Name (spec_ServiceAccount (clf_Spec f))
      in {Op_SecurityContextConstraints, Op_RBAC (clf_Name f) ns sa,
          Op_MetricsAuthRBAC (MetricsAuthClusterRoleBinding names) ns sa,
          Op_TrustedCABundle ns (CaTrustBundle names),
          Op_CollectorConfig ns (ConfigMap_Name names) config})"

lemma setup_done:
  assumes "snd (collector_setup cl ctx) = Inr config"
  shows "set_up cl ctx config \<subseteq> set (fst (collector_setup cl ctx))
    \<and> (\<forall>op\<in>set (fst (collector_setup cl ctx)). cl_answer cl op = None)"
proof -
  let ?f = "ctx_Forwarder ctx" and ?names = "ResourceNames (ctx_Forwarder ctx)"
  let ?ns = "clf_Namespace ?f" and ?sa = "sa_Name (spec_ServiceAccount (clf_Spec ?f))"
  from assms obtain secrets token where
    r: "snd (perform cl Op_SecurityContextConstraints) = Inr ()"
      "snd (token_secret cl ctx ?names) = Inr (secrets, token)"
      "snd (perform cl (Op_RBAC (clf_Name ?f) ?ns ?sa)) = Inr ()"
      "snd (perform cl (Op_MetricsAuthRBAC (MetricsAuthClusterRoleBinding ?names) ?ns ?sa)) = Inr ()"
      "snd (perform cl (Op_TrustedCABundle ?ns (CaTrustBundle ?names))) = Inr ()"
      "snd (creds_file cl ctx ?names (nil_map secrets)) = Inr ()"
      "cl_generate cl ?f ?names (nil_map secrets) token = Inr config"
      "snd (perform cl (Op_CollectorConfig ?ns (ConfigMap_Name ?names) config)) = Inr ()"
    by (auto simp: collector_setup_def Let_def act_bind_Inr generated_Inr)
  have "fst (collector_setup cl ctx) =
      Op_SecurityContextConstraints # fst (token_secret cl ctx ?names)
      @ Op_RBAC (clf_Name ?f) ?ns ?sa
      # Op_MetricsAuthRBAC (MetricsAuthClusterRoleBinding ?names) ?ns ?sa
      # Op_TrustedCABundle ?ns (CaTrustBundle ?names)
      # fst (creds_file cl ctx ?names (nil_map secrets))
      @ [Op_CollectorConfig ?ns (ConfigMap_Name ?names) config]"
    unfolding collector_setup_def Let_def
    by (simp only: fst_act_bind_Inr [OF r(1)] fst_act_bind_Inr [OF r(2)] fst_act_bind_Inr [OF r(3)]
        fst_act_bind_Inr [OF r(4)] fst_act_bind_Inr [OF r(5)] fst_act_bind_Inr [OF r(6)] r(7) prod.case sum.case
        fst_act_bind_Inr [OF r(8)] perform_sel done_with_sel append.simps append_Nil2)
  then show ?thesis using clean_setup [of cl ctx] assms by (simp add: set_up_def Let_def clean_def)
qed

lemma ReconcileCollector_workload:
  assumes "Op_Workload k ns n h \<in> set (fst (ReconcileCollector cl ctx))"
  obtains config where "snd (collector_setup cl ctx) = Inr config"
    "k = deployed_as (ctx_Forwarder ctx)" "ns = clf_Namespace (ctx_Forwarder ctx)"
    "n = clf_Name (ctx_Forwarder ctx)" "h = cl_md5 cl config"
    "\<exists>post. fst (ReconcileCollector cl ctx) = fst (collector_setup cl ctx) @ Op_Workload k ns n h # post"
proof -
  from assms obtain config where c: "snd (collector_setup cl ctx) = Inr config"
    and w: "Op_Workload k ns n h \<in> set (fst (act_bind (perform cl (Op_Workload (deployed_as (ctx_Forwarder ctx))
        (clf_Namespace (ctx_Forwarder ctx)) (DaemonSetName (ResourceNames (ctx_Forwarder ctx))) (cl_md5 cl config)))
      (\<lambda>_. collector_services cl ctx)))"
    unfolding ReconcileCollector_def Let_def set_act_bind [of _ "collector_setup cl ctx"]
    using setup_no_workload [of "Op_Workload k ns n h" cl ctx] by auto
  from w have eq: "Op_Workload k ns n h = Op_Workload (deployed_as (ctx_Forwarder ctx))
        (clf_Namespace (ctx_Forwarder ctx)) (DaemonSetName (ResourceNames (ctx_Forwarder ctx))) (cl_md5 cl config)"
    using services_no_workload [of "Op_Workload k ns n h" cl ctx] by (auto simp: set_act_bind)
  have "\<exists>post. fst (ReconcileCollector cl ctx) = fst (collector_setup cl ctx) @ Op_Workload k ns n h # post"
    unfolding ReconcileCollector_def Let_def fst_act_bind_Inr [OF c] eq fst_act_bind [of "perform _ _"] by simp
  with c eq that show thesis by (simp add: DaemonSetName_def ResourceNames_def Let_def)
qed

text \<open>When nothing is refused, the deployment goes through.\<close>

definition returns_sum :: "'e + 'a \<Rightarrow> bool" where
  "returns_sum r \<longleftrightarrow> (\<exists>x. r = Inr x)"

definition generous :: "cluster \<Rightarrow> bool" where
  "generous cl \<longleftrightarrow> (\<forall>op. cl_answer cl op = None) \<and> (\<forall>f names s t. returns_sum (cl_generate cl f names s t))"

lemma token_secret_succeeds:
  assumes "\<forall>op. cl_answer cl op = None" "ctx_Secrets ctx \<noteq> None"
    "returns (NeedServiceAccountToken (spec_Outputs (clf_Spec (ctx_Forwarder ctx))))"
  shows "\<exists>r. snd (token_secret cl ctx names) = Inr r"
proof -
  obtain need where "NeedServiceAccountToken (spec_Outputs (clf_Spec (ctx_Forwarder ctx))) = Inr need"
    using assms(3) by (rule returnsE)
  with assms(1,2) show ?thesis
    by (cases need) (auto simp: token_secret_def Let_def act_bind_Inr assign_secret_def)
qed

lemma setup_succeeds:
  assumes "generous cl" "ctx_Secrets ctx \<noteq> None"
    "returns (NeedServiceAccountToken (spec_Outputs (clf_Spec (ctx_Forwarder ctx))))"
  shows "\<exists>config. snd (collector_setup cl ctx) = Inr config"
proof -
  have a: "cl_answer cl op = None" for op using assms(1) by (simp add: generous_def)
  obtain secrets token where "snd (token_secret cl ctx (ResourceNames (ctx_Forwarder ctx))) = Inr (secrets, token)"
    using token_secret_succeeds [of cl ctx "ResourceNames (ctx_Forwarder ctx)"] assms a by auto
  moreover obtain config where "cl_generate cl (ctx_Forwarder ctx) (ResourceNames (ctx_Forwarder ctx))
      (nil_map secrets) token = Inr config"
    using assms(1) unfolding generous_def returns_sum_def by blast
  moreover have "snd (creds_file cl ctx names s) = Inr ()" for names s
    by (simp add: creds_file_def Let_def a)
  ultimately show ?thesis by (auto simp: collector_setup_def Let_def act_bind_Inr a)
qed

lemma receiver_services_returns:
  "\<forall>i\<in>set is. receiver_present i \<Longrightarrow> \<exists>ns. receiver_services names t is = Inr ns"
proof -
  assume "\<forall>i\<in>set is. receiver_present i"
  then have "returns (receiver_services names t is)"
    by (auto simp: receiver_services_def returns_go_bind returns_go_mapM receiver_present_def)
  then show ?thesis by (auto elim: returnsE)
qed

lemma orphans_succeed:
  assumes "\<forall>op. cl_answer cl op = None" "\<forall>i\<in>set (spec_Inputs spec). receiver_present i"
  shows "snd (RemoveOrphanedInputServices cl ns spec names owner) = Inr ()"
  unfolding RemoveOrphanedInputServices_def act_each_Inr
proof
  fix t
  obtain ms where ms: "receiver_services names t (spec_Inputs spec) = Inr ms"
    using receiver_services_returns [OF assms(2)] by blast
  show "snd (act_bind (perform cl (Op_List_Services ns t))
       (\<lambda>_. act_bind (pure_go (receiver_services names t (spec_Inputs spec)))
       (\<lambda>inputs. act_each (\<lambda>item.
          if svc_OwnerReferences item = [owner] \<and> svc_Name item \<notin> set inputs
          then perform_delete cl
            (''failure deleting service '' @ svc_Namespace item @ ''/'' @ svc_Name item @ '': '')
            (Op_Delete_Service (svc_Namespace item) (svc_Name item))
          else done_with ()) (cl_services cl ns t)))) = Inr ()"
    using assms(1) by (simp add: ms act_bind_Inr act_each_Inr)
qed

lemma ReconcileCollector_succeeds:
  assumes "generous cl" "ctx_Secrets ctx \<noteq> None"
    "returns (NeedServiceAccountToken (spec_Outputs (clf_Spec (ctx_Forwarder ctx))))"
    "\<forall>i\<in>set (spec_Inputs (clf_Spec (ctx_Forwarder ctx))). receiver_present i"
  shows "snd (ReconcileCollector cl ctx) = Inr ()"
proof -
  have a: "cl_answer cl op = None" for op using assms(1) by (simp add: generous_def)
  obtain config where "snd (collector_setup cl ctx) = Inr config" using setup_succeeds [OF assms(1-3)] by blast
  moreover have "snd (ReconcileInputServices cl ns (clf_Spec (ctx_Forwarder ctx)) names owner) = Inr ()"
    for ns names owner
    using orphans_succeed [OF _ assms(4)] a
    by (simp add: ReconcileInputServices_def act_bind_Inr act_each_Inr split: option.split)
  moreover have "snd (network_policy cl f names) = Inr ()" for f names
    by (simp add: network_policy_def Let_def a split: option.split)
  ultimately show ?thesis
    by (simp add: ReconcileCollector_def collector_services_def Let_def act_bind_Inr a)
qed

lemma ReconcileCollector_has_workload:
  assumes "snd (ReconcileCollector cl ctx) = Inr ()"
  shows "\<exists>h. Op_Workload (deployed_as (ctx_Forwarder ctx)) (clf_Namespace (ctx_Forwarder ctx))
    (clf_Name (ctx_Forwarder ctx)) h \<in> set (fst (ReconcileCollector cl ctx))"
  using assms by (auto simp: ReconcileCollector_def Let_def act_bind_Inr set_act_bind DaemonSetName_def ResourceNames_def)

section \<open>Properties\<close>


definition sample_cluster :: cluster where
  "sample_cluster =
     \<lparr>cl_answer = \<lambda>_. None, cl_services = \<lambda>_ _. [], cl_generate = \<lambda>f names s t. Inr ''[sources]'',
      cl_md5 = \<lambda>s. s, cl_token_secret = \<lambda>ns n. \<lparr>secret_Name = n, secret_Data = Map.empty\<rparr>, cl_creds = \<lambda>_. [],
      cl_owner = \<lambda>_. sample_owner\<rparr>"

lemma sample_generous: "generous sample_cluster"
  by (simp add: generous_def sample_cluster_def returns_sum_def)

lemma sample_token: "returns (NeedServiceAccountToken (spec_Outputs (clf_Spec (ctx_Forwarder sample_context))))"
  by (simp add: sample_context_def sample_spec_def needsServiceAccountToken_def getOutputBearerToken_def)

lemma sample_present: "\<forall>i\<in>set (spec_Inputs (clf_Spec (ctx_Forwarder sample_context))). receiver_present i"
  by (simp add: sample_context_def receiver_present_def application_input_def)


text \<open>
  C36. The clean-up of input services is exact: it deletes no service but one that this forwarder owns
  and that no receiver input of the listed type stands behind, whatever the cluster refuses, and when
  it returns without an error it has deleted all of those.
\<close>

theorem RemoveOrphanedInputServices_exact:
  "(\<forall>m n. Op_Delete_Service m n \<in> set (fst (RemoveOrphanedInputServices cl ns spec names owner))
      \<longrightarrow> (\<exists>svc. orphaned cl ns spec names owner svc \<and> m = svc_Namespace svc \<and> n = svc_Name svc))
   \<and> (snd (RemoveOrphanedInputServices cl ns spec names owner) = Inr ()
      \<longrightarrow> (\<forall>svc. orphaned cl ns spec names owner svc \<longrightarrow>
            Op_Delete_Service (svc_Namespace svc) (svc_Name svc)
              \<in> set (fst (RemoveOrphanedInputServices cl ns spec names owner))))"
  using orphans_sub orphans_sup by blast

definition orphan_service :: service where
  "orphan_service = \<lparr>svc_Namespace = ''ns'', svc_Name = ''fwd-old'', svc_OwnerReferences = [sample_owner]\<rparr>"

theorem RemoveOrphanedInputServices_exact_witness:
  "Op_Delete_Service ''ns'' ''fwd-old'' \<in> set (fst (RemoveOrphanedInputServices
      (sample_cluster\<lparr>cl_services := \<lambda>_ _. [orphan_service]\<rparr>) ''ns'' sample_spec (ResourceNames sample_forwarder)
      sample_owner))"
proof -
  let ?cl = "sample_cluster\<lparr>cl_services := \<lambda>_ _. [orphan_service]\<rparr>"
  have "snd (RemoveOrphanedInputServices ?cl ''ns'' sample_spec (ResourceNames sample_forwarder) sample_owner) = Inr ()"
    by (rule orphans_succeed)
      (simp_all add: sample_cluster_def sample_spec_def receiver_present_def sample_receiver_def InputSpec_zero_def)
  moreover have "orphaned ?cl ''ns'' sample_spec (ResourceNames sample_forwarder) sample_owner orphan_service"
    by (simp add: orphaned_def ReceiverTypes_def orphan_service_def sample_spec_def sample_receiver_def
        GenerateInputServiceName_def ResourceNames_def sample_forwarder_def) blast
  ultimately show ?thesis
    using RemoveOrphanedInputServices_exact [of ?cl "''ns''" sample_spec "ResourceNames sample_forwarder" sample_owner]
    by (metis orphan_service_def service.select_convs(1,2))
qed

end
