(* ===== verification/Validate_Inputs.thy ===== *)
theory Validate_Inputs
  imports Validate_Common
begin

text \<open>
  Validation of inputs (\<open>internal/validations/observability/inputs\<close>). Every input of a known
  type gets exactly one condition; \<open>input_ok\<close> says declaratively what a positive one means, and
  the interpretation \<open>input_validator\<close> connects the conditions to the verdict.
\<close>

section \<open>application.go\<close>

definition glob_char :: "char \<Rightarrow> bool" where
  "glob_char c \<longleftrightarrow>
     (CHR ''a'' \<le> c \<and> c \<le> CHR ''z'') \<or> (CHR ''A'' \<le> c \<and> c \<le> CHR ''Z'')
     \<or> (CHR ''0'' \<le> c \<and> c \<le> CHR ''9'') \<or> c = CHR ''*'' \<or> c = CHR ''-''"

definition globRE :: "string \<Rightarrow> bool" where
  "globRE s = list_all glob_char s"

definition globRE_String :: string where
  "globRE_String = ''^[a-zA-Z0-9'' @ [bslash] @ ''*'' @ [bslash] @ ''-]*$''"

definition glob_messages :: "string \<Rightarrow> NamespaceContainerSpec list \<Rightarrow> string list" where
  "glob_messages kind specs =
     concat (map (\<lambda>(i, ns).
       (if \<not> globRE (ncs_Namespace ns) then [kind @ ''['' @ Itoa i @ ''].namespace''] else [])
       @ (if \<not> globRE (ncs_Container ns) then [kind @ ''['' @ Itoa i @ ''].container''] else []))
       (enumerate 0 specs))"

definition input_valid_condition :: "time \<Rightarrow> InputSpec \<Rightarrow> Condition" where
  "input_valid_condition now spec =
     NewConditionFromPrefix now ConditionTypeValidInputPrefix (input_Name spec) True ReasonValidationSuccess
       (''input '' @ Quote (input_Name spec) @ '' is valid'')"

definition input_invalid_condition :: "time \<Rightarrow> InputSpec \<Rightarrow> string \<Rightarrow> string \<Rightarrow> Condition" where
  "input_invalid_condition now spec reason message =
     NewConditionFromPrefix now ConditionTypeValidInputPrefix (input_Name spec) False reason message"

definition ValidateApplication :: "time \<Rightarrow> InputSpec \<Rightarrow> Condition list" where
  "ValidateApplication now spec =
     (if input_Type spec \<noteq> InputTypeApplication then []
      else (case input_Application spec of
        None \<Rightarrow> [input_invalid_condition now spec ReasonMissingSpec (input_Name spec @ '' has nil application spec'')]
      | Some app \<Rightarrow>
          let messages = glob_messages ''excludes'' (app_Excludes app) @ glob_messages ''includes'' (app_Includes app)
          in if messages \<noteq> []
             then [input_invalid_condition now spec ReasonValidationFailure
                     (''globs must match '' @ Quote globRE_String @ '' for: '' @ Join messages '','')]
             else [input_valid_condition now spec]))"

section \<open>infrastructure.go, audit.go\<close>

definition container_max_message_size :: "Infrastructure \<Rightarrow> Quantity option" where
  "container_max_message_size infra =
     Option.bind (Option.bind (infra_Tuning infra) infratune_Container) citune_MaxMessageSize"

definition ValidateInfrastructure :: "time \<Rightarrow> InputSpec \<Rightarrow> Condition list" where
  "ValidateInfrastructure now spec =
     (if input_Type spec \<noteq> InputTypeInfrastructure then []
      else (case input_Infrastructure spec of
        None \<Rightarrow> [input_invalid_condition now spec ReasonMissingSpec (input_Name spec @ '' has nil infrastructure spec'')]
      | Some infra \<Rightarrow>
          if infra_Sources infra \<noteq> [] \<and> InfrastructureSourceContainer \<notin> set (infra_Sources infra)
             \<and> container_max_message_size infra \<noteq> None
          then [input_invalid_condition now spec ReasonValidationFailure
                  (input_Name spec @ '' tuning section available only for '' @ Quote ''container''
                   @ '' source type, but found '' @ Join (map InfrastructureSource_String (infra_Sources infra)) '','')]
          else [input_valid_condition now spec]))"

definition ValidateAudit :: "time \<Rightarrow> InputSpec \<Rightarrow> Condition list" where
  "ValidateAudit now spec =
     (if input_Type spec \<noteq> InputTypeAudit then []
      else if input_Audit spec = None
      then [input_invalid_condition now spec ReasonMissingSpec (input_Name spec @ '' has nil audit spec'')]
      else [input_valid_condition now spec])"

section \<open>receivers.go\<close>

text \<open>
  \<open>extractSecretKeysAsSet\<close> collects the strings \<open>name_key\<close> of the generated secrets;
  the model is the membership test of that set.
\<close>

definition generated_key :: "gen_options \<Rightarrow> string \<Rightarrow> bool" where
  "generated_key context key =
     (case context of
        None \<Rightarrow> False
      | Some generatedSecrets \<Rightarrow>
          list_ex (\<lambda>secret. HasPrefix key (secret_Name secret @ ''_'')
             \<and> secret_Data secret (drop (length (secret_Name secret @ ''_'')) key) \<noteq> None) generatedSecrets)"

definition removeGeneratedSecrets :: "ValueReference list \<Rightarrow> (string \<Rightarrow> bool) \<Rightarrow> ValueReference list" where
  "removeGeneratedSecrets keys skipKeys =
     filter (\<lambda>secretKey. vref_SecretName secretKey \<noteq> []
               \<longrightarrow> \<not> skipKeys (vref_SecretName secretKey @ ''_'' @ vref_Key secretKey)) keys"

definition receiver_conditions ::
  "time \<Rightarrow> InputSpec \<Rightarrow> Secrets \<Rightarrow> ConfigMaps \<Rightarrow> gen_options \<Rightarrow> Condition list" where
  "receiver_conditions now spec secrets configMaps context =
     (case input_Receiver spec of
        None \<Rightarrow> [input_invalid_condition now spec ReasonMissingSpec (input_Name spec @ '' has nil receiver spec'')]
      | Some receiver \<Rightarrow>
          if recv_Type receiver = ReceiverTypeHTTP \<and> recv_HTTP receiver = None
          then [input_invalid_condition now spec ReasonMissingSpec (input_Name spec @ '' has nil HTTP receiver spec'')]
          else if recv_Type receiver = ReceiverTypeHTTP
                  \<and> map_option httprecv_Format (recv_HTTP receiver) = Some []
          then [input_invalid_condition now spec ReasonValidationFailure (input_Name spec @ '' does not specify a format'')]
          else
            let messages =
                  (case recv_TLS receiver of
                     None \<Rightarrow> []
                   | Some tlsSpec \<Rightarrow>
                       ValidateValueReference
                         (removeGeneratedSecrets (ValueReferences tlsSpec) (generated_key context))
                         secrets configMaps)
            in if messages \<noteq> []
               then [input_invalid_condition now spec ReasonValidationFailure (Join messages '','')]
               else [input_valid_condition now spec])"

definition ValidateReceiver ::
  "time \<Rightarrow> InputSpec \<Rightarrow> Secrets option \<Rightarrow> ConfigMaps option \<Rightarrow> gen_options \<Rightarrow> Condition list go" where
  "ValidateReceiver now spec secrets configMaps context =
     (case (secrets, configMaps) of
        (Some s, Some c) \<Rightarrow>
          Inr (if input_Type spec \<noteq> InputTypeReceiver then [] else receiver_conditions now spec s c context)
      | _ \<Rightarrow> Inl ProcessExit)"

section \<open>validate.go\<close>

definition input_conditions :: "time \<Rightarrow> ForwarderContext \<Rightarrow> InputSpec \<Rightarrow> Condition list go" where
  "input_conditions now ctx i =
     (case input_Type i of
        InputTypeApplication \<Rightarrow> Inr (ValidateApplication now i)
      | InputTypeInfrastructure \<Rightarrow> Inr (ValidateInfrastructure now i)
      | InputTypeAudit \<Rightarrow> Inr (ValidateAudit now i)
      | InputTypeReceiver \<Rightarrow>
          ValidateReceiver now i (ctx_Secrets ctx) (ctx_ConfigMaps ctx) (ctx_AdditionalContext ctx)
      | InputTypeOther _ \<Rightarrow> Inr [])"

definition inputs_Validate :: "time \<Rightarrow> ForwarderContext \<Rightarrow> ForwarderContext go" where
  "inputs_Validate now ctx =
     go_bind (go_mapM (input_conditions now ctx) (spec_Inputs (clf_Spec (ctx_Forwarder ctx))))
       (\<lambda>results. Inr (map_status (\<lambda>st. st\<lparr>status_InputConditions :=
          SetConditions now (status_InputConditions st) (concat results)\<rparr>) ctx))"

section \<open>What a valid input is\<close>

definition globs_ok :: "NamespaceContainerSpec list \<Rightarrow> bool" where
  "globs_ok specs \<longleftrightarrow> (\<forall>ns\<in>set specs. globRE (ncs_Namespace ns) \<and> globRE (ncs_Container ns))"

definition known_input_type :: "InputSpec \<Rightarrow> bool" where
  "known_input_type i \<longleftrightarrow>
     input_Type i \<in> {InputTypeApplication, InputTypeInfrastructure, InputTypeAudit, InputTypeReceiver}"

definition receiver_ok :: "Secrets \<Rightarrow> ConfigMaps \<Rightarrow> gen_options \<Rightarrow> ReceiverSpec \<Rightarrow> bool" where
  "receiver_ok secrets cms gen r \<longleftrightarrow>
     (recv_Type r = ReceiverTypeHTTP \<longrightarrow> recv_HTTP r \<noteq> None \<and> map_option httprecv_Format (recv_HTTP r) \<noteq> Some [])
     \<and> (\<forall>t. recv_TLS r = Some t \<longrightarrow>
          (\<forall>ref\<in>set (ValueReferences t).
             (vref_SecretName ref \<noteq> [] \<and> generated_key gen (vref_SecretName ref @ ''_'' @ vref_Key ref))
             \<or> ref_resolves secrets cms ref))"

definition input_ok :: "Secrets \<Rightarrow> ConfigMaps \<Rightarrow> gen_options \<Rightarrow> InputSpec \<Rightarrow> bool" where
  "input_ok secrets cms gen i \<longleftrightarrow>
     (case input_Type i of
        InputTypeApplication \<Rightarrow>
          (case input_Application i of None \<Rightarrow> False
           | Some app \<Rightarrow> globs_ok (app_Excludes app) \<and> globs_ok (app_Includes app))
      | InputTypeInfrastructure \<Rightarrow>
          (case input_Infrastructure i of None \<Rightarrow> False
           | Some infra \<Rightarrow> infra_Sources infra = [] \<or> InfrastructureSourceContainer \<in> set (infra_Sources infra)
               \<or> container_max_message_size infra = None)
      | InputTypeAudit \<Rightarrow> input_Audit i \<noteq> None
      | InputTypeReceiver \<Rightarrow>
          (case input_Receiver i of None \<Rightarrow> False | Some r \<Rightarrow> receiver_ok secrets cms gen r)
      | InputTypeOther _ \<Rightarrow> False)"

text \<open>The single condition an input gets; an input of no known type is given a negative one here.\<close>

definition input_report ::
  "time \<Rightarrow> Secrets \<Rightarrow> ConfigMaps \<Rightarrow> gen_options \<Rightarrow> InputSpec \<Rightarrow> Condition" where
  "input_report now secrets cms gen i =
     (case input_Type i of
        InputTypeApplication \<Rightarrow> hd (ValidateApplication now i)
      | InputTypeInfrastructure \<Rightarrow> hd (ValidateInfrastructure now i)
      | InputTypeAudit \<Rightarrow> hd (ValidateAudit now i)
      | InputTypeReceiver \<Rightarrow> hd (receiver_conditions now i secrets cms gen)
      | InputTypeOther _ \<Rightarrow> input_invalid_condition now i ReasonValidationFailure [])"

lemmas input_condition_defs =
  input_valid_condition_def input_invalid_condition_def NewConditionFromPrefix_def NewCondition_def

lemma glob_messages_Nil: "glob_messages kind specs = [] \<longleftrightarrow> globs_ok specs"
proof -
  have "concat (map (\<lambda>(i, ns).
       (if \<not> globRE (ncs_Namespace ns) then [kind @ ''['' @ Itoa i @ ''].namespace''] else [])
       @ (if \<not> globRE (ncs_Container ns) then [kind @ ''['' @ Itoa i @ ''].container''] else []))
       (enumerate n specs)) = [] \<longleftrightarrow> globs_ok specs" for n
    by (induction specs arbitrary: n) (auto simp: globs_ok_def)
  then show ?thesis by (simp add: glob_messages_def)
qed

lemma removeGenerated_resolve:
  "ValidateValueReference (removeGeneratedSecrets refs skip) s c = [] \<longleftrightarrow>
   (\<forall>r\<in>set refs. (vref_SecretName r \<noteq> [] \<and> skip (vref_SecretName r @ ''_'' @ vref_Key r)) \<or> ref_resolves s c r)"
  by (auto simp: ValidateValueReference_iff removeGeneratedSecrets_def)

lemma ValidateApplication_report:
  "input_Type i = InputTypeApplication \<Longrightarrow>
   \<exists>c. ValidateApplication now i = [c] \<and> cond_Type c = ConditionTypeValidInputPrefix @ ''-'' @ input_Name i
     \<and> (cond_Status c = ConditionTrue \<longleftrightarrow> input_ok s m g i)"
  by (cases "input_Application i")
    (auto simp: ValidateApplication_def Let_def glob_messages_Nil input_ok_def input_condition_defs)

lemma ValidateInfrastructure_report:
  "input_Type i = InputTypeInfrastructure \<Longrightarrow>
   \<exists>c. ValidateInfrastructure now i = [c] \<and> cond_Type c = ConditionTypeValidInputPrefix @ ''-'' @ input_Name i
     \<and> (cond_Status c = ConditionTrue \<longleftrightarrow> input_ok s m g i)"
  by (cases "input_Infrastructure i")
    (auto simp: ValidateInfrastructure_def input_ok_def input_condition_defs)

lemma ValidateAudit_report:
  "input_Type i = InputTypeAudit \<Longrightarrow>
   \<exists>c. ValidateAudit now i = [c] \<and> cond_Type c = ConditionTypeValidInputPrefix @ ''-'' @ input_Name i
     \<and> (cond_Status c = ConditionTrue \<longleftrightarrow> input_ok s m g i)"
  by (auto simp: ValidateAudit_def input_ok_def input_condition_defs)

lemma receiver_report:
  "input_Type i = InputTypeReceiver \<Longrightarrow>
   \<exists>c. receiver_conditions now i s m g = [c] \<and> cond_Type c = ConditionTypeValidInputPrefix @ ''-'' @ input_Name i
     \<and> (cond_Status c = ConditionTrue \<longleftrightarrow> input_ok s m g i)"
  by (cases "input_Receiver i"; cases "recv_TLS (the (input_Receiver i))")
    (auto simp: receiver_conditions_def Let_def input_ok_def receiver_ok_def removeGenerated_resolve
      input_condition_defs)

lemma input_report_type:
  "cond_Type (input_report now s m g i) = ConditionTypeValidInputPrefix @ ''-'' @ input_Name i"
proof (cases "input_Type i")
  case InputTypeApplication
  with ValidateApplication_report [OF this, of now s m g] show ?thesis by (auto simp: input_report_def)
next
  case InputTypeInfrastructure
  with ValidateInfrastructure_report [OF this, of now s m g] show ?thesis by (auto simp: input_report_def)
next
  case InputTypeAudit
  with ValidateAudit_report [OF this, of now s m g] show ?thesis by (auto simp: input_report_def)
next
  case InputTypeReceiver
  with receiver_report [OF this, of now s m g] show ?thesis by (auto simp: input_report_def)
qed (simp add: input_report_def input_condition_defs)

lemma input_report_status:
  "cond_Status (input_report now s m g i) = ConditionTrue \<longleftrightarrow> input_ok s m g i"
proof (cases "input_Type i")
  case InputTypeApplication
  with ValidateApplication_report [OF this, of now s m g] show ?thesis by (auto simp: input_report_def)
next
  case InputTypeInfrastructure
  with ValidateInfrastructure_report [OF this, of now s m g] show ?thesis by (auto simp: input_report_def)
next
  case InputTypeAudit
  with ValidateAudit_report [OF this, of now s m g] show ?thesis by (auto simp: input_report_def)
next
  case InputTypeReceiver
  with receiver_report [OF this, of now s m g] show ?thesis by (auto simp: input_report_def)
qed (simp add: input_report_def input_condition_defs input_ok_def)

interpretation input_validator: item_validator ConditionTypeValidInputPrefix input_Name
  "input_report now s m g" "input_ok s m g" for now s m g
  by unfold_locales (simp_all add: input_report_type input_report_status)

lemma input_conditions_report:
  assumes "known_input_type i" "ctx_Secrets ctx = Some s" "ctx_ConfigMaps ctx = Some m"
  shows "input_conditions now ctx i = Inr [input_report now s m (ctx_AdditionalContext ctx) i]"
proof (cases "input_Type i")
  case InputTypeApplication
  with ValidateApplication_report [OF this, of now s m] show ?thesis
    by (force simp: input_conditions_def input_report_def)
next
  case InputTypeInfrastructure
  with ValidateInfrastructure_report [OF this, of now s m] show ?thesis
    by (force simp: input_conditions_def input_report_def)
next
  case InputTypeAudit
  with ValidateAudit_report [OF this, of now s m] show ?thesis
    by (force simp: input_conditions_def input_report_def)
next
  case InputTypeReceiver
  with receiver_report [OF this, of now s m "ctx_AdditionalContext ctx"] assms show ?thesis
    by (force simp: input_conditions_def input_report_def ValidateReceiver_def)
qed (use assms in \<open>simp add: known_input_type_def\<close>)

lemma inputs_Validate_run:
  assumes "\<forall>i\<in>set (spec_Inputs (clf_Spec (ctx_Forwarder ctx))). known_input_type i"
    and "ctx_Secrets ctx = Some s" "ctx_ConfigMaps ctx = Some m"
  shows "inputs_Validate now ctx =
    Inr (map_status (\<lambda>st. st\<lparr>status_InputConditions := SetConditions now (status_InputConditions st)
      (map (input_report now s m (ctx_AdditionalContext ctx)) (spec_Inputs (clf_Spec (ctx_Forwarder ctx))))\<rparr>) ctx)"
proof -
  have "go_mapM (input_conditions now ctx) (spec_Inputs (clf_Spec (ctx_Forwarder ctx))) =
      Inr (map (\<lambda>i. [input_report now s m (ctx_AdditionalContext ctx) i]) (spec_Inputs (clf_Spec (ctx_Forwarder ctx))))"
    using assms by (intro go_mapM_ret) (simp add: input_conditions_report)
  then show ?thesis by (simp add: inputs_Validate_def)
qed

section \<open>Properties\<close>

lemma generated_key_member:
  "s \<in> set ss \<Longrightarrow> secret_Data s k \<noteq> None \<Longrightarrow> generated_key (Some ss) (secret_Name s @ ''_'' @ k)"
  by (auto simp: generated_key_def list_ex_iff HasPrefix_iff_prefix intro!: bexI [of _ s])

lemma generated_receiver_ok:
  assumes "receiver_secret name i \<in> set ss"
    and "recv_TLS r = Some (receiver_tls_spec (receiver_secret_name name i))"
    and "recv_Type r = ReceiverTypeHTTP \<Longrightarrow> map_option httprecv_Format (recv_HTTP r) \<notin> {None, Some []}"
  shows "receiver_ok s m (Some ss) r"
proof -
  have "vref_SecretName ref \<noteq> [] \<and> generated_key (Some ss) (vref_SecretName ref @ ''_'' @ vref_Key ref)"
    if "ref \<in> set (ValueReferences (receiver_tls_spec (receiver_secret_name name i)))" for ref
  proof -
    have "vref_SecretName ref = secret_Name (receiver_secret name i)"
      and "secret_Data (receiver_secret name i) (vref_Key ref) \<noteq> None"
      using bspec [OF receiver_secret_resolves that] by simp_all
    then show ?thesis
      using generated_key_member [OF assms(1)]
      by (simp add: receiver_secret_def receiver_secret_name_def)
  qed
  with assms(2,3) show ?thesis by (auto simp: receiver_ok_def)
qed



text \<open>
  C13. The verdict on the inputs is the conjunction of the per-input checks: on a status that was
  pruned to the current inputs, with unique input names of known types, validation returns and the
  input part of the spec counts as valid exactly when every input passes its check.
\<close>

theorem inputs_Validate_verdict:
  assumes "\<forall>i\<in>set (spec_Inputs (clf_Spec (ctx_Forwarder ctx))). known_input_type i"
    and "distinct (Inputs_Names (spec_Inputs (clf_Spec (ctx_Forwarder ctx))))"
    and "ctx_Secrets ctx = Some s" "ctx_ConfigMaps ctx = Some m"
    and "status_InputConditions (clf_Status (ctx_Forwarder ctx)) =
      PruneConditions old (Inputs_Names (spec_Inputs (clf_Spec (ctx_Forwarder ctx)))) ConditionTypeValidInputPrefix"
    and "distinct (map cond_Type old)"
  shows "\<exists>ctx'. inputs_Validate now ctx = Inr ctx' \<and>
    (isValid ConditionTypeValidInputPrefix (status_InputConditions (clf_Status (ctx_Forwarder ctx')))
       (length (spec_Inputs (clf_Spec (ctx_Forwarder ctx')))) \<longleftrightarrow>
     (\<forall>i\<in>set (spec_Inputs (clf_Spec (ctx_Forwarder ctx))). input_ok s m (ctx_AdditionalContext ctx) i))"
proof -
  let ?is = "spec_Inputs (clf_Spec (ctx_Forwarder ctx))"
  let ?cs = "status_InputConditions (clf_Status (ctx_Forwarder ctx))"
  have "isValid ConditionTypeValidInputPrefix
      (SetConditions now ?cs (map (input_report now s m (ctx_AdditionalContext ctx)) ?is)) (length ?is)
    \<longleftrightarrow> (\<forall>i\<in>set ?is. input_ok s m (ctx_AdditionalContext ctx) i)"
    using assms(2,5,6) PruneConditions_types [of old "Inputs_Names ?is" ConditionTypeValidInputPrefix]
    by (intro input_validator.verdict_iff)
      (auto simp: Inputs_Names_def PruneConditions_distinct image_image)
  then show ?thesis by (simp add: inputs_Validate_run [OF assms(1,3,4)] map_status_def)
qed

theorem inputs_Validate_verdict_witness:
  "\<exists>ctx'. inputs_Validate 7 sample_context = Inr ctx' \<and>
     isValid ConditionTypeValidInputPrefix (status_InputConditions (clf_Status (ctx_Forwarder ctx')))
       (length (spec_Inputs (clf_Spec (ctx_Forwarder ctx'))))"
proof -
  have "input_ok Map.empty Map.empty None application_input"
    by (simp add: input_ok_def application_input_def globs_ok_def)
  then show ?thesis
    using inputs_Validate_verdict [of sample_context Map.empty Map.empty "[]" 7]
    by (auto simp: sample_context_def known_input_type_def application_input_def Inputs_Names_def
        sample_forwarder_def PruneConditions_def)
qed

end
