(* ===== verification/Go_Time.thy ===== *)
theory Go_Time
  imports Go_Prelude "HOL-Library.Monad_Syntax"
begin

text \<open>
  The parts of Go's \<open>time\<close> package that the drop filter and its validation use: \<open>time.Parse\<close>
  with the layouts \<open>DateOnly\<close>, \<open>RFC3339\<close> and \<open>RFC3339Nano\<close>, conversion to UTC and
  \<open>Format(RFC3339Nano)\<close>. The parser is lenient where the package is: one digit for the hour,
  a comma before the fraction, offsets up to 24 hours and 60 minutes.
\<close>

section \<open>Scanning\<close>

definition is_digit :: "char \<Rightarrow> bool" where
  "is_digit c \<longleftrightarrow> CHR ''0'' \<le> c \<and> c \<le> CHR ''9''"

definition digit_val :: "char \<Rightarrow> nat" where
  "digit_val c = of_char c - 48"

definition digits_val :: "string \<Rightarrow> nat" where
  "digits_val s = foldl (\<lambda>a c. 10 * a + digit_val c) 0 s"

definition take_digits :: "nat \<Rightarrow> string \<Rightarrow> (nat \<times> string) option" where
  "take_digits k s =
     (if k \<le> length s \<and> list_all is_digit (take k s) then Some (digits_val (take k s), drop k s) else None)"

definition take_char :: "char \<Rightarrow> string \<Rightarrow> string option" where
  "take_char c s = (case s of [] \<Rightarrow> None | x # r \<Rightarrow> if x = c then Some r else None)"

text \<open>\<open>getnum\<close> without \<open>fixed\<close>: two digits, or one when no second digit follows.\<close>

definition getnum :: "string \<Rightarrow> (nat \<times> string) option" where
  "getnum s = (case take_digits 2 s of Some r \<Rightarrow> Some r | None \<Rightarrow> take_digits 1 s)"

section \<open>Dates\<close>

record civil =
  civil_Year :: int
  civil_Month :: nat
  civil_Day :: nat

definition isLeap :: "int \<Rightarrow> bool" where
  "isLeap y \<longleftrightarrow> y mod 4 = 0 \<and> (y mod 100 \<noteq> 0 \<or> y mod 400 = 0)"

definition daysIn :: "nat \<Rightarrow> int \<Rightarrow> nat" where
  "daysIn m y =
     (if m = 2 then (if isLeap y then 29 else 28)
      else if m = 4 \<or> m = 6 \<or> m = 9 \<or> m = 11 then 30 else 31)"

definition date_ok :: "civil \<Rightarrow> bool" where
  "date_ok d \<longleftrightarrow>
     1 \<le> civil_Month d \<and> civil_Month d \<le> 12 \<and> 1 \<le> civil_Day d
     \<and> civil_Day d \<le> daysIn (civil_Month d) (civil_Year d)"

definition scan_date :: "string \<Rightarrow> (civil \<times> string) option" where
  "scan_date s = do {
     (y, s) \<leftarrow> take_digits 4 s; s \<leftarrow> take_char (CHR ''-'') s;
     (m, s) \<leftarrow> take_digits 2 s; s \<leftarrow> take_char (CHR ''-'') s;
     (d, s) \<leftarrow> take_digits 2 s;
     Some (\<lparr>civil_Year = int y, civil_Month = m, civil_Day = d\<rparr>, s) }"

definition Parse_DateOnly :: "string \<Rightarrow> civil option" where
  "Parse_DateOnly s =
     (case scan_date s of
        Some (d, []) \<Rightarrow> if date_ok d then Some d else None
      | _ \<Rightarrow> None)"

section \<open>Timestamps\<close>

record timestamp =
  ts_Date :: civil
  ts_Hour :: nat
  ts_Minute :: nat
  ts_Second :: nat
  ts_Nano :: nat
  ts_Offset :: int

definition scan_fraction :: "string \<Rightarrow> nat \<times> string" where
  "scan_fraction s =
     (case s of
        p # d # r \<Rightarrow>
          if (p = dot \<or> p = CHR '','') \<and> is_digit d
          then (let ds = takeWhile is_digit (d # r); ns = take 9 ds
                in (digits_val ns * 10 ^ (9 - length ns), dropWhile is_digit (d # r)))
          else (0, s)
      | _ \<Rightarrow> (0, s))"

definition scan_zone :: "string \<Rightarrow> (int \<times> string) option" where
  "scan_zone s =
     (case s of
        [] \<Rightarrow> None
      | c # r \<Rightarrow>
          if c = CHR ''Z'' then Some (0, r)
          else do {
            (h, r) \<leftarrow> take_digits 2 r; r \<leftarrow> take_char (CHR '':'') r; (m, r) \<leftarrow> take_digits 2 r;
            if 24 < h \<or> 60 < m then None
            else if c = CHR ''+'' then Some (int (h * 60 + m), r)
            else if c = CHR ''-'' then Some (- int (h * 60 + m), r)
            else None })"

definition Parse_RFC3339 :: "string \<Rightarrow> timestamp option" where
  "Parse_RFC3339 s = do {
     (d, s) \<leftarrow> scan_date s; s \<leftarrow> take_char (CHR ''T'') s;
     (h, s) \<leftarrow> getnum s; s \<leftarrow> take_char (CHR '':'') s;
     (m, s) \<leftarrow> take_digits 2 s; s \<leftarrow> take_char (CHR '':'') s;
     (sec, s) \<leftarrow> take_digits 2 s;
     (let (nano, s) = scan_fraction s in do {
        (off, s) \<leftarrow> scan_zone s;
        if s = [] \<and> date_ok d \<and> h < 24 \<and> m < 60 \<and> sec < 60
        then Some \<lparr>ts_Date = d, ts_Hour = h, ts_Minute = m, ts_Second = sec, ts_Nano = nano, ts_Offset = off\<rparr>
        else None }) }"

section \<open>UTC and formatting\<close>

definition next_day :: "civil \<Rightarrow> civil" where
  "next_day d =
     (if civil_Day d < daysIn (civil_Month d) (civil_Year d) then d\<lparr>civil_Day := civil_Day d + 1\<rparr>
      else if civil_Month d < 12 then d\<lparr>civil_Month := civil_Month d + 1, civil_Day := 1\<rparr>
      else d\<lparr>civil_Year := civil_Year d + 1, civil_Month := 1, civil_Day := 1\<rparr>)"

definition prev_day :: "civil \<Rightarrow> civil" where
  "prev_day d =
     (if 1 < civil_Day d then d\<lparr>civil_Day := civil_Day d - 1\<rparr>
      else if 1 < civil_Month d
      then d\<lparr>civil_Month := civil_Month d - 1, civil_Day := daysIn (civil_Month d - 1) (civil_Year d)\<rparr>
      else d\<lparr>civil_Year := civil_Year d - 1, civil_Month := 12, civil_Day := 31\<rparr>)"

definition add_days :: "int \<Rightarrow> civil \<Rightarrow> civil" where
  "add_days k d = (if 0 \<le> k then (next_day ^^ nat k) d else (prev_day ^^ nat (- k)) d)"

definition UTC :: "timestamp \<Rightarrow> timestamp" where
  "UTC t =
     (let minutes = int (ts_Hour t * 60 + ts_Minute t) - ts_Offset t;
          in_day = minutes mod 1440
      in t\<lparr>ts_Date := add_days (minutes div 1440) (ts_Date t), ts_Hour := nat (in_day div 60),
           ts_Minute := nat (in_day mod 60), ts_Offset := 0\<rparr>)"

definition pad :: "nat \<Rightarrow> nat \<Rightarrow> string" where
  "pad w n = replicate (w - length (Itoa n)) (CHR ''0'') @ Itoa n"

definition format_year :: "int \<Rightarrow> string" where
  "format_year y = (if y < 0 then ''-'' @ pad 4 (nat (- y)) else pad 4 (nat y))"

definition format_nano :: "nat \<Rightarrow> string" where
  "format_nano n =
     (if n = 0 then [] else ''.'' @ rev (dropWhile (\<lambda>c. c = CHR ''0'') (rev (pad 9 n))))"

text \<open>\<open>Format(RFC3339Nano)\<close> of a time in UTC.\<close>

definition Format_RFC3339Nano :: "timestamp \<Rightarrow> string" where
  "Format_RFC3339Nano t =
     format_year (civil_Year (ts_Date t)) @ ''-'' @ pad 2 (civil_Month (ts_Date t)) @ ''-''
     @ pad 2 (civil_Day (ts_Date t)) @ ''T'' @ pad 2 (ts_Hour t) @ '':'' @ pad 2 (ts_Minute t) @ '':''
     @ pad 2 (ts_Second t) @ format_nano (ts_Nano t) @ ''Z''"

section \<open>Instants\<close>

text \<open>The number of days before a date, and the minute an instant falls in.\<close>

definition days_before_year :: "int \<Rightarrow> int" where
  "days_before_year y = 365 * y + (y + 3) div 4 - (y + 99) div 100 + (y + 399) div 400"

definition day_number :: "civil \<Rightarrow> int" where
  "day_number d =
     days_before_year (civil_Year d)
     + (\<Sum>m = 1..<civil_Month d. int (daysIn m (civil_Year d))) + int (civil_Day d)"

definition instant_minutes :: "timestamp \<Rightarrow> int" where
  "instant_minutes t =
     1440 * day_number (ts_Date t) + int (ts_Hour t * 60 + ts_Minute t) - ts_Offset t"

lemma div_round_up:
  fixes y k j :: int
  assumes "0 < k" "j + 1 = k"
  shows "(y + 1 + j) div k = (y + j) div k + (if y mod k = 0 then 1 else 0)"
proof -
  have y: "y = k * (y div k) + y mod k" and r: "0 \<le> y mod k" "y mod k < k"
    using assms by simp_all
  have up: "(y + 1 + j) div k = y div k + 1"
  proof -
    have "y + 1 + j = y + k" using assms by linarith
    moreover have "(y + k) div k = y div k + 1" using assms(1) by (intro div_add_self2) simp
    ultimately show ?thesis by (simp only:)
  qed
  show ?thesis
  proof (cases "y mod k = 0")
    case True
    have "(y + j) div k = y div k"
      by (rule int_div_pos_eq [of _ _ _ j]) (use y True assms in linarith)+
    with True up show ?thesis by simp
  next
    case False
    have "y + j = k * (y div k) + k + (y mod k - 1)" using y assms(2) by linarith
    then have s: "y + j = k * (y div k + 1) + (y mod k - 1)" by (simp only: distrib_left mult_1_right)
    moreover have "0 \<le> y mod k - 1" "y mod k - 1 < k" using r False by linarith+
    ultimately have "(y + j) div k = y div k + 1" by (rule int_div_pos_eq)
    with False up show ?thesis by simp
  qed
qed

lemma leap_sum:
  "(r \<longrightarrow> q) \<Longrightarrow> (q \<longrightarrow> p) \<Longrightarrow>
   365 * (y + 1) + (a + (if p then 1 else 0)) - (b + (if q then 1 else 0)) + (c + (if r then 1 else 0))
   = 365 * y + a - b + c + (if p \<and> (\<not> q \<or> r) then 366 else 365 :: int)"
  by (cases p; cases q; cases r) simp_all

lemma days_before_next_year: "days_before_year (y + 1) = days_before_year y + (if isLeap y then 366 else 365)"
proof -
  have a: "(y + 1 + 3) div 4 = (y + 3) div 4 + (if y mod 4 = 0 then 1 else 0)"
    and b: "(y + 1 + 99) div 100 = (y + 99) div 100 + (if y mod 100 = 0 then 1 else 0)"
    and c: "(y + 1 + 399) div 400 = (y + 399) div 400 + (if y mod 400 = 0 then 1 else 0)"
    by (rule div_round_up, simp, simp)+
  have "y mod 400 = 0 \<Longrightarrow> y mod 100 = 0" "y mod 100 = 0 \<Longrightarrow> y mod 4 = 0"
    using dvd_trans [of 100 400 y] dvd_trans [of 4 100 y] by (simp_all add: mod_eq_0_iff_dvd)
  then show ?thesis
    unfolding days_before_year_def isLeap_def a b c by (intro leap_sum) blast+
qed

lemma days_in_year: "(\<Sum>m = 1..<13. int (daysIn m y)) = (if isLeap y then 366 else 365)"
proof -
  have "{1..<13::nat} = {1,2,3,4,5,6,7,8,9,10,11,12}" by (rule set_eqI, simp) presburger
  then show ?thesis by (simp add: daysIn_def)
qed

lemma daysIn_pos: "Suc 0 \<le> daysIn m y" and daysIn_12 [simp]: "daysIn 12 y = 31"
  by (simp_all add: daysIn_def)

lemma date_ok_next_day: "date_ok d \<Longrightarrow> date_ok (next_day d)"
  by (simp add: date_ok_def next_day_def daysIn_pos)

lemma date_ok_prev_day: "date_ok d \<Longrightarrow> date_ok (prev_day d)"
  by (simp add: date_ok_def prev_day_def daysIn_pos) linarith

lemma day_number_next: "date_ok d \<Longrightarrow> day_number (next_day d) = day_number d + 1"
proof -
  assume d: "date_ok d"
  let ?y = "civil_Year d" and ?m = "civil_Month d"
  consider "civil_Day d < daysIn ?m ?y" | "civil_Day d = daysIn ?m ?y" "?m < 12"
    | "civil_Day d = daysIn ?m ?y" "?m = 12"
    using d by (fastforce simp: date_ok_def)
  then show ?thesis
  proof cases
    case 2
    have "(\<Sum>m = 1..<?m + 1. int (daysIn m ?y)) = (\<Sum>m = 1..<?m. int (daysIn m ?y)) + int (daysIn ?m ?y)"
      using d by (simp add: date_ok_def)
    with 2 show ?thesis by (simp add: next_day_def day_number_def)
  next
    case 3
    have "(\<Sum>m = 1..<13. int (daysIn m ?y)) = (\<Sum>m = 1..<12. int (daysIn m ?y)) + 31"
      by (simp add: eval_nat_numeral daysIn_def)
    with 3 days_before_next_year [of ?y] days_in_year [of ?y] show ?thesis
      by (simp add: next_day_def day_number_def daysIn_def)
  qed (simp add: next_day_def day_number_def)
qed

lemma next_prev_day: "date_ok d \<Longrightarrow> next_day (prev_day d) = d"
proof (cases "1 < civil_Day d")
  case False
  assume "date_ok d"
  with False have "civil_Day d = 1" "1 \<le> civil_Month d" "civil_Month d \<le> 12" by (auto simp: date_ok_def)
  then show ?thesis by (cases "1 < civil_Month d") (simp_all add: next_day_def prev_day_def)
qed (auto simp: date_ok_def next_day_def prev_day_def)

lemma day_number_prev: "date_ok d \<Longrightarrow> day_number (prev_day d) = day_number d - 1"
  using day_number_next [OF date_ok_prev_day] next_prev_day by fastforce

lemma day_number_add_days:
  assumes "date_ok d"
  shows "day_number (add_days k d) = day_number d + k"
proof -
  have "date_ok ((next_day ^^ n) d) \<and> day_number ((next_day ^^ n) d) = day_number d + int n" for n
    using assms by (induction n) (auto simp: date_ok_next_day day_number_next)
  moreover have "date_ok ((prev_day ^^ n) d) \<and> day_number ((prev_day ^^ n) d) = day_number d - int n" for n
    using assms by (induction n) (auto simp: date_ok_prev_day day_number_prev)
  ultimately show ?thesis by (simp add: add_days_def)
qed

lemma instant_UTC: "date_ok (ts_Date t) \<Longrightarrow> instant_minutes (UTC t) = instant_minutes t"
proof -
  assume d: "date_ok (ts_Date t)"
  let ?m = "int (ts_Hour t * 60 + ts_Minute t) - ts_Offset t"
  have "int (nat (?m mod 1440 div 60)) * 60 + int (nat (?m mod 1440 mod 60)) = ?m mod 1440"
    by simp
  then have "int (ts_Hour (UTC t) * 60 + ts_Minute (UTC t)) = ?m mod 1440"
    by (simp add: UTC_def Let_def)
  moreover have "1440 * (?m div 1440) + ?m mod 1440 = ?m" by simp
  ultimately show ?thesis
    using day_number_add_days [OF d] by (simp add: instant_minutes_def UTC_def Let_def algebra_simps)
qed

end
