(* ===== verification/Validate_Filters.thy ===== *)
theory Validate_Filters
  imports Validate_Common Vrl_Paths Go_Time
begin

text \<open>
  Validation of filters (\<open>internal/validations/observability/filters\<close>). The orders in which the
  code ranges over the filter map and over a label map are arguments; so is \<open>compiles\<close>, the
  question whether \<open>regexp.Compile\<close> accepts a user's expression. \<open>filter_ok\<close> says
  declaratively what a positive condition means.
\<close>

section \<open>validateFieldPath, validateOlderThan, validateRequiredFields\<close>

definition validateFieldPath :: "FieldPath \<Rightarrow> string" where
  "validateFieldPath path =
     (if \<not> HasPrefix path ''.'' then Quote path @ '' must start with a '' @ [sq] @ ''.'' @ [sq]
      else if \<not> pathExpRegex path
      then Quote path @ '' must be a valid dot delimited path expression (.kubernetes.container_name or .kubernetes.''
             @ Quote ''test-foo'' @ '')''
      else ValidateTOMLLiteralSafe (''field path '' @ Quote path) path)"

definition digits_at :: "string \<Rightarrow> nat list \<Rightarrow> bool" where
  "digits_at s is \<longleftrightarrow> (\<forall>i\<in>set is. is_digit (s ! i))"

text \<open>
  \<open>rfc3339Timestamp\<close>: nineteen fixed positions, an optional fraction, and \<open>Z\<close> or an offset of
  at most 23:59.
\<close>

definition rfc3339_offset :: "string \<Rightarrow> bool" where
  "rfc3339_offset z \<longleftrightarrow>
     z = ''Z'' \<or>
     (length z = 6 \<and> (z ! 0 = CHR ''+'' \<or> z ! 0 = CHR ''-'') \<and> digits_at z [1, 2, 4, 5] \<and> z ! 3 = CHR '':''
      \<and> (z ! 1 = CHR ''0'' \<or> z ! 1 = CHR ''1'' \<or> (z ! 1 = CHR ''2'' \<and> z ! 2 \<le> CHR ''3''))
      \<and> z ! 4 \<le> CHR ''5'')"

definition rfc3339Timestamp :: "string \<Rightarrow> bool" where
  "rfc3339Timestamp s \<longleftrightarrow>
     19 \<le> length s
     \<and> digits_at s [0, 1, 2, 3, 5, 6, 8, 9, 11, 12, 14, 15, 17, 18]
     \<and> s ! 4 = CHR ''-'' \<and> s ! 7 = CHR ''-'' \<and> s ! 10 = CHR ''T'' \<and> s ! 13 = CHR '':'' \<and> s ! 16 = CHR '':''
     \<and> (let z = drop 19 s
        in rfc3339_offset z
           \<or> (case z of
                p # d # r \<Rightarrow> p = dot \<and> is_digit d \<and> rfc3339_offset (dropWhile is_digit r)
              | _ \<Rightarrow> False))"

definition older_than_ok :: "string \<Rightarrow> bool" where
  "older_than_ok value \<longleftrightarrow>
     Parse_DateOnly value \<noteq> None \<or> (rfc3339Timestamp value \<and> Parse_RFC3339 value \<noteq> None)"

definition validateOlderThan :: "string \<Rightarrow> string" where
  "validateOlderThan value =
     (if older_than_ok value then []
      else ''invalid olderThan '' @ Quote value
             @ '': must be a valid YYYY-MM-DD or RFC3339 timestamp with an explicit offset'')"

definition requiredFields :: "FieldPath list" where
  "requiredFields = sorted_set [''.log_type'', ''.log_source'', ''.message'']"

definition required_in_message :: "FieldPath list \<Rightarrow> string" where
  "required_in_message fieldList =
     (let found = filter (\<lambda>f. f \<in> set requiredFields) fieldList
      in if found \<noteq> []
         then fmt_q_list found @ '' is/are required fields and must be removed from the `in` list.''
         else [])"

definition required_not_in_message :: "FieldPath list \<Rightarrow> string" where
  "required_not_in_message fieldList =
     (let missing = filter (\<lambda>f. f \<notin> set fieldList) requiredFields
      in if missing \<noteq> []
         then fmt_q_list missing @ '' is/are required fields and must be included in the `notIn` list.''
         else [])"

definition nonempty_messages :: "string list \<Rightarrow> string list" where
  "nonempty_messages ms = filter (\<lambda>m. m \<noteq> []) ms"

section \<open>Filters by type\<close>

definition validateDropCondition :: "(string \<Rightarrow> bool) \<Rightarrow> DropCondition \<Rightarrow> string list" where
  "validateDropCondition compiles c =
     (if drop_OlderThan c \<noteq> [] then nonempty_messages [validateOlderThan (drop_OlderThan c)]
      else
        nonempty_messages [validateFieldPath (drop_Field c)]
        @ (if drop_Matches c \<noteq> [] \<and> drop_NotMatches c \<noteq> []
           then [''only one of matches or notMatches can be defined at once''] else [])
        @ (if ContainsAny (drop_Matches c) [sq, newline, carriage] \<or> ContainsAny (drop_NotMatches c) [sq, newline, carriage]
           then [''matches/notMatches must not contain single quotes, newlines, or carriage returns''] else [])
        @ (let regexToCompile = (if drop_NotMatches c \<noteq> [] then drop_NotMatches c else drop_Matches c)
           in if \<not> compiles regexToCompile
              then [''matches/notMatches must be a valid regular expression''] else []))"

definition drop_test_messages :: "(string \<Rightarrow> bool) \<Rightarrow> DropTest \<Rightarrow> string list" where
  "drop_test_messages compiles t =
     (if droptest_Conditions t = [] then [''a drop test must have at least one condition''] else [])
     @ concat (map (validateDropCondition compiles) (droptest_Conditions t))"

definition validateDropFilter :: "(string \<Rightarrow> bool) \<Rightarrow> FilterSpec \<Rightarrow> string list" where
  "validateDropFilter compiles spec =
     (if filter_DropTestsSpec spec = []
      then [Quote (filter_Name spec) @ '' drop filter must have at least one test spec'' @ [sq] @ ''d''] else [])
     @ concat (map (\<lambda>(i, t).
         (let testErrors = drop_test_messages compiles t
          in if testErrors \<noteq> []
             then [filter_Name spec @ '': test['' @ Itoa i @ ''] '' @ fmt_v_list testErrors] else []))
         (enumerate 0 (filter_DropTestsSpec spec)))"

definition prune_messages :: "PruneFilterSpec \<Rightarrow> string list" where
  "prune_messages p =
     (case prune_In p of None \<Rightarrow> []
      | Some paths \<Rightarrow> nonempty_messages (map validateFieldPath paths @ [required_in_message paths]))
     @ (case prune_NotIn p of None \<Rightarrow> []
        | Some paths \<Rightarrow> nonempty_messages (map validateFieldPath paths @ [required_not_in_message paths]))"

definition validatePruneFilter :: "FilterSpec \<Rightarrow> string list" where
  "validatePruneFilter spec =
     (case filter_PruneFilterSpec spec of
        None \<Rightarrow> [filter_Name spec @ '' prune filter must have one or both of `in`, `notIn`'']
      | Some p \<Rightarrow>
          let errList = prune_messages p
          in if errList \<noteq> [] then [filter_Name spec @ '': '' @ fmt_v_list errList] else [])"

definition audit_check :: "string \<Rightarrow> string list \<Rightarrow> string list" where
  "audit_check kind values =
     nonempty_messages (map (\<lambda>v. ValidateTOMLLiteralSafe (''kubeAPIAudit '' @ kind @ '' '' @ Quote v) v) values)"

definition audit_rule_messages :: "PolicyRule \<Rightarrow> string list" where
  "audit_rule_messages rule =
     audit_check ''level'' [rule_Level rule]
     @ audit_check ''rule omitStage'' (rule_OmitStages rule)
     @ audit_check ''user'' (rule_Users rule)
     @ audit_check ''userGroup'' (rule_UserGroups rule)
     @ audit_check ''verb'' (rule_Verbs rule)
     @ audit_check ''namespace'' (rule_Namespaces rule)
     @ audit_check ''nonResourceURL'' (rule_NonResourceURLs rule)
     @ concat (map (\<lambda>gr.
         audit_check ''resource group'' [gr_Group gr]
         @ audit_check ''resource'' (gr_Resources gr)
         @ audit_check ''resourceName'' (gr_ResourceNames gr)) (rule_Resources rule))"

definition summarize :: "string \<Rightarrow> string list \<Rightarrow> string list" where
  "summarize name results = (if results \<noteq> [] then [name @ '': '' @ fmt_v_list results] else [])"

definition validateKubeAPIAuditFilter :: "FilterSpec \<Rightarrow> string list" where
  "validateKubeAPIAuditFilter spec =
     (case filter_KubeAPIAudit spec of
        None \<Rightarrow> []
      | Some k \<Rightarrow>
          summarize (filter_Name spec)
            (audit_check ''omitStage'' (kaa_OmitStages k) @ concat (map audit_rule_messages (kaa_Rules k))))"

text \<open>\<open>lks\<close> is the order in which the label map is ranged over.\<close>

definition validateOpenshiftLabelsFilter :: "string list \<Rightarrow> FilterSpec \<Rightarrow> string list" where
  "validateOpenshiftLabelsFilter lks spec =
     summarize (filter_Name spec)
       (concat (map (\<lambda>k.
          nonempty_messages
            [ValidateTOMLLiteralSafe (''openshiftLabels key '' @ Quote k) k,
             ValidateTOMLLiteralSafe (''openshiftLabels value '' @ Quote (map_value (filter_OpenshiftLabels spec) k))
               (map_value (filter_OpenshiftLabels spec) k)]) lks))"

definition filter_messages :: "(string \<Rightarrow> bool) \<Rightarrow> string list \<Rightarrow> FilterSpec \<Rightarrow> string list" where
  "filter_messages compiles lks spec =
     (case filter_Type spec of
        FilterTypeDrop \<Rightarrow> validateDropFilter compiles spec
      | FilterTypePrune \<Rightarrow> validatePruneFilter spec
      | FilterTypeKubeAPIAudit \<Rightarrow> validateKubeAPIAuditFilter spec
      | FilterTypeOpenshiftLabels \<Rightarrow> validateOpenshiftLabelsFilter lks spec
      | _ \<Rightarrow> [])"

definition ValidateFilter :: "time \<Rightarrow> (string \<Rightarrow> bool) \<Rightarrow> string list \<Rightarrow> FilterSpec \<Rightarrow> Condition" where
  "ValidateFilter now compiles lks spec =
     (let results = filter_messages compiles lks spec;
          condition = NewConditionFromPrefix now ConditionTypeValidFilterPrefix (filter_Name spec) True
            ReasonValidationSuccess (''filter '' @ Quote (filter_Name spec) @ '' is valid'')
      in if results \<noteq> []
         then condition\<lparr>cond_Status := ConditionFalse, cond_Reason := ReasonValidationFailure,
                cond_Message := Join results '',''\<rparr>
         else condition)"

section \<open>validate.go\<close>

definition filters_Validate ::
  "time \<Rightarrow> (string \<Rightarrow> bool) \<Rightarrow> string list \<Rightarrow> (string \<Rightarrow> string list) \<Rightarrow> ForwarderContext \<Rightarrow> ForwarderContext" where
  "filters_Validate now compiles ks lord ctx =
     (let filterMap = FilterMap (clf_Spec (ctx_Forwarder ctx))
      in map_status (\<lambda>st. st\<lparr>status_FilterConditions :=
           SetConditions now (status_FilterConditions st)
             (concat (map (\<lambda>k. case filterMap k of None \<Rightarrow> []
                                | Some f \<Rightarrow> [ValidateFilter now compiles (lord k) f]) ks))\<rparr>) ctx)"

section \<open>What a valid filter is\<close>

definition field_path_ok :: "FieldPath \<Rightarrow> bool" where
  "field_path_ok p \<longleftrightarrow> pathExpRegex p \<and> toml_safe p"

definition drop_condition_ok :: "(string \<Rightarrow> bool) \<Rightarrow> DropCondition \<Rightarrow> bool" where
  "drop_condition_ok compiles c \<longleftrightarrow>
     (if drop_OlderThan c \<noteq> [] then older_than_ok (drop_OlderThan c)
      else field_path_ok (drop_Field c)
        \<and> (drop_Matches c = [] \<or> drop_NotMatches c = [])
        \<and> {sq, newline, carriage} \<inter> (set (drop_Matches c) \<union> set (drop_NotMatches c)) = {}
        \<and> compiles (drop_Matches c @ drop_NotMatches c))"

definition prune_ok :: "PruneFilterSpec \<Rightarrow> bool" where
  "prune_ok p \<longleftrightarrow>
     (\<forall>paths. prune_In p = Some paths \<longrightarrow>
        (\<forall>f\<in>set paths. field_path_ok f \<and> f \<notin> {''.log_type'', ''.log_source'', ''.message''}))
     \<and> (\<forall>paths. prune_NotIn p = Some paths \<longrightarrow>
        (\<forall>f\<in>set paths. field_path_ok f) \<and> {''.log_type'', ''.log_source'', ''.message''} \<subseteq> set paths)"

definition audit_rule_strings :: "PolicyRule \<Rightarrow> string set" where
  "audit_rule_strings r =
     {rule_Level r} \<union> set (rule_OmitStages r) \<union> set (rule_Users r) \<union> set (rule_UserGroups r)
     \<union> set (rule_Verbs r) \<union> set (rule_Namespaces r) \<union> set (rule_NonResourceURLs r)
     \<union> (\<Union>gr\<in>set (rule_Resources r). {gr_Group gr} \<union> set (gr_Resources gr) \<union> set (gr_ResourceNames gr))"

definition filter_ok :: "(string \<Rightarrow> bool) \<Rightarrow> FilterSpec \<Rightarrow> bool" where
  "filter_ok compiles f \<longleftrightarrow>
     (case filter_Type f of
        FilterTypeDrop \<Rightarrow>
          filter_DropTestsSpec f \<noteq> []
          \<and> (\<forall>t\<in>set (filter_DropTestsSpec f). droptest_Conditions t \<noteq> []
              \<and> (\<forall>c\<in>set (droptest_Conditions t). drop_condition_ok compiles c))
      | FilterTypePrune \<Rightarrow> (case filter_PruneFilterSpec f of None \<Rightarrow> False | Some p \<Rightarrow> prune_ok p)
      | FilterTypeKubeAPIAudit \<Rightarrow>
          (case filter_KubeAPIAudit f of None \<Rightarrow> True
           | Some k \<Rightarrow> (\<forall>s\<in>set (kaa_OmitStages k). toml_safe s)
               \<and> (\<forall>r\<in>set (kaa_Rules k). \<forall>s\<in>audit_rule_strings r. toml_safe s))
      | FilterTypeOpenshiftLabels \<Rightarrow>
          (\<forall>k v. filter_OpenshiftLabels f k = Some v \<longrightarrow> toml_safe k \<and> toml_safe v)
      | _ \<Rightarrow> True)"

section \<open>Messages and validity\<close>

lemma nonempty_messages_Nil: "nonempty_messages ms = [] \<longleftrightarrow> (\<forall>m\<in>set ms. m = [])"
  by (auto simp: nonempty_messages_def filter_empty_conv)

lemma validateFieldPath_Nil: "validateFieldPath p = [] \<longleftrightarrow> field_path_ok p"
proof -
  have "pathExpRegex p \<Longrightarrow> HasPrefix p ''.''"
    by (cases p) (auto simp: pathExpRegex_def HasPrefix_def split: if_splits)
  then show ?thesis
    by (auto simp: validateFieldPath_def field_path_ok_def ValidateTOMLLiteralSafe_iff)
qed

lemma validateDropCondition_Nil:
  "validateDropCondition compiles c = [] \<longleftrightarrow> drop_condition_ok compiles c"
  by (auto simp: validateDropCondition_def drop_condition_ok_def nonempty_messages_Nil validateOlderThan_def
      validateFieldPath_Nil Let_def ContainsAny_iff)

lemma validateDropFilter_Nil:
  "validateDropFilter compiles f = [] \<longleftrightarrow>
     filter_DropTestsSpec f \<noteq> []
     \<and> (\<forall>t\<in>set (filter_DropTestsSpec f). droptest_Conditions t \<noteq> []
         \<and> (\<forall>c\<in>set (droptest_Conditions t). drop_condition_ok compiles c))"
proof -
  have test: "drop_test_messages compiles t = [] \<longleftrightarrow>
      droptest_Conditions t \<noteq> [] \<and> (\<forall>c\<in>set (droptest_Conditions t). drop_condition_ok compiles c)" for t
    by (auto simp: drop_test_messages_def validateDropCondition_Nil)
  have "concat (map (\<lambda>(i, t). (let testErrors = drop_test_messages compiles t
          in if testErrors \<noteq> [] then [filter_Name f @ '': test['' @ Itoa i @ ''] '' @ fmt_v_list testErrors] else []))
         (enumerate n ts)) = [] \<longleftrightarrow> (\<forall>t\<in>set ts. drop_test_messages compiles t = [])" for n ts
    by (induction ts arbitrary: n) (auto simp: Let_def)
  then show ?thesis unfolding validateDropFilter_def by (auto simp: test)
qed

lemma set_requiredFields: "set requiredFields = {''.log_type'', ''.log_source'', ''.message''}"
  by (simp add: requiredFields_def)

lemma fmt_q_list_nonempty: "fmt_q_list xs \<noteq> []"
  by (simp add: fmt_q_list_def)

lemma required_in_Nil: "required_in_message fs = [] \<longleftrightarrow> (\<forall>f\<in>set fs. f \<notin> set requiredFields)"
  by (auto simp: required_in_message_def Let_def filter_empty_conv fmt_q_list_nonempty)

lemma required_not_in_Nil: "required_not_in_message fs = [] \<longleftrightarrow> set requiredFields \<subseteq> set fs"
  by (auto simp: required_not_in_message_def Let_def filter_empty_conv fmt_q_list_nonempty)

lemma prune_messages_Nil: "prune_messages p = [] \<longleftrightarrow> prune_ok p"
  by (cases "prune_In p"; cases "prune_NotIn p")
    (auto simp: prune_messages_def prune_ok_def nonempty_messages_Nil validateFieldPath_Nil
      required_in_Nil required_not_in_Nil set_requiredFields)

lemma audit_check_Nil: "audit_check kind vs = [] \<longleftrightarrow> (\<forall>v\<in>set vs. toml_safe v)"
  by (auto simp: audit_check_def nonempty_messages_Nil ValidateTOMLLiteralSafe_iff)

lemma audit_rule_messages_Nil: "audit_rule_messages r = [] \<longleftrightarrow> (\<forall>s\<in>audit_rule_strings r. toml_safe s)"
  by (auto simp: audit_rule_messages_def audit_rule_strings_def audit_check_Nil)

lemma summarize_Nil: "summarize name ms = [] \<longleftrightarrow> ms = []"
  by (simp add: summarize_def)

lemma labels_Nil:
  assumes "range_order (filter_OpenshiftLabels f) lks"
  shows "validateOpenshiftLabelsFilter lks f = [] \<longleftrightarrow>
    (\<forall>k v. filter_OpenshiftLabels f k = Some v \<longrightarrow> toml_safe k \<and> toml_safe v)"
proof -
  have "set lks = dom (filter_OpenshiftLabels f)" using assms by (simp add: range_order_def)
  moreover have "validateOpenshiftLabelsFilter lks f = [] \<longleftrightarrow>
      (\<forall>k\<in>set lks. toml_safe k \<and> toml_safe (map_value (filter_OpenshiftLabels f) k))"
    by (auto simp: validateOpenshiftLabelsFilter_def summarize_Nil nonempty_messages_Nil
        ValidateTOMLLiteralSafe_iff)
  ultimately show ?thesis by (force simp: map_value_def dom_def split: option.splits)
qed

lemma filter_messages_Nil:
  assumes "range_order (filter_OpenshiftLabels f) lks"
  shows "filter_messages compiles lks f = [] \<longleftrightarrow> filter_ok compiles f"
proof (cases "filter_Type f")
  case FilterTypePrune
  then show ?thesis
    by (cases "filter_PruneFilterSpec f")
      (simp_all add: filter_messages_def filter_ok_def validatePruneFilter_def prune_messages_Nil Let_def)
next
  case FilterTypeKubeAPIAudit
  then show ?thesis
    by (cases "filter_KubeAPIAudit f")
      (simp_all add: filter_messages_def filter_ok_def validateKubeAPIAuditFilter_def summarize_Nil
        audit_check_Nil audit_rule_messages_Nil)
qed (simp_all add: filter_messages_def filter_ok_def validateDropFilter_Nil labels_Nil [OF assms])

interpretation filter_validator: item_validator ConditionTypeValidFilterPrefix filter_Name
  "\<lambda>f. ValidateFilter now compiles (lord (filter_Name f)) f"
  "\<lambda>f. filter_messages compiles (lord (filter_Name f)) f = []" for now compiles lord
  by unfold_locales (simp_all add: ValidateFilter_def Let_def NewConditionFromPrefix_def NewCondition_def)

section \<open>Properties\<close>

lemma concat_map_single: "(\<And>k. k \<in> set ks \<Longrightarrow> g k = [h k]) \<Longrightarrow> concat (map g ks) = map h ks"
  by (induction ks) simp_all

lemma filters_verdict:
  fixes ctx :: ForwarderContext
  defines "fs \<equiv> spec_Filters (clf_Spec (ctx_Forwarder ctx))"
  assumes d: "distinct (Filters_Names fs)"
    and ks: "range_order (FilterMap (clf_Spec (ctx_Forwarder ctx))) ks"
    and lord: "\<forall>f\<in>set fs. range_order (filter_OpenshiftLabels f) (lord (filter_Name f))"
    and dc: "distinct (map cond_Type (status_FilterConditions (clf_Status (ctx_Forwarder ctx))))"
    and pruned: "cond_Type ` set (status_FilterConditions (clf_Status (ctx_Forwarder ctx)))
      \<subseteq> (\<lambda>n. ConditionTypeValidFilterPrefix @ ''-'' @ n) ` set (Filters_Names fs)"
  shows "isValid ConditionTypeValidFilterPrefix
      (status_FilterConditions (clf_Status (ctx_Forwarder (filters_Validate now compiles ks lord ctx))))
      (length fs) \<longleftrightarrow> (\<forall>f\<in>set fs. filter_ok compiles f)"
proof -
  let ?m = "FilterMap (clf_Spec (ctx_Forwarder ctx))"
  let ?cs = "status_FilterConditions (clf_Status (ctx_Forwarder ctx))"
  let ?xs = "map (\<lambda>k. the (?m k)) ks"
  let ?report = "\<lambda>f. ValidateFilter now compiles (lord (filter_Name f)) f"
  have m: "?m = FilterMap_of fs" by (simp add: FilterMap_eq fs_def)
  note range = filters.range_names [OF ks [unfolded m]] filters.range_set [OF d ks [unfolded m]]
    filters.range_length [OF d ks [unfolded m]]
  have "(case ?m k of None \<Rightarrow> [] | Some f \<Rightarrow> [ValidateFilter now compiles (lord k) f])
      = [?report (the (?m k))]" if "k \<in> set ks" for k
    using filters.range_lookup [OF ks [unfolded m] that] by (metis m option.simps(5))
  then have results: "concat (map (\<lambda>k. case ?m k of None \<Rightarrow> []
      | Some f \<Rightarrow> [ValidateFilter now compiles (lord k) f]) ks) = map ?report ?xs"
    by (simp add: concat_map_single o_def)
  have "cond_Type ` set ?cs \<subseteq> (\<lambda>f. ConditionTypeValidFilterPrefix @ ''-'' @ filter_Name f) ` set ?xs"
    using pruned unfolding m range(2) by (simp add: Filters_Names_def image_image)
  moreover have "distinct (map filter_Name ?xs)" using ks by (simp only: m range(1) range_order_def)
  ultimately have "isValid ConditionTypeValidFilterPrefix (SetConditions now ?cs (map ?report ?xs)) (length ?xs)
    \<longleftrightarrow> (\<forall>f\<in>set ?xs. filter_messages compiles (lord (filter_Name f)) f = [])"
    using dc by (intro filter_validator.verdict_iff)
  also have "\<dots> \<longleftrightarrow> (\<forall>f\<in>set fs. filter_ok compiles f)"
    using lord by (simp only: m range(2) filter_messages_Nil cong: ball_cong)
  finally show ?thesis
    using range(3) results by (simp add: m filters_Validate_def map_status_def)
qed

text \<open>
  C15. The verdict on the filters is the conjunction of the declarative per-filter checks, in
  whatever order Go ranges over the filter map and the label maps: on a status pruned to the current
  filters, with unique filter names, the filter part of the spec counts as valid exactly when every
  filter is well-formed.
\<close>

theorem filters_Validate_verdict:
  fixes ctx :: ForwarderContext
  defines "fs \<equiv> spec_Filters (clf_Spec (ctx_Forwarder ctx))"
  assumes d: "distinct (Filters_Names fs)"
    and ks: "range_order (FilterMap (clf_Spec (ctx_Forwarder ctx))) ks"
    and lord: "\<forall>f\<in>set fs. range_order (filter_OpenshiftLabels f) (lord (filter_Name f))"
    and pruned: "status_FilterConditions (clf_Status (ctx_Forwarder ctx)) =
      PruneConditions old (Filters_Names fs) ConditionTypeValidFilterPrefix"
    and old: "distinct (map cond_Type old)"
  shows "isValid ConditionTypeValidFilterPrefix
      (status_FilterConditions (clf_Status (ctx_Forwarder (filters_Validate now compiles ks lord ctx))))
      (length fs) \<longleftrightarrow> (\<forall>f\<in>set fs. filter_ok compiles f)"
  using filters_verdict [OF d [unfolded fs_def] ks lord [unfolded fs_def], of now compiles]
    PruneConditions_distinct [OF d old] PruneConditions_types [of old "Filters_Names fs"]
  unfolding pruned fs_def by blast

definition sample_filter :: FilterSpec where
  "sample_filter =
     \<lparr>filter_Name = ''prune'', filter_Type = FilterTypePrune, filter_KubeAPIAudit = None,
      filter_DropTestsSpec = [],
      filter_PruneFilterSpec = Some \<lparr>prune_In = Some [''.kubernetes.labels''], prune_NotIn = None\<rparr>,
      filter_OpenshiftLabels = Map.empty\<rparr>"

definition sample_filter_context :: ForwarderContext where
  "sample_filter_context =
     \<lparr>ctx_Forwarder = sample_forwarder\<lparr>clf_Spec := sample_spec\<lparr>spec_Filters := [sample_filter]\<rparr>\<rparr>,
      ctx_Secrets = Some Map.empty, ctx_ConfigMaps = Some Map.empty, ctx_AdditionalContext = None\<rparr>"

lemma field_path_ok_labels: "field_path_ok ''.kubernetes.labels''"
proof -
  have "path_segments ''.kubernetes.labels'' = Some [''kubernetes'', ''labels'']"
    by (simp add: word_char_def)
  moreover have "\<not> Contains ''.kubernetes.labels'' tomlLiteralTerminator"
    by (simp add: tomlLiteralTerminator_def HasPrefix_def)
  ultimately show ?thesis
    by (simp add: field_path_ok_def pathExpRegex_def toml_safe_def Contains_iff_sublist)
qed

theorem filters_Validate_verdict_witness:
  "isValid ConditionTypeValidFilterPrefix
     (status_FilterConditions (clf_Status (ctx_Forwarder
        (filters_Validate 7 (\<lambda>_. True) [''prune''] (\<lambda>_. []) sample_filter_context)))) 1"
proof -
  have "filter_ok (\<lambda>_. True) sample_filter"
    using field_path_ok_labels by (simp add: filter_ok_def sample_filter_def prune_ok_def)
  then show ?thesis
    using filters_Validate_verdict [of sample_filter_context "[''prune'']" "\<lambda>_. []" "[]" 7 "\<lambda>_. True"]
    by (simp add: sample_filter_context_def Filters_Names_def FilterMap_def range_order_def sample_filter_def
        sample_forwarder_def PruneConditions_def)
qed

text \<open>
  The protection of the required fields compares spellings: a prune filter that lists
  \<open>."message"\<close> is accepted, although the generator turns that path into the same VRL path as
  \<open>.message\<close>, which is rejected.
\<close>

theorem required_field_bypass:
  "prune_messages \<lparr>prune_In = Some [''.'' @ [dq] @ ''message'' @ [dq]], prune_NotIn = None\<rparr> = []
   \<and> prune_messages \<lparr>prune_In = Some [''.message''], prune_NotIn = None\<rparr> \<noteq> []
   \<and> quoted_path (''.'' @ [dq] @ ''message'' @ [dq]) = quoted_path ''.message''"
proof -
  have "path_segments (''.'' @ [dq] @ ''message'' @ [dq]) = Some [[dq] @ ''message'' @ [dq]]" by simp
  moreover have "\<not> Contains (''.'' @ [dq] @ ''message'' @ [dq]) tomlLiteralTerminator"
    by (simp add: tomlLiteralTerminator_def HasPrefix_def)
  ultimately have "field_path_ok (''.'' @ [dq] @ ''message'' @ [dq])"
    by (simp add: field_path_ok_def pathExpRegex_def toml_safe_def Contains_iff_sublist)
  moreover have "quoted_path (''.'' @ [dq] @ ''message'' @ [dq]) = quoted_path ''.message''"
    by (simp add: quoted_path_def QuotePathSegments_def SplitPath_def split_part_def HasPrefix_single
        HasSuffix_single quoteRegex_def Quote_def quote_char_def)
  ultimately show ?thesis by (simp add: prune_messages_Nil prune_ok_def)
qed

end
