(* ===== verification/Validate_Pipelines.thy ===== *)
theory Validate_Pipelines
  imports Validate_Common
begin

text \<open>
  Validation of pipelines (\<open>internal/validations/observability/pipelines/validate.go\<close>). The
  list of messages is declared outside the loop over the pipelines and is never reset, as in the
  source; \<open>pipeline_reports\<close> is the list of conditions the loop sets.
\<close>

section \<open>References and pruned host names\<close>

definition missing_refs :: "string \<Rightarrow> (string \<rightharpoonup> 'a) \<Rightarrow> string list \<Rightarrow> string list" where
  "missing_refs kind m refs =
     (let missing = filter (\<lambda>ref. m ref = None) refs
      in if missing \<noteq> [] then [kind @ fmt_v_list missing] else [])"

definition validateRef ::
  "PipelineSpec \<Rightarrow> (string \<rightharpoonup> InputSpec) \<Rightarrow> (string \<rightharpoonup> OutputSpec) \<Rightarrow> (string \<rightharpoonup> FilterSpec) \<Rightarrow> string list" where
  "validateRef pipeline inputs outputs filters =
     missing_refs ''inputs'' inputs (pipeline_InputRefs pipeline)
     @ missing_refs ''outputs'' outputs (pipeline_OutputRefs pipeline)
     @ missing_refs ''filters'' filters (pipeline_FilterRefs pipeline)"

definition hostName :: FieldPath where "hostName = ''.hostname''"

definition prunesHostName :: "FilterSpec \<Rightarrow> bool go" where
  "prunesHostName f =
     (if filter_Type f \<noteq> FilterTypePrune then Inr False
      else go_bind (deref (filter_PruneFilterSpec f))
        (\<lambda>p. let notIn = (case prune_NotIn p of None \<Rightarrow> False | Some paths \<Rightarrow> hostName \<notin> set paths);
                 inn = (case prune_In p of None \<Rightarrow> False | Some paths \<Rightarrow> hostName \<in> set paths)
              in Inr (notIn \<or> inn)))"

definition gcl_filter_message :: "OutputSpec \<Rightarrow> (string \<rightharpoonup> FilterSpec) \<Rightarrow> string \<Rightarrow> string list go" where
  "gcl_filter_message output filters f =
     (case filters f of
        None \<Rightarrow> Inr []
      | Some filterSpec \<Rightarrow>
          go_bind (prunesHostName filterSpec)
            (\<lambda>b. Inr (if b then [Quote (filter_Name filterSpec)
                @ '' prunes the `.hostname` field which is required for output: '' @ Quote (output_Name output)
                @ '' of type '' @ Quote (OutputType_String (output_Type output)) @ ''.''] else [])))"

definition verifyHostNameNotFilteredForGCL ::
  "PipelineSpec \<Rightarrow> (string \<rightharpoonup> OutputSpec) \<Rightarrow> (string \<rightharpoonup> FilterSpec) \<Rightarrow> string list go" where
  "verifyHostNameNotFilteredForGCL pipeline outputs filters =
     (if pipeline_FilterRefs pipeline = [] then Inr []
      else go_bind
        (go_mapM (\<lambda>out. case outputs out of
             None \<Rightarrow> Inr []
           | Some output \<Rightarrow>
               if output_Type output = OutputTypeGoogleCloudLogging
               then go_bind (go_mapM (gcl_filter_message output filters) (pipeline_FilterRefs pipeline))
                      (\<lambda>ms. Inr (concat ms))
               else Inr []) (pipeline_OutputRefs pipeline))
        (\<lambda>ms. Inr (concat ms)))"

section \<open>Validate\<close>

definition pipeline_messages :: "ClusterLogForwarderSpec \<Rightarrow> PipelineSpec \<Rightarrow> string list go" where
  "pipeline_messages spec p =
     (let inputs = Inputs_Map (spec_Inputs spec); outputs = Outputs_Map (spec_Outputs spec);
          filters = FilterMap spec; refMessages = validateRef p inputs outputs filters
      in go_bind (verifyHostNameNotFilteredForGCL p outputs filters)
           (\<lambda>ms. Inr ((if refMessages \<noteq> [] then [''refs not found: '' @ Join refMessages '',''] else []) @ ms)))"

definition pipeline_condition :: "time \<Rightarrow> string list \<Rightarrow> PipelineSpec \<Rightarrow> Condition" where
  "pipeline_condition now messages p =
     (if messages \<noteq> []
      then NewConditionFromPrefix now ConditionTypeValidPipelinePrefix (pipeline_Name p) False
             ReasonValidationFailure (Join messages '','')
      else NewConditionFromPrefix now ConditionTypeValidPipelinePrefix (pipeline_Name p) True
             ReasonValidationSuccess (''pipeline '' @ Quote (pipeline_Name p) @ '' is valid''))"

definition validate_pipeline ::
  "time \<Rightarrow> ClusterLogForwarderSpec \<Rightarrow> string list \<times> Condition list \<Rightarrow> PipelineSpec
   \<Rightarrow> (string list \<times> Condition list) go" where
  "validate_pipeline now spec st p =
     (case st of (messages, conditions) \<Rightarrow>
        go_bind (pipeline_messages spec p)
          (\<lambda>ms. Inr (messages @ ms, fst (SetCondition now conditions (pipeline_condition now (messages @ ms) p)))))"

definition pipelines_Validate :: "time \<Rightarrow> ForwarderContext \<Rightarrow> ForwarderContext go" where
  "pipelines_Validate now ctx =
     (let f = ctx_Forwarder ctx
      in go_bind
        (go_fold (validate_pipeline now (clf_Spec f)) ([], status_PipelineConditions (clf_Status f))
           (spec_Pipelines (clf_Spec f)))
        (\<lambda>(messages, conditions).
           Inr (map_status (\<lambda>st. st\<lparr>status_PipelineConditions := conditions\<rparr>) ctx)))"

section \<open>What a valid pipeline is\<close>

definition prunes_host_name :: "FilterSpec \<Rightarrow> bool" where
  "prunes_host_name f \<longleftrightarrow>
     filter_Type f = FilterTypePrune
     \<and> (case filter_PruneFilterSpec f of None \<Rightarrow> False
        | Some p \<Rightarrow> (case prune_NotIn p of None \<Rightarrow> False | Some fs \<Rightarrow> hostName \<notin> set fs)
            \<or> (case prune_In p of None \<Rightarrow> False | Some fs \<Rightarrow> hostName \<in> set fs))"

definition refs_resolve :: "ClusterLogForwarderSpec \<Rightarrow> PipelineSpec \<Rightarrow> bool" where
  "refs_resolve spec p \<longleftrightarrow>
     set (pipeline_InputRefs p) \<subseteq> set (Inputs_Names (spec_Inputs spec))
     \<and> set (pipeline_OutputRefs p) \<subseteq> set (Outputs_Names (spec_Outputs spec))
     \<and> set (pipeline_FilterRefs p) \<subseteq> set (Filters_Names (spec_Filters spec))"

definition gcl_keeps_host_name :: "ClusterLogForwarderSpec \<Rightarrow> PipelineSpec \<Rightarrow> bool" where
  "gcl_keeps_host_name spec p \<longleftrightarrow>
     (\<forall>o'\<in>set (pipeline_OutputRefs p). \<forall>f\<in>set (pipeline_FilterRefs p).
        map_option output_Type (Outputs_Map (spec_Outputs spec) o') = Some OutputTypeGoogleCloudLogging
        \<longrightarrow> (case FilterMap spec f of None \<Rightarrow> True | Some fs \<Rightarrow> \<not> prunes_host_name fs))"

definition pipeline_ok :: "ClusterLogForwarderSpec \<Rightarrow> PipelineSpec \<Rightarrow> bool" where
  "pipeline_ok spec p \<longleftrightarrow> refs_resolve spec p \<and> gcl_keeps_host_name spec p"

text \<open>Prune filters have their block, as the filter validation demands.\<close>

definition prune_blocks :: "ClusterLogForwarderSpec \<Rightarrow> bool" where
  "prune_blocks spec \<longleftrightarrow>
     (\<forall>f\<in>set (spec_Filters spec). filter_Type f = FilterTypePrune \<longrightarrow> filter_PruneFilterSpec f \<noteq> None)"

lemma missing_refs_Nil: "missing_refs kind m refs = [] \<longleftrightarrow> set refs \<subseteq> dom m"
  by (auto simp: missing_refs_def Let_def filter_empty_conv)

lemma validateRef_Nil:
  "validateRef p (Inputs_Map (spec_Inputs spec)) (Outputs_Map (spec_Outputs spec)) (FilterMap spec) = []
   \<longleftrightarrow> refs_resolve spec p"
  by (simp add: validateRef_def missing_refs_Nil refs_resolve_def inputs.dom_to_map outputs.dom_to_map
      FilterMap_eq filters.dom_to_map)

lemma FilterMap_mem: "FilterMap spec k = Some f \<Longrightarrow> f \<in> set (spec_Filters spec) \<and> filter_Name f = k"
  using filters.to_map_Some by (simp add: FilterMap_eq)

lemma prunesHostName_run:
  "prune_blocks spec \<Longrightarrow> FilterMap spec k = Some f \<Longrightarrow> prunesHostName f = Inr (prunes_host_name f)"
  using FilterMap_mem [of spec k f]
  by (cases "filter_PruneFilterSpec f") (auto simp: prunesHostName_def prunes_host_name_def prune_blocks_def Let_def)

definition gcl_messages_for :: "ClusterLogForwarderSpec \<Rightarrow> string list \<Rightarrow> string \<Rightarrow> string list" where
  "gcl_messages_for spec frefs out =
     (case Outputs_Map (spec_Outputs spec) out of
        None \<Rightarrow> []
      | Some output \<Rightarrow>
          if output_Type output = OutputTypeGoogleCloudLogging
          then concat (map (\<lambda>f. projr (gcl_filter_message output (FilterMap spec) f)) frefs) else [])"

lemma gcl_filter_message_run:
  assumes "prune_blocks spec"
  shows "gcl_filter_message output (FilterMap spec) f = Inr (projr (gcl_filter_message output (FilterMap spec) f))
    \<and> (projr (gcl_filter_message output (FilterMap spec) f) = [] \<longleftrightarrow>
        (case FilterMap spec f of None \<Rightarrow> True | Some fs \<Rightarrow> \<not> prunes_host_name fs))"
  by (cases "FilterMap spec f") (simp_all add: gcl_filter_message_def prunesHostName_run [OF assms])

lemma verifyHostName_run:
  assumes pb: "prune_blocks spec"
  shows "\<exists>ms. verifyHostNameNotFilteredForGCL p (Outputs_Map (spec_Outputs spec)) (FilterMap spec) = Inr ms
    \<and> (ms = [] \<longleftrightarrow> gcl_keeps_host_name spec p)"
proof (cases "pipeline_FilterRefs p = []")
  case True
  then show ?thesis by (simp add: verifyHostNameNotFilteredForGCL_def gcl_keeps_host_name_def)
next
  case False
  let ?outs = "Outputs_Map (spec_Outputs spec)" and ?fr = "pipeline_FilterRefs p"
  note gfm = gcl_filter_message_run [OF pb]
  have inner: "go_mapM (gcl_filter_message output (FilterMap spec)) fs =
      Inr (map (\<lambda>f. projr (gcl_filter_message output (FilterMap spec) f)) fs)" for "output" fs
    by (rule go_mapM_ret) (use gfm in blast)
  have "go_mapM (\<lambda>out. case ?outs out of None \<Rightarrow> Inr []
           | Some output \<Rightarrow> if output_Type output = OutputTypeGoogleCloudLogging
               then go_bind (go_mapM (gcl_filter_message output (FilterMap spec)) ?fr) (\<lambda>ms. Inr (concat ms))
               else Inr []) (pipeline_OutputRefs p)
      = Inr (map (gcl_messages_for spec ?fr) (pipeline_OutputRefs p))"
    by (rule go_mapM_ret) (simp add: inner gcl_messages_for_def split: option.split)
  then have run: "verifyHostNameNotFilteredForGCL p ?outs (FilterMap spec) =
      Inr (concat (map (gcl_messages_for spec ?fr) (pipeline_OutputRefs p)))"
    using False by (simp add: verifyHostNameNotFilteredForGCL_def)
  have "gcl_messages_for spec ?fr out = [] \<longleftrightarrow>
      (\<forall>f\<in>set ?fr. map_option output_Type (?outs out) = Some OutputTypeGoogleCloudLogging \<longrightarrow>
        (case FilterMap spec f of None \<Rightarrow> True | Some fs \<Rightarrow> \<not> prunes_host_name fs))" for out
    using gfm by (auto simp: gcl_messages_for_def split: option.split)
  then show ?thesis by (simp add: run gcl_keeps_host_name_def)
qed

lemma pipeline_messages_run:
  assumes "prune_blocks spec"
  shows "\<exists>ms. pipeline_messages spec p = Inr ms \<and> (ms = [] \<longleftrightarrow> pipeline_ok spec p)"
  using verifyHostName_run [OF assms, of p]
  by (auto simp: pipeline_messages_def Let_def pipeline_ok_def validateRef_Nil)

section \<open>The loop\<close>

text \<open>The conditions the loop sets, each from the messages of its pipeline and all before it.\<close>

fun pipeline_reports :: "time \<Rightarrow> ClusterLogForwarderSpec \<Rightarrow> string list \<Rightarrow> PipelineSpec list \<Rightarrow> Condition list" where
  "pipeline_reports now spec messages [] = []"
| "pipeline_reports now spec messages (p # ps) =
     (let ms = messages @ projr (pipeline_messages spec p)
      in pipeline_condition now ms p # pipeline_reports now spec ms ps)"

lemma validate_pipeline_loop:
  assumes "prune_blocks spec"
  shows "\<exists>ms. go_fold (validate_pipeline now spec) (messages, conditions) ps =
    Inr (ms, SetConditions now conditions (pipeline_reports now spec messages ps))"
proof (induction ps arbitrary: messages conditions)
  case (Cons p ps)
  obtain ms where "pipeline_messages spec p = Inr ms" using pipeline_messages_run [OF assms] by blast
  with Cons [of "messages @ ms" "fst (SetCondition now conditions (pipeline_condition now (messages @ ms) p))"]
  show ?case by (simp add: validate_pipeline_def Let_def)
qed simp

lemma pipelines_Validate_run:
  assumes "prune_blocks (clf_Spec (ctx_Forwarder ctx))"
  shows "pipelines_Validate now ctx =
    Inr (map_status (\<lambda>st. st\<lparr>status_PipelineConditions :=
       SetConditions now (status_PipelineConditions (clf_Status (ctx_Forwarder ctx)))
         (pipeline_reports now (clf_Spec (ctx_Forwarder ctx)) [] (spec_Pipelines (clf_Spec (ctx_Forwarder ctx))))\<rparr>) ctx)"
  using validate_pipeline_loop [OF assms, of now "[]" "status_PipelineConditions (clf_Status (ctx_Forwarder ctx))"
      "spec_Pipelines (clf_Spec (ctx_Forwarder ctx))"]
  by (auto simp: pipelines_Validate_def Let_def)

lemma pipeline_reports_types:
  "map cond_Type (pipeline_reports now spec messages ps) =
     map (\<lambda>p. ConditionTypeValidPipelinePrefix @ ''-'' @ pipeline_Name p) ps"
  by (induction ps arbitrary: messages)
    (simp_all add: Let_def pipeline_condition_def NewConditionFromPrefix_def NewCondition_def)

lemma length_pipeline_reports [simp]: "length (pipeline_reports now spec messages ps) = length ps"
  by (induction ps arbitrary: messages) (simp_all add: Let_def)

lemma pipeline_reports_status:
  assumes "prune_blocks spec" "i < length ps"
  shows "cond_Status (pipeline_reports now spec messages ps ! i) = ConditionTrue \<longleftrightarrow>
    messages = [] \<and> (\<forall>p\<in>set (take (Suc i) ps). pipeline_ok spec p)"
  using assms(2)
proof (induction ps arbitrary: messages i)
  case (Cons p ps)
  obtain ms where ms: "pipeline_messages spec p = Inr ms" "ms = [] \<longleftrightarrow> pipeline_ok spec p"
    using pipeline_messages_run [OF assms(1)] by blast
  show ?case
  proof (cases i)
    case 0
    with ms show ?thesis
      by (simp add: Let_def pipeline_condition_def NewConditionFromPrefix_def NewCondition_def)
  next
    case (Suc j)
    with Cons ms show ?thesis by (auto simp: Let_def)
  qed
qed simp

lemma take_all_prefixes:
  "(\<forall>i<length xs. \<forall>x\<in>set (take (Suc i) xs). P x) \<longleftrightarrow> (\<forall>x\<in>set xs. P x)"
proof
  assume a: "\<forall>i<length xs. \<forall>x\<in>set (take (Suc i) xs). P x"
  show "\<forall>x\<in>set xs. P x"
  proof (cases xs)
    case (Cons y ys)
    with a have "\<forall>x\<in>set (take (Suc (length ys)) xs). P x" by auto
    with Cons show ?thesis by simp
  qed simp
qed (use in_set_takeD in fastforce)

section \<open>Properties\<close>

lemma pipelines_verdict:
  assumes blocks: "prune_blocks spec" and d: "distinct (Pipelines_Names ps)"
    and dc: "distinct (map cond_Type cs)"
    and pruned: "cond_Type ` set cs \<subseteq> (\<lambda>n. ConditionTypeValidPipelinePrefix @ ''-'' @ n) ` set (Pipelines_Names ps)"
  shows "isValid ConditionTypeValidPipelinePrefix (SetConditions now cs (pipeline_reports now spec [] ps)) (length ps)
    \<longleftrightarrow> (\<forall>p\<in>set ps. pipeline_ok spec p)"
proof -
  let ?rs = "pipeline_reports now spec [] ps"
  have types: "cond_Type ` set ?rs = (\<lambda>p. ConditionTypeValidPipelinePrefix @ ''-'' @ pipeline_Name p) ` set ps"
    using pipeline_reports_types [of now spec "[]" ps] by (metis list.set_map)
  have "isValid ConditionTypeValidPipelinePrefix (SetConditions now cs ?rs) (length ?rs) \<longleftrightarrow>
      (\<forall>r\<in>set ?rs. cond_Status r = ConditionTrue)"
  proof (rule isValid_SetConditions [OF dc])
    show "distinct (map cond_Type ?rs)"
      using d by (auto simp: pipeline_reports_types Pipelines_Names_def distinct_map inj_on_def)
    show "cond_Type ` set cs \<subseteq> cond_Type ` set ?rs"
      using pruned unfolding types by (simp add: Pipelines_Names_def image_image)
    show "\<forall>r\<in>set ?rs. HasPrefix (cond_Type r) ConditionTypeValidPipelinePrefix"
    proof
      fix r
      assume "r \<in> set ?rs"
      then have "cond_Type r \<in> (\<lambda>p. ConditionTypeValidPipelinePrefix @ ''-'' @ pipeline_Name p) ` set ps"
        unfolding types [symmetric] by (rule imageI)
      then show "HasPrefix (cond_Type r) ConditionTypeValidPipelinePrefix" by auto
    qed
  qed
  also have "\<dots> \<longleftrightarrow> (\<forall>i<length ps. \<forall>p\<in>set (take (Suc i) ps). pipeline_ok spec p)"
    unfolding all_set_conv_all_nth length_pipeline_reports
    by (simp add: pipeline_reports_status [OF blocks] all_set_conv_all_nth cong: conj_cong)
  also have "\<dots> \<longleftrightarrow> (\<forall>p\<in>set ps. pipeline_ok spec p)" by (rule take_all_prefixes)
  finally show ?thesis by simp
qed

text \<open>
  C16. Although messages accumulate, the verdict on the pipelines is right: on a status pruned to
  the current pipelines, with unique pipeline names and prune filters that have their block, the
  pipeline part of the spec counts as valid exactly when every input, output and filter reference
  resolves and no pipeline to Google Cloud Logging prunes the host name.
\<close>

theorem pipelines_Validate_verdict:
  fixes ctx :: ForwarderContext
  defines "spec \<equiv> clf_Spec (ctx_Forwarder ctx)"
  assumes blocks: "prune_blocks spec"
    and d: "distinct (Pipelines_Names (spec_Pipelines spec))"
    and pruned: "status_PipelineConditions (clf_Status (ctx_Forwarder ctx)) =
      PruneConditions old (Pipelines_Names (spec_Pipelines spec)) ConditionTypeValidPipelinePrefix"
    and old: "distinct (map cond_Type old)"
  shows "\<exists>ctx'. pipelines_Validate now ctx = Inr ctx' \<and>
    (isValid ConditionTypeValidPipelinePrefix (status_PipelineConditions (clf_Status (ctx_Forwarder ctx')))
       (length (spec_Pipelines spec)) \<longleftrightarrow>
     (\<forall>p\<in>set (spec_Pipelines spec). refs_resolve spec p \<and> gcl_keeps_host_name spec p))"
  using pipelines_verdict [OF blocks d, of "status_PipelineConditions (clf_Status (ctx_Forwarder ctx))" now]
    pipelines_Validate_run [OF blocks [unfolded spec_def], of now]
    PruneConditions_distinct [OF d old] PruneConditions_types [of old "Pipelines_Names (spec_Pipelines spec)"]
  by (simp add: pruned spec_def map_status_def pipeline_ok_def)

definition sample_pipeline_context :: ForwarderContext where
  "sample_pipeline_context =
     \<lparr>ctx_Forwarder = sample_forwarder\<lparr>clf_Spec := sample_spec\<lparr>spec_Pipelines :=
        [\<lparr>pipeline_Name = ''bad'', pipeline_InputRefs = [''nope''], pipeline_OutputRefs = [''loki''],
          pipeline_FilterRefs = []\<rparr>,
         \<lparr>pipeline_Name = ''good'', pipeline_InputRefs = [''in''], pipeline_OutputRefs = [''loki''],
          pipeline_FilterRefs = []\<rparr>]\<rparr>\<rparr>,
      ctx_Secrets = Some Map.empty, ctx_ConfigMaps = Some Map.empty, ctx_AdditionalContext = None\<rparr>"

theorem pipelines_Validate_verdict_witness:
  "\<exists>ctx'. pipelines_Validate 7 sample_pipeline_context = Inr ctx' \<and>
     \<not> isValid ConditionTypeValidPipelinePrefix (status_PipelineConditions (clf_Status (ctx_Forwarder ctx'))) 2"
proof -
  let ?spec = "clf_Spec (ctx_Forwarder sample_pipeline_context)"
  have "\<not> (\<forall>p\<in>set (spec_Pipelines ?spec). refs_resolve ?spec p \<and> gcl_keeps_host_name ?spec p)"
    by (simp add: sample_pipeline_context_def refs_resolve_def sample_spec_def Inputs_Names_def sample_receiver_def)
  moreover have "prune_blocks ?spec" "distinct (Pipelines_Names (spec_Pipelines ?spec))"
    and "status_PipelineConditions (clf_Status (ctx_Forwarder sample_pipeline_context)) =
      PruneConditions [] (Pipelines_Names (spec_Pipelines ?spec)) ConditionTypeValidPipelinePrefix"
    and two: "length (spec_Pipelines ?spec) = 2"
    by (simp_all add: sample_pipeline_context_def prune_blocks_def sample_spec_def Pipelines_Names_def
        sample_forwarder_def PruneConditions_def)
  ultimately show ?thesis
    using pipelines_Validate_verdict [of sample_pipeline_context "[]" 7] unfolding two
    by (metis distinct.simps(1) list.map(1))
qed



end
