(* ===== verification/Validate_Forwarder.thy ===== *)
theory Validate_Forwarder
  imports Validate_Inputs Validate_Outputs Validate_Filters Validate_Pipelines Validate_Permissions
begin

text \<open>
  The validation of a whole ClusterLogForwarder: \<open>ValidateClusterLogForwarder\<close>
  (\<open>internal/validations/observability/validate.go\<close>) runs the validators in the order of
  \<open>clfValidators\<close>, and \<open>validateForwarder\<close> of the controller turns the conditions they set into a
  verdict. The main lemma puts the contracts of the validators together: the verdict is true exactly
  for a forwarder that is authorized and whose inputs, outputs, filters and pipelines are all valid.
\<close>

section \<open>validate.go\<close>

text \<open>
  What the validators read besides the context: the clock, the Kubernetes API, the regular expression
  compiler and the orders in which maps are ranged over.
\<close>

record validation_env =
  ve_now :: time
  ve_get_sa :: "string \<Rightarrow> string \<Rightarrow> client_error + (string \<times> string)"
  ve_review :: "SubjectAccessReview \<Rightarrow> string + bool"
  ve_compiles :: "string \<Rightarrow> bool"
  ve_output :: output_env
  ve_filter_order :: "string list"
  ve_label_order :: "string \<Rightarrow> string list"

definition ValidateClusterLogForwarder :: "validation_env \<Rightarrow> ForwarderContext \<Rightarrow> ForwarderContext go" where
  "ValidateClusterLogForwarder env ctx =
     (let now = ve_now env;
          ctx1 = validateMaxUnavailableAnnotation now (validateLogLevelAnnotation now ctx)
      in go_bind (ValidatePermissions now (ve_get_sa env) (ve_review env) ctx1)
      (\<lambda>ctx2. go_bind (inputs_Validate now ctx2)
      (\<lambda>ctx3. go_bind (outputs_Validate now (ve_output env) ctx3)
      (\<lambda>ctx4. pipelines_Validate now
         (filters_Validate now (ve_compiles env) (ve_filter_order env) (ve_label_order env) ctx4)))))"

definition validateForwarder :: "validation_env \<Rightarrow> ForwarderContext \<Rightarrow> (bool \<times> ForwarderContext) go" where
  "validateForwarder env ctx =
     go_bind (ValidateClusterLogForwarder env ctx)
       (\<lambda>ctx'. let valid = IsValidSpec (ctx_Forwarder ctx');
                   now = ve_now env;
                   validCond =
                     (if \<not> valid
                      then NewCondition now ConditionTypeValid ConditionFalse ReasonValidationFailure
                        ''one or more conditions [inputs, outputs, pipelines, filters] have failed validation''
                      else NewCondition now ConditionTypeValid ConditionTrue ReasonValidationSuccess [])
               in Inr (valid, set_status_condition now validCond ctx'))"

section \<open>What the validators leave alone\<close>

text \<open>A validator writes the status only.\<close>

definition same_but_status :: "ForwarderContext \<Rightarrow> ForwarderContext \<Rightarrow> bool" where
  "same_but_status a b \<longleftrightarrow> (\<exists>g. b = map_status g a)"

lemma map_status_frame [simp]:
  "clf_Spec (ctx_Forwarder (map_status g c)) = clf_Spec (ctx_Forwarder c)"
  "clf_Name (ctx_Forwarder (map_status g c)) = clf_Name (ctx_Forwarder c)"
  "clf_Namespace (ctx_Forwarder (map_status g c)) = clf_Namespace (ctx_Forwarder c)"
  "clf_Annotations (ctx_Forwarder (map_status g c)) = clf_Annotations (ctx_Forwarder c)"
  "clf_Status (ctx_Forwarder (map_status g c)) = g (clf_Status (ctx_Forwarder c))"
  "ctx_Secrets (map_status g c) = ctx_Secrets c"
  "ctx_ConfigMaps (map_status g c) = ctx_ConfigMaps c"
  "ctx_AdditionalContext (map_status g c) = ctx_AdditionalContext c"
  by (simp_all add: map_status_def)

lemma map_status_comp [simp]: "map_status g (map_status h c) = map_status (g \<circ> h) c"
  by (simp add: map_status_def)

lemma same_refl [simp]: "same_but_status a a"
  unfolding same_but_status_def by (rule exI [of _ id]) (simp add: map_status_def)

lemma same_trans: "same_but_status a b \<Longrightarrow> same_but_status b c \<Longrightarrow> same_but_status a c"
  by (auto simp: same_but_status_def)

lemma same_map_status [simp]: "same_but_status a (map_status g a)"
  by (auto simp: same_but_status_def)

lemma same_frame:
  assumes "same_but_status a b"
  shows "clf_Spec (ctx_Forwarder b) = clf_Spec (ctx_Forwarder a)"
    "clf_Name (ctx_Forwarder b) = clf_Name (ctx_Forwarder a)"
    "clf_Namespace (ctx_Forwarder b) = clf_Namespace (ctx_Forwarder a)"
    "clf_Annotations (ctx_Forwarder b) = clf_Annotations (ctx_Forwarder a)"
    "ctx_Secrets b = ctx_Secrets a" "ctx_ConfigMaps b = ctx_ConfigMaps a"
    "ctx_AdditionalContext b = ctx_AdditionalContext a"
  using assms by (auto simp: same_but_status_def)

lemma authorized_for_cong:
  "clf_Spec f = clf_Spec g \<Longrightarrow> clf_Namespace f = clf_Namespace g \<Longrightarrow>
   authorized_for get create f \<longleftrightarrow> authorized_for get create g"
  by (simp only: authorized_for_def)

text \<open>The annotation checks touch the general conditions only, and keep their types unique.\<close>

abbreviation general :: "ForwarderContext \<Rightarrow> Condition list" where
  "general ctx \<equiv> status_Conditions (clf_Status (ctx_Forwarder ctx))"

definition others_kept :: "ForwarderContext \<Rightarrow> ForwarderContext \<Rightarrow> bool" where
  "others_kept a b \<longleftrightarrow>
     (let s = clf_Status (ctx_Forwarder a); t = clf_Status (ctx_Forwarder b)
      in status_InputConditions t = status_InputConditions s
         \<and> status_OutputConditions t = status_OutputConditions s
         \<and> status_FilterConditions t = status_FilterConditions s
         \<and> status_PipelineConditions t = status_PipelineConditions s)"

definition keeps :: "(ForwarderContext \<Rightarrow> ForwarderContext) \<Rightarrow> bool" where
  "keeps f \<longleftrightarrow> (\<forall>a. same_but_status a (f a) \<and> others_kept a (f a)
     \<and> (distinct (map cond_Type (general a)) \<longrightarrow> distinct (map cond_Type (general (f a)))))"

lemma keeps_comp: "keeps f \<Longrightarrow> keeps g \<Longrightarrow> keeps (\<lambda>a. g (f a))"
  unfolding keeps_def others_kept_def Let_def by (metis same_trans)

lemma keeps_set: "keeps (set_status_condition now c)"
  by (simp add: keeps_def set_status_condition_def others_kept_def distinct_types_SetCondition)

lemma keeps_remove: "keeps (remove_status_condition t)"
  by (simp add: keeps_def remove_status_condition_def others_kept_def RemoveConditionByType_def
      distinct_map_filter)

lemma keeps_same: "(\<forall>a. f a = g a \<or> f a = h a) \<Longrightarrow> keeps g \<Longrightarrow> keeps h \<Longrightarrow> keeps f"
  unfolding keeps_def by metis

lemma keeps_annotations:
  "keeps (validateMaxUnavailableAnnotation now)" "keeps (validateLogLevelAnnotation now)"
proof -
  have "same_but_status a (validateMaxUnavailableAnnotation now a) \<and> others_kept a (validateMaxUnavailableAnnotation now a)
     \<and> (distinct (map cond_Type (general a)) \<longrightarrow> distinct (map cond_Type (general (validateMaxUnavailableAnnotation now a))))" for a
    using keeps_set keeps_remove unfolding keeps_def
    by (auto simp only: validateMaxUnavailableAnnotation_def split: option.split if_split)
  then show "keeps (validateMaxUnavailableAnnotation now)" by (simp add: keeps_def)
  have "same_but_status a (validateLogLevelAnnotation now a) \<and> others_kept a (validateLogLevelAnnotation now a)
     \<and> (distinct (map cond_Type (general a)) \<longrightarrow> distinct (map cond_Type (general (validateLogLevelAnnotation now a))))" for a
    using keeps_set keeps_remove unfolding keeps_def
    by (auto simp only: validateLogLevelAnnotation_def split: option.split if_split)
  then show "keeps (validateLogLevelAnnotation now)" by (simp add: keeps_def)
qed

section \<open>The verdict\<close>

text \<open>
  What the API server's schema guarantees of a spec (list maps keyed by name, enumerated types,
  the block of a receiver and of a prune filter present), and that no output makes the validator
  fault.
\<close>

definition well_formed :: "validation_env \<Rightarrow> ForwarderContext \<Rightarrow> bool" where
  "well_formed env ctx \<longleftrightarrow>
     (let spec = clf_Spec (ctx_Forwarder ctx)
      in distinct (Inputs_Names (spec_Inputs spec)) \<and> distinct (Outputs_Names (spec_Outputs spec))
         \<and> distinct (Filters_Names (spec_Filters spec)) \<and> distinct (Pipelines_Names (spec_Pipelines spec))
         \<and> (\<forall>i\<in>set (spec_Inputs spec). known_input_type i \<and> receiver_present i)
         \<and> prune_blocks spec
         \<and> (\<forall>o'\<in>set (spec_Outputs spec). returns (output_messages (ve_output env)
              (nil_map (ctx_Secrets ctx)) (nil_map (ctx_ConfigMaps ctx)) (spec_Pipelines spec) o')))"

text \<open>The orders the environment picks are orders of the maps they range over.\<close>

definition orders_ok :: "validation_env \<Rightarrow> ForwarderContext \<Rightarrow> bool" where
  "orders_ok env ctx \<longleftrightarrow>
     range_order (FilterMap (clf_Spec (ctx_Forwarder ctx))) (ve_filter_order env)
     \<and> (\<forall>f\<in>set (spec_Filters (clf_Spec (ctx_Forwarder ctx))).
          range_order (filter_OpenshiftLabels f) (ve_label_order env (filter_Name f)))"

text \<open>A status with unique condition types that mentions current items only.\<close>

definition mentions :: "Condition list \<Rightarrow> string \<Rightarrow> string list \<Rightarrow> bool" where
  "mentions cs p names \<longleftrightarrow>
     distinct (map cond_Type cs) \<and> cond_Type ` set cs \<subseteq> (\<lambda>n. p @ ''-'' @ n) ` set names"

definition tidy :: "ClusterLogForwarder \<Rightarrow> bool" where
  "tidy f \<longleftrightarrow>
     (let spec = clf_Spec f; st = clf_Status f
      in distinct (map cond_Type (status_Conditions st))
         \<and> mentions (status_InputConditions st) ConditionTypeValidInputPrefix (Inputs_Names (spec_Inputs spec))
         \<and> mentions (status_OutputConditions st) ConditionTypeValidOutputPrefix (Outputs_Names (spec_Outputs spec))
         \<and> mentions (status_FilterConditions st) ConditionTypeValidFilterPrefix (Filters_Names (spec_Filters spec))
         \<and> mentions (status_PipelineConditions st) ConditionTypeValidPipelinePrefix
              (Pipelines_Names (spec_Pipelines spec)))"

text \<open>The declarative verdict.\<close>

definition forwarder_ok :: "validation_env \<Rightarrow> ForwarderContext \<Rightarrow> bool" where
  "forwarder_ok env ctx \<longleftrightarrow>
     (let f = ctx_Forwarder ctx; spec = clf_Spec f; s = nil_map (ctx_Secrets ctx); c = nil_map (ctx_ConfigMaps ctx)
      in authorized_for (ve_get_sa env) (ve_review env) f
         \<and> (\<forall>i\<in>set (spec_Inputs spec). input_ok s c (ctx_AdditionalContext ctx) i)
         \<and> (\<forall>o'\<in>set (spec_Outputs spec). output_ok (ve_output env) s c (spec_Pipelines spec) o')
         \<and> (\<forall>fl\<in>set (spec_Filters spec). filter_ok (ve_compiles env) fl)
         \<and> (\<forall>p\<in>set (spec_Pipelines spec). pipeline_ok spec p))"

lemma inputs_verdict:
  assumes "mentions cs ConditionTypeValidInputPrefix (Inputs_Names is)" "distinct (Inputs_Names is)"
  shows "isValid ConditionTypeValidInputPrefix (SetConditions now cs (map (input_report now s m g) is)) (length is)
    \<longleftrightarrow> (\<forall>i\<in>set is. input_ok s m g i)"
  using assms by (intro input_validator.verdict_iff) (auto simp: mentions_def Inputs_Names_def image_image)

lemma outputs_verdict:
  assumes "mentions cs ConditionTypeValidOutputPrefix (Outputs_Names os)" "distinct (Outputs_Names os)"
    and ret: "\<forall>o'\<in>set os. returns (output_messages env s c ps o')"
  shows "isValid ConditionTypeValidOutputPrefix (SetConditions now cs (map (output_report now env s c ps) os)) (length os)
    \<longleftrightarrow> (\<forall>o'\<in>set os. output_ok env s c ps o')"
proof -
  have "isValid ConditionTypeValidOutputPrefix (SetConditions now cs (map (output_report now env s c ps) os)) (length os)
    \<longleftrightarrow> (\<forall>o'\<in>set os. projr (output_messages env s c ps o') = [])"
    using assms by (intro output_validator.verdict_iff) (auto simp: mentions_def Outputs_Names_def image_image)
  also have "\<dots> \<longleftrightarrow> (\<forall>o'\<in>set os. output_ok env s c ps o')"
  proof (intro ball_cong refl)
    fix o'
    assume "o' \<in> set os"
    with ret obtain ms where "output_messages env s c ps o' = Inr ms" by (auto elim: returnsE)
    then show "projr (output_messages env s c ps o') = [] \<longleftrightarrow> output_ok env s c ps o'"
      by (simp add: output_messages_Nil [symmetric])
  qed
  finally show ?thesis .
qed

lemma filters_Validate_status:
  "\<exists>cs. filters_Validate now compiles ks lord ctx = map_status (\<lambda>st. st\<lparr>status_FilterConditions := cs\<rparr>) ctx"
  by (intro exI [of _ "status_FilterConditions (clf_Status (ctx_Forwarder (filters_Validate now compiles ks lord ctx)))"])
    (simp add: filters_Validate_def map_status_def)

lemma ValidateClusterLogForwarder_run:
  assumes wf: "well_formed env ctx" and ord: "orders_ok env ctx" and tidy: "tidy (ctx_Forwarder ctx)"
    and s: "ctx_Secrets ctx = Some s" and m: "ctx_ConfigMaps ctx = Some m"
  shows "\<exists>ctx'. ValidateClusterLogForwarder env ctx = Inr ctx' \<and> same_but_status ctx ctx'
    \<and> distinct (map cond_Type (general ctx'))
    \<and> (IsValidSpec (ctx_Forwarder ctx') \<longleftrightarrow> forwarder_ok env ctx)
    \<and> map_option cond_Status (find_condition (general ctx') ConditionTypeAuthorized)
      = Some (if authorized_for (ve_get_sa env) (ve_review env) (ctx_Forwarder ctx) then ConditionTrue else ConditionFalse)"
proof -
  let ?now = "ve_now env" and ?spec = "clf_Spec (ctx_Forwarder ctx)"
  let ?g = "ctx_AdditionalContext ctx"
  define ctx1 where "ctx1 = validateMaxUnavailableAnnotation ?now (validateLogLevelAnnotation ?now ctx)"
  have "keeps (\<lambda>a. validateMaxUnavailableAnnotation ?now (validateLogLevelAnnotation ?now a))"
    by (rule keeps_comp [OF keeps_annotations(2,1)])
  then have s1: "same_but_status ctx ctx1" and o1: "others_kept ctx ctx1"
    and d1: "distinct (map cond_Type (general ctx1))"
    using tidy by (auto simp: keeps_def ctx1_def tidy_def Let_def)
  note f1 = same_frame [OF s1]
  have "\<forall>i\<in>set (referenced_inputs (clf_Spec (ctx_Forwarder ctx1))). receiver_present i"
    using wf by (auto simp: f1 well_formed_def Let_def referenced_inputs_def)
  then obtain c where c: "ValidatePermissions ?now (ve_get_sa env) (ve_review env) ctx1
        = Inr (set_status_condition ?now c ctx1)" "cond_Type c = ConditionTypeAuthorized"
      "cond_Status c = (if authorized_for (ve_get_sa env) (ve_review env) (ctx_Forwarder ctx1)
         then ConditionTrue else ConditionFalse)"
    using ValidatePermissions_run by blast
  define ctx2 where "ctx2 = set_status_condition ?now c ctx1"
  have s2: "same_but_status ctx ctx2" "others_kept ctx ctx2" "distinct (map cond_Type (general ctx2))"
    using keeps_set [of ?now c] s1 o1 d1 same_trans unfolding keeps_def ctx2_def others_kept_def Let_def
    by metis+
  note f2 = same_frame [OF s2(1)]
  have auth: "isAuthorized (general ctx2) \<longleftrightarrow> authorized_for (ve_get_sa env) (ve_review env) (ctx_Forwarder ctx)"
    using isAuthorized_set_status [OF d1 c(2), of ?now] c(3) authorized_for_cong [of "ctx_Forwarder ctx1" "ctx_Forwarder ctx"] f1
    by (simp add: ctx2_def)
  have found: "map_option cond_Status (find_condition (general ctx2) ConditionTypeAuthorized)
      = Some (if authorized_for (ve_get_sa env) (ve_review env) (ctx_Forwarder ctx) then ConditionTrue else ConditionFalse)"
    using find_SetCondition_same [of ?now "general ctx1" c] c(2,3) f1
      authorized_for_cong [of "ctx_Forwarder ctx1" "ctx_Forwarder ctx"]
    by (cases "find_condition (fst (SetCondition ?now (general ctx1) c)) ConditionTypeAuthorized")
      (simp_all add: ctx2_def set_status_condition_def verdict_def)
  let ?irs = "map (input_report ?now s m ?g) (spec_Inputs ?spec)"
  define ctx3 where "ctx3 = map_status (\<lambda>st. st\<lparr>status_InputConditions :=
      SetConditions ?now (status_InputConditions st) ?irs\<rparr>) ctx2"
  have r3: "inputs_Validate ?now ctx2 = Inr ctx3"
    using inputs_Validate_run [of ctx2 s m ?now] wf s m unfolding ctx3_def
    by (simp add: f2 well_formed_def Let_def)
  let ?ors = "map (output_report ?now (ve_output env) s m (spec_Pipelines ?spec)) (spec_Outputs ?spec)"
  define ctx4 where "ctx4 = map_status (\<lambda>st. st\<lparr>status_OutputConditions :=
      SetConditions ?now (status_OutputConditions (clf_Status (ctx_Forwarder ctx3))) ?ors\<rparr>) ctx3"
  have f3: "clf_Spec (ctx_Forwarder ctx3) = ?spec" "ctx_Secrets ctx3 = Some s" "ctx_ConfigMaps ctx3 = Some m"
    by (simp_all add: ctx3_def f2 s m)
  have ret: "\<forall>o'\<in>set (spec_Outputs ?spec). returns (output_messages (ve_output env) s m (spec_Pipelines ?spec) o')"
    using wf by (simp add: well_formed_def Let_def s m nil_map_def)
  have r4: "outputs_Validate ?now (ve_output env) ctx3 = Inr ctx4"
    using outputs_Validate_run [of ctx3 "ve_output env" ?now] ret unfolding ctx4_def
    by (simp add: f3 nil_map_def)
  define ctx5 where "ctx5 = filters_Validate ?now (ve_compiles env) (ve_filter_order env) (ve_label_order env) ctx4"
  obtain fcs where ctx5: "ctx5 = map_status (\<lambda>st. st\<lparr>status_FilterConditions := fcs\<rparr>) ctx4"
    using filters_Validate_status unfolding ctx5_def by blast
  let ?prs = "pipeline_reports ?now ?spec [] (spec_Pipelines ?spec)"
  define ctx6 where "ctx6 = map_status (\<lambda>st. st\<lparr>status_PipelineConditions :=
      SetConditions ?now (status_PipelineConditions (clf_Status (ctx_Forwarder ctx5))) ?prs\<rparr>) ctx5"
  have f5: "clf_Spec (ctx_Forwarder ctx5) = ?spec" by (simp add: ctx5 ctx4_def f3)
  have r6: "pipelines_Validate ?now ctx5 = Inr ctx6"
    using pipelines_Validate_run [of ctx5 ?now] wf unfolding ctx6_def
    by (simp add: f5 well_formed_def Let_def)
  have run: "ValidateClusterLogForwarder env ctx = Inr ctx6"
    using c(1) r3 r4 r6
    by (simp add: ValidateClusterLogForwarder_def Let_def ctx1_def [symmetric] ctx2_def [symmetric] ctx5_def [symmetric])
  let ?st = "clf_Status (ctx_Forwarder ctx)" and ?st6 = "clf_Status (ctx_Forwarder ctx6)"
  have same: "same_but_status ctx ctx6"
    unfolding ctx6_def ctx5 ctx4_def ctx3_def map_status_comp
    using same_trans [OF s2(1) same_map_status] by blast
  have st: "status_InputConditions ?st6 = SetConditions ?now (status_InputConditions ?st) ?irs"
    "status_OutputConditions ?st6 = SetConditions ?now (status_OutputConditions ?st) ?ors"
    "status_PipelineConditions ?st6 = SetConditions ?now (status_PipelineConditions ?st) ?prs"
    "status_FilterConditions ?st6 = status_FilterConditions (clf_Status (ctx_Forwarder ctx5))"
    "status_Conditions ?st6 = general ctx2"
    using s2(2) by (simp_all add: others_kept_def Let_def ctx6_def ctx5 ctx4_def ctx3_def)
  have names: "distinct (Inputs_Names (spec_Inputs ?spec))" "distinct (Outputs_Names (spec_Outputs ?spec))"
    "distinct (Filters_Names (spec_Filters ?spec))" "distinct (Pipelines_Names (spec_Pipelines ?spec))"
    "prune_blocks ?spec"
    using wf by (simp_all add: well_formed_def Let_def)
  have t: "mentions (status_InputConditions ?st) ConditionTypeValidInputPrefix (Inputs_Names (spec_Inputs ?spec))"
    "mentions (status_OutputConditions ?st) ConditionTypeValidOutputPrefix (Outputs_Names (spec_Outputs ?spec))"
    "mentions (status_FilterConditions ?st) ConditionTypeValidFilterPrefix (Filters_Names (spec_Filters ?spec))"
    "mentions (status_PipelineConditions ?st) ConditionTypeValidPipelinePrefix (Pipelines_Names (spec_Pipelines ?spec))"
    using tidy by (simp_all add: tidy_def Let_def)
  have pip: "isValid ConditionTypeValidPipelinePrefix (SetConditions ?now (status_PipelineConditions ?st) ?prs)
      (length (spec_Pipelines ?spec)) \<longleftrightarrow> (\<forall>p\<in>set (spec_Pipelines ?spec). pipeline_ok ?spec p)"
    by (rule pipelines_verdict [OF names(5,4)]) (use t(4) in \<open>simp_all add: mentions_def\<close>)
  have f4: "clf_Spec (ctx_Forwarder ctx4) = ?spec"
    "status_FilterConditions (clf_Status (ctx_Forwarder ctx4)) = status_FilterConditions ?st"
    using s2(2) by (simp_all add: ctx4_def ctx3_def f2 others_kept_def Let_def)
  have "isValid ConditionTypeValidFilterPrefix (status_FilterConditions (clf_Status (ctx_Forwarder ctx5)))
      (length (spec_Filters (clf_Spec (ctx_Forwarder ctx4))))
    \<longleftrightarrow> (\<forall>f\<in>set (spec_Filters (clf_Spec (ctx_Forwarder ctx4))). filter_ok (ve_compiles env) f)"
    unfolding ctx5_def
    by (rule filters_verdict; unfold f4; use names(3) ord t(3) in \<open>unfold orders_ok_def mentions_def, blast\<close>)
  note fil = this [unfolded f4]
  have nil: "nil_map (ctx_Secrets ctx) = s" "nil_map (ctx_ConfigMaps ctx) = m"
    by (simp_all add: nil_map_def s m)
  have "IsValidSpec (ctx_Forwarder ctx6) \<longleftrightarrow> forwarder_ok env ctx"
    unfolding IsValidSpec_def st same_frame(1) [OF same] forwarder_ok_def Let_def nil auth
      inputs_verdict [OF t(1) names(1)] outputs_verdict [OF t(2) names(2) ret] pip fil by blast
  with run same s2(3) st(5) found show ?thesis by metis
qed

text \<open>
  The verdict of the controller and the condition it leaves behind.
\<close>

lemma validateForwarder_run:
  assumes "well_formed env ctx" "orders_ok env ctx" "tidy (ctx_Forwarder ctx)"
    and "ctx_Secrets ctx = Some s" "ctx_ConfigMaps ctx = Some m"
  shows "\<exists>ctx'. validateForwarder env ctx = Inr (forwarder_ok env ctx, ctx') \<and> same_but_status ctx ctx'
    \<and> distinct (map cond_Type (general ctx'))
    \<and> map_option cond_Status (find_condition (general ctx') ConditionTypeValid)
      = Some (if forwarder_ok env ctx then ConditionTrue else ConditionFalse)
    \<and> map_option cond_Status (find_condition (general ctx') ConditionTypeAuthorized)
      = Some (if authorized_for (ve_get_sa env) (ve_review env) (ctx_Forwarder ctx) then ConditionTrue else ConditionFalse)"
proof -
  obtain ctx6 where run: "ValidateClusterLogForwarder env ctx = Inr ctx6" "same_but_status ctx ctx6"
      "distinct (map cond_Type (general ctx6))" "IsValidSpec (ctx_Forwarder ctx6) \<longleftrightarrow> forwarder_ok env ctx"
    and auth: "map_option cond_Status (find_condition (general ctx6) ConditionTypeAuthorized)
      = Some (if authorized_for (ve_get_sa env) (ve_review env) (ctx_Forwarder ctx) then ConditionTrue else ConditionFalse)"
    using ValidateClusterLogForwarder_run [OF assms] by blast
  obtain c where c: "c = (if \<not> forwarder_ok env ctx
      then NewCondition (ve_now env) ConditionTypeValid ConditionFalse ReasonValidationFailure
        ''one or more conditions [inputs, outputs, pipelines, filters] have failed validation''
      else NewCondition (ve_now env) ConditionTypeValid ConditionTrue ReasonValidationSuccess [])"
    by blast
  let ?ctx' = "set_status_condition (ve_now env) c ctx6"
  have res: "validateForwarder env ctx = Inr (forwarder_ok env ctx, ?ctx')"
    by (simp only: validateForwarder_def run(1) go_bind.simps Let_def run(4) c)
  have ty: "cond_Type c = ConditionTypeValid"
    and stt: "cond_Status c = (if forwarder_ok env ctx then ConditionTrue else ConditionFalse)"
    by (simp_all add: NewCondition_sel c)
  have gen: "general ?ctx' = fst (SetCondition (ve_now env) (general ctx6) c)"
    by (simp add: set_status_condition_def)
  have "map_option verdict (find_condition (general ?ctx') ConditionTypeValid) = Some (verdict c)"
    using find_SetCondition_same [of "ve_now env" "general ctx6" c] by (simp only: gen ty)
  then have valid: "map_option cond_Status (find_condition (general ?ctx') ConditionTypeValid) = Some (cond_Status c)"
    by (cases "find_condition (general ?ctx') ConditionTypeValid") (simp_all only: option.map verdict_def option.inject prod.inject, simp)
  have same: "same_but_status ctx ?ctx'" and d: "distinct (map cond_Type (general ?ctx'))"
    using keeps_set [of "ve_now env" c] run(2,3) same_trans by (auto simp: keeps_def)
  have other: "find_condition (general ?ctx') ConditionTypeAuthorized = find_condition (general ctx6) ConditionTypeAuthorized"
    unfolding gen by (rule find_SetCondition_other) (simp add: ty ConditionTypeAuthorized_def ConditionTypeValid_def)
  show ?thesis
    by (rule exI [of _ ?ctx'], intro conjI)
      (fact res, fact same, fact d, fact valid [unfolded stt], unfold other, fact auth)
qed

end
