(* ===== verification/Reconcile.thy ===== *)
theory Reconcile
  imports Collector_Deploy Validate_Forwarder
begin

text \<open>
  The controller (\<open>internal/controller/observability/clusterlogforwarder\_controller.go\<close>,
  \<open>load.go\<close>). One call of \<open>Reconcile\<close> is a trace of operations on the cluster and a result; the
  status update that the code defers is the last operation of the trace. A fault ends the trace where
  it occurs. What the controller reads is the record \<open>world\<close>: the API server's answers, and the
  orders in which Go ranges over sets and maps.
\<close>

section \<open>Conditions and reasons\<close>

definition ConditionTypeReady :: string where "ConditionTypeReady = ''Ready''"

definition ReasonDeploymentError :: string where "ReasonDeploymentError = ''DeploymentError''"

definition ReasonInitializationFailed :: string where
  "ReasonInitializationFailed = ''InitializationFailed''"

definition ReasonFailureToRemoveStaleWorkload :: string where
  "ReasonFailureToRemoveStaleWorkload = ''FailureToRemoveStaleWorkload''"

definition ReasonManagementStateUnmanaged :: string where
  "ReasonManagementStateUnmanaged = ''ManagementStateUnmanaged''"

definition ReasonReconciliationComplete :: string where
  "ReasonReconciliationComplete = ''ReconciliationComplete''"

definition ReasonUnknownState :: string where "ReasonUnknownState = ''UnknownState''"

section \<open>load.go\<close>

record world =
  w_cluster :: cluster
  w_validation :: validation_env
  w_forwarder :: "string \<Rightarrow> string \<Rightarrow> client_error + ClusterLogForwarder"
  w_secret :: "string \<Rightarrow> string \<Rightarrow> client_error + Secret"
  w_configmap :: "string \<Rightarrow> string \<Rightarrow> client_error + ConfigMap"
  w_input_order :: "string list"
  w_list :: "string set \<Rightarrow> string list"

text \<open>
  \<open>FetchSecrets\<close> and \<open>FetchConfigMaps\<close>: an object that is not found is left out, any other error
  ends the loop.
\<close>

fun fetch :: "(string \<Rightarrow> client_error + 'o) \<Rightarrow> string list \<Rightarrow> string + 'o list" where
  "fetch get [] = Inr []"
| "fetch get (n # ns) =
     (case get n of
        Inr x \<Rightarrow> (case fetch get ns of Inl e \<Rightarrow> Inl e | Inr xs \<Rightarrow> Inr (x # xs))
      | Inl (NotFound _) \<Rightarrow> fetch get ns
      | Inl (ClientError e) \<Rightarrow> Inl e)"

section \<open>clusterlogforwarder\_controller.go: MapSecrets, MapConfigMaps, initialize\<close>

definition by_name :: "('o \<Rightarrow> string) \<Rightarrow> (string \<rightharpoonup> 'o) \<Rightarrow> 'o list \<Rightarrow> (string \<rightharpoonup> 'o)" where
  "by_name name m xs = foldl (\<lambda>acc x. acc(name x \<mapsto> x)) m xs"

definition MapSecrets ::
  "world \<Rightarrow> string \<Rightarrow> InputSpec list \<Rightarrow> OutputSpec list \<Rightarrow> (string + Secrets) go" where
  "MapSecrets w namespace inputs outputs =
     go_bind (Outputs_SecretNames outputs)
       (\<lambda>ns. Inr (case fetch (w_secret w namespace) (w_list w (Inputs_SecretNames inputs \<union> ns)) of
                Inl e \<Rightarrow> Inl e
              | Inr secrets \<Rightarrow> Inr (by_name secret_Name Map.empty secrets)))"

definition MapConfigMaps ::
  "world \<Rightarrow> string \<Rightarrow> InputSpec list \<Rightarrow> OutputSpec list \<Rightarrow> string + ConfigMaps" where
  "MapConfigMaps w namespace inputs outputs =
     (case fetch (w_configmap w namespace) (w_list w (Inputs_ConfigmapNames inputs \<union> Outputs_ConfigmapNames outputs)) of
        Inl e \<Rightarrow> Inl e
      | Inr cms \<Rightarrow> Inr (by_name configmap_Name Map.empty cms))"

text \<open>
  The result is the error text with the forwarder as far as it was initialized, or the context. The
  lookup of the hosted cluster's version, whose result is passed to the workload only, is left out.
\<close>

definition load_context ::
  "world \<Rightarrow> ClusterLogForwarder \<Rightarrow> gen_options \<Rightarrow> ((ClusterLogForwarder \<times> string) + ForwarderContext) go" where
  "load_context w f options =
     (let ns = clf_Namespace f; spec = clf_Spec f
      in go_bind (MapSecrets w ns (spec_Inputs spec) (spec_Outputs spec))
          (\<lambda>r. Inr (case r of
             Inl e \<Rightarrow> Inl (f, e)
           | Inr secrets \<Rightarrow>
               (case MapConfigMaps w ns (spec_Inputs spec) (spec_Outputs spec) of
                  Inl e \<Rightarrow> Inl (f, e)
                | Inr cms \<Rightarrow>
                    Inr \<lparr>ctx_Forwarder = f,
                         ctx_Secrets = Some (by_name secret_Name secrets (case options of None \<Rightarrow> [] | Some gen \<Rightarrow> gen)),
                         ctx_ConfigMaps = Some cms, ctx_AdditionalContext = options\<rparr>))))"

definition initialize ::
  "world \<Rightarrow> ClusterLogForwarder \<Rightarrow> ((ClusterLogForwarder \<times> string) + ForwarderContext) go" where
  "initialize w forwarder =
     go_bind (initialize_forwarder (w_input_order w) forwarder None)
       (\<lambda>(f, options). load_context w f options)"

section \<open>clusterlogforwarder\_controller.go: Reconcile\<close>

definition removeStaleStatuses :: "ClusterLogForwarder \<Rightarrow> ClusterLogForwarder" where
  "removeStaleStatuses f =
     (let spec = clf_Spec f; st = clf_Status f
      in f\<lparr>clf_Status := st\<lparr>
           status_InputConditions := PruneConditions (status_InputConditions st)
             (Inputs_Names (spec_Inputs spec)) ConditionTypeValidInputPrefix,
           status_OutputConditions := PruneConditions (status_OutputConditions st)
             (Outputs_Names (spec_Outputs spec)) ConditionTypeValidOutputPrefix,
           status_FilterConditions := PruneConditions (status_FilterConditions st)
             (Filters_Names (spec_Filters spec)) ConditionTypeValidFilterPrefix,
           status_PipelineConditions := PruneConditions (status_PipelineConditions st)
             (Pipelines_Names (spec_Pipelines spec)) ConditionTypeValidPipelinePrefix\<rparr>\<rparr>)"

definition RemoveStaleWorkload :: "cluster \<Rightarrow> ClusterLogForwarder \<Rightarrow> unit action" where
  "RemoveStaleWorkload cl f =
     (if DeployAsDeployment f then RemoveDaemonset cl (clf_Namespace f) (clf_Name f)
      else RemoveDeployment cl (clf_Namespace f) (clf_Name f))"

definition cleanupClusterScopedResources :: "cluster \<Rightarrow> ClusterLogForwarder \<Rightarrow> unit action" where
  "cleanupClusterScopedResources cl f =
     perform_delete cl [] (Op_Delete_ClusterRoleBinding (MetricsAuthClusterRoleBinding (ResourceNames f)))"

datatype requeue = defaultRequeue | periodicRequeue

type_synonym reconcile_result = "cluster_op list \<times> (go_fault + (requeue \<times> string option))"

text \<open>The deferred \<open>updateStatus\<close>; its error is logged only.\<close>

definition updateStatus ::
  "time \<Rightarrow> ClusterLogForwarder \<Rightarrow> Condition \<Rightarrow> cluster_op" where
  "updateStatus now f ready =
     Op_Patch_Status (clf_Namespace f) (clf_Name f)
       ((clf_Status f)\<lparr>status_Conditions := fst (SetCondition now (status_Conditions (clf_Status f)) ready)\<rparr>)"

definition ready_condition :: "time \<Rightarrow> ConditionStatus \<Rightarrow> string \<Rightarrow> string \<Rightarrow> Condition" where
  "ready_condition now status reason message = NewCondition now ConditionTypeReady status reason message"

definition finish ::
  "time \<Rightarrow> ClusterLogForwarder \<Rightarrow> Condition \<Rightarrow> cluster_op list \<Rightarrow> requeue \<times> string option \<Rightarrow> reconcile_result" where
  "finish now f ready ops result = (ops @ [updateStatus now f ready], Inr result)"

text \<open>What follows a successful validation.\<close>

definition deploy :: "world \<Rightarrow> ForwarderContext \<Rightarrow> reconcile_result" where
  "deploy w ctx =
     (let now = ve_now (w_validation w); f = ctx_Forwarder ctx; cl = w_cluster w;
          failed = (\<lambda>reason message. ready_condition now ConditionFalse reason message)
      in case RemoveStaleWorkload cl f of
           (ops, Inl (Fault e)) \<Rightarrow> (ops, Inl e)
         | (ops, Inl (Failed e)) \<Rightarrow>
             finish now f (failed ReasonFailureToRemoveStaleWorkload e) ops (defaultRequeue, Some e)
         | (ops, Inr _) \<Rightarrow>
             (case ReconcileCollector cl ctx of
                (ops', Inl (Fault e)) \<Rightarrow> (ops @ ops', Inl e)
              | (ops', Inl (Failed e)) \<Rightarrow>
                  finish now f (failed ReasonDeploymentError e) (ops @ ops') (defaultRequeue, Some e)
              | (ops', Inr _) \<Rightarrow>
                  finish now f (ready_condition now ConditionTrue ReasonReconciliationComplete [])
                    (ops @ ops') (periodicRequeue, None)))"

text \<open>What follows a failed validation; an error of the removal is logged only.\<close>

definition undeploy :: "world \<Rightarrow> ForwarderContext \<Rightarrow> reconcile_result" where
  "undeploy w ctx =
     (let now = ve_now (w_validation w); f = ctx_Forwarder ctx; cl = w_cluster w;
          ready = ready_condition now ConditionFalse ReasonValidationFailure ''collector not ready'';
          ops = (if MustUndeployCollector (status_Conditions (clf_Status f))
                 then fst (if DeployAsDeployment f then RemoveDeployment cl (clf_Namespace f) (clf_Name f)
                           else RemoveDaemonset cl (clf_Namespace f) (clf_Name f))
                 else [])
      in finish now f ready ops (defaultRequeue, None))"

definition reconcile_managed :: "world \<Rightarrow> ClusterLogForwarder \<Rightarrow> reconcile_result" where
  "reconcile_managed w f =
     (let now = ve_now (w_validation w)
      in case initialize w f of
           Inl e \<Rightarrow> ([], Inl e)
         | Inr (Inl (f', e)) \<Rightarrow>
             finish now f' (ready_condition now ConditionFalse ReasonInitializationFailed e) [] (defaultRequeue, None)
         | Inr (Inr ctx) \<Rightarrow>
             (case validateForwarder (w_validation w) ctx of
                Inl e \<Rightarrow> ([], Inl e)
              | Inr (valid, ctx') \<Rightarrow> if \<not> valid then undeploy w ctx' else deploy w ctx'))"

definition Reconcile :: "world \<Rightarrow> string \<Rightarrow> string \<Rightarrow> reconcile_result" where
  "Reconcile w namespace name =
     (let now = ve_now (w_validation w)
      in case w_forwarder w namespace name of
           Inl (NotFound _) \<Rightarrow> ([], Inr (defaultRequeue, None))
         | Inl (ClientError e) \<Rightarrow> ([], Inr (defaultRequeue, Some e))
         | Inr forwarder \<Rightarrow>
             if clf_DeletionTimestamp forwarder \<noteq> None
             then (case cleanupClusterScopedResources (w_cluster w) forwarder of
                     (ops, Inl (Failed e)) \<Rightarrow> (ops, Inr (defaultRequeue, Some e))
                   | (ops, Inl (Fault e)) \<Rightarrow> (ops, Inl e)
                   | (ops, Inr _) \<Rightarrow> (ops, Inr (defaultRequeue, None)))
             else (let f = removeStaleStatuses forwarder
                   in if spec_ManagementState (clf_Spec f) = ManagementStateUnmanaged
                      then finish now f
                        (ready_condition now ConditionUnknown ReasonManagementStateUnmanaged
                           ''Updates are ignored when the managementState is Unmanaged'') [] (defaultRequeue, None)
                      else reconcile_managed w f))"

section \<open>What initialization keeps\<close>

lemma InitOutputs_keeps:
  assumes "InitOutputs g = Inr f"
  shows "clf_Namespace f = clf_Namespace g \<and> clf_Annotations f = clf_Annotations g \<and> clf_Status f = clf_Status g
    \<and> spec_Filters (clf_Spec f) = spec_Filters (clf_Spec g)
    \<and> spec_ServiceAccount (clf_Spec f) = spec_ServiceAccount (clf_Spec g)"
  using assms by (auto simp: InitOutputs_def go_bind_Inr_iff)

lemma MigrateInputs_keeps:
  assumes "MigrateInputs ks g opts = Inr (f, opts')"
  shows "clf_Namespace f = clf_Namespace g \<and> clf_Annotations f = clf_Annotations g \<and> clf_Status f = clf_Status g
    \<and> spec_Filters (clf_Spec f) = spec_Filters (clf_Spec g)
    \<and> spec_ServiceAccount (clf_Spec f) = spec_ServiceAccount (clf_Spec g)"
  using assms by (auto simp: MigrateInputs_def Let_def go_bind_Inr_iff split: prod.splits)

lemma Resources_keeps:
  "clf_Namespace (Resources g) = clf_Namespace g \<and> clf_Annotations (Resources g) = clf_Annotations g
    \<and> clf_Status (Resources g) = clf_Status g
    \<and> spec_Filters (clf_Spec (Resources g)) = spec_Filters (clf_Spec g)
    \<and> spec_ServiceAccount (clf_Spec (Resources g)) = spec_ServiceAccount (clf_Spec g)"
  by (simp add: Resources_def Let_def)

lemma initialize_keeps:
  assumes "initialize_forwarder ks g opts = Inr (f, opts')"
  shows "clf_Namespace f = clf_Namespace g \<and> clf_Annotations f = clf_Annotations g \<and> clf_Status f = clf_Status g
    \<and> spec_Filters (clf_Spec f) = spec_Filters (clf_Spec g)
    \<and> spec_ServiceAccount (clf_Spec f) = spec_ServiceAccount (clf_Spec g)"
proof -
  obtain h os where "MigrateInputs ks (Resources g) opts = Inr (h, os)" "InitOutputs h = Inr f"
    using assms by (auto simp: initialize_forwarder_def go_bind_Inr_iff)
  from MigrateInputs_keeps [OF this(1)] InitOutputs_keeps [OF this(2)] Resources_keeps [of g]
  show ?thesis by metis
qed

lemma init_output_Name: "init_output o' = Inr x \<Longrightarrow> output_Name x = output_Name o'"
  by (auto simp: init_output_def go_bind_Inr_iff split: if_splits)

lemma initialize_output_names:
  assumes "range_order (migrated_inputs (clf_Spec g)) ks" "initialize_forwarder ks g opts = Inr (f, opts')"
  shows "Outputs_Names (spec_Outputs (clf_Spec f)) = Outputs_Names (spec_Outputs (clf_Spec g))"
proof -
  have "list_all2 (\<lambda>o' x. init_output o' = Inr x) xs ys \<Longrightarrow> map output_Name ys = map output_Name xs" for xs ys
    by (induction rule: list_all2_induct) (auto dest: init_output_Name)
  with initialize_cases(4) [OF assms] show ?thesis by (simp add: Outputs_Names_def)
qed

lemma initialize_input_names:
  assumes ks: "range_order (migrated_inputs (clf_Spec g)) ks" and run: "initialize_forwarder ks g opts = Inr (f, opts')"
  shows "Inputs_Names (spec_Inputs (clf_Spec f)) = ks"
    "set (Inputs_Names (spec_Inputs (clf_Spec g))) \<subseteq> set ks"
proof -
  show "Inputs_Names (spec_Inputs (clf_Spec f)) = ks"
    using initialize_cases(1) [OF ks run] names_migrated_list [OF ks] by (simp add: Inputs_Names_def o_def)
  have "n \<in> dom (migrated_inputs (clf_Spec g))" if "n \<in> set (Inputs_Names (spec_Inputs (clf_Spec g)))" for n
  proof -
    have "Inputs_Map (spec_Inputs (clf_Spec g)) n \<noteq> None" using that by (simp add: inputs.to_map_None_iff)
    then show ?thesis by (auto simp: migrated_inputs_conv domIff)
  qed
  then show "set (Inputs_Names (spec_Inputs (clf_Spec g))) \<subseteq> set ks"
    using ks by (auto simp: range_order_def)
qed

lemma load_context_Inr:
  assumes "load_context w f opts = Inr (Inr ctx)"
  shows "ctx_Forwarder ctx = f \<and> ctx_AdditionalContext ctx = opts \<and> ctx_Secrets ctx \<noteq> None \<and> ctx_ConfigMaps ctx \<noteq> None"
  using assms
  by (cases "MapSecrets w (clf_Namespace f) (spec_Inputs (clf_Spec f)) (spec_Outputs (clf_Spec f))")
    (auto simp: load_context_def Let_def split: sum.splits)

lemma initialize_context:
  assumes "initialize w f = Inr (Inr ctx)"
  obtains opts where "initialize_forwarder (w_input_order w) f None = Inr (ctx_Forwarder ctx, opts)"
    "ctx_AdditionalContext ctx = opts" "ctx_Secrets ctx \<noteq> None" "ctx_ConfigMaps ctx \<noteq> None"
proof -
  from assms obtain f' opts where "initialize_forwarder (w_input_order w) f None = Inr (f', opts)"
    and "load_context w f' opts = Inr (Inr ctx)"
    by (cases "initialize_forwarder (w_input_order w) f None") (auto simp: initialize_def)
  with load_context_Inr [OF this(2)] that show thesis by blast
qed

text \<open>
  What the schema of the resource and the controller's own writes guarantee of a stored forwarder:
  list maps have unique keys, conditions have unique types, input types are known.
\<close>

definition admitted :: "ClusterLogForwarder \<Rightarrow> bool" where
  "admitted f \<longleftrightarrow>
     (let spec = clf_Spec f; st = clf_Status f
      in distinct (Inputs_Names (spec_Inputs spec)) \<and> distinct (Outputs_Names (spec_Outputs spec))
         \<and> distinct (Filters_Names (spec_Filters spec)) \<and> distinct (Pipelines_Names (spec_Pipelines spec))
         \<and> (\<forall>i\<in>set (spec_Inputs spec). known_input_type i)
         \<and> distinct (map cond_Type (status_Conditions st))
         \<and> distinct (map cond_Type (status_InputConditions st))
         \<and> distinct (map cond_Type (status_OutputConditions st))
         \<and> distinct (map cond_Type (status_FilterConditions st))
         \<and> distinct (map cond_Type (status_PipelineConditions st)))"

lemma mentions_pruned:
  assumes "distinct names" "distinct (map cond_Type cs)" "set names \<subseteq> set names'"
  shows "mentions (PruneConditions cs names p) p names'"
  using assms PruneConditions_distinct [OF assms(1,2)] PruneConditions_types [of cs names p]
  by (auto simp: mentions_def)

lemma removeStaleStatuses_spec [simp]:
  "clf_Spec (removeStaleStatuses f) = clf_Spec f" "clf_Name (removeStaleStatuses f) = clf_Name f"
  "clf_Namespace (removeStaleStatuses f) = clf_Namespace f"
  "clf_Annotations (removeStaleStatuses f) = clf_Annotations f"
  by (simp_all add: removeStaleStatuses_def Let_def)

text \<open>Pruning before initialization leaves a tidy status after it, although the input list grows.\<close>

lemma tidy_after_initialize:
  assumes adm: "admitted g" and ks: "range_order (migrated_inputs (clf_Spec g)) ks"
    and run: "initialize_forwarder ks (removeStaleStatuses g) opts = Inr (f, opts')"
  shows "tidy f"
proof -
  have ks': "range_order (migrated_inputs (clf_Spec (removeStaleStatuses g))) ks" using ks by simp
  have st: "clf_Status f = clf_Status (removeStaleStatuses g)" and fl: "spec_Filters (clf_Spec f) = spec_Filters (clf_Spec g)"
    using initialize_keeps [OF run] by simp_all
  have pl: "spec_Pipelines (clf_Spec f) = spec_Pipelines (clf_Spec g)" using initialize_cases(5) [OF ks' run] by simp
  have names: "Outputs_Names (spec_Outputs (clf_Spec f)) = Outputs_Names (spec_Outputs (clf_Spec g))"
    "set (Inputs_Names (spec_Inputs (clf_Spec g))) \<subseteq> set (Inputs_Names (spec_Inputs (clf_Spec f)))"
    using initialize_output_names [OF ks' run] initialize_input_names [OF ks' run] by simp_all
  show ?thesis
    using adm names unfolding tidy_def Let_def st fl pl removeStaleStatuses_def admitted_def
    by (simp add: mentions_pruned)
qed

lemma known_with_receiver_tls: "known_input_type (with_receiver_tls name i) = known_input_type i"
  by (simp add: known_input_type_def with_receiver_tls_def)

lemma reserved_known: "reserved_input n = Some i \<Longrightarrow> known_input_type i"
  by (auto simp: reserved_input_def known_input_type_def application_input_def infrastructure_input_def
      audit_input_def split: if_splits)

lemma initialized_inputs_known:
  assumes adm: "admitted g" and ks: "range_order (migrated_inputs (clf_Spec g)) ks"
    and run: "initialize_forwarder ks (removeStaleStatuses g) opts = Inr (f, opts')"
  shows "\<forall>i\<in>set (spec_Inputs (clf_Spec f)). known_input_type i \<and> receiver_present i"
proof
  fix i
  assume "i \<in> set (spec_Inputs (clf_Spec f))"
  moreover have ks': "range_order (migrated_inputs (clf_Spec (removeStaleStatuses g))) ks" using ks by simp
  ultimately obtain j where j: "j \<in> set (migrated_list (clf_Spec g) ks)" "i = with_receiver_tls (clf_Name g) j"
    using initialize_cases(1) [OF ks' run] by auto
  have "receiver_present j" using initialize_cases(3) [OF ks' run] j by simp
  moreover obtain n where "migrated_inputs (clf_Spec g) n = Some j"
    using j(1) set_migrated_list [OF ks] by (auto simp: ran_def)
  then have "known_input_type j"
    using adm reserved_known inputs.to_map_Some
    by (fastforce simp: migrated_inputs_conv admitted_def Let_def split: if_splits)
  ultimately show "known_input_type i \<and> receiver_present i"
    using j(2) by (simp add: known_with_receiver_tls receiver_present_with_receiver_tls)
qed

section \<open>Live forwarders\<close>

text \<open>A forwarder that is stored, not being deleted and managed.\<close>

definition live :: "world \<Rightarrow> string \<Rightarrow> string \<Rightarrow> ClusterLogForwarder \<Rightarrow> bool" where
  "live w namespace name f \<longleftrightarrow>
     w_forwarder w namespace name = Inr f \<and> clf_DeletionTimestamp f = None
     \<and> spec_ManagementState (clf_Spec f) \<noteq> ManagementStateUnmanaged"

text \<open>
  The orders of iteration are orders of what is iterated over, prune filters have their block, and
  no output makes the validator fault.
\<close>

definition readable :: "world \<Rightarrow> ClusterLogForwarder \<Rightarrow> ForwarderContext \<Rightarrow> bool" where
  "readable w f ctx \<longleftrightarrow>
     range_order (migrated_inputs (clf_Spec f)) (w_input_order w) \<and> orders_ok (w_validation w) ctx
     \<and> prune_blocks (clf_Spec (ctx_Forwarder ctx))
     \<and> (\<forall>o'\<in>set (spec_Outputs (clf_Spec (ctx_Forwarder ctx))).
          returns (output_messages (ve_output (w_validation w)) (nil_map (ctx_Secrets ctx))
            (nil_map (ctx_ConfigMaps ctx)) (spec_Pipelines (clf_Spec (ctx_Forwarder ctx))) o'))"

lemma Reconcile_live:
  "live w ns name f \<Longrightarrow> Reconcile w ns name = reconcile_managed w (removeStaleStatuses f)"
  by (simp add: Reconcile_def live_def Let_def)

lemma validation_decides:
  assumes adm: "admitted f" and init: "initialize w (removeStaleStatuses f) = Inr (Inr ctx)"
    and rd: "readable w f ctx"
  shows "\<exists>ctx'. validateForwarder (w_validation w) ctx = Inr (forwarder_ok (w_validation w) ctx, ctx')
    \<and> same_but_status ctx ctx' \<and> distinct (map cond_Type (general ctx'))
    \<and> map_option cond_Status (find_condition (general ctx') ConditionTypeValid)
      = Some (if forwarder_ok (w_validation w) ctx then ConditionTrue else ConditionFalse)
    \<and> map_option cond_Status (find_condition (general ctx') ConditionTypeAuthorized)
      = Some (if authorized_for (ve_get_sa (w_validation w)) (ve_review (w_validation w)) (ctx_Forwarder ctx)
          then ConditionTrue else ConditionFalse)"
proof -
  obtain opts where run: "initialize_forwarder (w_input_order w) (removeStaleStatuses f) None = Inr (ctx_Forwarder ctx, opts)"
    and maps: "ctx_Secrets ctx \<noteq> None" "ctx_ConfigMaps ctx \<noteq> None"
    using initialize_context [OF init] by metis
  have ks: "range_order (migrated_inputs (clf_Spec f)) (w_input_order w)" using rd by (simp add: readable_def)
  have ks': "range_order (migrated_inputs (clf_Spec (removeStaleStatuses f))) (w_input_order w)" using ks by simp
  have "spec_Filters (clf_Spec (ctx_Forwarder ctx)) = spec_Filters (clf_Spec f)"
    "spec_Pipelines (clf_Spec (ctx_Forwarder ctx)) = spec_Pipelines (clf_Spec f)"
    using initialize_keeps [OF run] initialize_cases(5) [OF ks' run] by simp_all
  moreover have "distinct (Inputs_Names (spec_Inputs (clf_Spec (ctx_Forwarder ctx))))"
    using initialize_input_names(1) [OF ks' run] ks by (simp add: range_order_def)
  ultimately have wf: "well_formed (w_validation w) ctx"
    using rd initialized_inputs_known [OF adm ks run] initialize_output_names [OF ks' run] adm
    by (simp add: well_formed_def Let_def readable_def admitted_def)
  obtain s m where "ctx_Secrets ctx = Some s" "ctx_ConfigMaps ctx = Some m" using maps by auto
  with validateForwarder_run [OF wf _ tidy_after_initialize [OF adm ks run]] rd show ?thesis
    by (simp add: readable_def)
qed

section \<open>Traces of the controller\<close>

lemma remove_workload_ops:
  "set (fst (remove_workload cl k ns n)) \<subseteq> {Op_Get_Workload k ns n, Op_Delete_Workload k ns n}"
  by (auto simp: remove_workload_def set_act_bind split: option.splits client_error.splits)

lemma remove_workload_no_fault: "snd (remove_workload cl k ns n) \<noteq> Inl (Fault e)"
  by (auto simp: remove_workload_def snd_act_bind perform_delete_def
      split: option.splits client_error.splits sum.splits)

lemma RemoveStaleWorkload_conv:
  "RemoveStaleWorkload cl f =
     remove_workload cl (if DeployAsDeployment f then DaemonSet else Deployment) (clf_Namespace f) (clf_Name f)"
  by (simp add: RemoveStaleWorkload_def RemoveDaemonset_def RemoveDeployment_def)

lemma undeploy_conv:
  "undeploy w ctx =
     (let f = ctx_Forwarder ctx
      in finish (ve_now (w_validation w)) f
           (ready_condition (ve_now (w_validation w)) ConditionFalse ReasonValidationFailure ''collector not ready'')
           (if MustUndeployCollector (status_Conditions (clf_Status f))
            then fst (remove_workload (w_cluster w) (deployed_as f) (clf_Namespace f) (clf_Name f)) else [])
           (defaultRequeue, None))"
  by (simp add: undeploy_def Let_def RemoveDaemonset_def RemoveDeployment_def deployed_as_def)

text \<open>The three ways a deployment can end.\<close>

lemma deploy_cases:
  obtains (fault) e ops where "deploy w ctx = (ops, Inl e)"
      "set ops \<subseteq> set (fst (RemoveStaleWorkload (w_cluster w) (ctx_Forwarder ctx)))
        \<union> set (fst (ReconcileCollector (w_cluster w) ctx))"
  | (failed) reason e ops where
      "deploy w ctx = finish (ve_now (w_validation w)) (ctx_Forwarder ctx)
         (ready_condition (ve_now (w_validation w)) ConditionFalse reason e) ops (defaultRequeue, Some e)"
      "set ops \<subseteq> set (fst (RemoveStaleWorkload (w_cluster w) (ctx_Forwarder ctx)))
        \<union> set (fst (ReconcileCollector (w_cluster w) ctx))"
  | (ok) "snd (ReconcileCollector (w_cluster w) ctx) = Inr ()"
      "deploy w ctx = finish (ve_now (w_validation w)) (ctx_Forwarder ctx)
         (ready_condition (ve_now (w_validation w)) ConditionTrue ReasonReconciliationComplete [])
         (fst (RemoveStaleWorkload (w_cluster w) (ctx_Forwarder ctx)) @ fst (ReconcileCollector (w_cluster w) ctx))
         (periodicRequeue, None)"
proof -
  obtain ops r where rm: "RemoveStaleWorkload (w_cluster w) (ctx_Forwarder ctx) = (ops, r)" by fastforce
  obtain ops' r' where rc: "ReconcileCollector (w_cluster w) ctx = (ops', r')" by fastforce
  note d = deploy_def [of w ctx] rm rc
  show thesis
  proof (cases r)
    case (Inl st)
    then show thesis
      using fault [of ops] failed [of ReasonFailureToRemoveStaleWorkload _ ops]
      by (cases st) (auto simp: d Let_def)
  next
    case r: (Inr u)
    show thesis
    proof (cases r')
      case (Inl st)
      with r show thesis
        using fault [of "ops @ ops'"] failed [of ReasonDeploymentError _ "ops @ ops'"]
        by (cases st) (auto simp: d Let_def)
    next
      case (Inr u')
      with r show thesis using ok by (simp add: d Let_def)
    qed
  qed
qed

lemma deployed_as_same: "same_but_status a b \<Longrightarrow> deployed_as (ctx_Forwarder b) = deployed_as (ctx_Forwarder a)"
  by (simp only: deployed_as_def DeployAsDeployment_def same_frame)

lemma deploy_ops_no_status:
  assumes "op \<in> set (fst (RemoveStaleWorkload cl f)) \<union> set (fst (ReconcileCollector cl ctx))"
  shows "op \<noteq> Op_Patch_Status m n st"
  using assms remove_workload_ops services_no_workload [of op cl ctx] setup_no_workload [of op cl ctx]
  unfolding RemoveStaleWorkload_conv ReconcileCollector_def Let_def Un_iff set_act_bind
  by (elim disjE exE conjE) (fastforce split: if_splits)+

text \<open>What a live forwarder's run comes to, once it is initialized.\<close>

lemma Reconcile_decided:
  assumes "live w ns name f" "admitted f" "initialize w (removeStaleStatuses f) = Inr (Inr ctx)" "readable w f ctx"
  obtains ctx' where
    "Reconcile w ns name = (if forwarder_ok (w_validation w) ctx then deploy w ctx' else undeploy w ctx')"
    "same_but_status ctx ctx'" "distinct (map cond_Type (general ctx'))"
    "map_option cond_Status (find_condition (general ctx') ConditionTypeValid)
      = Some (if forwarder_ok (w_validation w) ctx then ConditionTrue else ConditionFalse)"
    "map_option cond_Status (find_condition (general ctx') ConditionTypeAuthorized)
      = Some (if authorized_for (ve_get_sa (w_validation w)) (ve_review (w_validation w)) (ctx_Forwarder ctx)
          then ConditionTrue else ConditionFalse)"
proof -
  obtain ctx' where v: "validateForwarder (w_validation w) ctx = Inr (forwarder_ok (w_validation w) ctx, ctx')"
    and rest: "same_but_status ctx ctx'" "distinct (map cond_Type (general ctx'))"
    "map_option cond_Status (find_condition (general ctx') ConditionTypeValid)
      = Some (if forwarder_ok (w_validation w) ctx then ConditionTrue else ConditionFalse)"
    "map_option cond_Status (find_condition (general ctx') ConditionTypeAuthorized)
      = Some (if authorized_for (ve_get_sa (w_validation w)) (ve_review (w_validation w)) (ctx_Forwarder ctx)
          then ConditionTrue else ConditionFalse)"
    using validation_decides [OF assms(2-4)] by blast
  have "Reconcile w ns name = (if forwarder_ok (w_validation w) ctx then deploy w ctx' else undeploy w ctx')"
    by (simp add: Reconcile_live [OF assms(1)] reconcile_managed_def Let_def assms(3) v)
  with rest that show thesis by blast
qed

lemma undeploy_no_workload: "Op_Workload k m n h \<notin> set (fst (undeploy w ctx))"
  using remove_workload_ops [of "w_cluster w" "deployed_as (ctx_Forwarder ctx)"]
  by (auto simp: undeploy_conv Let_def finish_def updateStatus_def)

lemma Reconcile_not_initialized:
  assumes "live w ns name f" "\<forall>ctx. initialize w (removeStaleStatuses f) \<noteq> Inr (Inr ctx)"
  shows "Op_Workload k m n h \<notin> set (fst (Reconcile w ns name))"
  using assms(2)
  by (auto simp: Reconcile_live [OF assms(1)] reconcile_managed_def Let_def finish_def updateStatus_def
      split: sum.splits)

lemma Reconcile_succeeds:
  assumes "live w ns name f" "admitted f" "initialize w (removeStaleStatuses f) = Inr (Inr ctx)" "readable w f ctx"
    and ok: "forwarder_ok (w_validation w) ctx" and gen: "generous (w_cluster w)"
    and token: "returns (NeedServiceAccountToken (spec_Outputs (clf_Spec (ctx_Forwarder ctx))))"
    and present: "\<forall>i\<in>set (spec_Inputs (clf_Spec (ctx_Forwarder ctx))). receiver_present i"
  shows "\<exists>ops st h. Reconcile w ns name =
      (ops @ [Op_Patch_Status (clf_Namespace (ctx_Forwarder ctx)) (clf_Name (ctx_Forwarder ctx)) st],
       Inr (periodicRequeue, None))
    \<and> Op_Workload (deployed_as (ctx_Forwarder ctx)) (clf_Namespace (ctx_Forwarder ctx))
        (clf_Name (ctx_Forwarder ctx)) h \<in> set ops
    \<and> map_option cond_Status (find_condition (status_Conditions st) ConditionTypeReady) = Some ConditionTrue
    \<and> map_option cond_Status (find_condition (status_Conditions st) ConditionTypeValid) = Some ConditionTrue"
proof -
  obtain ctx' where run: "Reconcile w ns name = deploy w ctx'" and same: "same_but_status ctx ctx'"
    and valid: "map_option cond_Status (find_condition (general ctx') ConditionTypeValid) = Some ConditionTrue"
    using Reconcile_decided [OF assms(1-4)] ok by metis
  note fr = same_frame [OF same]
  have "ctx_Secrets ctx' \<noteq> None" using initialize_context [OF assms(3)] fr by metis
  with gen token present have rc: "snd (ReconcileCollector (w_cluster w) ctx') = Inr ()"
    by (intro ReconcileCollector_succeeds) (simp_all add: fr)
  then obtain h where h: "Op_Workload (deployed_as (ctx_Forwarder ctx)) (clf_Namespace (ctx_Forwarder ctx))
      (clf_Name (ctx_Forwarder ctx)) h \<in> set (fst (ReconcileCollector (w_cluster w) ctx'))"
    using ReconcileCollector_has_workload [OF rc] by (auto simp: fr deployed_as_same [OF same])
  have rm: "snd (RemoveStaleWorkload (w_cluster w) (ctx_Forwarder ctx')) = Inr ()"
    using gen by (auto simp: RemoveStaleWorkload_conv remove_workload_def generous_def act_bind_def perform_delete_def)
  let ?ready = "ready_condition (ve_now (w_validation w)) ConditionTrue ReasonReconciliationComplete []"
  let ?st = "(clf_Status (ctx_Forwarder ctx'))\<lparr>status_Conditions :=
      fst (SetCondition (ve_now (w_validation w)) (general ctx') ?ready)\<rparr>"
  have d: "deploy w ctx' = ((fst (RemoveStaleWorkload (w_cluster w) (ctx_Forwarder ctx'))
        @ fst (ReconcileCollector (w_cluster w) ctx'))
      @ [Op_Patch_Status (clf_Namespace (ctx_Forwarder ctx)) (clf_Name (ctx_Forwarder ctx)) ?st],
      Inr (periodicRequeue, None))"
    using rm rc by (cases "RemoveStaleWorkload (w_cluster w) (ctx_Forwarder ctx')"; cases "ReconcileCollector (w_cluster w) ctx'")
      (simp add: deploy_def Let_def finish_def updateStatus_def fr)
  have ty: "cond_Type ?ready = ConditionTypeReady" "cond_Status ?ready = ConditionTrue"
    by (simp_all add: ready_condition_def NewCondition_sel)
  have "map_option cond_Status (find_condition (status_Conditions ?st) ConditionTypeReady) = Some ConditionTrue"
    using find_SetCondition_same [of "ve_now (w_validation w)" "general ctx'" ?ready] ty
    by (cases "find_condition (status_Conditions ?st) ConditionTypeReady") (simp_all add: verdict_def)
  moreover have "find_condition (status_Conditions ?st) ConditionTypeValid = find_condition (general ctx') ConditionTypeValid"
    using find_SetCondition_other [of ConditionTypeValid ?ready "ve_now (w_validation w)" "general ctx'"] ty
    by (simp add: ConditionTypeReady_def ConditionTypeValid_def GroupName_def)
  ultimately show ?thesis using run d h valid
    by (intro exI [of _ "fst (RemoveStaleWorkload (w_cluster w) (ctx_Forwarder ctx'))
        @ fst (ReconcileCollector (w_cluster w) ctx')"] exI [of _ ?st] exI [of _ h]) simp
qed

section \<open>Properties\<close>

text \<open>
  C1. The operator starts or updates a collector only for a valid forwarder: a run that writes a
  workload has initialized the forwarder, and the initialized forwarder is authorized to collect
  every log type its pipelines need and all its inputs, outputs, filters and pipelines are valid.
\<close>

theorem Reconcile_deploys_only_valid:
  assumes "live w ns name f" "admitted f"
    and "\<forall>ctx. initialize w (removeStaleStatuses f) = Inr (Inr ctx) \<longrightarrow> readable w f ctx"
    and "Op_Workload k m n h \<in> set (fst (Reconcile w ns name))"
  shows "\<exists>ctx. initialize w (removeStaleStatuses f) = Inr (Inr ctx) \<and> forwarder_ok (w_validation w) ctx"
proof -
  obtain ctx where init: "initialize w (removeStaleStatuses f) = Inr (Inr ctx)"
    using Reconcile_not_initialized [OF assms(1)] assms(4) by blast
  from Reconcile_decided [OF assms(1,2) init] assms(3) init obtain ctx' where
    "Reconcile w ns name = (if forwarder_ok (w_validation w) ctx then deploy w ctx' else undeploy w ctx')"
    by metis
  with assms(4) init show ?thesis using undeploy_no_workload by (metis (full_types))
qed


text \<open>A world with one valid forwarder, and its context after initialization.\<close>

definition good_output :: "LokiTuningSpec option \<Rightarrow> OutputSpec" where
  "good_output tuning =
     OutputSpec_zero\<lparr>output_Name := ''loki'', output_Type := OutputTypeLokiStack,
       output_LokiStack := Some \<lparr>lokistack_Authentication = None,
         lokistack_Target = \<lparr>lstarget_Namespace = ''ns'', lstarget_Name = ''ls''\<rparr>,
         lokistack_Tuning = tuning, lokistack_LabelKeys = None, lokistack_DataModel = LokiStackDataModelNone\<rparr>\<rparr>"

definition good_spec :: ClusterLogForwarderSpec where
  "good_spec =
     sample_spec\<lparr>spec_Inputs := [], spec_Outputs := [good_output None],
       spec_Pipelines := [\<lparr>pipeline_Name = ''p'', pipeline_InputRefs = [''application''],
         pipeline_OutputRefs = [''loki''], pipeline_FilterRefs = []\<rparr>]\<rparr>"

definition good_forwarder :: ClusterLogForwarder where
  "good_forwarder = sample_forwarder\<lparr>clf_Spec := good_spec\<rparr>"

definition good_validation :: validation_env where
  "good_validation =
     \<lparr>ve_now = 7, ve_get_sa = \<lambda>n ns. Inr (ns, n), ve_review = only_application, ve_compiles = \<lambda>_. True,
      ve_output = sample_output_env, ve_filter_order = [], ve_label_order = \<lambda>_. []\<rparr>"

definition good_world :: world where
  "good_world =
     \<lparr>w_cluster = sample_cluster, w_validation = good_validation,
      w_forwarder = \<lambda>ns n. if ns = ''ns'' \<and> n = ''fwd'' then Inr good_forwarder else Inl (NotFound ''not found''),
      w_secret = \<lambda>ns n. Inl (NotFound n), w_configmap = \<lambda>ns n. Inl (NotFound n),
      w_input_order = [''application''], w_list = \<lambda>_. []\<rparr>"

definition good_context :: ForwarderContext where
  "good_context =
     \<lparr>ctx_Forwarder = good_forwarder\<lparr>clf_Spec := good_spec\<lparr>
        spec_Collector := Some (CollectorSpec_zero\<lparr>collector_Resources := Some default_resources\<rparr>),
        spec_Inputs := [application_input], spec_Outputs := [good_output (Some (default_max_write None))]\<rparr>\<rparr>,
      ctx_Secrets = Some Map.empty, ctx_ConfigMaps = Some Map.empty, ctx_AdditionalContext = None\<rparr>"

lemma good_migrated: "migrated_inputs good_spec = [''application'' \<mapsto> application_input]"
  by (rule ext) (simp add: migrated_inputs_conv good_spec_def pipeline_refs_def reserved_input_def Inputs_Map_def)

lemma good_stale: "removeStaleStatuses good_forwarder = good_forwarder"
  by (simp add: removeStaleStatuses_def Let_def good_forwarder_def sample_forwarder_def PruneConditions_def)

lemma good_forwarder_sel [simp]:
  "clf_Spec good_forwarder = good_spec" "clf_Name good_forwarder = ''fwd''" "clf_Namespace good_forwarder = ''ns''"
  "clf_DeletionTimestamp good_forwarder = None" "clf_Annotations good_forwarder = Map.empty"
  by (simp_all add: good_forwarder_def sample_forwarder_def)

lemma good_spec_sel [simp]:
  "spec_Inputs good_spec = []" "spec_Outputs good_spec = [good_output None]" "spec_Filters good_spec = []"
  "spec_ManagementState good_spec = ManagementStateManaged" "spec_Collector good_spec = None"
  "spec_ServiceAccount good_spec = \<lparr>sa_Name = ''collector''\<rparr>"
  by (simp_all add: good_spec_def sample_spec_def)

lemma good_output_sel [simp]:
  "output_Name (good_output t) = ''loki''" "output_Type (good_output t) = OutputTypeLokiStack"
  "output_TLS (good_output t) = None"
  by (simp_all add: good_output_def OutputSpec_zero_def)

lemma good_initialize_forwarder:
  "initialize_forwarder [''application''] good_forwarder None = Inr (ctx_Forwarder good_context, None)"
proof -
  have mig: "migrateInputReceiver application_input n os = Inr (application_input, os)" for n os
    by (simp add: migrateInputReceiver_def application_input_def)
  have out: "init_output (good_output None) = Inr (good_output (Some (default_max_write None)))"
    by (simp add: init_output_def) (simp add: good_output_def)
  have res: "Resources good_forwarder = good_forwarder\<lparr>clf_Spec := good_spec\<lparr>
      spec_Collector := Some (CollectorSpec_zero\<lparr>collector_Resources := Some default_resources\<rparr>)\<rparr>\<rparr>"
    by (simp add: Resources_def Let_def) (simp add: CollectorSpec_zero_def)
  have "MigrateInputs [''application''] (Resources good_forwarder) None =
      Inr ((Resources good_forwarder)\<lparr>clf_Spec := (clf_Spec (Resources good_forwarder))
        \<lparr>spec_Inputs := [application_input]\<rparr>\<rparr>, None)"
    by (simp add: MigrateInputs_def Let_def good_migrated mig)
  then show ?thesis
    by (simp add: initialize_forwarder_def InitOutputs_def out res good_context_def)
qed

lemma good_outputs_secrets: "Outputs_SecretNames [good_output t] = Inr {}"
  by (simp add: Outputs_SecretNames_def output_secret_names_def SecretReferences_def lokiStackKeys_def)
    (simp add: good_output_def lokiStackKeys_def)

lemma good_initialize: "initialize good_world (removeStaleStatuses good_forwarder) = Inr (Inr good_context)"
  unfolding initialize_def good_stale
  by (simp add: good_world_def good_initialize_forwarder load_context_def Let_def MapSecrets_def MapConfigMaps_def
      good_context_def good_outputs_secrets by_name_def)

lemma good_live: "live good_world ''ns'' ''fwd'' good_forwarder"
  by (simp add: live_def good_world_def)

lemma good_admitted: "admitted good_forwarder"
  by (simp add: admitted_def Let_def Inputs_Names_def Outputs_Names_def Filters_Names_def Pipelines_Names_def)
    (simp add: good_spec_def good_forwarder_def sample_forwarder_def)

lemma good_context_spec [simp]:
  "spec_Inputs (clf_Spec (ctx_Forwarder good_context)) = [application_input]"
  "spec_Outputs (clf_Spec (ctx_Forwarder good_context)) = [good_output (Some (default_max_write None))]"
  "spec_Filters (clf_Spec (ctx_Forwarder good_context)) = []"
  "spec_Pipelines (clf_Spec (ctx_Forwarder good_context)) = spec_Pipelines good_spec"
  "ctx_Secrets good_context = Some Map.empty" "ctx_ConfigMaps good_context = Some Map.empty"
  "ctx_AdditionalContext good_context = None"
  by (simp_all add: good_context_def)

lemma good_output_ok: "output_ok env s c (spec_Pipelines good_spec) (good_output t)"
  by (simp add: output_ok_def output_refs_def SecretReferencesAsValueReferences_def SecretReferences_def
      output_templates_def type_ok_def)
    (simp add: good_output_def lokiStackKeys_def good_spec_def OutputSpec_zero_def)

lemma good_readable: "readable good_world good_forwarder good_context"
proof -
  have m: "output_messages env s c (spec_Pipelines good_spec) (good_output t) = Inr []" for env s c t
    using good_output_ok by (simp only: output_messages_Nil)
  have o': "w_input_order good_world = [''application'']" by (simp add: good_world_def)
  show ?thesis
    unfolding readable_def o' good_forwarder_sel good_context_spec
  proof (intro conjI)
    show "range_order (migrated_inputs good_spec) [''application'']"
      by (simp add: good_migrated range_order_def)
    show "orders_ok (w_validation good_world) good_context"
      by (simp add: orders_ok_def FilterMap_def good_world_def good_validation_def range_order_def)
    show "prune_blocks (clf_Spec (ctx_Forwarder good_context))" by (simp add: prune_blocks_def)
  qed (simp only: list.set ball_simps m sum.disc simp_thms)
qed

lemma good_authorized: "authorized_for (\<lambda>n ns. Inr (ns, n)) only_application (ctx_Forwarder good_context)"
proof -
  have n: "needs_permission (clf_Spec (ctx_Forwarder good_context)) t \<longleftrightarrow> t = ''application''" for t
  proof -
    have "pipeline_refs (clf_Spec (ctx_Forwarder good_context)) = {''application''}"
      unfolding pipeline_refs_def good_context_spec by (simp add: good_spec_def)
    moreover have "set (referenced_inputs (clf_Spec (ctx_Forwarder good_context))) \<subseteq> {application_input}"
      unfolding referenced_inputs_def good_context_spec by auto
    moreover have "collected_types application_input = {''application''}"
      by (simp add: collected_types_def application_input_def)
    ultimately show ?thesis unfolding needs_permission_def by auto
  qed
  show ?thesis
    unfolding authorized_for_def n
    by (simp add: permitted_def only_application_def createSubjectAccessReview_def HasPrefix_def)
qed

lemma good_ok: "forwarder_ok (w_validation good_world) good_context"
proof -
  have "input_ok Map.empty Map.empty None application_input"
    by (simp add: input_ok_def application_input_def globs_ok_def)
  moreover have "pipeline_ok (clf_Spec (ctx_Forwarder good_context)) p" if "p \<in> set (spec_Pipelines good_spec)" for p
    using that by (simp add: good_spec_def pipeline_ok_def refs_resolve_def gcl_keeps_host_name_def Inputs_Names_def
        Outputs_Names_def) (simp add: application_input_def)
  ultimately show ?thesis
    using good_authorized good_output_ok
    by (simp add: forwarder_ok_def Let_def good_world_def good_validation_def nil_map_def)
qed

lemma good_kind:
  "deployed_as (ctx_Forwarder good_context) = DaemonSet" "clf_Namespace (ctx_Forwarder good_context) = ''ns''"
  "clf_Name (ctx_Forwarder good_context) = ''fwd''"
  by (simp_all add: deployed_as_def DeployAsDeployment_def good_context_def)

lemma good_deployable:
  "generous (w_cluster good_world)"
  "returns (NeedServiceAccountToken (spec_Outputs (clf_Spec (ctx_Forwarder good_context))))"
  "\<forall>i\<in>set (spec_Inputs (clf_Spec (ctx_Forwarder good_context))). receiver_present i"
  by (simp_all add: good_world_def sample_generous needsServiceAccountToken_def getOutputBearerToken_def
      receiver_present_def) (simp_all add: application_input_def good_output_def)


theorem Reconcile_deploys_only_valid_witness:
  "\<exists>h. Op_Workload DaemonSet ''ns'' ''fwd'' h \<in> set (fst (Reconcile good_world ''ns'' ''fwd''))
     \<and> (\<exists>ctx. initialize good_world (removeStaleStatuses good_forwarder) = Inr (Inr ctx)
          \<and> forwarder_ok (w_validation good_world) ctx)"
proof -
  obtain h where h: "Op_Workload DaemonSet ''ns'' ''fwd'' h \<in> set (fst (Reconcile good_world ''ns'' ''fwd''))"
    using Reconcile_succeeds [OF good_live good_admitted good_initialize good_readable good_ok good_deployable]
    unfolding good_kind by fastforce
  have "\<forall>ctx. initialize good_world (removeStaleStatuses good_forwarder) = Inr (Inr ctx)
      \<longrightarrow> readable good_world good_forwarder ctx"
    using good_readable by (simp add: good_initialize)
  from Reconcile_deploys_only_valid [OF good_live good_admitted this h] h show ?thesis by blast
qed

lemma ready_status:
  assumes "cond_Type c = ConditionTypeReady"
  shows "map_option cond_Status (find_condition (fst (SetCondition now cs c)) ConditionTypeReady) = Some (cond_Status c)"
  using find_SetCondition_same [of now cs c] assms
  by (cases "find_condition (fst (SetCondition now cs c)) ConditionTypeReady") (simp_all add: verdict_def)

lemma ready_condition_sel [simp]:
  "cond_Type (ready_condition now s r m) = ConditionTypeReady" "cond_Status (ready_condition now s r m) = s"
  by (simp_all add: ready_condition_def NewCondition_sel)

text \<open>
  C3. When a forwarder is not authorized, its collector is taken down: the run removes the workload of
  the kind the forwarder is deployed as, touches nothing else but the status, which reports \<open>Ready\<close> and
  \<open>Authorized\<close> as false, and returns no error and no requeue, even when the removal was refused.
\<close>

theorem Reconcile_unauthorized_undeploys:
  assumes "live w ns name f" "admitted f" "initialize w (removeStaleStatuses f) = Inr (Inr ctx)" "readable w f ctx"
    and deny: "\<not> authorized_for (ve_get_sa (w_validation w)) (ve_review (w_validation w)) (ctx_Forwarder ctx)"
  shows "\<exists>st. Reconcile w ns name =
      (fst (remove_workload (w_cluster w) (deployed_as (ctx_Forwarder ctx))
          (clf_Namespace (ctx_Forwarder ctx)) (clf_Name (ctx_Forwarder ctx)))
        @ [Op_Patch_Status (clf_Namespace (ctx_Forwarder ctx)) (clf_Name (ctx_Forwarder ctx)) st],
       Inr (defaultRequeue, None))
    \<and> map_option cond_Status (find_condition (status_Conditions st) ConditionTypeReady) = Some ConditionFalse
    \<and> map_option cond_Status (find_condition (status_Conditions st) ConditionTypeAuthorized) = Some ConditionFalse"
proof -
  have "\<not> forwarder_ok (w_validation w) ctx" using deny by (simp add: forwarder_ok_def Let_def)
  then obtain ctx' where run: "Reconcile w ns name = undeploy w ctx'" and same: "same_but_status ctx ctx'"
    and d: "distinct (map cond_Type (general ctx'))"
    and auth: "map_option cond_Status (find_condition (general ctx') ConditionTypeAuthorized) = Some ConditionFalse"
    using Reconcile_decided [OF assms(1-4)] deny by metis
  note fr = same_frame [OF same]
  let ?now = "ve_now (w_validation w)"
  let ?ready = "ready_condition ?now ConditionFalse ReasonValidationFailure ''collector not ready''"
  let ?st = "(clf_Status (ctx_Forwarder ctx'))\<lparr>status_Conditions := fst (SetCondition ?now (general ctx') ?ready)\<rparr>"
  have "MustUndeployCollector (general ctx')" using MustUndeploy_find [OF d] auth by simp
  then have "Reconcile w ns name =
      (fst (remove_workload (w_cluster w) (deployed_as (ctx_Forwarder ctx))
          (clf_Namespace (ctx_Forwarder ctx)) (clf_Name (ctx_Forwarder ctx)))
        @ [Op_Patch_Status (clf_Namespace (ctx_Forwarder ctx)) (clf_Name (ctx_Forwarder ctx)) ?st],
       Inr (defaultRequeue, None))"
    by (simp add: run undeploy_conv Let_def finish_def updateStatus_def fr deployed_as_same [OF same])
  moreover have "map_option cond_Status (find_condition (status_Conditions ?st) ConditionTypeReady) = Some ConditionFalse"
    by (simp add: ready_status)
  moreover have "find_condition (status_Conditions ?st) ConditionTypeAuthorized = find_condition (general ctx') ConditionTypeAuthorized"
    using find_SetCondition_other [of ConditionTypeAuthorized ?ready ?now "general ctx'"]
    by (simp add: ConditionTypeReady_def ConditionTypeAuthorized_def GroupName_def)
  ultimately show ?thesis using auth by (intro exI [of _ ?st]) (simp only: simp_thms)
qed

definition bad_world :: world where
  "bad_world = good_world\<lparr>w_validation := good_validation\<lparr>ve_review := \<lambda>_. Inr False\<rparr>,
     w_cluster := sample_cluster\<lparr>cl_answer := \<lambda>_. Some (ClientError ''refused'')\<rparr>\<rparr>"

lemma initialize_other_cluster: "initialize (w\<lparr>w_validation := v, w_cluster := c\<rparr>) f = initialize w f"
proof -
  have ms: "MapSecrets (w\<lparr>w_validation := v, w_cluster := c\<rparr>) = MapSecrets w"
    by (intro ext) (simp add: MapSecrets_def)
  have mc: "MapConfigMaps (w\<lparr>w_validation := v, w_cluster := c\<rparr>) = MapConfigMaps w"
    by (intro ext) (simp add: MapConfigMaps_def)
  have "load_context (w\<lparr>w_validation := v, w_cluster := c\<rparr>) = load_context w"
    by (intro ext) (simp only: load_context_def ms mc)
  then show ?thesis by (simp add: initialize_def)
qed

theorem Reconcile_unauthorized_undeploys_witness:
  "\<exists>st. Reconcile bad_world ''ns'' ''fwd'' =
     ([Op_Get_Workload DaemonSet ''ns'' ''fwd'', Op_Patch_Status ''ns'' ''fwd'' st], Inr (defaultRequeue, None))"
proof -
  have l: "live bad_world ''ns'' ''fwd'' good_forwarder" by (simp add: live_def bad_world_def good_world_def)
  have i: "initialize bad_world (removeStaleStatuses good_forwarder) = Inr (Inr good_context)"
    using good_initialize by (simp add: bad_world_def initialize_other_cluster)
  have r: "readable bad_world good_forwarder good_context"
    using good_readable by (simp add: readable_def orders_ok_def bad_world_def good_validation_def good_world_def)
  have "needs_permission (clf_Spec (ctx_Forwarder good_context)) ''application''"
    by (simp add: needs_permission_def pipeline_refs_def) (simp add: good_spec_def)
  then have a: "\<not> authorized_for (ve_get_sa (w_validation bad_world)) (ve_review (w_validation bad_world)) (ctx_Forwarder good_context)"
    by (auto simp: authorized_for_def bad_world_def good_validation_def permitted_def)
  have "fst (remove_workload (w_cluster bad_world) DaemonSet ''ns'' ''fwd'') = [Op_Get_Workload DaemonSet ''ns'' ''fwd'']"
    by (simp add: remove_workload_def bad_world_def sample_cluster_def)
  with Reconcile_unauthorized_undeploys [OF l good_admitted i r a] show ?thesis unfolding good_kind by auto
qed

lemma deploy_reports:
  assumes "deploy w ctx = (ops, Inr (rq, err))"
  shows "\<exists>ops' st. ops = ops' @ [Op_Patch_Status (clf_Namespace (ctx_Forwarder ctx)) (clf_Name (ctx_Forwarder ctx)) st]
    \<and> (\<forall>m n t. Op_Patch_Status m n t \<notin> set ops')
    \<and> map_option cond_Status (find_condition (status_Conditions st) ConditionTypeReady)
      = Some (if rq = periodicRequeue then ConditionTrue else ConditionFalse)
    \<and> (rq = periodicRequeue \<longrightarrow> err = None)"
proof -
  have none: "Op_Patch_Status m n t \<notin> set xs"
    if "set xs \<subseteq> set (fst (RemoveStaleWorkload (w_cluster w) (ctx_Forwarder ctx)))
        \<union> set (fst (ReconcileCollector (w_cluster w) ctx))" for xs m n t
    using that deploy_ops_no_status [of "Op_Patch_Status m n t" "w_cluster w" "ctx_Forwarder ctx" ctx m n t] by blast
  show ?thesis
  proof (cases rule: deploy_cases [of w ctx])
    case (failed reason e ops1)
    with assms none [of ops1] show ?thesis by (auto simp: finish_def updateStatus_def ready_status simp del: map_option_eq_Some)
  next
    case ok
    have "set (fst (RemoveStaleWorkload (w_cluster w) (ctx_Forwarder ctx)) @ fst (ReconcileCollector (w_cluster w) ctx))
      \<subseteq> set (fst (RemoveStaleWorkload (w_cluster w) (ctx_Forwarder ctx)))
        \<union> set (fst (ReconcileCollector (w_cluster w) ctx))" by simp
    note n = none [OF this]
    from ok assms have ops: "ops = (fst (RemoveStaleWorkload (w_cluster w) (ctx_Forwarder ctx))
        @ fst (ReconcileCollector (w_cluster w) ctx)) @ [updateStatus (ve_now (w_validation w)) (ctx_Forwarder ctx)
         (ready_condition (ve_now (w_validation w)) ConditionTrue ReasonReconciliationComplete [])]"
      and r: "rq = periodicRequeue" "err = None" by (simp_all add: finish_def)
    show ?thesis unfolding ops using n r
      by (intro exI [of _ "fst (RemoveStaleWorkload (w_cluster w) (ctx_Forwarder ctx))
        @ fst (ReconcileCollector (w_cluster w) ctx)"])
        (simp add: updateStatus_def ready_status del: map_option_eq_Some)
  qed (use assms in simp)
qed

lemma undeploy_reports:
  "\<exists>ops' st. undeploy w ctx =
      (ops' @ [Op_Patch_Status (clf_Namespace (ctx_Forwarder ctx)) (clf_Name (ctx_Forwarder ctx)) st],
       Inr (defaultRequeue, None))
    \<and> (\<forall>m n t. Op_Patch_Status m n t \<notin> set ops')
    \<and> map_option cond_Status (find_condition (status_Conditions st) ConditionTypeReady) = Some ConditionFalse"
proof -
  have "Op_Patch_Status m n t \<notin> set (fst (remove_workload cl k a b))" for m n t cl k a b
    using remove_workload_ops [of cl k a b] by auto
  then show ?thesis
    by (auto simp: undeploy_conv Let_def finish_def updateStatus_def ready_status simp del: map_option_eq_Some)
qed

text \<open>
  C4. Every run on a live forwarder that returns reports once and last: its trace ends with the one
  status update, whose \<open>Ready\<close> condition is true exactly when the run asks to be repeated
  periodically, which it does only without an error.
\<close>

theorem Reconcile_reports_status:
  assumes "live w ns name f" "Reconcile w ns name = (ops, Inr (rq, err))"
  shows "\<exists>ops' m n st. ops = ops' @ [Op_Patch_Status m n st]
    \<and> (\<forall>m n t. Op_Patch_Status m n t \<notin> set ops')
    \<and> map_option cond_Status (find_condition (status_Conditions st) ConditionTypeReady)
      = Some (if rq = periodicRequeue then ConditionTrue else ConditionFalse)
    \<and> (rq = periodicRequeue \<longrightarrow> err = None)"
proof -
  let ?now = "ve_now (w_validation w)"
  from assms have run: "reconcile_managed w (removeStaleStatuses f) = (ops, Inr (rq, err))"
    by (simp add: Reconcile_live)
  show ?thesis
  proof (cases "initialize w (removeStaleStatuses f)")
    case (Inl e)
    with run show ?thesis by (simp add: reconcile_managed_def Let_def)
  next
    case i: (Inr r)
    show ?thesis
    proof (cases r)
      case (Inl fe)
      with i run show ?thesis
        by (cases fe) (auto simp: reconcile_managed_def Let_def finish_def updateStatus_def ready_status simp del: map_option_eq_Some)
    next
      case (Inr ctx)
      with i run obtain valid ctx' where "(if \<not> valid then undeploy w ctx' else deploy w ctx') = (ops, Inr (rq, err))"
        by (auto simp: reconcile_managed_def Let_def split: sum.splits)
      then consider "deploy w ctx' = (ops, Inr (rq, err))" | "undeploy w ctx' = (ops, Inr (rq, err))"
        by (cases valid) simp_all
      then show ?thesis
      proof cases
        case 1
        from deploy_reports [OF this] show ?thesis by blast
      next
        case 2
        with undeploy_reports [of w ctx'] show ?thesis by (auto simp del: map_option_eq_Some)
      qed
    qed
  qed
qed

theorem Reconcile_reports_status_witness:
  "\<exists>ops' m n st. fst (Reconcile good_world ''ns'' ''fwd'') = ops' @ [Op_Patch_Status m n st]
    \<and> map_option cond_Status (find_condition (status_Conditions st) ConditionTypeReady) = Some ConditionTrue"
proof -
  obtain ops where "Reconcile good_world ''ns'' ''fwd'' = (ops, Inr (periodicRequeue, None))"
    using Reconcile_succeeds [OF good_live good_admitted good_initialize good_readable good_ok good_deployable] by blast
  with Reconcile_reports_status [OF good_live this] show ?thesis by fastforce
qed

text \<open>
  C5. A forwarder that is absent, unmanaged or being deleted keeps its workloads as they are: the only
  operations of a run are the status update of an unmanaged forwarder and the removal of the
  cluster-scoped role binding of one that is being deleted.
\<close>

theorem Reconcile_not_live:
  assumes "\<And>f. \<not> live w ns name f"
  shows "set (fst (Reconcile w ns name)) \<subseteq>
    (case w_forwarder w ns name of
       Inl _ \<Rightarrow> {}
     | Inr f \<Rightarrow>
         if clf_DeletionTimestamp f \<noteq> None
         then {Op_Delete_ClusterRoleBinding (MetricsAuthClusterRoleBinding (ResourceNames f))}
         else {updateStatus (ve_now (w_validation w)) (removeStaleStatuses f)
                 (ready_condition (ve_now (w_validation w)) ConditionUnknown ReasonManagementStateUnmanaged
                    ''Updates are ignored when the managementState is Unmanaged'')})"
proof (cases "w_forwarder w ns name")
  case (Inl e)
  then show ?thesis by (cases e) (simp_all add: Reconcile_def)
next
  case (Inr f)
  show ?thesis
  proof (cases "clf_DeletionTimestamp f")
    case None
    with Inr assms [of f] show ?thesis by (simp add: Reconcile_def Let_def live_def finish_def)
  next
    case (Some t)
    have "fst (cleanupClusterScopedResources (w_cluster w) f)
        = [Op_Delete_ClusterRoleBinding (MetricsAuthClusterRoleBinding (ResourceNames f))]"
      by (simp add: cleanupClusterScopedResources_def)
    with Inr Some show ?thesis
      by (cases "cleanupClusterScopedResources (w_cluster w) f")
        (auto simp: Reconcile_def split: sum.splits stop.splits)
  qed
qed

theorem Reconcile_not_live_witness:
  "set (fst (Reconcile good_world ''ns'' ''other'')) = {}"
proof -
  have "w_forwarder good_world ''ns'' ''other'' = Inl (NotFound ''not found'')" by (simp add: good_world_def)
  with Reconcile_not_live [of good_world "''ns''" "''other''"] show ?thesis by (simp add: live_def)
qed

end
