(* ===== verification/Vector_Api.thy ===== *)
theory Vector_Api
  imports Vrl_Paths
begin

text \<open>
  The collector's configuration as the generator builds it (\<open>internal/generator/vector/api\<close>):
  the transforms, sources and sinks with the fields the operator sets, the maps from component
  identifiers to them, and \<open>normalize\<close>, which every VRL text goes through.

  A struct is a record, an interface value a datatype over the structs that implement it. A
  factory returns an interface that may be nil, and a pointer inside a non-nil interface may be
  nil as well: \<open>TRemap None\<close> is such a typed nil, which a comparison with \<open>nil\<close> does not find.
  Each constructor sorts its inputs, as \<open>sort.Strings\<close> does in each \<open>New...\<close>. The functions
  \<open>UnmarshalTOML\<close> are left out; only the tests read configurations.
\<close>

section \<open>Texts\<close>

definition text_lines :: "string list \<Rightarrow> string" where
  "text_lines ls = Join ls [newline]"

definition Repeat :: "string \<Rightarrow> nat \<Rightarrow> string" where
  "Repeat s n = concat (replicate n s)"

text \<open>
  \<open>normalize\<close> of \<open>remap.go\<close>. The loop carries the indentation; the line break after a line is
  written when the line is not blank and not the last chunk.
\<close>

definition closes_block :: "string \<Rightarrow> bool" where
  "closes_block raw = (HasPrefix raw ''}'' \<or> HasPrefix raw '')'' \<or> HasPrefix raw '']'')"

definition opens_block :: "string \<Rightarrow> bool" where
  "opens_block raw = (HasSuffix raw ''{'' \<or> HasSuffix raw ''('' \<or> HasSuffix raw ''['')"

definition indent :: "nat \<Rightarrow> string \<Rightarrow> string" where
  "indent count content = Repeat '' '' count @ content"

fun normalize_chunks :: "nat \<Rightarrow> string list \<Rightarrow> string" where
  "normalize_chunks indentCount [] = []"
| "normalize_chunks indentCount (chunk # chunks) =
     (let raw = TrimSpace chunk;
          indent1 = (if closes_block raw then indentCount - 2 else indentCount);
          writeLine = TrimSpace raw \<noteq> [];
          line = (if writeLine then indent indent1 raw else []);
          indent2 = (if opens_block raw then indent1 + 2 else indent1);
          break = (if writeLine \<and> chunks \<noteq> [] then [newline] else [])
      in line @ break @ normalize_chunks indent2 chunks)"

definition normalize :: "string \<Rightarrow> string" where
  "normalize s = normalize_chunks 0 (Split (TrimSpace s) newline)"

section \<open>Transforms (api/transforms)\<close>

record Remap =
  remap_Inputs :: "string list"
  remap_Source :: string

record FilterTransform =
  filtert_Inputs :: "string list"
  filtert_Condition :: string

record Throttle =
  throttle_Inputs :: "string list"
  throttle_WindowSecs :: nat
  throttle_Threshold :: nat
  throttle_KeyField :: string

record Route =
  route_Inputs :: "string list"
  route_Routes :: "string \<rightharpoonup> string"

record Metric =
  metric_Field :: string
  metric_Kind :: string
  metric_Name :: string
  metric_Namespace :: string
  metric_Tags :: "string \<rightharpoonup> string"
  metric_Type :: string

record LogToMetric =
  ltm_Inputs :: "string list"
  ltm_Metrics :: "Metric list"

record MergeStrategies =
  merge_Resource :: string
  merge_LogRecords :: string

record Reduce =
  reduce_Inputs :: "string list"
  reduce_ExpireAfterMs :: nat
  reduce_MaxEvents :: nat
  reduce_GroupBy :: "string list"
  reduce_MergeStrategies :: "MergeStrategies option"

record DetectExceptions =
  detect_Inputs :: "string list"
  detect_Languages :: "string list"
  detect_GroupBy :: "string list"
  detect_ExpireAfterMs :: nat
  detect_MultilineFlushIntervalMs :: nat
  detect_MessageKey :: string

datatype Transform =
    TRemap "Remap option"
  | TFilter FilterTransform
  | TThrottle Throttle
  | TRoute Route
  | TLogToMetric LogToMetric
  | TReduce Reduce
  | TDetectExceptions DetectExceptions

fun transform_inputs :: "Transform \<Rightarrow> string list" where
  "transform_inputs (TRemap None) = []"
| "transform_inputs (TRemap (Some r)) = remap_Inputs r"
| "transform_inputs (TFilter f) = filtert_Inputs f"
| "transform_inputs (TThrottle t) = throttle_Inputs t"
| "transform_inputs (TRoute r) = route_Inputs r"
| "transform_inputs (TLogToMetric m) = ltm_Inputs m"
| "transform_inputs (TReduce r) = reduce_Inputs r"
| "transform_inputs (TDetectExceptions d) = detect_Inputs d"

definition NewRemap :: "string \<Rightarrow> string list \<Rightarrow> Transform" where
  "NewRemap source inputs =
     TRemap (Some \<lparr>remap_Inputs = sort inputs, remap_Source = normalize source\<rparr>)"

definition NewFilterTransform :: "string \<Rightarrow> string list \<Rightarrow> Transform" where
  "NewFilterTransform source inputs =
     TFilter \<lparr>filtert_Inputs = sort inputs, filtert_Condition = source\<rparr>"

definition NewThrottleTransform :: "(Throttle \<Rightarrow> Throttle) \<Rightarrow> string list \<Rightarrow> Transform" where
  "NewThrottleTransform init inputs =
     TThrottle (init \<lparr>throttle_Inputs = sort inputs, throttle_WindowSecs = 0,
                     throttle_Threshold = 0, throttle_KeyField = []\<rparr>)"

definition NewRoute :: "(Route \<Rightarrow> Route) \<Rightarrow> string list \<Rightarrow> Transform" where
  "NewRoute init inputs =
     TRoute (init \<lparr>route_Inputs = sort inputs, route_Routes = Map.empty\<rparr>)"

definition Unmatched :: string where
  "Unmatched = ''unmatched''"

definition UnmatchedRoute :: "string \<Rightarrow> string" where
  "UnmatchedRoute baseId = baseId @ ''._'' @ Unmatched"

definition NewLogToMetric :: "string \<Rightarrow> string \<Rightarrow> (string \<rightharpoonup> string) \<Rightarrow> string list \<Rightarrow> LogToMetric" where
  "NewLogToMetric name metricsType tags inputs =
     \<lparr>ltm_Inputs = sort inputs,
      ltm_Metrics =
        [\<lparr>metric_Field = ''message'', metric_Kind = ''incremental'', metric_Name = name,
          metric_Namespace = ''logcollector'', metric_Tags = tags, metric_Type = metricsType\<rparr>]\<rparr>"

definition NewReduce :: "(Reduce \<Rightarrow> Reduce) \<Rightarrow> string list \<Rightarrow> Transform" where
  "NewReduce init inputs =
     TReduce (init \<lparr>reduce_Inputs = sort inputs, reduce_ExpireAfterMs = 0, reduce_MaxEvents = 0,
                   reduce_GroupBy = [], reduce_MergeStrategies = None\<rparr>)"

definition NewDetectExceptions :: "string list \<Rightarrow> string list \<Rightarrow> DetectExceptions" where
  "NewDetectExceptions languages inputs =
     \<lparr>detect_Inputs = sort inputs, detect_Languages = languages, detect_GroupBy = [],
      detect_ExpireAfterMs = 0, detect_MultilineFlushIntervalMs = 0, detect_MessageKey = []\<rparr>"

text \<open>\<open>Tags.MarshalTOML\<close>: the tags in the order of their rendered text.\<close>

definition Tags_MarshalTOML :: "string list \<Rightarrow> (string \<rightharpoonup> string) \<Rightarrow> string" where
  "Tags_MarshalTOML order tags =
     ''{'' @ Join (sort (map (\<lambda>k. k @ '' = '' @ Quote (the (tags k))) order)) '', '' @ ''}''"

section \<open>Trimmed text and normalization\<close>

definition trimmed :: "string \<Rightarrow> bool" where
  "trimmed s \<longleftrightarrow> s = [] \<or> (\<not> is_space (hd s) \<and> \<not> is_space (last s))"

lemma dropWhile_hd_id: "s = [] \<or> \<not> P (hd s) \<Longrightarrow> dropWhile P s = s"
  by (cases s) auto

lemma trimmed_TrimSpace_id: "trimmed s \<Longrightarrow> TrimSpace s = s"
  by (auto simp: TrimSpace_def trimmed_def dropWhile_hd_id hd_rev)

lemma last_dropWhile_rev: "rev (dropWhile P (rev u)) \<noteq> [] \<Longrightarrow> \<not> P (last (rev (dropWhile P (rev u))))"
  by (metis hd_dropWhile hd_rev rev_is_Nil_conv rev_rev_ident)

lemma hd_dropWhile_rev: "rev (dropWhile P (rev u)) \<noteq> [] \<Longrightarrow> hd (rev (dropWhile P (rev u))) = hd u"
proof -
  assume ne: "rev (dropWhile P (rev u)) \<noteq> []"
  have "u = rev (dropWhile P (rev u)) @ rev (takeWhile P (rev u))"
    by (metis rev_append rev_rev_ident takeWhile_dropWhile_id)
  then show ?thesis using ne by (metis hd_append2)
qed

lemma TrimSpace_Nil [simp]: "TrimSpace [] = []"
  by (simp add: TrimSpace_def)

lemma TrimSpace_eq_Nil: "TrimSpace s = [] \<longleftrightarrow> (\<forall>c\<in>set s. is_space c)"
proof
  assume "TrimSpace s = []"
  then have "\<forall>c\<in>set (dropWhile is_space s). is_space c" by (simp add: TrimSpace_def)
  then show "\<forall>c\<in>set s. is_space c"
    by (metis UnE set_append set_takeWhileD takeWhile_dropWhile_id)
qed (auto simp: TrimSpace_def dest: set_dropWhileD)

lemma trimmed_TrimSpace: "trimmed (TrimSpace s)"
proof (cases "TrimSpace s = []")
  case False
  let ?u = "dropWhile is_space s"
  have "?u \<noteq> []" using False by (simp add: TrimSpace_eq_Nil)
  then have "\<not> is_space (hd ?u)" by (rule hd_dropWhile)
  with False show ?thesis
    unfolding trimmed_def TrimSpace_def
    using hd_dropWhile_rev [of is_space ?u] last_dropWhile_rev [of is_space ?u] by auto
qed (simp add: trimmed_def)

lemma TrimSpace_idem [simp]: "TrimSpace (TrimSpace s) = TrimSpace s"
  by (rule trimmed_TrimSpace_id) (rule trimmed_TrimSpace)

lemma is_space_blank [simp]: "is_space (CHR '' '')" "is_space newline"
  by (simp_all add: is_space_def)

lemma dropWhile_Repeat_blank: "dropWhile is_space (Repeat '' '' n @ s) = dropWhile is_space s"
  by (induction n) (simp_all add: Repeat_def)

lemma TrimSpace_indent: "TrimSpace (indent n s) = TrimSpace s"
  by (simp add: TrimSpace_def indent_def dropWhile_Repeat_blank)

lemma set_TrimSpace: "set (TrimSpace s) \<subseteq> set s"
  unfolding TrimSpace_def by (auto dest!: set_dropWhileD)

lemma set_indent: "newline \<notin> set s \<Longrightarrow> newline \<notin> set (indent n s)"
  by (auto simp: indent_def Repeat_def)

text \<open>The lines that normalization writes: the trimmed non-blank lines, indented.\<close>

fun indented :: "nat \<Rightarrow> string list \<Rightarrow> string list" where
  "indented n [] = []"
| "indented n (raw # raws) =
     (let n1 = (if closes_block raw then n - 2 else n);
          n2 = (if opens_block raw then n1 + 2 else n1)
      in indent n1 raw # indented n2 raws)"

definition code_lines :: "string list \<Rightarrow> string list" where
  "code_lines chunks = filter (\<lambda>raw. raw \<noteq> []) (map TrimSpace chunks)"

lemma blank_opens_closes [simp]: "\<not> closes_block []" "\<not> opens_block []"
  by (simp_all add: closes_block_def opens_block_def HasSuffix_def HasPrefix_def)

lemma indented_eq_Nil [simp]: "indented n rs = [] \<longleftrightarrow> rs = []"
  by (cases rs) (simp_all add: Let_def)

lemma normalize_chunks_lines:
  "chunks = [] \<or> TrimSpace (last chunks) \<noteq> [] \<Longrightarrow>
   normalize_chunks n chunks = Join (indented n (code_lines chunks)) [newline]"
proof (induction chunks arbitrary: n)
  case (Cons c cs)
  have tl: "cs = [] \<or> TrimSpace (last cs) \<noteq> []" using Cons.prems by (cases cs) auto
  show ?case
  proof (cases "TrimSpace c = []")
    case True
    with tl Cons.IH show ?thesis by (simp add: code_lines_def Let_def)
  next
    case False
    have "cs \<noteq> [] \<Longrightarrow> code_lines cs \<noteq> []"
      using tl last_in_set [of cs] by (auto simp: code_lines_def filter_empty_conv)
    moreover have "code_lines [] = []" by (simp add: code_lines_def)
    ultimately show ?thesis
      using False tl Cons.IH
      by (cases "cs = []") (auto simp: Let_def Join_Cons code_lines_def)
  qed
qed (simp add: code_lines_def)

lemma TrimSpace_last_chunk:
  assumes "trimmed s" "s \<noteq> []"
  shows "TrimSpace (last (Split s newline)) \<noteq> []"
proof -
  obtain a d where s: "s = a @ [d]" using assms(2) by (metis rev_exhaust)
  with assms have d: "\<not> is_space d" by (simp add: trimmed_def)
  then have "d \<noteq> newline" by auto
  then have "last (Split s newline) = last (Split a newline) @ [d]"
    using Split_last [of newline d a] s by simp
  then show ?thesis using d by (simp add: TrimSpace_eq_Nil)
qed

lemma normalize_lines:
  "normalize s = Join (indented 0 (code_lines (Split (TrimSpace s) newline))) [newline]"
proof (cases "TrimSpace s = []")
  case True
  then show ?thesis by (simp add: normalize_def code_lines_def)
next
  case False
  then show ?thesis
    unfolding normalize_def
    by (intro normalize_chunks_lines disjI2 TrimSpace_last_chunk trimmed_TrimSpace)
qed

text \<open>The written lines are code lines again, with the same indentation.\<close>

definition proper_line :: "string \<Rightarrow> bool" where
  "proper_line raw \<longleftrightarrow> raw \<noteq> [] \<and> trimmed raw \<and> newline \<notin> set raw"

lemma code_lines_proper: "raw \<in> set (code_lines (Split s newline)) \<Longrightarrow> proper_line raw"
  using set_Split [of _ s newline] set_TrimSpace
  by (fastforce simp: code_lines_def proper_line_def trimmed_TrimSpace)

lemma code_lines_indented:
  "\<forall>raw\<in>set raws. proper_line raw \<Longrightarrow> code_lines (indented n raws) = raws"
  by (induction raws arbitrary: n)
    (simp_all add: code_lines_def Let_def TrimSpace_indent proper_line_def trimmed_TrimSpace_id)

lemma indented_no_newline:
  "\<forall>raw\<in>set raws. proper_line raw \<Longrightarrow> l \<in> set (indented n raws) \<Longrightarrow> newline \<notin> set l"
  by (induction raws arbitrary: n) (auto simp: Let_def proper_line_def set_indent)

lemma hd_Join: "xs \<noteq> [] \<Longrightarrow> hd xs \<noteq> [] \<Longrightarrow> hd (Join xs sep) = hd (hd xs)"
  by (cases xs; cases "tl xs") (auto simp: hd_append)

lemma last_Join: "xs \<noteq> [] \<Longrightarrow> last xs \<noteq> [] \<Longrightarrow> Join xs sep \<noteq> [] \<and> last (Join xs sep) = last (last xs)"
proof (induction xs rule: induct_list012)
  case (3 x y zs)
  then show ?case by (cases zs) auto
qed simp_all

lemma last_indented:
  "raws \<noteq> [] \<Longrightarrow> \<exists>m. last (indented n raws) = indent m (last raws)"
  by (induction raws arbitrary: n) (auto simp: Let_def)

lemma trimmed_Join_indented:
  assumes "\<forall>raw\<in>set raws. proper_line raw"
  shows "trimmed (Join (indented 0 raws) [newline])"
proof (cases raws)
  case (Cons r rs)
  have "hd (indented 0 raws) = r" by (simp add: Cons Let_def indent_def Repeat_def)
  moreover have r: "r \<noteq> []" "\<not> is_space (hd r)"
    using assms Cons by (auto simp: proper_line_def trimmed_def)
  ultimately have first: "hd (Join (indented 0 raws) [newline]) = hd r"
    using Cons by (subst hd_Join) simp_all
  obtain m where m: "last (indented 0 raws) = indent m (last raws)"
    using last_indented [of raws 0] Cons by auto
  have "proper_line (last raws)" using assms last_in_set [of raws] Cons by blast
  then have l: "last raws \<noteq> []" "\<not> is_space (last (last raws))"
    by (auto simp: proper_line_def trimmed_def)
  have "last (Join (indented 0 raws) [newline]) = last (last raws)"
    using last_Join [of "indented 0 raws" "[newline]"] m l Cons by (simp add: indent_def)
  with first r l show ?thesis by (simp add: trimmed_def)
qed (simp add: trimmed_def)

lemma normalize_idem: "normalize (normalize s) = normalize s"
proof -
  let ?R = "code_lines (Split (TrimSpace s) newline)"
  have proper: "\<forall>raw\<in>set ?R. proper_line raw" using code_lines_proper by blast
  have trim: "TrimSpace (normalize s) = normalize s"
    unfolding normalize_lines by (intro trimmed_TrimSpace_id trimmed_Join_indented proper)
  show ?thesis
  proof (cases "?R = []")
    case True
    then have "normalize s = []" by (simp add: normalize_lines)
    then show ?thesis by (simp add: normalize_def)
  next
    case False
    then have "Split (normalize s) newline = indented 0 ?R"
      unfolding normalize_lines [of s]
      using indented_no_newline [OF proper] by (intro Split_Join) auto
    then have "code_lines (Split (TrimSpace (normalize s)) newline) = ?R"
      using trim code_lines_indented [OF proper] by simp
    then show ?thesis using normalize_lines [of "normalize s"] normalize_lines [of s] by simp
  qed
qed

section \<open>Properties\<close>

text \<open>
  C26. Normalizing a VRL text is idempotent: a configuration that is read back, whose texts are
  normalized a second time on the way in, equals the one that was written. The normalized text
  has the same code lines, in order and without blank lines.
\<close>

theorem normalize_roundtrip:
  "normalize (normalize s) = normalize s
   \<and> code_lines (Split (normalize s) newline) = code_lines (Split (TrimSpace s) newline)"
proof -
  let ?R = "code_lines (Split (TrimSpace s) newline)"
  have proper: "\<forall>raw\<in>set ?R. proper_line raw" using code_lines_proper by blast
  have "code_lines (Split (normalize s) newline) = ?R"
  proof (cases "?R = []")
    case True
    then show ?thesis by (simp add: normalize_lines [of s]) (simp add: code_lines_def)
  next
    case False
    then have "Split (normalize s) newline = indented 0 ?R"
      unfolding normalize_lines [of s]
      using indented_no_newline [OF proper] by (intro Split_Join) auto
    then show ?thesis using code_lines_indented [OF proper] by simp
  qed
  then show ?thesis using normalize_idem by simp
qed

end
