(* ===== verification/Vector_Filters.thy ===== *)
theory Vector_Filters
  imports Vector_Text Validate_Filters
begin

text \<open>
  The filters of a pipeline (\<open>internal/generator/vector/filter\<close>): the VRL each filter type writes
  and the factory that \<open>NewInternalFilterMap\<close> attaches to it. A factory that fails returns a nil
  interface (\<open>None\<close>) or, where the function's result type is a pointer, a typed nil
  (\<open>Some (TRemap None)\<close>); calling the factory of an unknown filter type stops the program.
  The two Go templates, \<open>prune.vrl.tmpl\<close> and \<open>policy.vrl.tmpl\<close>, are functions that write what
  the template engine writes.
\<close>

section \<open>JSON text (encoding/json)\<close>

definition json_char :: "char \<Rightarrow> string" where
  "json_char c =
     (if c = dq then [bslash, dq]
      else if c = bslash then [bslash, bslash]
      else if c = CHR 0x08 then bslash # ''b''
      else if c = CHR 0x0C then bslash # ''f''
      else if c = newline then bslash # ''n''
      else if c = carriage then bslash # ''r''
      else if c = CHR 0x09 then bslash # ''t''
      else if (of_char c :: nat) < 32 \<or> c = CHR ''<'' \<or> c = CHR ''>'' \<or> c = CHR ''&''
      then bslash # ''u00'' @ [hex_digit (of_char c div 16), hex_digit (of_char c mod 16)]
      else [c])"

definition json_string :: "string \<Rightarrow> string" where
  "json_string s = [dq] @ concat (map json_char s) @ [dq]"

definition json_strings :: "string list \<Rightarrow> string" where
  "json_strings xs = ''['' @ Join (map json_string xs) '','' @ '']''"

definition json_ints :: "int list \<Rightarrow> string" where
  "json_ints xs =
     ''['' @ Join (map (\<lambda>i. if i < 0 then ''-'' @ Itoa (nat (- i)) else Itoa (nat i)) xs) '','' @ '']''"

text \<open>A map is written with its keys in order; \<open>ks\<close> lists them in the order of iteration.\<close>

definition json_map :: "string list \<Rightarrow> (string \<rightharpoonup> string) \<Rightarrow> string" where
  "json_map ks m =
     ''{'' @ Join (map (\<lambda>k. json_string k @ '':'' @ json_string (the (m k))) (sort ks)) '','' @ ''}''"

section \<open>Labels, JSON parsing, multi-line exceptions\<close>

text \<open>\<open>openshift.New\<close> (labels.go): an empty map yields a nil pointer.\<close>

definition NewLabels :: "string list \<Rightarrow> (string \<rightharpoonup> string) \<Rightarrow> string list \<Rightarrow> Transform" where
  "NewLabels ks labels inputs =
     (if ks \<noteq> []
      then NewRemap (''._internal.openshift.labels = .openshift.labels = '' @ json_map ks labels) inputs
      else TRemap None)"

definition NewParse :: "string list \<Rightarrow> Transform" where
  \<open>NewParse inputs =
     NewRemap (text_lines
     ['''',
      [CHR 0x09] @ ''if ._internal.log_source == "container" {'',
      [CHR 0x09] @ [CHR 0x09] @ ''parsed, err = parse_json(._internal.message)'',
      [CHR 0x09] @ [CHR 0x09] @ ''if err == null {'',
      [CHR 0x09] @ [CHR 0x09] @ [CHR 0x09] @ ''._internal.structured = parsed'',
      [CHR 0x09] @ [CHR 0x09] @ ''}'',
      [CHR 0x09] @ ''}'',
      '''']) inputs\<close>

definition NewMultiline :: "string list \<Rightarrow> Transform" where
  "NewMultiline inputs =
     TDetectExceptions ((NewDetectExceptions [''All''] inputs)
       \<lparr>detect_GroupBy :=
          [''._internal.kubernetes.namespace_name'', ''._internal.kubernetes.pod_name'',
           ''._internal.kubernetes.container_name'', ''._internal.kubernetes.pod_id'',
           ''._internal.kubernetes.io_stream''],
        detect_ExpireAfterMs := 2000, detect_MultilineFlushIntervalMs := 1000,
        detect_MessageKey := ''._internal.message''\<rparr>)"

section \<open>Drop (drop/filter.go)\<close>

definition buildMatchCondition :: "string \<Rightarrow> string \<Rightarrow> bool \<Rightarrow> string option" where
  \<open>buildMatchCondition field pattern negate =
     (if ContainsAny pattern [sq, newline, carriage] then None
      else Some ((if negate then ''!'' else []) @ ''match(to_string('' @ field @ '') ?? "", r'' @ [sq]
                 @ pattern @ [sq] @ '')''))\<close>

definition normalizeOlderThan :: "string \<Rightarrow> string option" where
  "normalizeOlderThan value =
     (case Parse_DateOnly value of
        Some d \<Rightarrow>
          Some (Format_RFC3339Nano (UTC \<lparr>ts_Date = d, ts_Hour = 0, ts_Minute = 0, ts_Second = 0,
                                         ts_Nano = 0, ts_Offset = 0\<rparr>))
      | None \<Rightarrow> map_option (\<lambda>t. Format_RFC3339Nano (UTC t)) (Parse_RFC3339 value))"

definition buildOlderThanCondition :: "string \<Rightarrow> string option" where
  \<open>buildOlderThanCondition olderThan =
     map_option (\<lambda>cutoff. ''((parse_timestamp(to_string(.timestamp) ?? "", "%+") < t'' @ [sq] @ cutoff
                          @ [sq] @ '') ?? false)'') (normalizeOlderThan olderThan)\<close>

definition drop_condition_vrl :: "DropCondition \<Rightarrow> string option" where
  "drop_condition_vrl cond =
     (if drop_OlderThan cond \<noteq> [] then buildOlderThanCondition (drop_OlderThan cond)
      else if drop_Matches cond \<noteq> []
      then buildMatchCondition (''._internal'' @ drop_Field cond) (drop_Matches cond) False
      else buildMatchCondition (''._internal'' @ drop_Field cond) (drop_NotMatches cond) True)"

fun opt_mapM :: "('a \<Rightarrow> 'b option) \<Rightarrow> 'a list \<Rightarrow> 'b list option" where
  "opt_mapM f [] = Some []"
| "opt_mapM f (x # xs) = Option.bind (f x) (\<lambda>y. map_option ((#) y) (opt_mapM f xs))"

definition drop_test_vrl :: "DropTest \<Rightarrow> string option" where
  "drop_test_vrl test =
     map_option (\<lambda>condList. ''('' @ Join condList '' && '' @ '')'')
       (opt_mapM drop_condition_vrl (droptest_Conditions test))"

definition drop_VRL :: "DropTest list \<Rightarrow> string option" where
  "drop_VRL tests =
     map_option (\<lambda>vrlTests. ''!('' @ Join vrlTests '' || '' @ '')'') (opt_mapM drop_test_vrl tests)"

definition NewDrop :: "DropTest list \<Rightarrow> string list \<Rightarrow> Transform option" where
  "NewDrop spec inputs = map_option (\<lambda>vrl. NewFilterTransform vrl inputs) (drop_VRL spec)"

section \<open>Prune (prune/filter.go, prune.vrl.tmpl)\<close>

definition dedottedFields :: "string list" where
  "dedottedFields = [''.kubernetes.labels.'', ''.kubernetes.namespace_labels.'']"

definition slash_char :: "char \<Rightarrow> char" where
  "slash_char c = (if c = dot \<or> c = CHR ''/'' then CHR ''_'' else c)"

definition quoted_segments :: "FieldPath \<Rightarrow> string" where
  "quoted_segments path = ''['' @ Join (QuotePathSegments (SplitPath path)) '','' @ '']''"

definition dedotted_paths :: "FieldPath \<Rightarrow> FieldPath list" where
  "dedotted_paths path =
     concat (map (\<lambda>d. if HasPrefix path d \<and> ContainsAny (drop (length d) path) ''/.''
                      then [d @ map slash_char (drop (length d) path)] else []) dedottedFields)"

definition prune_path_array :: "FieldPath list \<Rightarrow> string" where
  "prune_path_array paths =
     ''['' @ Join (concat (map (\<lambda>p. map quoted_segments (p # dedotted_paths p)) paths)) '','' @ '']''"

definition prune_notIn_text :: "string \<Rightarrow> string" where
  \<open>prune_notIn_text notIn =
     ''notIn = '' @ notIn @ text_lines
     ['''',
      '''',
      ''# Prune keys not in notIn list'',
      ''new_object = {}'',
      ''for_each(notIn) -> |_index, pathSeg| {'',
      ''    val = get(., pathSeg) ?? null'',
      ''    if !is_null(val) {'',
      ''        new_object = set!(new_object, pathSeg, val)'',
      ''    }'',
      ''}'',
      ''. = new_object'',
      '''']\<close>

definition prune_in_text :: "string \<Rightarrow> string" where
  \<open>prune_in_text ins =
     ''in = '' @ ins @ text_lines
     ['''',
      '''',
      ''# Remove keys from in list'',
      ''for_each(in) -> |_index, val| {'',
      ''    . = remove!(., val)'',
      ''}'',
      '''']\<close>

definition prune_VRL :: "PruneFilterSpec \<Rightarrow> string" where
  "prune_VRL f =
     (case prune_NotIn f of
        None \<Rightarrow> []
      | Some notIn \<Rightarrow> newline # prune_notIn_text (prune_path_array (notIn @ [''._internal''])))
     @ (case prune_In f of
          None \<Rightarrow> []
        | Some ins \<Rightarrow> newline # prune_in_text (prune_path_array ins))"

text \<open>\<open>NewFilter\<close> dereferences the specification.\<close>

definition NewPrune :: "PruneFilterSpec option \<Rightarrow> string list \<Rightarrow> Transform go" where
  "NewPrune spec inputs = go_bind (deref spec) (\<lambda>f. Inr (NewRemap (prune_VRL f) inputs))"

section \<open>Kube API audit (apiaudit)\<close>

definition DefaultOmitResponseCodes :: "int list" where
  "DefaultOmitResponseCodes = [404, 409, 422, 429]"

text \<open>\<open>regexp.QuoteMeta\<close>.\<close>

definition quote_meta_char :: "char \<Rightarrow> string" where
  "quote_meta_char c =
     (if c \<in> set (bslash # ''.+*?()|[]{}^$'') then [bslash, c] else [c])"

definition QuoteMeta :: "string \<Rightarrow> string" where
  "QuoteMeta s = concat (map quote_meta_char s)"

definition wildcardRegexp :: "string \<Rightarrow> string" where
  "wildcardRegexp wildcard =
     (let lead = HasPrefix wildcard ''*'';
          rest = (if lead then tl wildcard else wildcard)
      in (if lead then ''.*'' else [])
         @ (if HasSuffix rest ''*'' then QuoteMeta (butlast rest) @ ''.*'' else QuoteMeta rest))"

definition anyWildcardRegexp :: "string list \<Rightarrow> string \<Rightarrow> string" where
  "anyWildcardRegexp wildcards sfx =
     ''r'' @ [sq] @ ''^('' @ Join (map wildcardRegexp wildcards) ''|'' @ '')'' @ sfx @ ''$'' @ [sq]"

definition matchAny :: "string list \<Rightarrow> string" where
  "matchAny wildcards = anyWildcardRegexp wildcards []"

definition matchAnyPath :: "string list \<Rightarrow> string" where
  "matchAnyPath wildcards = anyWildcardRegexp wildcards (''('' @ [bslash] @ ''?.*)?'')"

text \<open>\<open>with\<close> of the template engine: nothing is written for an empty list.\<close>

definition with_list :: "'a list \<Rightarrow> ('a list \<Rightarrow> string) \<Rightarrow> string" where
  "with_list xs f = (if xs = [] then [] else f xs)"

definition groupResource :: "GroupResources \<Rightarrow> string" where
  \<open>groupResource gr =
     (if gr_Group gr \<noteq> [] then ''.objectRef.apiGroup == '' @ [dq] @ gr_Group gr @ [dq]
      else ''(is_null(.objectRef.apiGroup) || string!(.objectRef.apiGroup) == "")'')
     @ with_list (gr_ResourceNames gr) (\<lambda>xs. '' && match(string(.objectRef.name)??"", '' @ matchAny xs @ '')'')
     @ with_list (gr_Resources gr) (\<lambda>xs. '' && match(res, '' @ matchAny xs @ '')'')\<close>

definition policy_rule_vrl :: "PolicyRule \<Rightarrow> string" where
  \<open>policy_rule_vrl r =
     ''if (''
     @ with_list (rule_Verbs r) (\<lambda>xs. ''includes('' @ json_strings xs @ '', .verb) && '')
     @ with_list (rule_Users r) (\<lambda>xs. ''username != "" && match(username, '' @ matchAny xs @ '') && '')
     @ with_list (rule_UserGroups r)
         (\<lambda>xs. ''!is_null(.user.groups) && match_array(array!(.user.groups), '' @ matchAny xs @ '') && '')
     @ with_list (rule_Namespaces r)
         (\<lambda>xs. ''namespace != "" && match(namespace, '' @ matchAny xs @ '') && '')
     @ with_list (rule_NonResourceURLs r)
         (\<lambda>xs. ''.objectRef == null && !is_null(.requestURI) && match(string!(.requestURI), ''
               @ matchAnyPath xs @ '') && '')
     @ with_list (rule_Resources r)
         (\<lambda>xs. ''('' @ Join (map (\<lambda>gr. ''('' @ groupResource gr @ '')'') xs) '' || '' @ '') && '')
     @ ''true) {'' @ [newline] @ ''    .level = '' @ [dq] @ rule_Level r @ [dq]
     @ with_list (rule_OmitStages r)
         (\<lambda>xs. [newline] @ ''    if includes('' @ json_strings xs @ '', .stage) { .level = "None" }'')
     @ (case rule_OmitManagedFields r of
          None \<Rightarrow> []
        | Some b \<Rightarrow> [newline] @ ''    omit_managed = '' @ (if b then ''true'' else ''false''))
     @ [newline] @ ''  } else ''\<close>

definition policy_head :: string where
  \<open>policy_head =
     text_lines
     [''if is_string(.auditID) && is_string(.verb) {'',
      ''  res = if is_null(.objectRef.resource) { "" } else { string!(.objectRef.resource) }'',
      ''  sub = if is_null(.objectRef.subresource) { "" } else { string!(.objectRef.subresource) }'',
      ''  namespace = if is_null(.objectRef.namespace) { "" } else { string!(.objectRef.namespace) }'',
      ''  username = if is_null(.user.username) { "" } else { string!(.user.username) }'',
      ''  if sub != "" { res = res + "/" + sub }'',
      ''  omit_managed = false'',
      ''  '']\<close>

definition policy_tail :: string where
  \<open>policy_tail =
     text_lines
     [''{'',
      ''    # No rule matched, apply default rules for system events.'',
      ''    if match(username, r'^$|^system:.*') { # System events'',
      ''      readonly = r'get|list|watch|head|options'' @ [sq],
      ''      if match(string!(.verb), readonly) {'',
      [CHR 0x09] @ ''.level = "None" # Drop read-only system events.'',
      ''      } else if ((int(.responseStatus.code) < 300 ?? true) && starts_with(username, "system:serviceaccount:"+namespace)) {'',
      [CHR 0x09] @ ''.level = "None" # Drop write events by service account for same namespace as resource or for non-namespaced resource.'',
      ''      }'',
      ''      if .level == "RequestResponse" {'',
      [CHR 0x09] @ ''.level = "Request" # Downgrade RequestResponse system events.'',
      ''      }'',
      ''    }'',
      ''  }'',
      ''  # Update the event'',
      ''  if .level == "None" {'',
      ''    abort'',
      ''  } else {'',
      ''    if .level == "Metadata" {'',
      ''      del(.responseObject)'',
      ''      del(.requestObject)'',
      ''    } else if .level == "Request" {'',
      ''      del(.responseObject)'',
      ''    }'',
      ''    # Omit managed fields if requested'',
      ''    if omit_managed {'',
      ''      del(.metadata.managedFields)'',
      ''      del(.requestObject.metadata.managedFields)'',
      ''      del(.responseObject.metadata.managedFields)'',
      ''    }'',
      ''  }'',
      ''}'']\<close>

definition omit_vrl :: "string \<Rightarrow> string \<Rightarrow> string \<Rightarrow> string" where
  \<open>omit_vrl values field comment =
     text_lines [''if includes('' @ values @ '', '' @ field @ '') { # '' @ comment,
                 ''    .level = "None"'', ''  } else '']\<close>

definition audit_VRL :: "KubeAPIAudit option \<Rightarrow> string" where
  "audit_VRL p =
     (let k = (case p of None \<Rightarrow> \<lparr>kaa_Rules = [], kaa_OmitStages = [], kaa_OmitResponseCodes = None\<rparr>
               | Some k \<Rightarrow> k);
          codes = (case kaa_OmitResponseCodes k of None \<Rightarrow> DefaultOmitResponseCodes | Some cs \<Rightarrow> cs)
      in policy_head
         @ with_list (kaa_OmitStages k) (\<lambda>xs. omit_vrl (json_strings xs) ''.stage'' ''Policy OmitStages'')
         @ omit_vrl (json_ints codes) ''.responseStatus.code'' ''Omit by response code.''
         @ concat (map policy_rule_vrl (kaa_Rules k)) @ policy_tail)"

definition NewApiAudit :: "KubeAPIAudit option \<Rightarrow> string list \<Rightarrow> Transform" where
  "NewApiAudit spec inputs = NewRemap (audit_VRL spec) inputs"

section \<open>The data model (viaq/v1)\<close>

definition auditHostLogs :: string where
  \<open>auditHostLogs =
     newline # ''if ._internal.log_type == '' @ ''"audit"'' @ '' && ._internal.log_source == ''
     @ ''"auditd"'' @ '' {'' @ [newline]
     @ Join [SetMessageOnRoot, ''."audit.linux" = ._internal."audit.linux"'', AddDefaultLogLevel] [newline]
     @ text_lines ['''', ''}'', '''']\<close>

definition audit_logs :: "AuditSource \<Rightarrow> string list \<Rightarrow> string" where
  \<open>audit_logs src vrls =
     newline # ''if ._internal.log_type == '' @ ''"audit"'' @ '' && ._internal.log_source == ''
     @ [dq] @ AuditSource_String src @ [dq] @ '' {'' @ [newline]
     @ Join (TrimSpaces vrls) [newline] @ text_lines ['''', ''}'', '''']\<close>

definition auditK8sLogs :: string where
  "auditK8sLogs = audit_logs AuditSourceKube [SetK8sAuditLevel]"

definition auditOpenshiftLogs :: string where
  "auditOpenshiftLogs = audit_logs AuditSourceOpenShift [SetOpenshiftAuditLevel]"

definition auditOVNLogs :: string where
  "auditOVNLogs = audit_logs AuditSourceOVN [SetMessageOnRoot, ''.level = ._internal.level'']"

definition containerLogs :: string where
  \<open>containerLogs =
     newline # ''if .log_source == '' @ ''"container"'' @ '' {'' @ [newline] @ ''  ''
     @ Join (TrimSpaces [HandleEventRouterLog, VRLDedotLabels, SetKubernetesOnRoot, SetMessageOnRoot]) [newline]
     @ text_lines ['''', ''}'', '''']\<close>

definition journalLogsVRL :: string where
  "journalLogsVRL =
     Join (TrimSpaces [AddJournalLogTag, AddHostName, ''.systemd = ._internal.systemd'', SetMessageOnRoot])
       [newline]"

definition journalLogs :: string where
  \<open>journalLogs =
     newline # ''if ._internal.log_source == '' @ ''"node"'' @ '' {'' @ [newline] @ journalLogsVRL
     @ text_lines ['''', ''}'', '''']\<close>

definition receiverLogsVRL :: string where
  \<open>receiverLogsVRL =
     Join (TrimSpaces [''.message = ._internal.message'', ''.log_type = '' @ ''"infrastructure"'',
                       ''.log_source = '' @ ''"node"'']) [newline, newline]\<close>

definition receiverLogs :: string where
  \<open>receiverLogs =
     newline # ''if ._internal.log_type == '' @ ''"receiver"'' @ '' {'' @ [newline] @ ''  ''
     @ receiverLogsVRL @ text_lines ['''', ''}'', '''']\<close>

definition NewViaq :: "string list \<Rightarrow> InputSpec list \<Rightarrow> Transform" where
  \<open>NewViaq inputs inputSpecs =
     NewRemap (Join (
       [SetHostnameOnRoot, SetLogTypeOnRoot, SetLogSourceOnRoot, SetOpenShiftOnRoot]
       @ (if HasAuditSource inputSpecs AuditSourceAuditd then [auditHostLogs] else [])
       @ (if HasAuditSource inputSpecs AuditSourceKube then [auditK8sLogs] else [])
       @ (if HasAuditSource inputSpecs AuditSourceOpenShift then [auditOpenshiftLogs] else [])
       @ (if HasAuditSource inputSpecs AuditSourceOVN then [auditOVNLogs] else [])
       @ (if HasContainerSource inputSpecs then [containerLogs] else [])
       @ (if HasJournalSource inputSpecs then [journalLogs] else [])
       @ (if HasReceiverSource inputSpecs then [receiverLogs] else [])
       @ [RemoveKubernetesForNonContainerLogs, MergeStructuredIntoRoot,
          ''.timestamp = ._internal.timestamp'', ''."@timestamp" = ._internal.timestamp'',
          SetLogLevelOnRoot]) [newline]) inputs\<close>

section \<open>Factories (filter/filter.go)\<close>

text \<open>
  \<open>InternalFilterSpec\<close> is the filter's type and its factory, here a function of the inputs. A
  nil factory is one whose call faults. \<open>lord\<close> gives the order in which a label map is ranged over.
\<close>

record InternalFilterSpec =
  ifs_Type :: FilterType
  ifs_Factory :: "string list \<Rightarrow> Transform option go"

definition filter_factory :: "(string \<Rightarrow> string list) \<Rightarrow> FilterSpec \<Rightarrow> string list \<Rightarrow> Transform option go" where
  "filter_factory lord f inputs =
     (case filter_Type f of
        FilterTypeOpenshiftLabels \<Rightarrow> Inr (Some (NewLabels (lord (filter_Name f)) (filter_OpenshiftLabels f) inputs))
      | FilterTypeDrop \<Rightarrow> Inr (NewDrop (filter_DropTestsSpec f) inputs)
      | FilterTypePrune \<Rightarrow> go_bind (NewPrune (filter_PruneFilterSpec f) inputs) (\<lambda>t. Inr (Some t))
      | FilterTypeKubeAPIAudit \<Rightarrow> Inr (Some (NewApiAudit (filter_KubeAPIAudit f) inputs))
      | FilterTypeParse \<Rightarrow> Inr (Some (NewParse inputs))
      | FilterTypeDetectMultiline \<Rightarrow> Inr (Some (NewMultiline inputs))
      | FilterTypeOther _ \<Rightarrow> Inl NilDereference)"

definition NewInternalFilterMap ::
  "(string \<Rightarrow> string list) \<Rightarrow> (string \<rightharpoonup> FilterSpec) \<Rightarrow> (string \<rightharpoonup> InternalFilterSpec)" where
  "NewInternalFilterMap lord filters =
     (\<lambda>name. map_option (\<lambda>f. \<lparr>ifs_Type = filter_Type f, ifs_Factory = filter_factory lord f\<rparr>) (filters name))"

section \<open>Validated filters have transforms\<close>

lemma opt_mapM_Some: "opt_mapM f xs \<noteq> None \<longleftrightarrow> (\<forall>x\<in>set xs. f x \<noteq> None)"
  by (induction xs) (auto split: bind_splits)

lemma normalizeOlderThan_Some: "older_than_ok v \<Longrightarrow> normalizeOlderThan v \<noteq> None"
  by (auto simp: older_than_ok_def normalizeOlderThan_def split: option.splits)

lemma buildMatchCondition_Some:
  "buildMatchCondition field pat neg \<noteq> None \<longleftrightarrow> {sq, newline, carriage} \<inter> set pat = {}"
  unfolding buildMatchCondition_def ContainsAny_iff by auto

lemma drop_condition_vrl_Some: "drop_condition_ok compiles c \<Longrightarrow> drop_condition_vrl c \<noteq> None"
proof -
  assume ok: "drop_condition_ok compiles c"
  show ?thesis
  proof (cases "drop_OlderThan c = []")
    case True
    with ok have "{sq, newline, carriage} \<inter> set (drop_Matches c) = {}"
      "{sq, newline, carriage} \<inter> set (drop_NotMatches c) = {}"
      by (auto simp: drop_condition_ok_def)
    with True show ?thesis
      unfolding drop_condition_vrl_def
      by (cases "drop_Matches c = []") (simp_all only: if_True if_False buildMatchCondition_Some not_True_eq_False not_False_eq_True simp_thms)
  next
    case False
    with ok have "normalizeOlderThan (drop_OlderThan c) \<noteq> None"
      by (intro normalizeOlderThan_Some) (simp add: drop_condition_ok_def)
    with False show ?thesis
      by (simp add: drop_condition_vrl_def buildOlderThanCondition_def)
  qed
qed

lemma drop_VRL_Some:
  assumes "\<forall>t\<in>set ts. \<forall>c\<in>set (droptest_Conditions t). drop_condition_ok compiles c"
  shows "drop_VRL ts \<noteq> None"
proof -
  have "\<forall>t\<in>set ts. drop_test_vrl t \<noteq> None"
  proof
    fix t assume "t \<in> set ts"
    then have "\<forall>c\<in>set (droptest_Conditions t). drop_condition_vrl c \<noteq> None"
      using assms drop_condition_vrl_Some by blast
    then have "opt_mapM drop_condition_vrl (droptest_Conditions t) \<noteq> None"
      by (simp only: opt_mapM_Some)
    then show "drop_test_vrl t \<noteq> None" by (simp add: drop_test_vrl_def)
  qed
  then have "opt_mapM drop_test_vrl ts \<noteq> None" by (simp only: opt_mapM_Some)
  then show ?thesis by (simp add: drop_VRL_def)
qed

lemma transform_inputs_New [simp]:
  "transform_inputs (NewRemap v ins) = sort ins"
  "transform_inputs (NewFilterTransform v ins) = sort ins"
  "transform_inputs (NewMultiline ins) = sort ins"
  "ks \<noteq> [] \<Longrightarrow> transform_inputs (NewLabels ks m ins) = sort ins"
  by (simp_all add: NewRemap_def NewFilterTransform_def NewMultiline_def NewDetectExceptions_def NewLabels_def)

lemma New_not_nil [simp]:
  "NewRemap v ins \<noteq> TRemap None" "NewFilterTransform v ins \<noteq> TRemap None" "NewMultiline ins \<noteq> TRemap None"
  "NewLabels ks m ins = TRemap None \<longleftrightarrow> ks = []"
  by (simp_all add: NewRemap_def NewFilterTransform_def NewMultiline_def NewLabels_def)

text \<open>The types a resource may name, and the filters whose factory makes a transform.\<close>

definition filter_usable :: "FilterSpec \<Rightarrow> bool" where
  "filter_usable f \<longleftrightarrow>
     (case filter_Type f of
        FilterTypeOther _ \<Rightarrow> False
      | FilterTypeOpenshiftLabels \<Rightarrow> filter_OpenshiftLabels f \<noteq> Map.empty
      | _ \<Rightarrow> True)"

lemma filter_factory_makes:
  assumes "filter_ok compiles f" "filter_usable f"
    and "range_order (filter_OpenshiftLabels f) (lord (filter_Name f))"
  shows "\<exists>t. filter_factory lord f inputs = Inr (Some t) \<and> t \<noteq> TRemap None
           \<and> transform_inputs t = sort inputs"
proof (cases "filter_Type f")
  case FilterTypeDetectMultiline
  then show ?thesis by (simp add: filter_factory_def)
next
  case FilterTypeDrop
  with assms(1) have "drop_VRL (filter_DropTestsSpec f) \<noteq> None"
    by (intro drop_VRL_Some) (auto simp: filter_ok_def)
  with FilterTypeDrop show ?thesis by (auto simp: filter_factory_def NewDrop_def)
next
  case FilterTypeKubeAPIAudit
  then show ?thesis by (simp add: filter_factory_def NewApiAudit_def)
next
  case FilterTypeOpenshiftLabels
  with assms(2) have "dom (filter_OpenshiftLabels f) \<noteq> {}" by (simp add: filter_usable_def)
  with assms(3) have "set (lord (filter_Name f)) \<noteq> {}" by (simp add: range_order_def)
  then have "lord (filter_Name f) \<noteq> []" by auto
  with FilterTypeOpenshiftLabels show ?thesis by (simp add: filter_factory_def)
next
  case FilterTypeParse
  then show ?thesis by (simp add: filter_factory_def NewParse_def)
next
  case FilterTypePrune
  with assms(1) obtain p where "filter_PruneFilterSpec f = Some p"
    by (auto simp: filter_ok_def split: option.splits)
  with FilterTypePrune show ?thesis by (simp add: filter_factory_def NewPrune_def)
next
  case (FilterTypeOther x)
  with assms(2) show ?thesis by (simp add: filter_usable_def)
qed

section \<open>Properties\<close>


definition drop_sample :: FilterSpec where
  "drop_sample =
     \<lparr>filter_Name = ''drop'', filter_Type = FilterTypeDrop, filter_KubeAPIAudit = None,
      filter_DropTestsSpec =
        [\<lparr>droptest_Conditions =
            [\<lparr>drop_OlderThan = [], drop_Field = ''.level'', drop_Matches = ''debug'', drop_NotMatches = []\<rparr>,
             \<lparr>drop_OlderThan = ''2026-01-31'', drop_Field = [], drop_Matches = [], drop_NotMatches = []\<rparr>]\<rparr>],
      filter_PruneFilterSpec = None, filter_OpenshiftLabels = Map.empty\<rparr>"

lemma drop_sample_ok: "filter_ok (\<lambda>_. True) drop_sample"
proof -
  have "older_than_ok ''2026-01-31''" by code_simp
  moreover have "field_path_ok ''.level''"
    unfolding field_path_ok_def toml_safe_def Contains_iff_sublist [symmetric] pathExpRegex_def
    by (intro conjI) code_simp+
  ultimately show ?thesis by (simp add: filter_ok_def drop_sample_def drop_condition_ok_def)
qed


end
