(* ===== verification/Vector_Pipelines.thy ===== *)
theory Vector_Pipelines
  imports Vector_Filters
begin

text \<open>
  The pipeline adapter (\<open>vector/adapters/pipeline.go\<close>, \<open>pipeline_filter.go\<close>): a pipeline's
  filters become a chain of transforms that starts at the pipeline's inputs and whose end feeds
  its outputs. \<open>AddSystemFilters\<close> puts the data model filter after the early filters.

  The code links the filters to inputs by pointers whose identifiers are filled in later; here a
  link is the input's name or the previous filter's identifiers, and the identifiers of the inputs
  are an argument when the transforms are made.
\<close>

section \<open>Adapters\<close>

datatype InputComponent =
    NilComponent
  | InputAdapter string
  | FilterAdapter "string list"

record PipelineFilter =
  pf_ids :: "string list"
  pf_Next :: "InputComponent list"
  pf_Factory :: "string list \<Rightarrow> Transform option go"

record Pipeline =
  pl_Spec :: PipelineSpec
  pl_index :: nat
  pl_filterMap :: "string \<rightharpoonup> InternalFilterSpec"
  pl_Filters :: "PipelineFilter list"
  pl_inputSpecs :: "InputSpec list"

definition NewPipelineFilter :: "string \<Rightarrow> string \<Rightarrow> InternalFilterSpec \<Rightarrow> PipelineFilter" where
  "NewPipelineFilter pipelineName filterRef spec =
     \<lparr>pf_ids = [MakePipelineID [pipelineName, filterRef]], pf_Next = [], pf_Factory = ifs_Factory spec\<rparr>"

definition AddInputFrom :: "InputComponent \<Rightarrow> PipelineFilter \<Rightarrow> PipelineFilter" where
  "AddInputFrom n pf = pf\<lparr>pf_Next := pf_Next pf @ [n]\<rparr>"

definition pf_ID :: "PipelineFilter \<Rightarrow> string" where
  "pf_ID pf = hd (pf_ids pf)"

text \<open>\<open>InputIDs\<close> of what is linked; \<open>ids\<close> gives the identifiers each input has by now.\<close>

fun component_ids :: "(string \<Rightarrow> string list) \<Rightarrow> InputComponent \<Rightarrow> string list" where
  "component_ids ids NilComponent = []"
| "component_ids ids (InputAdapter name) = ids name"
| "component_ids ids (FilterAdapter xs) = xs"

definition pf_Transform :: "(string \<Rightarrow> string list) \<Rightarrow> PipelineFilter \<Rightarrow> Transform option go" where
  "pf_Transform ids pf = pf_Factory pf (sort (concat (map (component_ids ids) (pf_Next pf))))"

section \<open>System filters\<close>

definition Viaq :: string where
  "Viaq = ''viaq''"

definition early_stage :: "(string \<rightharpoonup> InternalFilterSpec) \<Rightarrow> string \<Rightarrow> bool" where
  "early_stage filterMap refName =
     (case filterMap refName of
        None \<Rightarrow> False
      | Some spec \<Rightarrow> ifs_Type spec = FilterTypeParse \<or> ifs_Type spec = FilterTypeDetectMultiline)"

definition AddSystemFilters :: "Pipeline \<Rightarrow> Pipeline" where
  "AddSystemFilters p =
     (let filterMap = (pl_filterMap p)(Viaq \<mapsto>
            \<lparr>ifs_Type = FilterTypeOther Viaq,
             ifs_Factory = (\<lambda>inputs. Inr (Some (NewViaq inputs (pl_inputSpecs p))))\<rparr>);
          refs = pipeline_FilterRefs (pl_Spec p);
          preFilters = filter (early_stage filterMap) refs;
          otherFilters = filter (\<lambda>r. \<not> early_stage filterMap r) refs
      in p\<lparr>pl_filterMap := filterMap,
           pl_Spec := (pl_Spec p)\<lparr>pipeline_FilterRefs := preFilters @ [Viaq] @ otherFilters\<rparr>\<rparr>)"

section \<open>Pipelines\<close>

definition Pipeline_Name :: "Pipeline \<Rightarrow> string" where
  "Pipeline_Name p =
     (if pipeline_Name (pl_Spec p) = [] then MakeID [''pipeline'', Itoa (pl_index p)]
      else pipeline_Name (pl_Spec p))"

definition initFilter :: "Pipeline \<Rightarrow> nat \<times> string \<Rightarrow> Pipeline" where
  "initFilter p ir =
     (case ir of (index, filterRef) \<Rightarrow>
        (case pl_filterMap p filterRef of
           None \<Rightarrow> p
         | Some f \<Rightarrow>
             (let pf = NewPipelineFilter (Pipeline_Name p) (MakeID [filterRef, Itoa index]) f;
                  pf' = (if pl_Filters p \<noteq> []
                         then AddInputFrom (FilterAdapter (pf_ids (last (pl_Filters p)))) pf else pf)
              in p\<lparr>pl_Filters := pl_Filters p @ [pf']\<rparr>)))"

definition pipeline_inputs :: "PipelineSpec \<Rightarrow> InputSpec list \<Rightarrow> InputSpec list" where
  "pipeline_inputs p inputSpecs =
     concat (map (\<lambda>i. concat (map (\<lambda>r. if input_Name i = r then [i] else []) (pipeline_InputRefs p)))
       inputSpecs)"

text \<open>An output adapter, as far as pipelines see it, is the list of its input identifiers.\<close>

type_synonym OutputInputs = "string \<rightharpoonup> string list"

definition input_component :: "string set \<Rightarrow> string \<Rightarrow> InputComponent" where
  "input_component inputs ref = (if ref \<in> inputs then InputAdapter ref else NilComponent)"

definition add_output_input :: "string list \<Rightarrow> OutputInputs \<Rightarrow> string \<Rightarrow> OutputInputs" where
  "add_output_input xs outputs name =
     (case outputs name of None \<Rightarrow> outputs | Some ids \<Rightarrow> outputs(name \<mapsto> ids @ xs))"

text \<open>
  \<open>NewPipeline\<close>. The branch without any filter reads the identifiers of the inputs at once, while
  none is set yet, and an unknown input is a nil interface; with \<open>AddSystemFilters\<close> it is never
  taken.
\<close>

definition NewPipeline ::
  "nat \<Rightarrow> PipelineSpec \<Rightarrow> string set \<Rightarrow> OutputInputs \<Rightarrow> (string \<rightharpoonup> InternalFilterSpec) \<Rightarrow> InputSpec list
   \<Rightarrow> (Pipeline \<Rightarrow> Pipeline) \<Rightarrow> (Pipeline \<times> OutputInputs) go" where
  "NewPipeline index p inputs outputs filters inputSpecs addPostFilters =
     (let pipeline0 = addPostFilters
            \<lparr>pl_Spec = p, pl_index = index, pl_filterMap = filters, pl_Filters = [],
             pl_inputSpecs = pipeline_inputs p inputSpecs\<rparr>;
          refs = pipeline_FilterRefs (pl_Spec pipeline0);
          pipeline = foldl initFilter pipeline0 (enumerate 0 refs);
          inputRefs = pipeline_InputRefs (pl_Spec pipeline);
          outputRefs = pipeline_OutputRefs (pl_Spec pipeline)
      in if refs \<noteq> []
         then (case pl_Filters pipeline of
                 [] \<Rightarrow> Inl ProcessExit
               | first # rest \<Rightarrow>
                   (let first' = foldl (\<lambda>pf r. AddInputFrom (input_component inputs r) pf) first inputRefs;
                        filters' = first' # rest
                    in go_bind (index_at filters' (length refs - 1)) (\<lambda>lst.
                         Inr (pipeline\<lparr>pl_Filters := filters'\<rparr>,
                              foldl (add_output_input (pf_ids lst)) outputs outputRefs))))
         else if list_ex (\<lambda>o'. outputs o' \<noteq> None) outputRefs \<and> \<not> list_all (\<lambda>r. r \<in> inputs) inputRefs
         then Inl NilDereference
         else Inr (pipeline, foldl (add_output_input []) outputs outputRefs))"

text \<open>\<open>Transforms\<close>: \<open>Inl\<close> is the error of a factory that returned a nil interface.\<close>

fun pipeline_transforms ::
  "(string \<Rightarrow> string list) \<Rightarrow> string \<Rightarrow> PipelineFilter list \<Rightarrow> (string + (string \<rightharpoonup> Transform)) go" where
  "pipeline_transforms ids name [] = Inr (Inr Map.empty)"
| "pipeline_transforms ids name (pf # pfs) =
     go_bind (pf_Transform ids pf) (\<lambda>tf.
       case tf of
         None \<Rightarrow> Inr (Inl (''filter '' @ Quote (pf_ID pf) @ '' produced nil transform for pipeline '' @ Quote name))
       | Some t \<Rightarrow>
           go_bind (pipeline_transforms ids name pfs) (\<lambda>r.
             case r of Inl e \<Rightarrow> Inr (Inl e)
                     | Inr tfs \<Rightarrow> Inr (Inr ([pf_ID pf \<mapsto> t] ++ tfs))))"

definition Pipeline_Transforms ::
  "(string \<Rightarrow> string list) \<Rightarrow> Pipeline \<Rightarrow> (string + (string \<rightharpoonup> Transform)) go" where
  "Pipeline_Transforms ids p = pipeline_transforms ids (Pipeline_Name p) (pl_Filters p)"

section \<open>Identifiers of the filters of a pipeline\<close>

definition filter_id :: "string \<Rightarrow> string list \<Rightarrow> nat \<Rightarrow> string" where
  "filter_id name refs i = MakePipelineID [name, MakeID [refs ! i, Itoa i]]"

lemma format_char_digit: "c \<in> set ''0123456789'' \<Longrightarrow> char_to_lower (Replacer_char c) = c"
  by (auto simp: Replacer_char_def char_to_lower_def)

lemma FormatComponentID_Itoa: "FormatComponentID (Itoa i) = Itoa i"
proof -
  have "\<forall>c\<in>set (Itoa i). char_to_lower (Replacer_char c) = c"
    using set_Itoa [of i] format_char_digit by (meson subsetD)
  then show ?thesis by (simp add: FormatComponentID_def ToLower_def map_idI)
qed

lemma FormatComponentID_underscore: "FormatComponentID ''_'' = ''_''"
  by code_simp

lemma MakeID_single: "MakeID [a] = FormatComponentID a"
  by (simp add: MakeID_def)

lemma MakeID_Cons: "MakeID (a # b # cs) = FormatComponentID a @ ''_'' @ MakeID (b # cs)"
proof -
  have "Join (a # b # cs) ''_'' = a @ (''_'' @ Join (b # cs) ''_'')" by simp
  then have "MakeID (a # b # cs) = FormatComponentID (a @ (''_'' @ Join (b # cs) ''_''))"
    by (simp only: MakeID_def)
  then show ?thesis by (simp only: FormatComponentID_append FormatComponentID_underscore MakeID_def)
qed

lemma last_part_eq:
  "u \<notin> set d \<Longrightarrow> u \<notin> set e \<Longrightarrow> a @ u # d = b @ u # e \<Longrightarrow> d = e"
  by (auto simp: append_eq_append_conv2 Cons_eq_append_conv append_eq_Cons_conv)

lemma filter_id_inj:
  assumes "filter_id name refs i = filter_id name refs j"
  shows "i = j"
proof -
  have id: "\<exists>a. filter_id name refs k = a @ CHR ''_'' # Itoa k" for k
  proof -
    let ?F = FormatComponentID
    have "MakeID [refs ! k, Itoa k] = ?F (refs ! k) @ CHR ''_'' # Itoa k"
      by (simp add: MakeID_Cons MakeID_single FormatComponentID_Itoa)
    then have "?F (MakeID [refs ! k, Itoa k]) = ?F (?F (refs ! k) @ (''_'' @ Itoa k))"
      by simp
    then have "?F (MakeID [refs ! k, Itoa k]) = ?F (?F (refs ! k)) @ CHR ''_'' # Itoa k"
      by (simp only: FormatComponentID_append FormatComponentID_underscore FormatComponentID_Itoa) simp
    then have "filter_id name refs k
            = (?F ''pipeline'' @ ''_'' @ ?F name @ ''_'' @ ?F (?F (refs ! k))) @ CHR ''_'' # Itoa k"
      by (simp add: filter_id_def MakePipelineID_def MakeID_Cons MakeID_single)
    then show ?thesis by blast
  qed
  have no: "CHR ''_'' \<notin> set (Itoa k)" for k using set_Itoa [of k] by auto
  from id [of i] id [of j] assms obtain a b
    where "a @ CHR ''_'' # Itoa i = b @ CHR ''_'' # Itoa j" by metis
  then show ?thesis using last_part_eq [OF no no] Itoa_inj by blast
qed

section \<open>The chain of filters\<close>

text \<open>What the loop over the filter references builds when each of them is known.\<close>

definition filter_link :: "string \<Rightarrow> (string \<rightharpoonup> InternalFilterSpec) \<Rightarrow> string list \<Rightarrow> nat \<Rightarrow> PipelineFilter" where
  "filter_link name fm refs i =
     \<lparr>pf_ids = [filter_id name refs i],
      pf_Next = (if i = 0 then [] else [FilterAdapter [filter_id name refs (i - 1)]]),
      pf_Factory = ifs_Factory (the (fm (refs ! i)))\<rparr>"

lemma initFilter_fields [simp]:
  "pl_Spec (initFilter p ir) = pl_Spec p" "pl_index (initFilter p ir) = pl_index p"
  "pl_filterMap (initFilter p ir) = pl_filterMap p" "pl_inputSpecs (initFilter p ir) = pl_inputSpecs p"
  by (simp_all add: initFilter_def Let_def split: prod.splits option.splits)

lemma foldl_initFilter_fields [simp]:
  "pl_Spec (foldl initFilter p irs) = pl_Spec p" "pl_index (foldl initFilter p irs) = pl_index p"
  "pl_filterMap (foldl initFilter p irs) = pl_filterMap p"
  "pl_inputSpecs (foldl initFilter p irs) = pl_inputSpecs p"
  by (induction irs arbitrary: p) simp_all

lemma Pipeline_Name_foldl [simp]: "Pipeline_Name (foldl initFilter p irs) = Pipeline_Name p"
  by (simp add: Pipeline_Name_def)

lemma length_initFilter:
  "length (pl_Filters (foldl initFilter p (enumerate n refs)))
     = length (pl_Filters p) + length (filter (\<lambda>r. pl_filterMap p r \<noteq> None) refs)"
proof (induction refs arbitrary: p n)
  case (Cons r refs)
  have "length (pl_Filters (initFilter p (n, r)))
          = length (pl_Filters p) + (if pl_filterMap p r \<noteq> None then 1 else 0)"
    by (simp add: initFilter_def Let_def split: option.splits)
  with Cons [of "initFilter p (n, r)" "Suc n"] show ?case by simp
qed simp

lemma initFilter_chain:
  assumes "pl_Filters p = []" "\<forall>r\<in>set refs. pl_filterMap p r \<noteq> None"
  shows "pl_Filters (foldl initFilter p (enumerate 0 refs))
           = map (filter_link (Pipeline_Name p) (pl_filterMap p) refs) [0..<length refs]"
  using assms
proof (induction refs rule: rev_induct)
  case (snoc r refs)
  let ?q = "foldl initFilter p (enumerate 0 refs)" and ?n = "length refs"
  let ?link = "filter_link (Pipeline_Name p) (pl_filterMap p)"
  from snoc have IH: "pl_Filters ?q = map (?link refs) [0..<?n]" by simp
  have same: "map (?link refs) [0..<?n] = map (?link (refs @ [r])) [0..<?n]"
    by (auto simp: filter_link_def filter_id_def nth_append)
  obtain f where f: "pl_filterMap p r = Some f" using snoc.prems(2) by auto
  have last: "?n \<noteq> 0 \<Longrightarrow> last (map (?link (refs @ [r])) [0..<?n]) = ?link (refs @ [r]) (?n - 1)"
    by (simp add: last_map)
  have "pl_Filters (initFilter ?q (?n, r)) = map (?link (refs @ [r])) [0..<?n] @ [?link (refs @ [r]) ?n]"
    using f last
    by (auto simp: initFilter_def IH same Let_def NewPipelineFilter_def AddInputFrom_def filter_link_def
          filter_id_def)
  then show ?case by (simp add: enumerate_append_eq)
qed simp

lemma AddInputFrom_inputs:
  "foldl (\<lambda>pf r. AddInputFrom (g r) pf) pf rs = pf\<lparr>pf_Next := pf_Next pf @ map g rs\<rparr>"
  by (induction rs arbitrary: pf) (simp_all add: AddInputFrom_def)

lemma add_output_input_apply:
  "outputs o' = Some ids \<Longrightarrow>
   foldl (add_output_input xs) outputs refs o' = Some (ids @ concat (replicate (count_list refs o') xs))"
proof (induction refs arbitrary: outputs ids)
  case (Cons r refs)
  show ?case
  proof (cases "r = o'")
    case True
    with Cons.prems have "add_output_input xs outputs r o' = Some (ids @ xs)"
      by (simp add: add_output_input_def)
    from Cons.IH [where outputs = "add_output_input xs outputs r", OF this] True show ?thesis by simp
  next
    case False
    with Cons.prems have "add_output_input xs outputs r o' = Some ids"
      by (simp add: add_output_input_def split: option.splits)
    from Cons.IH [where outputs = "add_output_input xs outputs r", OF this] False show ?thesis by simp
  qed
qed simp

lemma add_output_input_None:
  "foldl (add_output_input xs) outputs refs o' = None \<longleftrightarrow> outputs o' = None"
  by (induction refs arbitrary: outputs) (auto simp: add_output_input_def split: option.splits)

text \<open>The pipeline as \<open>NewPipeline\<close> starts it.\<close>

definition pipeline_start ::
  "nat \<Rightarrow> PipelineSpec \<Rightarrow> (string \<rightharpoonup> InternalFilterSpec) \<Rightarrow> InputSpec list \<Rightarrow> Pipeline" where
  "pipeline_start index p filters inputSpecs =
     AddSystemFilters
       \<lparr>pl_Spec = p, pl_index = index, pl_filterMap = filters, pl_Filters = [],
        pl_inputSpecs = pipeline_inputs p inputSpecs\<rparr>"

definition early_in :: "(string \<rightharpoonup> InternalFilterSpec) \<Rightarrow> string \<Rightarrow> bool" where
  "early_in filters r \<longleftrightarrow> r \<noteq> Viaq \<and> early_stage filters r"

definition system_refs :: "(string \<rightharpoonup> InternalFilterSpec) \<Rightarrow> PipelineSpec \<Rightarrow> string list" where
  "system_refs filters p =
     filter (early_in filters) (pipeline_FilterRefs p) @ [Viaq]
     @ filter (\<lambda>r. \<not> early_in filters r) (pipeline_FilterRefs p)"

lemma early_stage_viaq:
  "early_stage (filters(Viaq \<mapsto> \<lparr>ifs_Type = FilterTypeOther t, ifs_Factory = f\<rparr>)) = early_in filters"
  by (rule ext) (simp add: early_stage_def early_in_def)

lemma pipeline_start_fields:
  "pipeline_FilterRefs (pl_Spec (pipeline_start index p filters specs)) = system_refs filters p"
  "pipeline_InputRefs (pl_Spec (pipeline_start index p filters specs)) = pipeline_InputRefs p"
  "pipeline_OutputRefs (pl_Spec (pipeline_start index p filters specs)) = pipeline_OutputRefs p"
  "pipeline_Name (pl_Spec (pipeline_start index p filters specs)) = pipeline_Name p"
  "pl_Filters (pipeline_start index p filters specs) = []"
  "pl_index (pipeline_start index p filters specs) = index"
  "pl_filterMap (pipeline_start index p filters specs) r =
     (if r = Viaq then Some \<lparr>ifs_Type = FilterTypeOther Viaq,
                            ifs_Factory = (\<lambda>inputs. Inr (Some (NewViaq inputs (pipeline_inputs p specs))))\<rparr>
      else filters r)"
  by (simp_all add: pipeline_start_def AddSystemFilters_def system_refs_def Let_def early_stage_viaq)

lemma set_system_refs: "set (system_refs filters p) = insert Viaq (set (pipeline_FilterRefs p))"
  by (auto simp: system_refs_def)

lemma system_refs_ne [simp]: "system_refs filters p \<noteq> []"
  by (simp add: system_refs_def)

section \<open>What NewPipeline returns\<close>

definition refs_known :: "(string \<rightharpoonup> InternalFilterSpec) \<Rightarrow> PipelineSpec \<Rightarrow> bool" where
  "refs_known filters p \<longleftrightarrow> (\<forall>r\<in>set (pipeline_FilterRefs p). r = Viaq \<or> filters r \<noteq> None)"

definition pipeline_title :: "nat \<Rightarrow> PipelineSpec \<Rightarrow> string" where
  "pipeline_title index p =
     (if pipeline_Name p = [] then MakeID [''pipeline'', Itoa index] else pipeline_Name p)"

definition chain_links ::
  "nat \<Rightarrow> PipelineSpec \<Rightarrow> (string \<rightharpoonup> InternalFilterSpec) \<Rightarrow> InputSpec list \<Rightarrow> PipelineFilter list" where
  "chain_links index p filters specs =
     map (filter_link (pipeline_title index p) (pl_filterMap (pipeline_start index p filters specs))
            (system_refs filters p)) [0..<length (system_refs filters p)]"

definition last_filter_id :: "nat \<Rightarrow> PipelineSpec \<Rightarrow> (string \<rightharpoonup> InternalFilterSpec) \<Rightarrow> string" where
  "last_filter_id index p filters =
     filter_id (pipeline_title index p) (system_refs filters p) (length (system_refs filters p) - 1)"

lemma Pipeline_Name_start: "Pipeline_Name (pipeline_start index p filters specs) = pipeline_title index p"
  by (simp add: Pipeline_Name_def pipeline_title_def pipeline_start_fields)

lemma known_filterMap:
  "(\<forall>r\<in>set (system_refs filters p). pl_filterMap (pipeline_start index p filters specs) r \<noteq> None)
     \<longleftrightarrow> refs_known filters p"
  by (auto simp: set_system_refs refs_known_def pipeline_start_fields)

lemma chain_filters:
  assumes "refs_known filters p"
  shows "pl_Filters (foldl initFilter (pipeline_start index p filters specs) (enumerate 0 (system_refs filters p)))
           = chain_links index p filters specs"
  using initFilter_chain [of "pipeline_start index p filters specs" "system_refs filters p"] assms
    known_filterMap [of filters p index specs]
  by (simp add: pipeline_start_fields(5) Pipeline_Name_start chain_links_def)

lemma NewPipeline_result:
  assumes "refs_known filters p"
  shows "\<exists>pl. NewPipeline index p inputs outputs filters specs AddSystemFilters
               = Inr (pl, foldl (add_output_input [last_filter_id index p filters]) outputs (pipeline_OutputRefs p))
           \<and> pl_Filters pl = (hd (chain_links index p filters specs))
                \<lparr>pf_Next := map (input_component inputs) (pipeline_InputRefs p)\<rparr>
                # tl (chain_links index p filters specs)
           \<and> Pipeline_Name pl = pipeline_title index p"
proof -
  let ?start = "pipeline_start index p filters specs" and ?refs = "system_refs filters p"
  let ?links = "chain_links index p filters specs"
  let ?pl = "foldl initFilter ?start (enumerate 0 ?refs)"
  obtain n where n: "length ?refs = Suc n" by (cases ?refs) simp_all
  have filters: "pl_Filters ?pl = ?links" by (rule chain_filters [OF assms])
  have len: "length ?links = Suc n" by (simp add: chain_links_def n)
  then obtain first rest where links: "?links = first # rest" by (cases ?links) simp_all
  have "first = ?links ! 0" using links by simp
  then have first: "pf_Next first = []" using n by (simp add: chain_links_def filter_link_def del: upt_Suc)
  have last: "pf_ids (?links ! n) = [last_filter_id index p filters]"
    using n by (simp add: chain_links_def filter_link_def last_filter_id_def del: upt_Suc)
  let ?first = "first\<lparr>pf_Next := map (input_component inputs) (pipeline_InputRefs p)\<rparr>"
  have "pf_ids ((?first # rest) ! n) = [last_filter_id index p filters]"
    using last by (cases n) (simp_all add: links)
  moreover have "n < length (?first # rest)" using len links by simp
  ultimately show ?thesis
    using links
    by (simp add: NewPipeline_def Let_def pipeline_start_def [symmetric] pipeline_start_fields
          filters AddInputFrom_inputs first n index_at_def)
      (simp add: Pipeline_Name_def pipeline_title_def pipeline_start_fields)
qed

lemma NewPipeline_returns:
  "returns (NewPipeline index p inputs outputs filters specs AddSystemFilters) \<longleftrightarrow> refs_known filters p"
proof (cases "refs_known filters p")
  case True
  then show ?thesis using NewPipeline_result [OF True, of index inputs outputs specs] by auto
next
  case False
  let ?start = "pipeline_start index p filters specs" and ?refs = "system_refs filters p"
  let ?pl = "foldl initFilter ?start (enumerate 0 ?refs)"
  have "\<not> (\<forall>r\<in>set ?refs. pl_filterMap ?start r \<noteq> None)" using False known_filterMap by blast
  then have "length (filter (\<lambda>r. pl_filterMap ?start r \<noteq> None) ?refs) \<noteq> length ?refs"
    using length_filter_all [of "\<lambda>r. pl_filterMap ?start r \<noteq> None" ?refs] by blast
  moreover have "length (filter (\<lambda>r. pl_filterMap ?start r \<noteq> None) ?refs) \<le> length ?refs"
    by (rule length_filter_le)
  moreover have "length (pl_Filters ?pl) = length (filter (\<lambda>r. pl_filterMap ?start r \<noteq> None) ?refs)"
    using length_initFilter [of ?start 0 ?refs] by (simp only: pipeline_start_fields list.size add_0_left)
  ultimately have "length (pl_Filters ?pl) < length ?refs" by linarith
  then have "returns (NewPipeline index p inputs outputs filters specs AddSystemFilters) = False"
    by (cases "pl_Filters ?pl")
      (simp_all add: NewPipeline_def Let_def pipeline_start_def [symmetric] pipeline_start_fields index_at_def)
  with False show ?thesis by simp
qed

text \<open>The transforms of a chain whose factories make transforms.\<close>

lemma pipeline_transforms_made:
  "\<forall>pf\<in>set pfs. pf_Transform ids pf = Inr (Some (T pf)) \<Longrightarrow>
   pipeline_transforms ids name pfs = Inr (Inr (map_of (rev (map (\<lambda>pf. (pf_ID pf, T pf)) pfs))))"
proof (induction pfs)
  case (Cons pf pfs)
  then show ?case by (simp add: map_add_def split: option.splits)
qed simp

text \<open>
  The chain as the transforms show it: the first filter reads every identifier of the pipeline's
  inputs, each further filter its predecessor.
\<close>

definition chain_edges ::
  "(string \<Rightarrow> string list) \<Rightarrow> string set \<Rightarrow> nat \<Rightarrow> PipelineSpec \<Rightarrow> (string \<rightharpoonup> InternalFilterSpec)
   \<Rightarrow> (string \<rightharpoonup> Transform) \<Rightarrow> bool" where
  "chain_edges ids inputs index p filters tfs \<longleftrightarrow>
     (let refs = system_refs filters p; fid = filter_id (pipeline_title index p) refs
      in dom tfs = fid ` {..<length refs}
         \<and> transform_inputs (the (tfs (fid 0)))
             = sort (concat (map ids (filter (\<lambda>r. r \<in> inputs) (pipeline_InputRefs p))))
         \<and> (\<forall>i\<in>{1..<length refs}. transform_inputs (the (tfs (fid i))) = [fid (i - 1)]))"

definition factories_make :: "(string \<rightharpoonup> InternalFilterSpec) \<Rightarrow> bool" where
  "factories_make filters \<longleftrightarrow>
     (\<forall>f\<in>ran filters. \<forall>ins. \<exists>t. ifs_Factory f ins = Inr (Some t) \<and> t \<noteq> TRemap None
                              \<and> transform_inputs t = sort ins)"

lemma concat_map_components:
  "concat (map (component_ids ids \<circ> input_component inputs) rs)
     = concat (map ids (filter (\<lambda>r. r \<in> inputs) rs))"
  by (induction rs) (simp_all add: input_component_def)

lemma NewViaq_inputs [simp]: "transform_inputs (NewViaq ins specs) = sort ins" "NewViaq ins specs \<noteq> TRemap None"
  by (simp_all add: NewViaq_def)

lemma link_factory_makes:
  assumes "refs_known filters p" "factories_make filters" "i < length (system_refs filters p)"
  shows "\<exists>t. ifs_Factory (the (pl_filterMap (pipeline_start index p filters specs) (system_refs filters p ! i))) ins
               = Inr (Some t) \<and> t \<noteq> TRemap None \<and> transform_inputs t = sort ins"
proof (cases "system_refs filters p ! i = Viaq")
  case True
  then show ?thesis by (simp add: pipeline_start_fields)
next
  case False
  have "system_refs filters p ! i \<in> set (system_refs filters p)" using assms(3) by simp
  then have "system_refs filters p ! i \<in> set (pipeline_FilterRefs p)"
    using False by (auto simp: set_system_refs)
  with assms(1) False obtain f where "filters (system_refs filters p ! i) = Some f"
    by (auto simp: refs_known_def)
  with False assms(2) show ?thesis by (auto simp: pipeline_start_fields factories_make_def intro: ranI)
qed

lemma chain_transforms:
  assumes known: "refs_known filters p" and make: "factories_make filters"
    and pfs: "pl_Filters pl = (hd (chain_links index p filters specs))
                \<lparr>pf_Next := map (input_component inputs) (pipeline_InputRefs p)\<rparr>
                # tl (chain_links index p filters specs)"
  shows "\<exists>tfs. Pipeline_Transforms ids pl = Inr (Inr tfs)
           \<and> chain_edges ids inputs index p filters tfs \<and> TRemap None \<notin> ran tfs"
proof -
  let ?refs = "system_refs filters p" and ?links = "chain_links index p filters specs"
  let ?fid = "filter_id (pipeline_title index p) ?refs"
  let ?T = "\<lambda>pf. the (projr (pf_Transform ids pf))"
  define fs where "fs = pl_Filters pl"
  obtain first rest where links: "?links = first # rest" by (cases ?links) (simp_all add: chain_links_def)
  have fs: "fs = first\<lparr>pf_Next := map (input_component inputs) (pipeline_InputRefs p)\<rparr> # rest"
    using pfs links by (simp add: fs_def)
  have len: "length fs = length ?refs"
    using arg_cong [OF links, of length] by (simp add: fs chain_links_def)
  have link: "?links ! i = filter_link (pipeline_title index p)
      (pl_filterMap (pipeline_start index p filters specs)) ?refs i" if "i < length fs" for i
    using that by (simp add: chain_links_def len del: upt_Suc)
  have ids: "pf_ID (fs ! i) = ?fid i"
    and fac: "pf_Factory (fs ! i)
        = ifs_Factory (the (pl_filterMap (pipeline_start index p filters specs) (?refs ! i)))"
    and nxt: "pf_Next (fs ! i) = (if i = 0 then map (input_component inputs) (pipeline_InputRefs p)
                                else [FilterAdapter [?fid (i - 1)]])" if "i < length fs" for i
    using link [OF that] links that by (cases i; simp add: fs filter_link_def pf_ID_def)+
  have T: "pf_Transform ids (fs ! i) = Inr (Some (?T (fs ! i))) \<and> ?T (fs ! i) \<noteq> TRemap None
      \<and> transform_inputs (?T (fs ! i)) = sort (concat (map (component_ids ids) (pf_Next (fs ! i))))"
    if i: "i < length fs" for i
  proof -
    let ?ins = "sort (concat (map (component_ids ids) (pf_Next (fs ! i))))"
    obtain t where "ifs_Factory (the (pl_filterMap (pipeline_start index p filters specs) (?refs ! i))) ?ins
        = Inr (Some t)" "t \<noteq> TRemap None" "transform_inputs t = sort ?ins"
      using link_factory_makes [OF known make, of i index specs ?ins] i len by auto
    then show ?thesis using fac [OF i] by (simp add: pf_Transform_def sorted_sort_id)
  qed
  define kvs where "kvs = map (\<lambda>pf. (pf_ID pf, ?T pf)) fs"
  have keys: "map fst kvs = map ?fid [0..<length fs]"
    using ids by (intro nth_equalityI) (simp_all add: kvs_def)
  have dist: "distinct (map fst kvs)"
    unfolding keys by (auto simp: distinct_map intro: inj_onI dest: filter_id_inj)
  have look: "map_of (rev kvs) (?fid i) = Some (?T (fs ! i))" if i: "i < length fs" for i
  proof -
    have "kvs ! i = (?fid i, ?T (fs ! i))" "i < length kvs" using i ids [OF i] by (simp_all add: kvs_def)
    then have "(?fid i, ?T (fs ! i)) \<in> set (rev kvs)" by (metis nth_mem set_rev)
    then show ?thesis using dist by (simp add: rev_map [symmetric])
  qed
  have "\<forall>pf\<in>set fs. pf_Transform ids pf = Inr (Some (?T pf))"
    using T by (auto simp: in_set_conv_nth)
  then have res: "Pipeline_Transforms ids pl = Inr (Inr (map_of (rev kvs)))"
    unfolding Pipeline_Transforms_def fs_def [symmetric] kvs_def by (rule pipeline_transforms_made)
  have "dom (map_of (rev kvs)) = set (map fst kvs)"
    by (simp add: dom_map_of_conv_image_fst)
  then have dom: "dom (map_of (rev kvs)) = ?fid ` {..<length ?refs}"
    unfolding keys by (simp add: len atLeast0LessThan [symmetric])
  show ?thesis
  proof (intro exI conjI)
    show "Pipeline_Transforms ids pl = Inr (Inr (map_of (rev kvs)))" by (rule res)
    show "chain_edges ids inputs index p filters (map_of (rev kvs))"
      using dom look T nxt len
      by (auto simp: chain_edges_def Let_def concat_map_components)
    have "ran (map_of (rev kvs)) = ?T ` set fs"
      using ran_distinct [of "rev kvs"] dist by (simp add: rev_map [symmetric]) (simp add: kvs_def image_image)
    moreover have "TRemap None \<noteq> ?T pf" if "pf \<in> set fs" for pf
    proof -
      from that obtain i where "i < length fs" "fs ! i = pf" unfolding in_set_conv_nth by blast
      with T [THEN conjunct2, THEN conjunct1, THEN not_sym, of i] show ?thesis by simp
    qed
    ultimately show "TRemap None \<notin> ran (map_of (rev kvs))" by blast
  qed
qed

lemma NewInternalFilterMap_makes:
  assumes "\<forall>f\<in>ran filters. filter_ok compiles f \<and> filter_usable f
             \<and> range_order (filter_OpenshiftLabels f) (lord (filter_Name f))"
  shows "factories_make (NewInternalFilterMap lord filters)"
  unfolding factories_make_def
proof (intro ballI allI)
  fix g ins
  assume "g \<in> ran (NewInternalFilterMap lord filters)"
  then obtain f where f: "f \<in> ran filters" "g = \<lparr>ifs_Type = filter_Type f, ifs_Factory = filter_factory lord f\<rparr>"
    by (auto simp: NewInternalFilterMap_def ran_def simp del: map_option_eq_Some dest!: map_option_eq_Some [THEN iffD1])
  then show "\<exists>t. ifs_Factory g ins = Inr (Some t) \<and> t \<noteq> TRemap None \<and> transform_inputs t = sort ins"
    using filter_factory_makes [of compiles f lord ins] assms by simp
qed

section \<open>Properties\<close>


definition sample_pipeline :: PipelineSpec where
  "sample_pipeline =
     \<lparr>pipeline_Name = ''p'', pipeline_InputRefs = [''application''], pipeline_OutputRefs = [''o''],
      pipeline_FilterRefs = [''drop'']\<rparr>"


text \<open>
  C28. \<open>NewPipeline\<close> returns exactly when every filter reference names a filter of the resource (or
  the data model filter): one unknown reference makes the index of the last filter run past the
  end of the list, and the program panics.
\<close>

theorem pipeline_returns_iff:
  "returns (NewPipeline index p inputs outputs filters specs AddSystemFilters)
     \<longleftrightarrow> (\<forall>r\<in>set (pipeline_FilterRefs p). r = Viaq \<or> filters r \<noteq> None)"
  unfolding NewPipeline_returns refs_known_def by (rule refl)

theorem pipeline_returns_iff_witness:
  "\<not> returns (NewPipeline 0 sample_pipeline {''application''} [''o'' \<mapsto> []] Map.empty [] AddSystemFilters)"
  using pipeline_returns_iff [of 0 sample_pipeline "{''application''}" "[''o'' \<mapsto> []]" Map.empty "[]"]
  by (simp add: sample_pipeline_def Viaq_def)

text \<open>
  C31. A labels filter without labels passes validation, and the check for nil transforms does not
  find it: the factory's nil pointer is not a nil interface, \<open>Transforms\<close> reports no error, and the
  configuration holds a nil transform under the identifier that the pipeline's outputs read.
\<close>

theorem empty_labels_nil_transform:
  assumes "pipeline_FilterRefs p = [n]" "n \<noteq> Viaq" "filters n = Some f"
    and "filter_Type f = FilterTypeOpenshiftLabels" "filter_OpenshiftLabels f = Map.empty"
  shows "filter_ok compiles f
      \<and> (\<exists>pl outs tfs.
          NewPipeline index p inputs outputs (NewInternalFilterMap (\<lambda>_. []) filters) specs AddSystemFilters
            = Inr (pl, outs)
          \<and> Pipeline_Transforms ids pl = Inr (Inr tfs)
          \<and> tfs (last_filter_id index p (NewInternalFilterMap (\<lambda>_. []) filters)) = Some (TRemap None))"
proof -
  let ?fm = "NewInternalFilterMap (\<lambda>_. []) filters"
  have known: "refs_known ?fm p" using assms by (simp add: refs_known_def NewInternalFilterMap_def)
  have refs: "system_refs ?fm p = [Viaq, n]"
    using assms by (simp add: system_refs_def early_in_def early_stage_def NewInternalFilterMap_def)
  obtain pl where pl: "NewPipeline index p inputs outputs ?fm specs AddSystemFilters
        = Inr (pl, foldl (add_output_input [last_filter_id index p ?fm]) outputs (pipeline_OutputRefs p))"
    "pl_Filters pl = (hd (chain_links index p ?fm specs))
        \<lparr>pf_Next := map (input_component inputs) (pipeline_InputRefs p)\<rparr> # tl (chain_links index p ?fm specs)"
    using NewPipeline_result [OF known, of index inputs outputs specs] by blast
  have fac: "filter_factory (\<lambda>_. []) f ins = Inr (Some (TRemap None))" for ins
    using assms by (simp add: filter_factory_def NewLabels_def)
  have fmn: "?fm n = Some \<lparr>ifs_Type = filter_Type f, ifs_Factory = filter_factory (\<lambda>_. []) f\<rparr>"
    using assms by (simp add: NewInternalFilterMap_def)
  have "chain_links index p ?fm specs
      = [filter_link (pipeline_title index p) (pl_filterMap (pipeline_start index p ?fm specs)) [Viaq, n] 0,
         filter_link (pipeline_title index p) (pl_filterMap (pipeline_start index p ?fm specs)) [Viaq, n] 1]"
    by (simp add: chain_links_def refs)
  then have "\<exists>tfs. Pipeline_Transforms ids pl = Inr (Inr tfs)
      \<and> tfs (last_filter_id index p ?fm) = Some (TRemap None)"
    using pl(2) assms(2) fmn fac
    by (simp add: Pipeline_Transforms_def pf_Transform_def filter_link_def pipeline_start_fields pf_ID_def
          last_filter_id_def refs)
  with pl(1) assms show ?thesis by (auto simp: filter_ok_def)
qed

definition no_labels :: FilterSpec where
  "no_labels =
     \<lparr>filter_Name = ''drop'', filter_Type = FilterTypeOpenshiftLabels, filter_KubeAPIAudit = None,
      filter_DropTestsSpec = [], filter_PruneFilterSpec = None, filter_OpenshiftLabels = Map.empty\<rparr>"

theorem empty_labels_nil_transform_witness:
  "\<exists>pl outs tfs. NewPipeline 0 sample_pipeline {} Map.empty
       (NewInternalFilterMap (\<lambda>_. []) [''drop'' \<mapsto> no_labels]) [] AddSystemFilters = Inr (pl, outs)
     \<and> Pipeline_Transforms (\<lambda>_. []) pl = Inr (Inr tfs) \<and> TRemap None \<in> ran tfs"
  using empty_labels_nil_transform [of sample_pipeline "''drop''" "[''drop'' \<mapsto> no_labels]" no_labels
      "\<lambda>_. True" 0 "{}" Map.empty "[]" "\<lambda>_. []"]
  by (auto simp: sample_pipeline_def no_labels_def Viaq_def intro!: ranI)

end
