(* ===== verification/Vector_Config.thy ===== *)
theory Vector_Config
  imports Vector_Api
begin

text \<open>
  Sources, sinks and the configuration that holds them (\<open>api/sources\<close>, \<open>api/sinks\<close>,
  \<open>api/config.go\<close>): one record per struct, the interfaces as datatypes over the structs, and
  the operations that add components under their identifiers.
\<close>

section \<open>TLS settings (api/types/transport)\<close>

record TLS =
  tls_MinTlsVersion :: string
  tls_CipherSuites :: string
  tls_Curves :: string
  tls_VerifyCertificate :: "bool option"
  tls_VerifyHostname :: "bool option"
  tls_KeyFile :: string
  tls_CRTFile :: string
  tls_CAFile :: string
  tls_KeyPass :: string

definition emptyTLSConf :: TLS where
  "emptyTLSConf =
     \<lparr>tls_MinTlsVersion = [], tls_CipherSuites = [], tls_Curves = [],
      tls_VerifyCertificate = None, tls_VerifyHostname = None, tls_KeyFile = [], tls_CRTFile = [],
      tls_CAFile = [], tls_KeyPass = []\<rparr>"

record TlsEnabled =
  tlsen_TLS :: TLS
  tlsen_Enabled :: bool

section \<open>Sources (api/sources)\<close>

record FileSource =
  file_Include :: "string list"
  file_HostKey :: string
  file_GlobalMinimumCooldownMilliSeconds :: int
  file_IgnoreOlderSecs :: int
  file_MaxLineBytes :: int
  file_MaxReadBytes :: int
  file_RotateWaitSecs :: int

record PodAnnotationFields =
  podann_PodLabels :: string
  podann_PodNamespace :: string
  podann_PodAnnotations :: string
  podann_PodUid :: string
  podann_PodNodeName :: string

record KubernetesLogs =
  klogs_MaxReadBytes :: nat
  klogs_GlobMinimumCooldownMillis :: nat
  klogs_AutoPartialMerge :: bool
  klogs_MaxMergedLineBytes :: "64 word"
  klogs_IncludePathsGlobPatterns :: "string list"
  klogs_ExcludePathsGlobPatterns :: "string list"
  klogs_ExtraLabelSelector :: string
  klogs_RotateWaitSecs :: nat
  klogs_UseApiServerCache :: bool
  klogs_PodAnnotationFields :: "PodAnnotationFields option"
  klogs_NamespaceUid :: "string option"

record JournaldSource =
  journald_JournalDirectory :: string
  journald_JournalctlPath :: string

record HttpServer =
  httpsrv_Address :: string
  httpsrv_Codec :: "string option"
  httpsrv_TLS :: "TlsEnabled option"

record SyslogServer =
  syslogsrv_Address :: string
  syslogsrv_Mode :: string
  syslogsrv_TLS :: "TlsEnabled option"

datatype Source =
    SFile FileSource
  | SKubernetesLogs KubernetesLogs
  | SJournald JournaldSource
  | SHttpServer HttpServer
  | SSyslog SyslogServer
  | SInternalMetrics nat

definition NewFile :: "string list \<Rightarrow> FileSource" where
  "NewFile paths =
     \<lparr>file_Include = paths, file_HostKey = [], file_GlobalMinimumCooldownMilliSeconds = 0,
      file_IgnoreOlderSecs = 0, file_MaxLineBytes = 0, file_MaxReadBytes = 0,
      file_RotateWaitSecs = 0\<rparr>"

definition NewKubernetesLogs :: "(KubernetesLogs \<Rightarrow> KubernetesLogs) \<Rightarrow> Source" where
  "NewKubernetesLogs init =
     SKubernetesLogs (init
       \<lparr>klogs_MaxReadBytes = 0, klogs_GlobMinimumCooldownMillis = 0, klogs_AutoPartialMerge = False,
        klogs_MaxMergedLineBytes = 0, klogs_IncludePathsGlobPatterns = [],
        klogs_ExcludePathsGlobPatterns = [], klogs_ExtraLabelSelector = [],
        klogs_RotateWaitSecs = 0, klogs_UseApiServerCache = False,
        klogs_PodAnnotationFields = None, klogs_NamespaceUid = None\<rparr>)"

definition NewJournalD :: JournaldSource where
  "NewJournalD =
     \<lparr>journald_JournalDirectory = ''/var/log/journal'',
      journald_JournalctlPath = ''/usr/bin/journalctl''\<rparr>"

text \<open>\<open>%d\<close> of a port, an \<open>int32\<close>.\<close>

definition fmt_d :: "int \<Rightarrow> string" where
  "fmt_d i = (if i < 0 then ''-'' @ Itoa (nat (- i)) else Itoa (nat i))"

definition NewHttpServer :: "string \<Rightarrow> int \<Rightarrow> HttpServer" where
  "NewHttpServer listenAddress listenPort =
     \<lparr>httpsrv_Address = listenAddress @ '':'' @ fmt_d listenPort, httpsrv_Codec = None,
      httpsrv_TLS = None\<rparr>"

definition NewSyslogServer :: "string \<Rightarrow> int \<Rightarrow> string \<Rightarrow> SyslogServer" where
  "NewSyslogServer listenAddress listenPort mode =
     \<lparr>syslogsrv_Address = listenAddress @ '':'' @ fmt_d listenPort, syslogsrv_Mode = mode,
      syslogsrv_TLS = None\<rparr>"

definition NewInternalMetrics :: Source where
  "NewInternalMetrics = SInternalMetrics 0"

section \<open>Sinks (api/sinks)\<close>

record Batch =
  batch_MaxBytes :: "64 word"
  batch_MaxEvents :: nat

record Buffer =
  buffer_Type :: string
  buffer_WhenFull :: string
  buffer_MaxSize :: nat
  buffer_MaxEvents :: nat

record Encoding =
  encoding_Codec :: string
  encoding_TimestampFormat :: string
  encoding_ExceptFields :: "string list"

record Request =
  request_RetryAttempts :: "64 word"
  request_RetryInitialBackoffSecs :: "64 word"
  request_RetryMaxDurationSec :: "64 word"
  request_TimeoutSecs :: "64 word"
  request_Headers :: "(string \<rightharpoonup> string) option"

definition Request_zero :: Request where
  "Request_zero =
     \<lparr>request_RetryAttempts = 0, request_RetryInitialBackoffSecs = 0,
      request_RetryMaxDurationSec = 0, request_TimeoutSecs = 0, request_Headers = None\<rparr>"

record Proxy =
  proxy_Enabled :: bool
  proxy_Http :: string
  proxy_Https :: string

text \<open>
  \<open>BaseSink\<close>, without the acknowledgements, which nothing sets. Sinks that list some of its
  fields themselves use the same record and leave the others at their zero value.
\<close>

record BaseSink =
  bsink_Compression :: string
  bsink_Encoding :: "Encoding option"
  bsink_Batch :: "Batch option"
  bsink_Buffer :: "Buffer option"
  bsink_Request :: "Request option"
  bsink_TLS :: "TLS option"

definition BaseSink_zero :: BaseSink where
  "BaseSink_zero =
     \<lparr>bsink_Compression = [], bsink_Encoding = None, bsink_Batch = None, bsink_Buffer = None,
      bsink_Request = None, bsink_TLS = None\<rparr>"

record HttpAuth =
  auth_Strategy :: string
  auth_User :: string
  auth_Password :: string
  auth_Token :: string

record AwsAuth =
  awsauth_AccessKeyId :: string
  awsauth_SecretAccessKey :: string
  awsauth_AssumeRole :: string
  awsauth_ExternalId :: string
  awsauth_SessionName :: string
  awsauth_CredentialsFile :: string
  awsauth_Profile :: string

record AwsCloudwatchLogs =
  cwsink_Inputs :: "string list"
  cwsink_Region :: string
  cwsink_GroupName :: string
  cwsink_StreamName :: string
  cwsink_Endpoint :: string
  cwsink_Base :: BaseSink
  cwsink_Auth :: "AwsAuth option"
  cwsink_HealthCheck :: bool

record AwsS3 =
  s3sink_Inputs :: "string list"
  s3sink_Region :: string
  s3sink_Bucket :: string
  s3sink_KeyPrefix :: string
  s3sink_Endpoint :: string
  s3sink_Base :: BaseSink
  s3sink_Auth :: "AwsAuth option"
  s3sink_HealthCheck :: bool

record AzureLogsIngestionAuth =
  azsinkauth_AzureCredentialKind :: string
  azsinkauth_AzureTenantId :: string
  azsinkauth_AzureClientId :: string
  azsinkauth_AzureClientSecret :: string
  azsinkauth_TenantId :: string
  azsinkauth_ClientId :: string
  azsinkauth_TokenFilePath :: string

record AzureLogsIngestionSink =
  azlisink_Inputs :: "string list"
  azlisink_Endpoint :: string
  azlisink_DcrImmutableId :: string
  azlisink_StreamName :: string
  azlisink_TokenScope :: string
  azlisink_TimestampField :: string
  azlisink_Auth :: "AzureLogsIngestionAuth option"
  azlisink_Base :: BaseSink

record AzureMonitorLogs =
  azmsink_Inputs :: "string list"
  azmsink_AzureResourceId :: string
  azmsink_CustomerId :: string
  azmsink_Host :: string
  azmsink_LogType :: string
  azmsink_SharedKey :: string
  azmsink_Base :: BaseSink

record ElasticsearchSink =
  essink_Inputs :: "string list"
  essink_Endpoints :: "string list"
  essink_IdKey :: string
  essink_ApiVersion :: string
  essink_Base :: BaseSink
  essink_BulkIndex :: string
  essink_BulkAction :: string
  essink_Auth :: "HttpAuth option"
  essink_Proxy :: "Proxy option"

record GcpStackdriverLogs =
  gclsink_Inputs :: "string list"
  gclsink_BillingAccountId :: string
  gclsink_CredentialsPath :: string
  gclsink_LogId :: string
  gclsink_SeverityKey :: string
  gclsink_FolderId :: string
  gclsink_ProjectId :: string
  gclsink_OrganizationId :: string
  gclsink_Resource :: "string \<rightharpoonup> string"
  gclsink_Base :: BaseSink

record HttpSink =
  httpsink_Inputs :: "string list"
  httpsink_URI :: string
  httpsink_Method :: string
  httpsink_Base :: BaseSink
  httpsink_Framing :: "string option"
  httpsink_Auth :: "HttpAuth option"
  httpsink_Proxy :: "Proxy option"

record Sasl =
  saslsink_Enabled :: bool
  saslsink_Username :: string
  saslsink_Password :: string
  saslsink_Mechanism :: string

record KafkaSink =
  kafkasink_Inputs :: "string list"
  kafkasink_BootstrapServers :: string
  kafkasink_Topic :: string
  kafkasink_HealthCheck :: "bool option"
  kafkasink_Base :: BaseSink
  kafkasink_Sasl :: "Sasl option"
  kafkasink_TLS :: "TlsEnabled option"
  kafkasink_LibrdKafka_Options :: "string \<rightharpoonup> string"

record LokiSink =
  lokisink_Inputs :: "string list"
  lokisink_Endpoint :: string
  lokisink_OutOfOrderAction :: string
  lokisink_TenantId :: string
  lokisink_Base :: BaseSink
  lokisink_HealthCheck :: "bool option"
  lokisink_Auth :: "HttpAuth option"
  lokisink_Proxy :: "Proxy option"
  lokisink_Labels :: "string \<rightharpoonup> string"

record OpenTelemetryProtocol =
  otelp_URI :: string
  otelp_Type :: string
  otelp_Method :: string
  otelp_PayloadPrefix :: string
  otelp_PayloadSuffix :: string
  otelp_Compression :: string
  otelp_TLS :: "TLS option"
  otelp_Encoding :: "Encoding option"
  otelp_Auth :: "HttpAuth option"
  otelp_Request :: "Request option"

record OpenTelemetry =
  otelsink_Inputs :: "string list"
  otelsink_Protocol :: OpenTelemetryProtocol
  otelsink_Batch :: "Batch option"
  otelsink_Buffer :: "Buffer option"

record PrometheusExporterAuth =
  promauth_Strategy :: string
  promauth_Path :: string
  promauth_Verb :: string

record PrometheusExporter =
  promsink_Inputs :: "string list"
  promsink_Address :: string
  promsink_DefaultNamespace :: string
  promsink_TLS :: "TlsEnabled option"
  promsink_Auth :: "PrometheusExporterAuth option"

record SyslogEncodingConfig =
  sysenc_RFC :: string
  sysenc_Facility :: string
  sysenc_Severity :: string
  sysenc_AppName :: string
  sysenc_MsgID :: string
  sysenc_ProcID :: string

record SocketEncoding =
  sockenc_Codec :: string
  sockenc_Syslog :: "SyslogEncodingConfig option"

record Socket =
  socksink_Inputs :: "string list"
  socksink_Address :: string
  socksink_Mode :: string
  socksink_KeepaliveSecs :: "nat option"
  socksink_Encoding :: "SocketEncoding option"
  socksink_Buffer :: "Buffer option"
  socksink_TLS :: "TlsEnabled option"

record SplunkHecLogs =
  splunksink_Inputs :: "string list"
  splunksink_Endpoint :: string
  splunksink_DefaultToken :: string
  splunksink_Index :: string
  splunksink_TimestampKey :: string
  splunksink_IndexedFields :: "string list"
  splunksink_Source :: string
  splunksink_SourceType :: string
  splunksink_HostKey :: string
  splunksink_Base :: BaseSink

datatype Sink =
    KAwsCloudwatchLogs AwsCloudwatchLogs
  | KAwsS3 AwsS3
  | KAzureLogsIngestion AzureLogsIngestionSink
  | KAzureMonitorLogs AzureMonitorLogs
  | KElasticsearch ElasticsearchSink
  | KGcpStackdriverLogs GcpStackdriverLogs
  | KHttp HttpSink
  | KKafka KafkaSink
  | KLoki LokiSink
  | KOpenTelemetry OpenTelemetry
  | KPrometheusExporter PrometheusExporter
  | KSocket Socket
  | KSplunkHecLogs SplunkHecLogs

fun sink_inputs :: "Sink \<Rightarrow> string list" where
  "sink_inputs (KAwsCloudwatchLogs s) = cwsink_Inputs s"
| "sink_inputs (KAwsS3 s) = s3sink_Inputs s"
| "sink_inputs (KAzureLogsIngestion s) = azlisink_Inputs s"
| "sink_inputs (KAzureMonitorLogs s) = azmsink_Inputs s"
| "sink_inputs (KElasticsearch s) = essink_Inputs s"
| "sink_inputs (KGcpStackdriverLogs s) = gclsink_Inputs s"
| "sink_inputs (KHttp s) = httpsink_Inputs s"
| "sink_inputs (KKafka s) = kafkasink_Inputs s"
| "sink_inputs (KLoki s) = lokisink_Inputs s"
| "sink_inputs (KOpenTelemetry s) = otelsink_Inputs s"
| "sink_inputs (KPrometheusExporter s) = promsink_Inputs s"
| "sink_inputs (KSocket s) = socksink_Inputs s"
| "sink_inputs (KSplunkHecLogs s) = splunksink_Inputs s"

section \<open>Configuration (api/config.go, global.go)\<close>

type_synonym Sources = "string \<rightharpoonup> Source"
type_synonym Transforms = "string \<rightharpoonup> Transform"
type_synonym Sinks = "string \<rightharpoonup> Sink"

record Global =
  global_ExpireMetricsSec :: nat
  global_DataDir :: string

record Api =
  api_Enabled :: bool
  api_Address :: string
  api_Playground :: bool

record VectorSecret =
  vsecret_Type :: string
  vsecret_Path :: string

record Config =
  cfg_Global :: Global
  cfg_Api :: "Api option"
  cfg_LogSchema :: "string option"
  cfg_Secret :: "string \<rightharpoonup> VectorSecret"
  cfg_Sources :: Sources
  cfg_Transforms :: Transforms
  cfg_Sinks :: Sinks

definition NewDirectorySecret :: "string \<Rightarrow> VectorSecret" where
  "NewDirectorySecret p = \<lparr>vsecret_Type = ''directory'', vsecret_Path = p\<rparr>"

definition NewConfig :: "(Config \<Rightarrow> Config) \<Rightarrow> Config" where
  "NewConfig init =
     init \<lparr>cfg_Global = \<lparr>global_ExpireMetricsSec = 0, global_DataDir = []\<rparr>, cfg_Api = None,
           cfg_LogSchema = None, cfg_Secret = Map.empty, cfg_Sources = Map.empty,
           cfg_Transforms = Map.empty, cfg_Sinks = Map.empty\<rparr>"

text \<open>A loop that copies every entry of one map into another, and \<open>Merge\<close>.\<close>

definition AddSources :: "Sources \<Rightarrow> Config \<Rightarrow> Config" where
  "AddSources sources c = c\<lparr>cfg_Sources := cfg_Sources c ++ sources\<rparr>"

definition AddTransforms :: "Transforms \<Rightarrow> Config \<Rightarrow> Config" where
  "AddTransforms transforms c = c\<lparr>cfg_Transforms := cfg_Transforms c ++ transforms\<rparr>"

definition AddSinks :: "Sinks \<Rightarrow> Config \<Rightarrow> Config" where
  "AddSinks sinks c = c\<lparr>cfg_Sinks := cfg_Sinks c ++ sinks\<rparr>"

lemmas Config_add_defs = AddSources_def AddTransforms_def AddSinks_def

section \<open>The graph of components\<close>

text \<open>
  \<open>delivers S T i\<close>: the identifier \<open>i\<close>, as a component may name it among its inputs, is the
  end of chains of components that all start at sources of the configuration. Nothing on these
  chains is missing, and there is no cycle, since the predicate is inductive. A route is named
  with one of its outputs.
\<close>

fun is_route :: "Transform \<Rightarrow> bool" where
  "is_route (TRoute r) = True"
| "is_route _ = False"

inductive delivers :: "Sources \<Rightarrow> Transforms \<Rightarrow> string \<Rightarrow> bool" for S T where
  delivers_source: "S i = Some s \<Longrightarrow> delivers S T i"
| delivers_transform:
    "T i = Some t \<Longrightarrow> \<not> is_route t \<Longrightarrow> transform_inputs t \<noteq> []
     \<Longrightarrow> \<forall>j\<in>set (transform_inputs t). delivers S T j \<Longrightarrow> delivers S T i"
| delivers_route:
    "T i = Some (TRoute r) \<Longrightarrow> route_Inputs r \<noteq> [] \<Longrightarrow> \<forall>j\<in>set (route_Inputs r). delivers S T j
     \<Longrightarrow> route_Routes r name \<noteq> None \<Longrightarrow> delivers S T (i @ ''.'' @ name)"
| delivers_unmatched:
    "T i = Some (TRoute r) \<Longrightarrow> route_Inputs r \<noteq> [] \<Longrightarrow> \<forall>j\<in>set (route_Inputs r). delivers S T j
     \<Longrightarrow> delivers S T (UnmatchedRoute i)"

inductive_cases delivers_noneE: "delivers S Map.empty i"

text \<open>Components added under other identifiers keep every chain.\<close>

lemma map_le_lookup: "m \<subseteq>\<^sub>m m' \<Longrightarrow> m k = Some v \<Longrightarrow> m' k = Some v"
  by (metis domI map_le_def)

lemma delivers_mono:
  assumes "delivers S T i" and S: "S \<subseteq>\<^sub>m S'" and T: "T \<subseteq>\<^sub>m T'"
  shows "delivers S' T' i"
  using assms(1)
proof (induction rule: delivers.induct)
  case (delivers_source i s)
  show ?case
    by (rule delivers.delivers_source [where s = s], rule map_le_lookup [OF S], fact)
next
  case (delivers_transform i t)
  have "T' i = Some t" by (rule map_le_lookup [OF T], fact)
  moreover have "\<forall>j\<in>set (transform_inputs t). delivers S' T' j" using delivers_transform.IH by simp
  ultimately show ?case
    using delivers_transform(2,3) delivers.delivers_transform [of T' i t S'] by simp
next
  case (delivers_route i r name)
  have t: "T' i = Some (TRoute r)" by (rule map_le_lookup [OF T], fact)
  have j: "\<forall>j\<in>set (route_Inputs r). delivers S' T' j" using delivers_route.IH by simp
  show ?case
    by (rule delivers.delivers_route [of T' i r S' name, OF t delivers_route.hyps(2) j delivers_route.hyps(3)])
next
  case (delivers_unmatched i r)
  have "T' i = Some (TRoute r)" by (rule map_le_lookup [OF T], fact)
  moreover have "\<forall>j\<in>set (route_Inputs r). delivers S' T' j" using delivers_unmatched.IH by simp
  ultimately show ?case
    using delivers_unmatched(2) delivers.delivers_unmatched [of T' i r S'] by simp
qed

text \<open>A transform reads what it names among its inputs.\<close>

definition reads :: "Transforms \<Rightarrow> string \<Rightarrow> string \<Rightarrow> bool" where
  "reads T i j = (case T i of None \<Rightarrow> False | Some t \<Rightarrow> j \<in> set (transform_inputs t))"

lemma reads_mono:
  assumes "T \<subseteq>\<^sub>m T'" "(reads T)\<^sup>+\<^sup>+ i j"
  shows "(reads T')\<^sup>+\<^sup>+ i j"
proof -
  have step: "reads T x y \<Longrightarrow> reads T' x y" for x y
    using map_le_lookup [OF assms(1)] by (fastforce simp: reads_def split: option.splits)
  from assms(2) show ?thesis
  proof (induction rule: tranclp.induct)
    case (r_into_trancl a b)
    then show ?case using step by (simp add: tranclp.r_into_trancl)
  next
    case (trancl_into_trancl a b c)
    then show ?case using step by (meson tranclp.trancl_into_trancl)
  qed
qed

text \<open>An identifier that delivers names a component of the configuration.\<close>

lemma delivers_component:
  "delivers S T i \<Longrightarrow> S i \<noteq> None \<or> T i \<noteq> None \<or> (\<exists>r name. T r \<noteq> None \<and> i = r @ ''.'' @ name)"
proof (induction rule: delivers.induct)
  case (delivers_route i r name)
  then show ?case by blast
next
  case (delivers_unmatched i r)
  have "UnmatchedRoute i = i @ ''.'' @ (''_'' @ Unmatched)" by (simp add: UnmatchedRoute_def)
  with delivers_unmatched show ?case by blast
qed simp_all

lemma delivers_single:
  assumes "T i = Some t" "\<not> is_route t" "transform_inputs t = [j]" "delivers S T j"
  shows "delivers S T i"
  using assms by (intro delivers_transform [of T i t]) simp_all

lemma NewRemap_simps [simp]:
  "transform_inputs (NewRemap source inputs) = sort inputs" "\<not> is_route (NewRemap source inputs)"
  by (simp_all add: NewRemap_def)

end
