(* ===== verification/Vrl_Template.thy ===== *)
theory Vrl_Template
  imports Vector_Api
begin

text \<open>
  Templates of users (\<open>output/common/template/template.go\<close>): a text with fields in braces, which
  becomes an expression of VRL. The two regular expressions of the package are scans: the first
  position where the pattern matches, then on behind the match. Positions and slices of the loop
  over function calls are kept, so that a slice out of bounds is a panic.
\<close>

section \<open>Scanning\<close>

text \<open>\<open>ReplaceAllStringFunc\<close> with \<open>PathRegex\<close>: an open brace, characters other than braces, a close brace.\<close>

definition path_match :: "string \<Rightarrow> (string \<times> string) option" where
  "path_match s =
     (case s of
        [] \<Rightarrow> None
      | c # cs \<Rightarrow>
          (let inner = takeWhile (\<lambda>d. d \<noteq> CHR ''{'' \<and> d \<noteq> CHR ''}'') cs;
               rest = dropWhile (\<lambda>d. d \<noteq> CHR ''{'' \<and> d \<noteq> CHR ''}'') cs
           in if c = CHR ''{'' \<and> inner \<noteq> [] \<and> rest \<noteq> [] \<and> hd rest = CHR ''}''
              then Some (inner, tl rest) else None))"

lemma length_dropWhile_drop: "length (dropWhile P (drop n s)) \<le> length s"
  by (rule order.trans [OF length_dropWhile_le]) simp

lemma path_match_shorter:
  assumes "path_match s = Some (i, r)" shows "length r < length s"
proof -
  obtain c cs where s: "s = c # cs" using assms by (cases s) (auto simp: path_match_def)
  have "r = tl (dropWhile (\<lambda>d. d \<noteq> CHR ''{'' \<and> d \<noteq> CHR ''}'') cs)"
    using assms s by (auto simp: path_match_def Let_def split: if_splits)
  then have "length r \<le> length (dropWhile (\<lambda>d. d \<noteq> CHR ''{'' \<and> d \<noteq> CHR ''}'') cs)" by simp
  also have "\<dots> \<le> length cs" by (rule length_dropWhile_le)
  finally show ?thesis using s by simp
qed

function replace_paths :: "(string \<Rightarrow> string) \<Rightarrow> string \<Rightarrow> string" where
  "replace_paths f s =
     (case path_match s of
        Some (inner, rest) \<Rightarrow> f inner @ replace_paths f rest
      | None \<Rightarrow> (case s of [] \<Rightarrow> [] | c # cs \<Rightarrow> c # replace_paths f cs))"
  by pat_completeness auto
termination
  by (relation "measure (\<lambda>(f, s). length s)") (auto dest: path_match_shorter)

declare replace_paths.simps [simp del]

text \<open>\<open>ReplaceBracketWithToString\<close>, with the format it is given everywhere.\<close>

definition to_string_call :: "string \<Rightarrow> string" where
  "to_string_call inner = ''to_string!(._internal'' @ inner @ '')''"

definition ReplaceBracketWithToString :: "string \<Rightarrow> string" where
  "ReplaceBracketWithToString userTemplate = replace_paths to_string_call userTemplate"

text \<open>\<open>splitRegex\<close>: the text before the first match, the match, and the text behind it.\<close>

definition call_match :: "string \<Rightarrow> (string \<times> string) option" where
  "call_match s =
     (if HasPrefix s ''to_string!('' then
        (let inner = takeWhile (\<lambda>d. d \<noteq> CHR '')'') (drop 11 s);
             rest = dropWhile (\<lambda>d. d \<noteq> CHR '')'') (drop 11 s)
         in if inner \<noteq> [] \<and> rest \<noteq> []
            then Some (''to_string!('' @ inner @ '')'', tl rest) else None)
      else None)"

fun next_call :: "string \<Rightarrow> (string \<times> string \<times> string) option" where
  "next_call [] = None"
| "next_call (c # cs) =
     (case call_match (c # cs) of
        Some (m, rest) \<Rightarrow> Some ([], m, rest)
      | None \<Rightarrow> map_option (\<lambda>(b, m, rest). (c # b, m, rest)) (next_call cs))"

lemma length_tl_less: "xs \<noteq> [] \<Longrightarrow> length xs \<le> n \<Longrightarrow> length (tl xs) < n"
  by (cases xs) auto

lemma call_match_shorter: "call_match s = Some (m, r) \<Longrightarrow> length r < length s"
  using length_tl_less [OF _ length_dropWhile_drop [of "\<lambda>d. d \<noteq> CHR '')''" 11 s]]
  by (auto simp del: length_tl dropWhile_eq_Nil_conv simp: call_match_def Let_def split: if_splits)

lemma next_call_shorter: "next_call s = Some (b, m, r) \<Longrightarrow> length r < length s"
  by (induction s arbitrary: b) (auto split: option.splits dest: call_match_shorter)

text \<open>A piece of text between calls, if there is any.\<close>

definition quoted_piece :: "string \<Rightarrow> string list" where
  "quoted_piece s = (if s = [] then [] else [Quote s])"

function split_calls :: "string \<Rightarrow> string list" where
  "split_calls s =
     (case next_call s of
        Some (before, m, rest) \<Rightarrow> quoted_piece before @ m # split_calls rest
      | None \<Rightarrow> quoted_piece s)"
  by pat_completeness auto
termination
  by (relation "measure length") (auto dest: next_call_shorter)

declare split_calls.simps [simp del]

definition transformOriginal :: "string \<Rightarrow> string" where
  "transformOriginal userTemplate =
     (let replaced = ReplaceBracketWithToString userTemplate
      in if next_call replaced = None then Quote userTemplate else Join (split_calls replaced) '' + '')"

section \<open>Templates with timestamps\<close>

text \<open>
  The patterns of the first pass. All but one are fixed texts; they stand in a map, so the order
  in which they are applied is an argument.
\<close>

datatype timestamp_pattern =
  PatStrftime | PatYear | PatMonth | PatDay | PatHour | PatMinute | PatDate | PatDatetime

fun pattern_text :: "timestamp_pattern \<Rightarrow> string" where
  "pattern_text PatStrftime = ''{@timestamp|strftime:'' @ [dq]"
| "pattern_text PatYear = ''{@timestamp|year}''"
| "pattern_text PatMonth = ''{@timestamp|month}''"
| "pattern_text PatDay = ''{@timestamp|day}''"
| "pattern_text PatHour = ''{@timestamp|hour}''"
| "pattern_text PatMinute = ''{@timestamp|minute}''"
| "pattern_text PatDate = ''{@timestamp|date}''"
| "pattern_text PatDatetime = ''{@timestamp|datetime}''"

fun pattern_format :: "timestamp_pattern \<Rightarrow> string" where
  "pattern_format PatStrftime = []"
| "pattern_format PatYear = ''%Y''"
| "pattern_format PatMonth = ''%m''"
| "pattern_format PatDay = ''%d''"
| "pattern_format PatHour = ''%H''"
| "pattern_format PatMinute = ''%M''"
| "pattern_format PatDate = ''%Y-%m-%d''"
| "pattern_format PatDatetime = ''%Y-%m-%d_%H-%M-%S''"

definition timestampPatterns :: "timestamp_pattern set" where
  "timestampPatterns = {PatStrftime, PatYear, PatMonth, PatDay, PatHour, PatMinute, PatDate, PatDatetime}"

definition format_timestamp_call :: "string \<Rightarrow> string" where
  "format_timestamp_call fmt = ''format_timestamp!(.timestamp || now(), format: '' @ [dq] @ fmt @ [dq] @ '')''"

definition pattern_match :: "timestamp_pattern \<Rightarrow> string \<Rightarrow> (string \<times> string) option" where
  "pattern_match p s =
     (if \<not> HasPrefix s (pattern_text p) then None
      else
        (let after = drop (length (pattern_text p)) s
         in if p \<noteq> PatStrftime then Some (pattern_format p, after)
            else
              (let fmt = takeWhile (\<lambda>d. d \<noteq> dq) after; rest = dropWhile (\<lambda>d. d \<noteq> dq) after
               in if fmt \<noteq> [] \<and> HasPrefix rest [dq, CHR ''}'']
                  then Some (fmt, drop 2 rest) else None)))"

lemma length_pattern_text: "2 < length (pattern_text p)"
  by (cases p) simp_all

lemma pattern_match_shorter:
  assumes "pattern_match p s = Some (m, r)" shows "length r < length s"
proof -
  define after where "after = drop (length (pattern_text p)) s"
  have "HasPrefix s (pattern_text p)" using assms by (auto simp: pattern_match_def split: if_splits)
  then have "length (pattern_text p) \<le> length s"
    by (metis HasPrefix_iff_prefix prefix_length_le)
  then have "length after < length s"
    using length_pattern_text [of p] by (simp add: after_def)
  moreover have "r = after \<or> r = drop 2 (dropWhile (\<lambda>d. d \<noteq> dq) after)"
    using assms by (auto simp: pattern_match_def Let_def after_def split: if_splits)
  moreover have "length (drop 2 (dropWhile (\<lambda>d. d \<noteq> dq) after)) \<le> length after"
    using length_dropWhile_le [of "\<lambda>d. d \<noteq> dq" after] by simp
  ultimately show ?thesis by fastforce
qed

function replace_pattern :: "timestamp_pattern \<Rightarrow> string \<Rightarrow> string" where
  "replace_pattern p s =
     (case pattern_match p s of
        Some (fmt, rest) \<Rightarrow> format_timestamp_call fmt @ replace_pattern p rest
      | None \<Rightarrow> (case s of [] \<Rightarrow> [] | c # cs \<Rightarrow> c # replace_pattern p cs))"
  by pat_completeness auto
termination
  by (relation "measure (\<lambda>(p, s). length s)") (auto dest: pattern_match_shorter)

declare replace_pattern.simps [simp del]

text \<open>The second pass leaves a match alone that holds one of the two calls.\<close>

definition field_replacement :: "string \<Rightarrow> string" where
  "field_replacement inner =
     (if Contains (''{'' @ inner @ ''}'') ''format_timestamp!'' \<or> Contains (''{'' @ inner @ ''}'') ''to_string!''
      then ''{'' @ inner @ ''}'' else to_string_call inner)"

text \<open>\<open>findMatchingParen\<close>: the state of its loop over the bytes behind the open parenthesis.\<close>

fun paren_loop :: "nat \<Rightarrow> nat \<Rightarrow> bool \<Rightarrow> bool \<Rightarrow> string \<Rightarrow> nat option" where
  "paren_loop i count inQuotes escapeNext [] = None"
| "paren_loop i count inQuotes escapeNext (c # cs) =
     (if escapeNext then paren_loop (Suc i) count inQuotes False cs
      else if c = bslash then paren_loop (Suc i) count inQuotes True cs
      else if c = dq then paren_loop (Suc i) count (\<not> inQuotes) False cs
      else if inQuotes then paren_loop (Suc i) count inQuotes False cs
      else if c = CHR ''('' then paren_loop (Suc i) (Suc count) inQuotes False cs
      else if c = CHR '')''
      then (if count - 1 = 0 then Some i else paren_loop (Suc i) (count - 1) inQuotes False cs)
      else paren_loop (Suc i) count inQuotes False cs)"

definition findMatchingParen :: "string \<Rightarrow> nat \<Rightarrow> nat" where
  "findMatchingParen s start =
     (if length s \<le> start \<or> s ! start \<noteq> CHR ''('' then start
      else (case paren_loop (Suc start) 1 False False (drop (Suc start) s) of
              Some i \<Rightarrow> i | None \<Rightarrow> length s - 1))"

text \<open>\<open>strings.Index\<close> and a slice of a string.\<close>

fun Index :: "string \<Rightarrow> string \<Rightarrow> nat option" where
  "Index [] p = (if p = [] then Some 0 else None)"
| "Index (c # cs) p = (if HasPrefix (c # cs) p then Some 0 else map_option Suc (Index cs p))"

definition slice :: "string \<Rightarrow> nat \<Rightarrow> nat \<Rightarrow> string go" where
  "slice s a b = (if a \<le> b \<and> b \<le> length s then ret (take (b - a) (drop a s)) else Inl IndexOutOfRange)"

text \<open>
  The third pass: the loop over the calls, from position \<open>i\<close> with the parts found so far. The
  first call of \<open>to_string!\<close> is taken before one of \<open>format_timestamp!\<close>, wherever that stands.
\<close>

definition call_part :: "string \<Rightarrow> nat \<Rightarrow> string list \<Rightarrow> nat \<Rightarrow> nat \<Rightarrow> (nat \<times> string list) go" where
  "call_part result i parts start paren =
     go_bind (slice result i start) (\<lambda>beforeText.
       (let end' = findMatchingParen result (start + paren)
        in go_bind (slice result start (end' + 1)) (\<lambda>call.
             ret (end' + 1, parts @ quoted_piece beforeText @ [call]))))"

partial_function (option) parts_loop :: "string \<Rightarrow> nat \<Rightarrow> string list \<Rightarrow> string list go option" where
  "parts_loop result i parts =
     (if \<not> i < length result then Some (ret parts)
      else
        (case Index (drop i result) ''to_string!('' of
           Some start \<Rightarrow>
             (case call_part result i parts (start + i) 10 of
                Inl e \<Rightarrow> Some (Inl e)
              | Inr (i', parts') \<Rightarrow> parts_loop result i' parts')
         | None \<Rightarrow>
             (case Index (drop i result) ''format_timestamp!('' of
                Some start \<Rightarrow>
                  (case call_part result i parts (start + i) 17 of
                     Inl e \<Rightarrow> Some (Inl e)
                   | Inr (i', parts') \<Rightarrow> parts_loop result i' parts')
              | None \<Rightarrow> Some (ret (parts @ quoted_piece (drop i result))))))"

declare parts_loop.simps [code]

definition timestamp_replaced :: "timestamp_pattern list \<Rightarrow> string \<Rightarrow> string" where
  "timestamp_replaced order userTemplate =
     replace_paths field_replacement (foldl (\<lambda>r p. replace_pattern p r) userTemplate order)"

definition transformWithTimestampSupport :: "timestamp_pattern list \<Rightarrow> string \<Rightarrow> string go option" where
  "transformWithTimestampSupport order userTemplate =
     map_option (\<lambda>r. go_bind r (\<lambda>parts.
       ret (if parts = [] then Quote userTemplate else Join parts '' + '')))
       (parts_loop (timestamp_replaced order userTemplate) 0 [])"

definition TransformUserTemplateToVRL_run :: "timestamp_pattern list \<Rightarrow> string \<Rightarrow> string go option" where
  "TransformUserTemplateToVRL_run order userTemplate =
     (if Contains userTemplate ''@timestamp|'' then transformWithTimestampSupport order userTemplate
      else Some (ret (transformOriginal userTemplate)))"

text \<open>
  The value of the expression, for the outputs: the run ends, without a panic, as
  \<open>template_loop_total\<close> states below.
\<close>

definition TransformUserTemplateToVRL :: "(string \<Rightarrow> timestamp_pattern list) \<Rightarrow> string \<Rightarrow> string" where
  "TransformUserTemplateToVRL order userTemplate =
     (case TransformUserTemplateToVRL_run (order userTemplate) userTemplate of
        Some (Inr vrl) \<Rightarrow> vrl | _ \<Rightarrow> [])"

definition NewTemplateRemap ::
  "(string \<Rightarrow> timestamp_pattern list) \<Rightarrow> string list \<Rightarrow> string \<Rightarrow> string \<Rightarrow> Transform" where
  "NewTemplateRemap order inputs userTemplate field =
     NewRemap (''._internal.'' @ field @ '' = '' @ TransformUserTemplateToVRL order userTemplate @ [newline]) inputs"

section \<open>The loop over calls ends and stays in bounds\<close>

lemma HasPrefix_length: "HasPrefix s p \<Longrightarrow> length p \<le> length s"
  by (metis HasPrefix_iff_prefix prefix_length_le)

lemma Index_SomeD:
  "Index s p = Some k \<Longrightarrow> HasPrefix (drop k s) p \<and> k + length p \<le> length s"
proof (induction s arbitrary: k)
  case Nil
  then show ?case by (simp split: if_splits)
next
  case (Cons c cs)
  show ?case
  proof (cases "HasPrefix (c # cs) p")
    case True
    then show ?thesis using Cons.prems HasPrefix_length [OF True] by simp
  next
    case False
    then show ?thesis using Cons.prems Cons.IH by auto
  qed
qed

lemma paren_loop_bounds:
  "paren_loop i count q e s = Some k \<Longrightarrow> i \<le> k \<and> k < i + length s"
proof (induction s arbitrary: i count q e)
  case (Cons c cs)
  have "k = i \<or> (\<exists>count q e. paren_loop (Suc i) count q e cs = Some k)"
    using Cons.prems by (simp only: paren_loop.simps split: if_split_asm) auto
  then show ?case using Cons.IH by fastforce
qed simp

lemma findMatchingParen_bounds:
  assumes "start < length s" shows "start \<le> findMatchingParen s start" "findMatchingParen s start < length s"
  using assms
  by (auto simp: findMatchingParen_def split: option.splits dest: paren_loop_bounds)

text \<open>A part as the loop writes it: a quoted text, or a call as it stands.\<close>

definition part_text :: "bool \<times> string \<Rightarrow> string" where
  "part_text p = (if fst p then snd p else Quote (snd p))"

definition text_piece :: "string \<Rightarrow> (bool \<times> string) list" where
  "text_piece s = (if s = [] then [] else [(False, s)])"

lemma text_piece_simps [simp]:
  "map part_text (text_piece s) = quoted_piece s" "concat (map snd (text_piece s)) = s"
  by (simp_all add: text_piece_def quoted_piece_def part_text_def)

lemma take_drop_slices:
  assumes "i \<le> a" "a \<le> b" "b \<le> length s"
  shows "take (a - i) (drop i s) @ take (b - a) (drop a s) @ drop b s = drop i s"
proof -
  have "take (b - a) (drop a s) @ drop b s = drop a s"
    using assms by (metis append_take_drop_id drop_drop le_add_diff_inverse2)
  moreover have "take (a - i) (drop i s) @ drop a s = drop i s"
    using assms by (metis append_take_drop_id drop_drop le_add_diff_inverse2)
  ultimately show ?thesis by simp
qed

lemma call_part_total:
  assumes "i \<le> start" "start + paren < length s"
  obtains i' call where "call_part s i parts start paren
        = Inr (i', parts @ map part_text (text_piece (take (start - i) (drop i s)) @ [(True, call)]))"
    "start + paren < i'" "i' \<le> length s"
    "take (start - i) (drop i s) @ call @ drop i' s = drop i s"
proof -
  let ?e = "findMatchingParen s (start + paren)"
  have e: "start + paren \<le> ?e" "?e < length s" using findMatchingParen_bounds [OF assms(2)] by auto
  show ?thesis
  proof (rule that)
    show "call_part s i parts start paren
        = Inr (?e + 1, parts @ map part_text (text_piece (take (start - i) (drop i s))
            @ [(True, take (?e + 1 - start) (drop start s))]))"
      using assms e by (simp add: call_part_def slice_def part_text_def Let_def)
    show "take (start - i) (drop i s) @ take (?e + 1 - start) (drop start s) @ drop (?e + 1) s = drop i s"
      using assms e by (intro take_drop_slices) auto
  qed (use e in auto)
qed

lemma Index_in_drop:
  assumes "Index (drop i s) p = Some k" "m < length p"
  shows "k + i + m < length s"
  using Index_SomeD [OF assms(1)] assms(2) by auto

lemma parts_loop_total:
  "\<exists>ps. parts_loop s i parts = Some (Inr (parts @ map part_text ps)) \<and> concat (map snd ps) = drop i s"
proof (induction "length s - i" arbitrary: i parts rule: less_induct)
  case less
  have step: ?case
    if bounds: "k + i + paren < length s"
      and unfold: "parts_loop s i parts = (case call_part s i parts (k + i) paren of
             Inl e \<Rightarrow> Some (Inl e) | Inr (i', parts') \<Rightarrow> parts_loop s i' parts')"
    for k paren
  proof -
    obtain i' call where c: "call_part s i parts (k + i) paren
        = Inr (i', parts @ map part_text (text_piece (take (k + i - i) (drop i s)) @ [(True, call)]))"
      "k + i + paren < i'" "i' \<le> length s" "take (k + i - i) (drop i s) @ call @ drop i' s = drop i s"
      using call_part_total [OF _ bounds, of i parts] by auto
    define parts' where "parts' = parts @ map part_text (text_piece (take (k + i - i) (drop i s)) @ [(True, call)])"
    have "length s - i' < length s - i" using c(2,3) bounds by linarith
    from less [OF this, of parts'] obtain ps
      where "parts_loop s i' parts' = Some (Inr (parts' @ map part_text ps))" "concat (map snd ps) = drop i' s"
      by blast
    then show ?thesis
      using c by (intro exI [of _ "text_piece (take (k + i - i) (drop i s)) @ (True, call) # ps"])
        (simp add: unfold parts'_def)
  qed
  show ?case
  proof (cases "i < length s")
    case False
    then show ?thesis by (intro exI [of _ "[]"]) (subst parts_loop.simps, simp)
  next
    case in_range: True
    show ?thesis
    proof (cases "Index (drop i s) ''to_string!(''")
      case (Some k)
      show ?thesis
        using Index_in_drop [OF Some, of 10] in_range Some by (intro step) (simp, subst parts_loop.simps, simp)
    next
      case no_field: None
      show ?thesis
      proof (cases "Index (drop i s) ''format_timestamp!(''")
        case (Some k)
        show ?thesis
          using Index_in_drop [OF Some, of 17] in_range no_field Some
          by (intro step) (simp, subst parts_loop.simps, simp)
      next
        case None
        then show ?thesis
          using in_range no_field
          by (intro exI [of _ "text_piece (drop i s)"]) (subst parts_loop.simps, simp)
      qed
    qed
  qed
qed

section \<open>Templates of texts and fields\<close>

text \<open>A template that alternates texts and fields, and the expression it stands for.\<close>

definition template_of :: "(string \<times> string) list \<Rightarrow> string \<Rightarrow> string" where
  "template_of segs final = concat (map (\<lambda>(l, f). l @ ''{'' @ f @ ''}'') segs) @ final"

definition segments_vrl :: "(string \<times> string) list \<Rightarrow> string \<Rightarrow> string" where
  "segments_vrl segs final =
     Join (concat (map (\<lambda>(l, f). quoted_piece l @ [to_string_call f]) segs) @ quoted_piece final) '' + ''"

definition plain_text :: "string \<Rightarrow> bool" where
  "plain_text l = list_all (\<lambda>c. c \<noteq> CHR ''{'' \<and> c \<noteq> CHR ''}'' \<and> c \<noteq> CHR ''('') l"

definition plain_field :: "string \<Rightarrow> bool" where
  "plain_field f = (f \<noteq> [] \<and> list_all (\<lambda>c. c \<noteq> CHR ''{'' \<and> c \<noteq> CHR ''}'' \<and> c \<noteq> CHR '')'') f)"

lemma path_match_other: "c \<noteq> CHR ''{'' \<Longrightarrow> path_match (c # cs) = None"
  by (simp add: path_match_def)

lemma replace_paths_plain: "plain_text l \<Longrightarrow> replace_paths g (l @ s) = l @ replace_paths g s"
  by (induction l) (simp_all add: plain_text_def replace_paths.simps path_match_other)

lemma takeWhile_dropWhile_stop:
  assumes "list_all P xs" "\<not> P y"
  shows "takeWhile P (xs @ y # ys) = xs" "dropWhile P (xs @ y # ys) = y # ys"
  using assms by (induction xs) auto

lemma replace_paths_field:
  assumes "plain_field f"
  shows "replace_paths g (CHR ''{'' # f @ CHR ''}'' # s) = g f @ replace_paths g s"
proof -
  have "list_all (\<lambda>d. d \<noteq> CHR ''{'' \<and> d \<noteq> CHR ''}'') f" "f \<noteq> []"
    using assms by (auto simp: plain_field_def elim: list.pred_mono_strong)
  then have "path_match (CHR ''{'' # f @ CHR ''}'' # s) = Some (f, s)"
    by (simp add: path_match_def Let_def takeWhile_dropWhile_stop)
  then show ?thesis by (subst replace_paths.simps) simp
qed

lemma replace_paths_nothing: "plain_text l \<Longrightarrow> replace_paths g l = l"
  using replace_paths_plain [of l g "[]"] by (simp add: replace_paths.simps [of g "[]"] path_match_def)

lemma no_call_inside:
  assumes "x \<noteq> []" "CHR ''('' \<notin> set x"
  shows "\<not> HasPrefix (x @ ''to_string!('' @ s) ''to_string!(''"
proof
  assume "HasPrefix (x @ ''to_string!('' @ s) ''to_string!(''"
  then obtain zs where eq: "x @ ''to_string!('' @ s = ''to_string!('' @ zs"
    by (auto simp: HasPrefix_iff_prefix prefix_def)
  have at: "(x @ ''to_string!('' @ s) ! 10 = CHR ''(''" unfolding eq by simp
  show False
  proof (cases "10 < length x")
    case True
    then show False using at assms(2) nth_mem [OF True] by (simp add: nth_append)
  next
    case False
    then have "10 - length x < 10" "(''to_string!('' @ s) ! (10 - length x) = CHR ''(''"
      using at assms(1) by (auto simp: nth_append)
    then show False
      by (auto simp: less_Suc_eq numeral_eq_Suc)
  qed
qed

lemma no_call_in_plain: "CHR ''('' \<notin> set x \<Longrightarrow> \<not> HasPrefix x ''to_string!(''"
  by (auto simp: HasPrefix_iff_prefix dest!: set_mono_prefix)

lemma call_match_call:
  assumes "plain_field f"
  shows "call_match (to_string_call f @ s) = Some (to_string_call f, s)"
proof -
  have "list_all (\<lambda>d. d \<noteq> CHR '')'') (''._internal'' @ f)"
    using assms by (auto simp: plain_field_def elim: list.pred_mono_strong)
  from takeWhile_dropWhile_stop [OF this, of "CHR '')''" s]
  show ?thesis by (simp add: call_match_def to_string_call_def HasPrefix_def Let_def)
qed

lemma next_call_plain:
  assumes "CHR ''('' \<notin> set l" "plain_field f"
  shows "next_call (l @ to_string_call f @ s) = Some (l, to_string_call f, s)"
  using assms(1)
proof (induction l)
  case Nil
  obtain c cs where "to_string_call f @ s = c # cs" by (simp add: to_string_call_def)
  then show ?case using call_match_call [OF assms(2), of s] by simp
next
  case (Cons c l)
  have "\<not> HasPrefix ((c # l) @ to_string_call f @ s) ''to_string!(''"
    using no_call_inside [of "c # l" "''._internal'' @ f @ '')'' @ s"] Cons.prems
    by (simp add: to_string_call_def)
  then show ?case using Cons by (simp add: call_match_def)
qed

lemma next_call_nothing: "CHR ''('' \<notin> set l \<Longrightarrow> next_call l = None"
proof (induction l)
  case (Cons c l)
  then show ?case using no_call_in_plain [of "c # l"] by (simp add: call_match_def)
qed simp

lemma plain_text_paren: "plain_text l \<Longrightarrow> CHR ''('' \<notin> set l"
  by (auto simp: plain_text_def list_all_iff)

lemma split_segments:
  assumes "list_all (\<lambda>(l, f). plain_text l \<and> plain_field f) segs" "plain_text final"
  shows "split_calls (ReplaceBracketWithToString (template_of segs final))
    = concat (map (\<lambda>(l, f). quoted_piece l @ [to_string_call f]) segs) @ quoted_piece final"
  using assms(1)
proof (induction segs)
  case Nil
  then show ?case
    using assms(2)
    by (simp add: template_of_def ReplaceBracketWithToString_def replace_paths_nothing split_calls.simps [of final]
        next_call_nothing plain_text_paren)
next
  case (Cons seg segs)
  obtain l f where seg: "seg = (l, f)" by (cases seg)
  have l: "plain_text l" "plain_field f" using Cons.prems by (simp_all add: seg)
  let ?r = "replace_paths to_string_call (template_of segs final)"
  have "replace_paths to_string_call (template_of (seg # segs) final) = l @ to_string_call f @ ?r"
    using l by (simp add: template_of_def seg replace_paths_plain replace_paths_field)
  moreover have "split_calls (l @ to_string_call f @ ?r) = quoted_piece l @ to_string_call f # split_calls ?r"
    using l by (subst split_calls.simps) (simp add: next_call_plain plain_text_paren)
  ultimately show ?case
    using Cons by (simp add: ReplaceBracketWithToString_def seg)
qed

lemma first_call:
  assumes "list_all (\<lambda>(l, f). plain_text l \<and> plain_field f) segs" "segs \<noteq> []"
  shows "next_call (ReplaceBracketWithToString (template_of segs final)) \<noteq> None"
proof -
  obtain l f rest where "segs = (l, f) # rest" using assms(2) by (cases segs) auto
  then show ?thesis
    using assms(1)
    by (simp add: template_of_def ReplaceBracketWithToString_def replace_paths_plain replace_paths_field
        next_call_plain plain_text_paren)
qed

section \<open>Properties\<close>

text \<open>
  C21. The loop that cuts a template with timestamps into calls ends on every text, and no slice it
  takes is out of bounds, whatever the order of the patterns; its parts, taken together, are the
  text it was given. So the translation of a template always returns.
\<close>

theorem template_loop_total:
  "\<exists>ps vrl. parts_loop (timestamp_replaced order t) 0 [] = Some (Inr (map part_text ps))
     \<and> concat (map snd ps) = timestamp_replaced order t
     \<and> TransformUserTemplateToVRL_run order t = Some (Inr vrl)"
  using parts_loop_total [of "timestamp_replaced order t" 0 "[]"]
  by (auto simp: TransformUserTemplateToVRL_run_def transformWithTimestampSupport_def)

text \<open>
  C22. A template of texts and fields becomes the concatenation of the quoted texts and of one
  \<open>to_string!\<close> for each field, in order, as long as no default of a field has a close parenthesis.
  One that has is cut at the parenthesis, inside the string it stands in; and a timestamp in front
  of a field is left in the quoted text instead of being called.
\<close>

theorem template_is_concatenation:
  assumes "list_all (\<lambda>(l, f). plain_text l \<and> plain_field f) segs" "segs \<noteq> []" "plain_text final"
    and "\<not> Contains (template_of segs final) ''@timestamp|''"
  shows "TransformUserTemplateToVRL order (template_of segs final) = segments_vrl segs final
    \<and> TransformUserTemplateToVRL order (''{.a||'' @ [dq] @ ''(b)'' @ [dq] @ ''}'')
      = ''to_string!(._internal.a||'' @ [dq] @ ''(b) + '' @ [dq, bslash, dq] @ '')'' @ [dq]
    \<and> TransformUserTemplateToVRL (\<lambda>_. [PatYear]) (''{@timestamp|year}-{.a}'')
      = Quote (format_timestamp_call ''%Y'' @ ''-'') @ '' + to_string!(._internal.a)''"
proof (intro conjI)
  show "TransformUserTemplateToVRL order (template_of segs final) = segments_vrl segs final"
    using split_segments [OF assms(1,3)] first_call [OF assms(1,2), of final] assms(4)
    by (simp del: not_None_eq add: TransformUserTemplateToVRL_def TransformUserTemplateToVRL_run_def transformOriginal_def
        segments_vrl_def Let_def)
  show "TransformUserTemplateToVRL order (''{.a||'' @ [dq] @ ''(b)'' @ [dq] @ ''}'')
      = ''to_string!(._internal.a||'' @ [dq] @ ''(b) + '' @ [dq, bslash, dq] @ '')'' @ [dq]"
    unfolding TransformUserTemplateToVRL_def TransformUserTemplateToVRL_run_def by code_simp
  show "TransformUserTemplateToVRL (\<lambda>_. [PatYear]) (''{@timestamp|year}-{.a}'')
      = Quote (format_timestamp_call ''%Y'' @ ''-'') @ '' + to_string!(._internal.a)''"
    by code_simp
qed

theorem template_is_concatenation_witness:
  "TransformUserTemplateToVRL (\<lambda>_. []) (template_of [(''app-'', ''.log_type'')] ''-x'')
     = segments_vrl [(''app-'', ''.log_type'')] ''-x''"
  using template_is_concatenation [of "[(''app-'', ''.log_type'')]" "''-x''" "\<lambda>_. []"]
  by (simp add: plain_text_def plain_field_def template_of_def HasPrefix_def)

end
