(* ===== verification/Vector_Common.thy ===== *)
theory Vector_Common
  imports Vector_Config Vrl_Template Go_Url
begin

text \<open>
  What all components of the generated configuration share: the TLS profiles of the cluster
  (\<open>internal/tls\<close>), the options that are passed along and updated while the configuration is
  generated (\<open>internal/utils/options.go\<close>, \<open>framework\<close>), the TLS settings of a component
  (\<open>vector/common\<close>) and the tuning of an output (\<open>output/common\<close>).

  \<open>Env\<close> holds what the generator takes from outside the repository: the profile table of
  \<open>openshift/api\<close>, the content of the kernel's FIPS flag, the wildcard address that a probing
  socket call yields, the exact value of a quantity as \<open>AsInt64\<close> finds it, and the conversion of
  a fractional or negative number of seconds to an integer, which Go leaves to the platform; and the
  orders in which Go ranges over the patterns of a template and over the inputs of an output.
\<close>

record Env =
  env_TLSProfiles :: "TLSProfileType \<rightharpoonup> TLSProfileSpec"
  env_FIPSFile :: "string option"
  env_ListenAddress :: string
  env_AsInt64 :: "Quantity \<Rightarrow> int option"
  env_Seconds :: "Duration \<Rightarrow> int"
  env_PatternOrder :: "string \<Rightarrow> timestamp_pattern list"
  env_InputOrder :: "OutputSpec \<Rightarrow> string list"

section \<open>TLS profiles (internal/tls)\<close>

definition default_profile :: "Env \<Rightarrow> TLSProfileSpec" where
  "default_profile env = the (env_TLSProfiles env TLSProfileIntermediateType)"

definition opensslGroupNames :: "TLSGroup \<Rightarrow> string option" where
  "opensslGroupNames g =
     (case g of
        TLSGroupX25519 \<Rightarrow> Some ''X25519''
      | TLSGroupSecP256r1 \<Rightarrow> Some ''prime256v1''
      | TLSGroupSecP384r1 \<Rightarrow> Some ''secp384r1''
      | TLSGroupSecP521r1 \<Rightarrow> Some ''secp521r1''
      | TLSGroupX25519MLKEM768 \<Rightarrow> Some ''X25519MLKEM768''
      | TLSGroupSecP256r1MLKEM768 \<Rightarrow> Some ''SecP256r1MLKEM768''
      | TLSGroupSecP384r1MLKEM1024 \<Rightarrow> Some ''SecP384r1MLKEM1024''
      | TLSGroupOther _ \<Rightarrow> None)"

definition nonFIPSTLSGroups :: "TLSGroup list" where
  "nonFIPSTLSGroups =
     [TLSGroupX25519, TLSGroupX25519MLKEM768, TLSGroupSecP256r1MLKEM768, TLSGroupSecP384r1MLKEM1024]"

definition FIPSEnabled :: "Env \<Rightarrow> bool" where
  "FIPSEnabled env = (case env_FIPSFile env of None \<Rightarrow> False | Some s \<Rightarrow> TrimSpace s = ''1'')"

definition FilterGroupsForFIPS :: "Env \<Rightarrow> TLSGroup list \<Rightarrow> TLSGroup list" where
  "FilterGroupsForFIPS env groups =
     (if \<not> FIPSEnabled env then groups else filter (\<lambda>g. g \<notin> set nonFIPSTLSGroups) groups)"

definition TLSGroupsToOpenSSL :: "Env \<Rightarrow> TLSGroup list \<Rightarrow> string" where
  "TLSGroupsToOpenSSL env groups =
     Join (List.map_filter opensslGroupNames (FilterGroupsForFIPS env groups)) '':''"

definition TLSCiphers :: "Env \<Rightarrow> TLSProfileSpec \<Rightarrow> string list" where
  "TLSCiphers env profile =
     (if tlsprofile_Ciphers profile = [] then tlsprofile_Ciphers (default_profile env)
      else tlsprofile_Ciphers profile)"

definition MinTLSVersion :: "Env \<Rightarrow> TLSProfileSpec \<Rightarrow> string" where
  "MinTLSVersion env profile =
     (if tlsprofile_MinTLSVersion profile = [] then tlsprofile_MinTLSVersion (default_profile env)
      else tlsprofile_MinTLSVersion profile)"

definition GetClusterTLSProfileSpec :: "Env \<Rightarrow> TLSSecurityProfile option \<Rightarrow> TLSProfileSpec" where
  "GetClusterTLSProfileSpec env apiServerTLSProfile =
     (case apiServerTLSProfile of
        None \<Rightarrow> default_profile env
      | Some p \<Rightarrow>
          if secprofile_Type p = TLSProfileNone then default_profile env
          else if secprofile_Type p \<noteq> TLSProfileCustomType
          then (case env_TLSProfiles env (secprofile_Type p) of
                  Some tlsConfig \<Rightarrow> tlsConfig | None \<Rightarrow> default_profile env)
          else (case secprofile_Custom p of
                  Some custom \<Rightarrow> custom | None \<Rightarrow> default_profile env))"

section \<open>Options (utils/options.go, framework)\<close>

record Options =
  op_CLFSpec :: "ClusterLogForwarderSpec option"
  op_ClusterTLSProfileSpec :: "TLSProfileSpec option"
  op_MinTLSVersion :: "string option"
  op_Ciphers :: "string option"
  op_Groups :: "string option"
  op_ServiceAccountTokenSecretName :: "string option"
  op_ForwarderName :: "string option"
  op_LogsToMetricInputs :: "string list option"
  op_OtlpLogSources :: "string list option"
  op_MigratedFromLokistack :: "bool option"

definition NoOptions :: Options where
  "NoOptions =
     \<lparr>op_CLFSpec = None, op_ClusterTLSProfileSpec = None, op_MinTLSVersion = None, op_Ciphers = None,
      op_Groups = None, op_ServiceAccountTokenSecretName = None, op_ForwarderName = None,
      op_LogsToMetricInputs = None, op_OtlpLogSources = None, op_MigratedFromLokistack = None\<rparr>"

text \<open>\<open>GetStringSet\<close> and \<open>AddToStringSet\<close> on the value of one option, \<open>GetOption\<close> of any.\<close>

definition GetStringSet :: "string list option \<Rightarrow> string list" where
  "GetStringSet entry = (case entry of None \<Rightarrow> [] | Some xs \<Rightarrow> sorted_set xs)"

definition AddToStringSet :: "string list option \<Rightarrow> string list \<Rightarrow> string list option" where
  "AddToStringSet entry values = Some ((case entry of None \<Rightarrow> [] | Some xs \<Rightarrow> xs) @ values)"

definition GetOption :: "'a option \<Rightarrow> 'a \<Rightarrow> 'a \<times> bool" where
  "GetOption entry ifNotFound =
     (case entry of None \<Rightarrow> (ifNotFound, False) | Some v \<Rightarrow> (v, True))"

text \<open>The interface \<open>TransportLayerSecurity\<close>: what a component says of its TLS.\<close>

record TransportLayerSecurity =
  comp_TlsSpec :: "TLSSpec option"
  comp_InsecureSkipVerify :: bool
  comp_TlsSecurityProfile :: "TLSSecurityProfile option"

definition Input_TLS :: "InputSpec \<Rightarrow> TransportLayerSecurity" where
  "Input_TLS i =
     \<lparr>comp_TlsSpec = Option.bind (input_Receiver i) recv_TLS, comp_InsecureSkipVerify = False,
      comp_TlsSecurityProfile = None\<rparr>"

definition Output_TLS :: "OutputSpec \<Rightarrow> TransportLayerSecurity" where
  "Output_TLS o' =
     \<lparr>comp_TlsSpec = map_option outtls_TLSSpec (output_TLS o'),
      comp_InsecureSkipVerify =
        (case output_TLS o' of None \<Rightarrow> False | Some t \<Rightarrow> outtls_InsecureSkipVerify t),
      comp_TlsSecurityProfile = Option.bind (output_TLS o') outtls_TLSSecurityProfile\<rparr>"

definition component_profile :: "Env \<Rightarrow> Options \<Rightarrow> TransportLayerSecurity option \<Rightarrow> TLSProfileSpec" where
  "component_profile env op tlsSpec =
     (case Option.bind tlsSpec comp_TlsSecurityProfile of
        Some p \<Rightarrow> GetClusterTLSProfileSpec env (Some p)
      | None \<Rightarrow>
          (case op_ClusterTLSProfileSpec op of
             Some clusterSpec \<Rightarrow> clusterSpec
           | None \<Rightarrow> \<lparr>tlsprofile_Ciphers = [], tlsprofile_MinTLSVersion = [], tlsprofile_Groups = []\<rparr>))"

definition TLSProfileInfo ::
  "Env \<Rightarrow> Options \<Rightarrow> TransportLayerSecurity option \<Rightarrow> string \<Rightarrow> string \<times> string \<times> string" where
  "TLSProfileInfo env op tlsSpec separator =
     (let profile = component_profile env op tlsSpec;
          groups = TLSGroupsToOpenSSL env (tlsprofile_Groups profile)
      in (MinTLSVersion env profile, Join (TLSCiphers env profile) separator,
          if groups = [] then TLSGroupsToOpenSSL env (tlsprofile_Groups (default_profile env)) else groups))"

definition SetTLSProfileOptionsFrom :: "Env \<Rightarrow> TransportLayerSecurity option \<Rightarrow> Options \<Rightarrow> Options" where
  "SetTLSProfileOptionsFrom env tlsSpec op =
     (case TLSProfileInfo env op tlsSpec '','' of
        (v, c, g) \<Rightarrow> op\<lparr>op_MinTLSVersion := Some v, op_Ciphers := Some c, op_Groups := Some g\<rparr>)"

section \<open>TLS settings of a component (common/tls/tls.go)\<close>

definition ValuePath :: "ValueReference option \<Rightarrow> path_format \<Rightarrow> string" where
  "ValuePath resource formatter =
     (case resource of
        None \<Rightarrow> []
      | Some r \<Rightarrow>
          if vref_SecretName r \<noteq> [] then SecretPath formatter (vref_SecretName r) (vref_Key r)
          else if vref_ConfigMapName r \<noteq> [] then ConfigPath formatter (vref_ConfigMapName r) (vref_Key r)
          else [])"

definition SecretPath_of :: "SecretReference option \<Rightarrow> path_format \<Rightarrow> string" where
  "SecretPath_of resource formatter =
     (case resource of
        None \<Rightarrow> []
      | Some r \<Rightarrow> if sref_SecretName r = [] then [] else SecretPath formatter (sref_SecretName r) (sref_Key r))"

definition SetTLSProfile :: "Options \<Rightarrow> TLS \<Rightarrow> TLS" where
  "SetTLSProfile op t =
     t\<lparr>tls_MinTlsVersion := (case op_MinTLSVersion op of None \<Rightarrow> tls_MinTlsVersion t | Some v \<Rightarrow> v),
       tls_CipherSuites := (case op_Ciphers op of None \<Rightarrow> tls_CipherSuites t | Some c \<Rightarrow> c),
       tls_Curves := (case op_Groups op of None \<Rightarrow> tls_Curves t | Some g \<Rightarrow> g)\<rparr>"

text \<open>
  The two options a caller may give: the URL of the output, and whether the settings that skip
  the verification are left out.
\<close>

definition NewTls ::
  "string option \<Rightarrow> bool \<Rightarrow> TransportLayerSecurity option \<Rightarrow> Secrets \<Rightarrow> Options \<Rightarrow> TLS option" where
  "NewTls outURL excludeInsecureSkipVerify component secrets op =
     (if (case outURL of None \<Rightarrow> False | Some u \<Rightarrow> \<not> IsSecure u) then None
      else
        (let conf0 =
           (case component of
              None \<Rightarrow> emptyTLSConf
            | Some c \<Rightarrow>
                (case comp_TlsSpec c of
                   None \<Rightarrow> emptyTLSConf
                 | Some spec \<Rightarrow>
                     (let conf = emptyTLSConf
                        \<lparr>tls_CAFile := ValuePath (tls_CA spec) FormatPlain,
                         tls_CRTFile := ValuePath (tls_Certificate spec) FormatPlain,
                         tls_KeyFile := SecretPath_of (tls_Key spec) FormatPlain,
                         tls_KeyPass := AsString secrets (tls_KeyPassphrase spec)\<rparr>
                      in if \<not> excludeInsecureSkipVerify \<and> comp_InsecureSkipVerify c
                         then conf\<lparr>tls_VerifyCertificate := Some False, tls_VerifyHostname := Some False\<rparr>
                         else conf)));
             conf = SetTLSProfile op conf0
         in if conf = emptyTLSConf then None else Some conf))"

definition NewTlsEnabled ::
  "bool \<Rightarrow> TransportLayerSecurity option \<Rightarrow> Secrets \<Rightarrow> Options \<Rightarrow> TlsEnabled option" where
  "NewTlsEnabled excludeInsecureSkipVerify component secrets op =
     (case NewTls None excludeInsecureSkipVerify component secrets op of
        None \<Rightarrow> None
      | Some tls \<Rightarrow>
          if tls_CAFile tls \<noteq> [] \<or> (tls_CRTFile tls \<noteq> [] \<and> tls_KeyFile tls \<noteq> [])
          then Some \<lparr>tlsen_TLS = tls, tlsen_Enabled = True\<rparr> else None)"

section \<open>Throttling (common/throttle.go)\<close>

text \<open>\<open>uint64\<close> of an \<open>int64\<close>, which wraps; the record holds the number the word stands for.\<close>

definition NewThrottle :: "string list \<Rightarrow> int \<Rightarrow> string \<Rightarrow> Transform" where
  "NewThrottle inputs threshHold throttleKey =
     NewThrottleTransform
       (\<lambda>t. t\<lparr>throttle_WindowSecs := 1, throttle_Threshold := unat (of_int threshHold :: 64 word),
             throttle_KeyField := throttleKey\<rparr>) inputs"

section \<open>Tuning of an output (output/common)\<close>

text \<open>\<open>Quantity.Value\<close> rounds thousandths away from zero.\<close>

definition Quantity_Value :: "Quantity \<Rightarrow> int" where
  "Quantity_Value q = (if 0 \<le> q then (q + 999) div 1000 else - ((999 - q) div 1000))"

definition NewApiBatch :: "Tuning \<Rightarrow> Batch option" where
  "NewApiBatch t =
     (case base_MaxWrite (tuning_Base t) of
        None \<Rightarrow> None
      | Some maxBytes \<Rightarrow>
          if maxBytes \<noteq> 0
          then Some \<lparr>batch_MaxBytes = of_int (Quantity_Value maxBytes), batch_MaxEvents = 0\<rparr> else None)"

definition minBufferSize :: nat where
  "minBufferSize = 268435488"

definition NewApiBuffer :: "Tuning \<Rightarrow> Buffer option" where
  "NewApiBuffer t =
     (case base_DeliveryMode (tuning_Base t) of
        DeliveryModeAtLeastOnce \<Rightarrow>
          Some \<lparr>buffer_Type = ''disk'', buffer_WhenFull = ''block'', buffer_MaxSize = minBufferSize,
                buffer_MaxEvents = 0\<rparr>
      | DeliveryModeAtMostOnce \<Rightarrow>
          Some \<lparr>buffer_Type = [], buffer_WhenFull = ''drop_newest'', buffer_MaxSize = 0,
                buffer_MaxEvents = 0\<rparr>
      | _ \<Rightarrow> None)"

definition NewApiEncoding :: "string \<Rightarrow> Encoding" where
  "NewApiEncoding codecType =
     \<lparr>encoding_Codec = codecType, encoding_TimestampFormat = [], encoding_ExceptFields = [''_internal'']\<rparr>"

text \<open>
  A retry duration holds a number of seconds in a type that counts nanoseconds, so it is
  multiplied by \<open>time.Second\<close>, with the wrap-around of 64 bits, before its seconds are taken.
\<close>

definition time_Second :: int where
  "time_Second = 10 ^ 9"

definition uint_Seconds :: "Env \<Rightarrow> Duration \<Rightarrow> 64 word" where
  "uint_Seconds env d =
     (if 0 \<le> d \<and> d mod time_Second = 0 then of_int (d div time_Second) else of_int (env_Seconds env d))"

definition retry_secs :: "Env \<Rightarrow> Duration \<Rightarrow> 64 word" where
  "retry_secs env d = uint_Seconds env (sint (of_int d * of_int time_Second :: 64 word))"

definition NewApiRequest :: "Env \<Rightarrow> Tuning \<Rightarrow> Request option" where
  "NewApiRequest env t =
     (let r1 = (case base_MinRetryDuration (tuning_Base t) of
                  Some d \<Rightarrow>
                    if 0 < d then Some (Request_zero\<lparr>request_RetryInitialBackoffSecs := retry_secs env d\<rparr>)
                    else None
                | None \<Rightarrow> None)
      in case base_MaxRetryDuration (tuning_Base t) of
           Some d \<Rightarrow>
             if 0 < d
             then Some ((case r1 of None \<Rightarrow> Request_zero | Some r \<Rightarrow> r)
                          \<lparr>request_RetryMaxDurationSec := retry_secs env d\<rparr>)
             else r1
         | None \<Rightarrow> r1)"

text \<open>\<open>NewHttpAuth\<close>: a bearer token from a secret or from the service account, or basic authentication.\<close>

definition TokenKey :: string where
  "TokenKey = ''token''"

definition bearer_token :: "BearerToken \<Rightarrow> Options \<Rightarrow> string" where
  "bearer_token key op =
     (case token_From key of
        BearerTokenFromSecret \<Rightarrow>
          (case token_Secret key of
             None \<Rightarrow> []
           | Some s \<Rightarrow> SecretFrom (Some (sref (btsk_Key s) (btsk_Name s))))
      | BearerTokenFromServiceAccount \<Rightarrow>
          (case op_ServiceAccountTokenSecretName op of
             None \<Rightarrow> []
           | Some name \<Rightarrow> SecretFrom (Some (sref TokenKey name)))
      | _ \<Rightarrow> [])"

definition NewHttpAuth :: "HTTPAuthentication option \<Rightarrow> Options \<Rightarrow> HttpAuth option" where
  "NewHttpAuth spec op =
     map_option (\<lambda>a.
       case httpauth_Token a of
         Some key \<Rightarrow>
           \<lparr>auth_Strategy = ''bearer'', auth_User = [], auth_Password = [], auth_Token = bearer_token key op\<rparr>
       | None \<Rightarrow>
           \<lparr>auth_Strategy = ''basic'', auth_User = SecretFrom (httpauth_Username a),
            auth_Password = SecretFrom (httpauth_Password a), auth_Token = []\<rparr>) spec"

section \<open>What the settings are\<close>

lemma set_openssl_names_fips:
  assumes "FIPSEnabled env"
  shows "set (List.map_filter opensslGroupNames (FilterGroupsForFIPS env groups))
           \<subseteq> {''prime256v1'', ''secp384r1'', ''secp521r1''}"
  using assms
  by (auto simp: FilterGroupsForFIPS_def List.map_filter_def nonFIPSTLSGroups_def opensslGroupNames_def
        split: TLSGroup.splits)

lemma sint_of_int_64: "- (2 ^ 63) \<le> i \<Longrightarrow> i < 2 ^ 63 \<Longrightarrow> sint (of_int i :: 64 word) = i"
  by (simp add: signed_of_int signed_take_bit_int_eq_self)

lemma word64_times_Second:
  assumes "0 \<le> d" "d * time_Second < 2 ^ 63"
  shows "sint (of_int d * of_int time_Second :: 64 word) = d * time_Second"
proof -
  have "0 \<le> d * time_Second" using assms(1) by (simp add: time_Second_def)
  then have "sint (of_int (d * time_Second) :: 64 word) = d * time_Second"
    using assms(2) by (intro sint_of_int_64) simp_all
  then show ?thesis by (simp only: of_int_mult)
qed

lemma retry_secs_exact:
  assumes "0 \<le> d" "d * time_Second < 2 ^ 63"
  shows "unat (retry_secs env d) = nat d"
proof -
  have d: "d < 2 ^ 64" using assms by (simp add: time_Second_def)
  have "retry_secs env d = of_int d"
    using assms by (simp add: retry_secs_def uint_Seconds_def word64_times_Second) (simp add: time_Second_def)
  moreover have "uint (of_int d :: 64 word) = d"
    using d assms(1) by (simp add: uint_word_of_int take_bit_int_eq_self)
  ultimately show ?thesis by (simp flip: nat_uint_eq)
qed

section \<open>Properties\<close>


definition sample_env :: Env where
  "sample_env =
     \<lparr>env_TLSProfiles =
        [TLSProfileIntermediateType \<mapsto>
           \<lparr>tlsprofile_Ciphers = [''TLS_AES_128_GCM_SHA256''], tlsprofile_MinTLSVersion = ''VersionTLS12'',
            tlsprofile_Groups = [TLSGroupX25519, TLSGroupSecP256r1]\<rparr>,
         TLSProfileOldType \<mapsto>
           \<lparr>tlsprofile_Ciphers = [''DES-CBC3-SHA''], tlsprofile_MinTLSVersion = ''VersionTLS10'',
            tlsprofile_Groups = [TLSGroupSecP256r1]\<rparr>],
      env_FIPSFile = Some (''1'' @ [newline]), env_ListenAddress = ''[::]'',
      env_AsInt64 = (\<lambda>q. if q mod 1000 = 0 then Some (q div 1000) else None),
      env_Seconds = (\<lambda>d. d div 10 ^ 9), env_PatternOrder = (\<lambda>_. []),
      env_InputOrder = (\<lambda>_. [])\<rparr>"


text \<open>
  C23. On a host in FIPS mode the curves written for any component are among those the FIPS
  provider of OpenSSL has, whatever profile the component or the cluster names: X25519 and the
  post-quantum groups never reach the collector, which would not start with them.
\<close>

theorem fips_curves_approved:
  assumes "FIPSEnabled env"
  shows "\<exists>names. snd (snd (TLSProfileInfo env op c sep)) = Join names '':''
           \<and> set names \<subseteq> {''prime256v1'', ''secp384r1'', ''secp521r1''}"
  using set_openssl_names_fips [OF assms] unfolding TLSProfileInfo_def TLSGroupsToOpenSSL_def Let_def
  by (simp only: snd_conv split: if_split) blast

theorem fips_curves_approved_witness:
  "snd (snd (TLSProfileInfo sample_env NoOptions None '','')) \<noteq> ''X25519:prime256v1''"
proof -
  have "FIPSEnabled sample_env" by code_simp
  from fips_curves_approved [OF this, of NoOptions None "'',''"] obtain names
    where names: "snd (snd (TLSProfileInfo sample_env NoOptions None '','')) = Join names '':''"
      "set names \<subseteq> {''prime256v1'', ''secp384r1'', ''secp521r1''}" by blast
  have "Join names '':'' \<noteq> ''X25519:prime256v1''"
    using names(2) by (cases names; cases "tl names") auto
  with names(1) show ?thesis by simp
qed

end
