(* ===== verification/Output_Text.thy ===== *)
theory Output_Text
  imports Vector_Api
begin

text \<open>
  The VRL texts that the generator writes into the transforms of outputs (\<open>output/*\<close>), line by
  line. A text that the code formats with a verb is a function of what the verb prints.
\<close>

section \<open>OTLP (output/otlp/transform.go, filter/openshift/otlp/v1)\<close>

definition BaseResourceAttributes :: string where
  \<open>BaseResourceAttributes =
     text_lines
     ['''',
      ''# Create base resource attributes'',
      ''resource.attributes = []'',
      ''resource.attributes = append(resource.attributes,'',
      ''  ['',
      ''    {"key": "openshift.cluster.uid", "value": {"stringValue": .openshift.cluster_id}},'',
      ''    {"key": "openshift.log.source", "value": {"stringValue": .log_source}},'',
      ''    {"key": "openshift.log.type", "value": {"stringValue": .log_type}},'',
      ''    {"key": "k8s.node.name", "value": {"stringValue": .hostname}}'',
      ''  ]'',
      '')'',
      ''if exists(.openshift.labels) {for_each(object!(.openshift.labels)) -> |key,value| {'',
      ''    resource.attributes = append(resource.attributes,'',
      ''        [{"key": "openshift.label." + key, "value": {"stringValue": value}}]'',
      ''    )'',
      ''}}'',
      '''']\<close>

definition ContainerResourceAttributes :: string where
  \<open>ContainerResourceAttributes =
     text_lines
     ['''',
      ''resource.attributes = append( resource.attributes,'',
      ''  ['',
      ''    {"key": "k8s.pod.name", "value": {"stringValue": .kubernetes.pod_name}},'',
      [CHR 0x09] @ ''{"key": "k8s.pod.uid", "value": {"stringValue": .kubernetes.pod_id}},'',
      ''    {"key": "k8s.container.name", "value": {"stringValue": .kubernetes.container_name}},'',
      ''    {"key": "k8s.namespace.name", "value": {"stringValue": .kubernetes.namespace_name}}'',
      ''  ]'',
      '')'',
      ''# Use original (non-dedotted) labels to preserve keys containing dots and slashes'',
      ''if exists(._internal.kubernetes.labels) {for_each(object!(._internal.kubernetes.labels)) -> |key,value| {'',
      ''    resource.attributes = append(resource.attributes,'',
      ''        [{"key": "k8s.pod.label." + key, "value": {"stringValue": value}}]'',
      ''    )'',
      ''}}'',
      '''']\<close>

definition LogRecord :: string where
  \<open>LogRecord =
     text_lines
     ['''',
      ''# Create logRecord object'',
      ''r = {"attributes": []}'',
      ''r.timeUnixNano = to_string(to_unix_timestamp(parse_timestamp!(.@timestamp, format:"%+"), unit:"nanoseconds"))'',
      ''r.observedTimeUnixNano = to_string(to_unix_timestamp(now(), unit:"nanoseconds"))'',
      '''']\<close>

definition LogRecordSeverity :: string where
  \<open>LogRecordSeverity =
     text_lines
     ['''',
      ''r.severityText = .level'',
      '''']\<close>

definition BodyFromMessage :: string where
  \<open>BodyFromMessage =
     text_lines
     ['''',
      ''# Create body from original message or structured'',
      ''value = .message'',
      ''if (value == null) { value = encode_json(.structured) }'',
      ''r.body = {"stringValue": string!(value)}'',
      '''']\<close>

definition BodyFromInternal :: string where
  \<open>BodyFromInternal =
     text_lines
     ['''',
      ''# Create body from internal message'',
      ''r.body = {"stringValue": to_string!(get!(.,["_internal","message"]))}'',
      '''']\<close>

definition LogRecordTraceContext :: string where
  \<open>LogRecordTraceContext =
     text_lines
     ['''',
      [CHR 0x09],
      ''# Set trace context fields if any'',
      ''if exists(._internal.trace_id) {'',
      ''  r.traceId = ._internal.trace_id'',
      ''}'',
      ''if exists(._internal.span_id) {'',
      ''  r.spanId = ._internal.span_id'',
      ''}'',
      ''if exists(._internal.trace_flags) {'',
      ''  r.flags = ._internal.trace_flags'',
      ''}'',
      '''',
      '''']\<close>

definition OVNLogAttributes :: string where
  \<open>OVNLogAttributes =
     text_lines
     ['''',
      ''# Fill up OVN logRecord object'',
      ''if exists(.level) { r.severityText = .level } '',
      ''ovnTokens = split(to_string!(get!(.,["_internal","message"])),"|")'',
      ''if 0 < length(ovnTokens) { r.attributes = push(r.attributes, {"key": "log.sequence", "value": {"stringValue": ovnTokens[1] }})}'',
      ''if 1 < length(ovnTokens) { r.attributes = push(r.attributes, {"key": "k8s.ovn.component", "value": {"stringValue": ovnTokens[2] }})}'',
      '''']\<close>

definition HostLogAttributes :: string where
  \<open>HostLogAttributes =
     text_lines
     ['''',
      ''# Fill up auditd logRecord object'',
      ''if exists(.level) { r.severityText = .level } '',
      ''kv = parse_key_value!(to_string!(get!(.,["_internal","message"])))'',
      ''if exists(kv.type) {'',
      ''  r.attributes = push(r.attributes, {"key": "auditd.type", "value": {"stringValue": kv.type }})'',
      ''}'',
      ''if exists(kv.msg) {'',
      ''  msg_str = ""'',
      ''  if is_array(kv.msg) {'',
      ''    msg_str = kv.msg[0] '',
      ''  } else {'',
      ''    msg_str = kv.msg '',
      ''  }'',
      ''  trimmed = slice!(msg_str, find!(msg_str, "(") + 1, -2)'',
      ''  parts = split!(trimmed, ":")'',
      ''  r.attributes = push(r.attributes, {"key": "log.sequence", "value": {"stringValue": parts[1] }})'',
      ''}'',
      '''']\<close>

definition LogAttributes :: string where
  \<open>LogAttributes =
     ''''\<close>

definition ContainerLogAttributes :: string where
  \<open>ContainerLogAttributes =
     text_lines
     ['''',
      ''r.attributes = append(r.attributes,'',
      ''  ['',
      [CHR 0x09] @ ''{"key": "log.iostream", "value": {"stringValue": .kubernetes.container_iostream}},'',
      [CHR 0x09] @ ''{"key": "level", "value": {"stringValue": .level}}'',
      ''  ]'',
      '')'',
      '''']\<close>

definition NodeResourceAttributes :: string where
  \<open>NodeResourceAttributes =
     text_lines
     ['''',
      ''resource.attributes = append(resource.attributes,'',
      ''  ['',
      [CHR 0x09] @ ''{"key": "process.command_line", "value": {"stringValue": .systemd.t.CMDLINE}},'',
      [CHR 0x09] @ ''{"key": "process.executable.name", "value": {"stringValue": .systemd.t.COMM}},'',
      [CHR 0x09] @ ''{"key": "process.executable.path", "value": {"stringValue": .systemd.t.EXE}},'',
      [CHR 0x09] @ ''{"key": "process.pid", "value": {"stringValue": .systemd.t.PID}},'',
      [CHR 0x09] @ ''{"key": "service.name", "value": {"stringValue": .systemd.t.SYSTEMD_UNIT}}'',
      ''  ]'',
      '')'',
      '''']\<close>

definition NodeLogAttributes :: string where
  \<open>NodeLogAttributes =
     text_lines
     ['''',
      ''r.attributes = append(r.attributes, [{"key": "level", "value": {"stringValue": .level}}])'',
      '''']\<close>

definition FinalGrouping :: string where
  \<open>FinalGrouping =
     text_lines
     ['''',
      ''# Openshift object for grouping (dropped before sending)'',
      ''o = {'',
      ''    "log_type": .log_type,'',
      ''    "log_source": .log_source,'',
      ''    "hostname": .hostname,'',
      ''    "cluster_id": .openshift.cluster_id'',
      ''}'',
      ''. = {'',
      ''  "openshift": o,'',
      ''  "resource": resource,'',
      ''  "logRecords": r'',
      ''}'',
      '''']\<close>

definition FinalGroupingContainers :: string where
  \<open>FinalGroupingContainers =
     text_lines
     ['''',
      ''# Openshift and kubernetes objects for grouping containers (dropped before sending)'',
      ''o = {'',
      ''    "log_type": .log_type,'',
      ''    "log_source": .log_source,'',
      ''    "cluster_id": .openshift.cluster_id'',
      ''}'',
      ''.kubernetes = {'',
      ''    "namespace_name": .kubernetes.namespace_name,'',
      ''    "pod_name": .kubernetes.pod_name,'',
      ''    "container_name": .kubernetes.container_name'',
      ''}'',
      ''. = {'',
      ''  "openshift": o,'',
      ''  "kubernetes": .kubernetes,'',
      ''  "resource": resource,'',
      ''  "logRecords": r'',
      ''}'',
      '''']\<close>

definition BackwardCompatBaseResourceAttributes :: string where
  \<open>BackwardCompatBaseResourceAttributes =
     text_lines
     ['''',
      ''# Append backward compatibility attributes'',
      ''resource.attributes = append( resource.attributes,'',
      [CHR 0x09] @ ''['',
      ''      {"key": "log_type", "value": {"stringValue": .log_type}},'',
      ''      {"key": "log_source", "value": {"stringValue": .log_source}},'',
      ''      {"key": "openshift.cluster_id", "value": {"stringValue": .openshift.cluster_id}},'',
      ''      {"key": "kubernetes.host", "value": {"stringValue": .hostname}}'',
      ''    ]'',
      '')'',
      '''']\<close>

definition BackwardCompatContainerResourceAttributes :: string where
  \<open>BackwardCompatContainerResourceAttributes =
     text_lines
     ['''',
      ''# Append backward compatibility attributes for container logs'',
      ''resource.attributes = append( resource.attributes,'',
      [CHR 0x09] @ ''[{"key": "kubernetes.pod_name", "value": {"stringValue": .kubernetes.pod_name}},'',
      [CHR 0x09] @ ''{"key": "kubernetes.container_name", "value": {"stringValue": .kubernetes.container_name}},'',
      [CHR 0x09] @ ''{"key": "kubernetes.namespace_name", "value": {"stringValue": .kubernetes.namespace_name}}]'',
      '')'',
      '''']\<close>

definition FormatResourceLog_VRL :: string where
  \<open>FormatResourceLog_VRL =
     text_lines
     ['''',
      ''. = {'',
      ''      "resource": {'',
      ''         "attributes": .resource.attributes,'',
      ''      },'',
      ''      "scopeLogs": ['',
      ''        {"logRecords": .logRecords}'',
      ''      ]'',
      ''    }'',
      '''']\<close>

definition AddLogRecordTraceContexts :: string where
  \<open>AddLogRecordTraceContexts =
     text_lines
     ['''',
      ''trace_context = {}'',
      ''# 1. Try to extract trace context from structured log fields'',
      ''if exists(._internal.structured) {'',
      [CHR 0x09] @ ''if exists(._internal.structured.trace_id) {'',
      [CHR 0x09] @ [CHR 0x09] @ ''trace_context.trace_id = ._internal.structured.trace_id'',
      [CHR 0x09] @ ''}'',
      [CHR 0x09] @ ''if exists(._internal.structured.span_id) {'',
      [CHR 0x09] @ [CHR 0x09] @ ''trace_context.span_id = ._internal.structured.span_id'',
      [CHR 0x09] @ ''}'',
      [CHR 0x09] @ ''if exists(._internal.structured.trace_flags) {'',
      [CHR 0x09] @ [CHR 0x09] @ ''trace_context.trace_flags = ._internal.structured.trace_flags'',
      [CHR 0x09] @ ''}'',
      ''}'',
      '''',
      ''# 2. If not structured, try parsing the message as JSON'',
      ''if !exists(._internal.structured) {'',
      [CHR 0x09] @ ''parsed, err = parse_json(._internal.message)'',
      [CHR 0x09] @ ''if err == null {'',
      [CHR 0x09] @ [CHR 0x09] @ ''if exists(parsed.trace_id) {'',
      [CHR 0x09] @ [CHR 0x09] @ [CHR 0x09] @ ''trace_context.trace_id = parsed.trace_id'',
      [CHR 0x09] @ [CHR 0x09] @ ''}'',
      [CHR 0x09] @ [CHR 0x09] @ ''if exists(parsed.span_id) {'',
      [CHR 0x09] @ [CHR 0x09] @ [CHR 0x09] @ ''trace_context.span_id = parsed.span_id'',
      [CHR 0x09] @ [CHR 0x09] @ ''}'',
      [CHR 0x09] @ [CHR 0x09] @ ''if exists(parsed.trace_flags) {'',
      [CHR 0x09] @ [CHR 0x09] @ [CHR 0x09] @ ''trace_context.trace_flags = parsed.trace_flags'',
      [CHR 0x09] @ [CHR 0x09] @ ''}'',
      [CHR 0x09] @ ''}'',
      ''}'',
      '''',
      ''# 3. Fall back to regex for any fields still missing'',
      ''if trace_context.trace_id == null {'',
      [CHR 0x09] @ ''parsed, err = parse_regex(._internal.message, r'(?i)(trace_id|traceId|traceID|trace'' @ [bslash] @ ''-id|trace'' @ [bslash] @ ''.id)[=:]'' @ [bslash] @ ''s*["'' @ [bslash] @ [sq] @ '']?(?<trace_id>[0-9a-f]{32})["'' @ [bslash] @ [sq] @ '']?')'',
      [CHR 0x09] @ ''if err == null && exists(parsed.trace_id) {'',
      [CHR 0x09] @ [CHR 0x09] @ ''trace_context.trace_id = parsed.trace_id'',
      [CHR 0x09] @ ''}'',
      ''}'',
      ''if trace_context.span_id == null {'',
      [CHR 0x09] @ ''parsed, err = parse_regex(._internal.message, r'(?i)(span_id|spanId|spanID|span'' @ [bslash] @ ''-id|span'' @ [bslash] @ ''.id)[=:]'' @ [bslash] @ ''s*["'' @ [bslash] @ [sq] @ '']?(?<span_id>[0-9a-f]{16})["'' @ [bslash] @ [sq] @ '']?')'',
      [CHR 0x09] @ ''if err == null && exists(parsed.span_id) {'',
      [CHR 0x09] @ [CHR 0x09] @ ''trace_context.span_id = parsed.span_id'',
      [CHR 0x09] @ ''}'',
      ''}'',
      ''if trace_context.trace_flags == null {'',
      [CHR 0x09] @ ''parsed, err = parse_regex(._internal.message, r'(?i)(trace_flags|traceFlags|flags|trace'' @ [bslash] @ ''-flags|trace'' @ [bslash] @ ''.flags)[=:]'' @ [bslash] @ ''s*["'' @ [bslash] @ [sq] @ '']?(?<trace_flags>[0-9a-f]{1,2})["'' @ [bslash] @ [sq] @ '']?')'',
      [CHR 0x09] @ ''if err == null && exists(parsed.trace_flags) {'',
      [CHR 0x09] @ [CHR 0x09] @ ''trace_context.trace_flags = parsed.trace_flags'',
      [CHR 0x09] @ ''}'',
      ''}'',
      '''',
      ''# 4. Validate and set each trace context field'',
      ''if trace_context.trace_id != null {'',
      [CHR 0x09] @ ''trace_id_str = downcase(to_string!(trace_context.trace_id))'',
      [CHR 0x09] @ ''if match(trace_id_str, r'^[0-9a-f]{32}$') {'',
      [CHR 0x09] @ [CHR 0x09] @ ''._internal.trace_id = trace_id_str'',
      [CHR 0x09] @ ''}'',
      ''}'',
      ''if trace_context.span_id != null {'',
      [CHR 0x09] @ ''span_id_str = downcase(to_string!(trace_context.span_id))'',
      [CHR 0x09] @ ''if match(span_id_str, r'^[0-9a-f]{16}$') {'',
      [CHR 0x09] @ [CHR 0x09] @ ''._internal.span_id = span_id_str'',
      [CHR 0x09] @ ''}'',
      ''}'',
      ''if trace_context.trace_flags != null {'',
      [CHR 0x09] @ ''trace_flags_str = downcase(to_string!(trace_context.trace_flags))'',
      [CHR 0x09] @ ''if match(trace_flags_str, r'^0?[01]$') {'',
      [CHR 0x09] @ [CHR 0x09] @ ''._internal.trace_flags = trace_flags_str'',
      [CHR 0x09] @ ''}'',
      ''}'',
      '''']\<close>

section \<open>Syslog (output/syslog/syslog.go)\<close>

definition defProcIdRFC3164 :: string where
  \<open>defProcIdRFC3164 =
     text_lines
     [''to_string(._syslog.proc_id)'',
      ''if is_empty(strip_whitespace(._syslog.proc_id)) { del(._syslog.proc_id) }'',
      '''']\<close>

definition defAppNameRFC3164 :: string where
  \<open>defAppNameRFC3164 =
     ''to_string!(._syslog.app_name || "")''\<close>

definition nodeAppNameRFC5424 :: string where
  \<open>nodeAppNameRFC5424 =
     ''._syslog.app_name = to_string!(.systemd.u.SYSLOG_IDENTIFIER || "-")''\<close>

definition nodeAppNameRFC3164 :: string where
  \<open>nodeAppNameRFC3164 =
     ''._syslog.app_name = to_string!(.systemd.u.SYSLOG_IDENTIFIER || "")''\<close>

definition nodeProcIdRFC3164 :: string where
  \<open>nodeProcIdRFC3164 =
     ''._syslog.proc_id = to_string!(.systemd.t.PID || "")''\<close>

definition nodeProcIdRFC5424 :: string where
  \<open>nodeProcIdRFC5424 =
     ''._syslog.proc_id = to_string!(.systemd.t.PID || "-")''\<close>

definition containerAppNameRFC5424 :: string where
  \<open>containerAppNameRFC5424 =
     text_lines
     [''._syslog.app_name, err = join([.kubernetes.namespace_name, .kubernetes.pod_name, .kubernetes.container_name], "_")'',
      ''if err != null {'',
      ''  log("K8s metadata (namespace, pod, or container) missing; syslog.app_name set to '-'", level: "error")'',
      ''  ._syslog.app_name = "-"'',
      ''}'',
      '''']\<close>

definition containerAppNameRFC3164 :: string where
  \<open>containerAppNameRFC3164 =
     text_lines
     [''._syslog.app_name, err = join([.kubernetes.namespace_name, .kubernetes.pod_name, .kubernetes.container_name], "")'',
      ''if err != null {'',
      ''  log("K8s metadata (namespace, pod, or container) missing: unable to calculate syslog.app_name (TAG)", level: "error")'',
      ''} else {'',
      ''  #Remove non-alphanumeric characters'',
      ''  ._syslog.app_name = replace(._syslog.app_name, r'[^a-zA-Z0-9]', "")'',
      ''  #Truncate the sanitized tag to 32 characters'',
      ''  ._syslog.app_name = truncate(._syslog.app_name, 32)'',
      ''}'',
      '''']\<close>

definition containerFacility :: string where
  \<open>containerFacility =
     ''._syslog.facility = "user"''\<close>

definition containerSeverity :: string where
  \<open>containerSeverity =
     ''._syslog.severity = .level''\<close>

definition containerProcId :: string where
  \<open>containerProcId =
     ''._syslog.proc_id = to_string!(.kubernetes.pod_id || "")''\<close>

definition auditAppName :: string where
  \<open>auditAppName =
     ''._syslog.app_name = .log_source''\<close>

definition auditSeverity :: string where
  \<open>auditSeverity =
     ''._syslog.severity = "info"''\<close>

definition auditFacility :: string where
  \<open>auditFacility =
     ''._syslog.facility = "security"''\<close>

definition auditProcId :: string where
  \<open>auditProcId =
     ''._syslog.proc_id = to_string!(.auditID || "-")''\<close>

definition syslog_msgId :: string where
  \<open>syslog_msgId =
     ''._syslog.msg_id = .log_source''\<close>

definition isInfrastructureNodeLogCond :: string where
  \<open>isInfrastructureNodeLogCond =
     ''.log_type == "infrastructure" && .log_source == "node"''\<close>

definition isContainerLogCond :: string where
  \<open>isContainerLogCond =
     ''.log_source == "container"''\<close>

definition isAuditLogCond :: string where
  \<open>isAuditLogCond =
     ''.log_type == "audit"''\<close>

definition facilityConversionVRL :: string where
  \<open>facilityConversionVRL =
     text_lines
     ['''',
      ''# try to convert syslog code to the facility, severity names (e.g. 4 -> "warning", "4" -> "warning"  )'',
      ''if exists(._syslog.facility) && !is_null(._syslog.facility) {'',
      ''  _, err = to_syslog_facility_code(._syslog.facility)'',
      ''  if err != null {'',
      ''    # Field is not a valid name '' @ [CHR 0xE2] @ [CHR 0x80] @ [CHR 0x94] @ '' try treating it as a code (int or string int)'',
      ''    code, err2 = to_int(._syslog.facility)'',
      ''    if err2 == null {'',
      ''      facility, err3 = to_syslog_facility(code)'',
      ''      if err3 == null {'',
      ''        ._syslog.facility = facility'',
      ''      } else {'',
      ''        log("Invalid syslog facility code", level: "warn")'',
      ''      }'',
      ''    } else {'',
      ''      log("Invalid syslog facility value", level: "warn")'',
      ''    }'',
      ''  }'',
      ''  # else: already a valid name, leave it as-is'',
      ''}'']\<close>

definition severityNormalizationInfallibleVRL :: string where
  \<open>severityNormalizationInfallibleVRL =
     text_lines
     ['''',
      ''  ._syslog.severity = downcase(._syslog.severity)'',
      ''  if ._syslog.severity == "emergency" { ._syslog.severity = "emerg" } else if ._syslog.severity == "critical" { ._syslog.severity = "crit" } else if ._syslog.severity == "informational" { ._syslog.severity = "info" }'']\<close>

definition severityNormalizationFallibleVRL :: string where
  \<open>severityNormalizationFallibleVRL =
     text_lines
     ['''',
      ''  if is_string(._syslog.severity) {'',
      ''    ._syslog.severity = downcase(._syslog.severity) ?? ._syslog.severity'',
      ''    if ._syslog.severity == "emergency" { ._syslog.severity = "emerg" } else if ._syslog.severity == "critical" { ._syslog.severity = "crit" } else if ._syslog.severity == "informational" { ._syslog.severity = "info" }'',
      ''  }'']\<close>

definition severityValidationVRL :: "string \<Rightarrow> string" where
  \<open>severityValidationVRL a =
     text_lines
     ['''',
      ''if exists(._syslog.severity) && !is_null(._syslog.severity) {'',
      '''']
     @ a
     @ text_lines
     ['''',
      ''  _, err = to_syslog_severity(._syslog.severity)'',
      ''  if err != null {'',
      ''    # Field is not a valid name '' @ [CHR 0xE2] @ [CHR 0x80] @ [CHR 0x94] @ '' try treating it as a code (int or string int)'',
      ''    code, err2 = to_int(._syslog.severity)'',
      ''    if err2 == null {'',
      ''      severity, err3 = to_syslog_level(code)'',
      ''      if err3 == null {'',
      ''        ._syslog.severity = severity'',
      ''      } else {'',
      ''        log("Invalid syslog severity code", level: "warn")'',
      ''      }'',
      ''    } else {'',
      ''      log("Invalid syslog severity value", level: "warn")'',
      ''    }'',
      ''  }'',
      ''  # else: already a valid name, leave it as-is'',
      ''}'']\<close>

definition payloadKeyDefaultVRL :: string where
  \<open>payloadKeyDefaultVRL =
     text_lines
     ['''',
      ''# Payload key NOT configured, full payload set to .message field (skipping internal objects)'',
      ''excluded_fields = ["_internal", "_syslog"]'',
      ''temp = .'',
      ''for_each(excluded_fields) -> |_index, field| {'',
      ''  temp = remove(temp, [field]) ?? temp'',
      ''}'',
      ''.message = temp'']\<close>

definition payloadKeyConfiguredVRL :: "string \<Rightarrow> string" where
  \<open>payloadKeyConfiguredVRL a =
     text_lines
     ['''',
      ''# Payload key configured, going to use the payload key for .message field'',
      ''payload_key = "'']
     @ a
     @ text_lines
     [''"'',
      ''if starts_with(payload_key, ".") {'',
      ''  payload_key = slice!(payload_key, 1)'',
      ''}'',
      ''path = split(payload_key, ".")'',
      ''value, err = get(., path)'',
      ''if err == null && value != null {'',
      ''  .message = value'',
      ''} else {'',
      ''  excluded_fields = ["_internal", "_syslog"]'',
      ''  temp = .'',
      ''  for_each(excluded_fields) -> |_index, field| {'',
      ''    temp = remove(temp, [field]) ?? temp'',
      ''  }'',
      ''  .message = temp'',
      ''}'']\<close>

definition kubernetesMinimalEnrichmentVRL :: string where
  \<open>kubernetesMinimalEnrichmentVRL =
     text_lines
     ['''',
      ''# KubernetesMinimal'',
      ''# Adds namespace_name, pod_name, and container_name to the beginning of the message body (e.g. namespace_name=myproject, container_name=server, pod_name=pod-123, message={"foo":"bar"}).'',
      ''# This may result in the message body being an invalid JSON structure.'',
      ''# Fields are only added when present and non-empty (e.g. audit/journald logs have no Kubernetes metadata).'',
      '''',
      ''parts = []'',
      '''',
      ''if exists(.kubernetes.namespace_name) && ((to_string(.kubernetes.namespace_name) ?? "") != "") {'',
      ''  parts = push(parts, "namespace_name=" + to_string!(.kubernetes.namespace_name))'',
      ''}'',
      '''',
      ''if exists(.kubernetes.container_name) && ((to_string(.kubernetes.container_name) ?? "") != "") {'',
      ''  parts = push(parts, "container_name=" + to_string!(.kubernetes.container_name))'',
      ''}'',
      '''',
      ''if exists(.kubernetes.pod_name) && ((to_string(.kubernetes.pod_name) ?? "") != "") {'',
      ''  parts = push(parts, "pod_name=" + to_string!(.kubernetes.pod_name))'',
      ''}'',
      '''',
      ''msg_value = to_string(.message) ?? encode_json(.message)'',
      '''',
      ''if length(parts) > 0 {'',
      ''  parts = push(parts, "message=" + msg_value)'',
      ''  .message = join!(parts, ", ")'',
      ''} else {'',
      ''  .message = msg_value'',
      ''}'']\<close>

definition vrlKeySyslogFacility :: string where
  \<open>vrlKeySyslogFacility =
     ''._syslog.facility''\<close>

definition vrlKeySyslogSeverity :: string where
  \<open>vrlKeySyslogSeverity =
     ''._syslog.severity''\<close>

definition vrlKeySyslogProcID :: string where
  \<open>vrlKeySyslogProcID =
     ''._syslog.proc_id''\<close>

definition vrlKeySyslogAppName :: string where
  \<open>vrlKeySyslogAppName =
     ''._syslog.app_name''\<close>

definition vrlKeySyslogMsgID :: string where
  \<open>vrlKeySyslogMsgID =
     ''._syslog.msg_id''\<close>

section \<open>Splunk (output/splunk/splunk.go)\<close>

definition sourceTmpl :: string where
  \<open>sourceTmpl =
     text_lines
     ['''',
      ''# Splunk 'source' field detection'',
      ''if ._internal.log_type == "infrastructure" && ._internal.log_source == "node" {'',
      ''    ._internal.splunk.source = to_string!(._internal.systemd.u.SYSLOG_IDENTIFIER || "")'',
      ''}'',
      ''if ._internal.log_source == "container" {'',
      ''   '' @ [CHR 0x09] @ ''._internal.splunk.source = join!([._internal.kubernetes.namespace_name, ._internal.kubernetes.pod_name, ._internal.kubernetes.container_name], "_")'',
      ''}'',
      ''if ._internal.log_type == "audit" {'',
      ''   ._internal.splunk.source = ._internal.log_source'',
      ''}'',
      '''']\<close>

definition payloadKeyTmpl :: "string \<Rightarrow> string" where
  \<open>payloadKeyTmpl a =
     text_lines
     ['''',
      ''payloadKey = '']
     @ a
     @ text_lines
     ['''',
      ''if !is_null(payloadKey) {'',
      [CHR 0x09] @ ''value = get!(., payloadKey) '',
      [CHR 0x09] @ ''if !is_null(value) {'',
      ''        internal = ._internal'',
      ''        . = {}'',
      ''        . = set!(., payloadKey, value)'',
      ''        ._internal = internal'',
      [CHR 0x09] @ [CHR 0x09] @ ''if is_object(value) {'',
      [CHR 0x09] @ [CHR 0x09] @ [CHR 0x09] @ ''._internal.splunk.sourcetype = "_json"'',
      [CHR 0x09] @ [CHR 0x09] @ ''} else {'',
      [CHR 0x09] @ [CHR 0x09] @ [CHR 0x09] @ ''._internal.splunk.sourcetype = "generic_single_line"'',
      [CHR 0x09] @ [CHR 0x09] @ ''}'',
      [CHR 0x09] @ ''} else {'',
      [CHR 0x09] @ [CHR 0x09] @ ''._internal.splunk.sourcetype = "_json"'',
      [CHR 0x09] @ ''}'',
      ''}'',
      '''']\<close>

definition payloadKeysourceTypeTmpl :: "string \<Rightarrow> string \<Rightarrow> string" where
  \<open>payloadKeysourceTypeTmpl a b =
     text_lines
     ['''',
      ''payloadKey = '']
     @ a
     @ text_lines
     ['''',
      ''sourceType = '']
     @ b
     @ text_lines
     ['''',
      ''if !is_null(payloadKey) {'',
      [CHR 0x09] @ ''value = get!(., payloadKey) '',
      [CHR 0x09] @ ''if !is_null(value) {'',
      ''        internal = ._internal'',
      ''        . = {}'',
      ''        . = set!(., payloadKey, value)'',
      ''        ._internal = internal'',
      [CHR 0x09] @ ''    ._internal.splunk.sourcetype = sourceType'',
      [CHR 0x09] @ ''} else {'',
      [CHR 0x09] @ [CHR 0x09] @ ''._internal.splunk.sourcetype = "_json"'',
      [CHR 0x09] @ ''}'',
      ''}'',
      '''']\<close>

definition indexedFieldsRemap :: "string \<Rightarrow> string" where
  \<open>indexedFieldsRemap a =
     text_lines
     ['''',
      ''# Splunk indexed fields'',
      ''indexed_fields = '']
     @ a
     @ text_lines
     ['''',
      ''for_each(indexed_fields) -> |_, field| {'',
      [CHR 0x09] @ ''value = get!(., field) '',
      [CHR 0x09] @ ''if !is_null(value) {'',
      [CHR 0x09] @ [CHR 0x09] @ ''new_key = replace(join!(field,"_"), r'['' @ [bslash] @ ''./]', "_")  '',
      [CHR 0x09] @ [CHR 0x09] @ ''if !is_string(value) {'',
      [CHR 0x09] @ [CHR 0x09] @ ''  if is_object(value) {'',
      [CHR 0x09] @ [CHR 0x09] @ [CHR 0x09] @ ''value = encode_json(value)'',
      [CHR 0x09] @ [CHR 0x09] @ ''  } else {'',
      [CHR 0x09] @ [CHR 0x09] @ [CHR 0x09] @ ''value = to_string!(value)'',
      [CHR 0x09] @ [CHR 0x09] @ ''  }'',
      [CHR 0x09] @ [CHR 0x09] @ ''}'',
      ''        . = remove!(., field, true)'',
      [CHR 0x09] @ [CHR 0x09] @ ''. = set!(., [new_key], value)'' @ [CHR 0x09],
      [CHR 0x09] @ ''} else {'',
      ''        log("Path " + join!(field, ".") + " not found in log event", level: "warn")'',
      ''    }'',
      ''}'',
      '''']\<close>

definition fixTimestampFormat_VRL :: string where
  \<open>fixTimestampFormat_VRL =
     text_lines
     ['''',
      ''ts, err = parse_timestamp(._internal.timestamp,"%+")'',
      ''if err != null {'',
      [CHR 0x09] @ ''log("could not parse timestamp. err=" + err, rate_limit_secs: 0)'',
      ''} else {'',
      [CHR 0x09] @ ''._internal.timestamp = ts'',
      ''}'',
      '''']\<close>

section \<open>Other outputs\<close>

definition NormalizeStreamName_VRL :: string where
  \<open>NormalizeStreamName_VRL =
     text_lines
     [''.stream_name = "default"'',
      ''if ( .log_type == "audit" ) {'',
      '' .stream_name = (.hostname +"."+ downcase(.log_source)) ?? .stream_name'',
      ''}'',
      ''if ( .log_source == "container" ) {'',
      ''  k = .kubernetes'',
      ''  .stream_name = (k.namespace_name+"_"+k.pod_name+"_"+k.container_name) ?? .stream_name'',
      ''}'',
      ''if ( .log_type == "infrastructure" ) {'',
      '' .stream_name = ( .hostname + "." + .stream_name ) ?? .stream_name'',
      ''}'',
      ''if ( .log_source == "node" ) {'',
      '' .stream_name =  ( .hostname + ".journal.system" ) ?? .stream_name'',
      ''}'',
      ''del(.tag)'',
      ''del(.source_type)'']\<close>

definition NormalizeSeverity_VRL :: string where
  \<open>NormalizeSeverity_VRL =
     text_lines
     ['''',
      ''# Set audit log level to 'INFO'' @ [sq],
      ''if .log_type == "audit" {'',
      [CHR 0x09] @ ''.level = "INFO"'',
      ''} else if !exists(.level) {'',
      ''  '' @ [CHR 0x09] @ ''.level = "DEFAULT"'',
      ''} else if .level == "warn" {'',
      [CHR 0x09] @ ''.level = "WARNING"'',
      ''} else if .level == "trace" {'',
      [CHR 0x09] @ ''.level = "DEBUG"'',
      ''} else {'',
      [CHR 0x09] @ ''.level = upcase!(.level) '',
      ''}'',
      '''']\<close>

definition add_id_VRL :: string where
  \<open>add_id_VRL =
     text_lines
     [''._id = encode_base64(uuid_v4())'',
      ''if exists(.kubernetes.event.metadata.uid) {'',
      ''  ._id = .kubernetes.event.metadata.uid'',
      ''}'']\<close>

definition RemapReservedKeywords_VRL :: string where
  \<open>RemapReservedKeywords_VRL =
     text_lines
     ['''',
      ''if exists(.kind) {'',
      ''  .openshift_kind = del(.kind)'',
      ''}'',
      '''']\<close>

definition k8sEventLabel :: "string \<Rightarrow> string \<Rightarrow> string" where
  \<open>k8sEventLabel a b =
     text_lines
     ['''',
      ''if !exists(.'']
     @ a
     @ text_lines
     ['') {'',
      ''  .'']
     @ b
     @ text_lines
     ['' = ""'',
      ''}'']\<close>

end
