(* ===== verification/Vector_Sinks.thy ===== *)
theory Vector_Sinks
  imports Vector_Common Output_Text
begin

text \<open>
  The sinks of most output types (\<open>output/*/*.go\<close>): from the specification of an output and the
  identifiers it reads, the sink and the transforms in front of it. The block of the type is a
  pointer that the code follows without a check, except for Google Cloud Logging; an absent one is
  a panic. \<open>o.GetTuning()\<close> is \<open>NewTuning o\<close>, as the adapter sets it. The sinks of Loki, LokiStack,
  OTLP and syslog are in theories of their own.
\<close>

type_synonym output_parts = "string \<times> Sink \<times> Transforms"

section \<open>Settings that the sinks share\<close>

definition GetTuning :: "OutputSpec \<Rightarrow> Tuning" where
  "GetTuning o' = NewTuning o'"

definition output_TlsConf :: "OutputSpec \<Rightarrow> Secrets \<Rightarrow> Options \<Rightarrow> TLS option" where
  "output_TlsConf o' secrets op = NewTls None False (Some (Output_TLS o')) secrets op"

text \<open>The assignments to the fields of the base that every \<open>New\<close> makes.\<close>

definition base_of :: "Env \<Rightarrow> OutputSpec \<Rightarrow> string \<Rightarrow> string \<Rightarrow> Secrets \<Rightarrow> Options \<Rightarrow> BaseSink" where
  "base_of env o' compression codecType secrets op =
     \<lparr>bsink_Compression = compression, bsink_Encoding = Some (NewApiEncoding codecType),
      bsink_Batch = NewApiBatch (GetTuning o'), bsink_Buffer = NewApiBuffer (GetTuning o'),
      bsink_Request = NewApiRequest env (GetTuning o'), bsink_TLS = output_TlsConf o' secrets op\<rparr>"

definition limited_batch :: "64 word \<Rightarrow> OutputSpec \<Rightarrow> Batch" where
  "limited_batch limit o' =
     (case NewApiBatch (GetTuning o') of
        Some batch \<Rightarrow> if limit < batch_MaxBytes batch then batch\<lparr>batch_MaxBytes := limit\<rparr> else batch
      | None \<Rightarrow> \<lparr>batch_MaxBytes = limit, batch_MaxEvents = 0\<rparr>)"

text \<open>The template that reads an internal field back.\<close>

definition internal_field :: "string \<Rightarrow> string" where
  "internal_field field = ''{{ _internal.'' @ field @ '' }}''"

definition proxy_of :: "string \<Rightarrow> Proxy option" where
  "proxy_of url =
     (if url \<noteq> [] then Some \<lparr>proxy_Enabled = True, proxy_Http = url, proxy_Https = url\<rparr> else None)"

section \<open>AWS (output/aws)\<close>

definition Trim :: "char \<Rightarrow> string \<Rightarrow> string" where
  "Trim c s = rev (dropWhile (\<lambda>d. d = c) (rev (dropWhile (\<lambda>d. d = c) s)))"

definition AwsAuth_zero :: AwsAuth where
  "AwsAuth_zero =
     \<lparr>awsauth_AccessKeyId = [], awsauth_SecretAccessKey = [], awsauth_AssumeRole = [],
      awsauth_ExternalId = [], awsauth_SessionName = [], awsauth_CredentialsFile = [],
      awsauth_Profile = []\<rparr>"

definition aws_auth_New :: "string \<Rightarrow> AwsAuthentication option \<Rightarrow> Options \<Rightarrow> AwsAuth option go" where
  "aws_auth_New outputName auth op =
     (case auth of
        None \<Rightarrow> ret None
      | Some a \<Rightarrow>
          (case aws_Type a of
             AwsAuthTypeAccessKey \<Rightarrow>
               go_bind (deref (aws_AwsAccessKey a)) (\<lambda>key.
                 let keyed = AwsAuth_zero\<lparr>awsauth_AccessKeyId := SecretFrom (Some (awskey_KeyId key)),
                                          awsauth_SecretAccessKey := SecretFrom (Some (awskey_KeySecret key))\<rparr>
                 in ret (Some (case aws_AssumeRole a of
                      None \<Rightarrow> keyed
                    | Some role \<Rightarrow>
                        keyed\<lparr>awsauth_AssumeRole := SecretFrom (Some (assume_RoleARN role)),
                              awsauth_ExternalId := assume_ExternalID role,
                              awsauth_SessionName := assume_SessionName role\<rparr>)))
           | AwsAuthTypeIAMRole \<Rightarrow>
               ret (Some (case op_ForwarderName op of
                      None \<Rightarrow> AwsAuth_zero
                    | Some forwarderName \<Rightarrow>
                        AwsAuth_zero
                          \<lparr>awsauth_CredentialsFile :=
                             Trim dq (ConfigPath FormatQuoted (forwarderName @ ''-aws-creds'') ''credentials''),
                           awsauth_Profile := ''output_'' @ outputName\<rparr>))
           | AwsAuthTypeOther _ \<Rightarrow> ret (Some AwsAuth_zero)))"

definition CloudwatchDefaultMaxBytes :: "64 word" where
  "CloudwatchDefaultMaxBytes = 1048576"

definition NormalizeStreamName :: "string list \<Rightarrow> Transform" where
  "NormalizeStreamName inputs = NewRemap NormalizeStreamName_VRL inputs"

definition groupNameField :: string where
  "groupNameField = ''cw_group_name''"

definition cloudwatch_New ::
  "Env \<Rightarrow> string \<Rightarrow> OutputSpec \<Rightarrow> string list \<Rightarrow> Secrets \<Rightarrow> Options \<Rightarrow> output_parts go" where
  "cloudwatch_New env oid o' inputs secrets op =
     go_bind (deref (output_Cloudwatch o')) (\<lambda>cw.
     go_bind (aws_auth_New (output_Name o') (cw_Authentication cw) op) (\<lambda>auth.
       let componentID = MakeID [oid, ''normalize_streams''];
           groupNameID = MakeID [oid, ''group_name''];
           compression = (if tuning_Compression (GetTuning o') = [] then ''none''
                          else tuning_Compression (GetTuning o'))
       in ret (oid,
            KAwsCloudwatchLogs
              \<lparr>cwsink_Inputs = [groupNameID], cwsink_Region = cw_Region cw,
               cwsink_GroupName = internal_field groupNameField, cwsink_StreamName = ''{{ stream_name }}'',
               cwsink_Endpoint = cw_URL cw,
               cwsink_Base = (base_of env o' compression ''json'' secrets op)
                  \<lparr>bsink_Batch := Some (limited_batch CloudwatchDefaultMaxBytes o')\<rparr>,
               cwsink_Auth = auth, cwsink_HealthCheck = False\<rparr>,
            [componentID \<mapsto> NormalizeStreamName inputs,
             groupNameID \<mapsto> NewTemplateRemap (env_PatternOrder env) [componentID] (cw_GroupName cw) groupNameField])))"

definition s3_New ::
  "Env \<Rightarrow> string \<Rightarrow> OutputSpec \<Rightarrow> string list \<Rightarrow> Secrets \<Rightarrow> Options \<Rightarrow> output_parts go" where
  "s3_New env oid o' inputs secrets op =
     go_bind (deref (output_S3 o')) (\<lambda>s3.
     go_bind (aws_auth_New (output_Name o') (s3_Authentication s3) op) (\<lambda>auth.
       let keyPrefixID = MakeID [oid, ''key_prefix'']
       in ret (oid,
            KAwsS3
              \<lparr>s3sink_Inputs = [keyPrefixID], s3sink_Region = s3_Region s3, s3sink_Bucket = s3_Bucket s3,
               s3sink_KeyPrefix = internal_field keyPrefixID, s3sink_Endpoint = s3_URL s3,
               s3sink_Base = base_of env o' (tuning_Compression (GetTuning o')) ''json'' secrets op,
               s3sink_Auth = auth, s3sink_HealthCheck = False\<rparr>,
            [keyPrefixID \<mapsto> NewTemplateRemap (env_PatternOrder env) inputs (s3_KeyPrefix s3) keyPrefixID])))"

section \<open>Azure (output/azure)\<close>

definition azureSharedKey :: "AzureMonitor \<Rightarrow> string" where
  "azureSharedKey azm =
     (case Option.bind (azm_Authentication azm) azmauth_SharedKey of
        None \<Rightarrow> [] | Some key \<Rightarrow> SecretFrom (Some key))"

definition azuremonitor_New ::
  "Env \<Rightarrow> string \<Rightarrow> OutputSpec \<Rightarrow> string list \<Rightarrow> Secrets \<Rightarrow> Options \<Rightarrow> output_parts go" where
  "azuremonitor_New env oid o' inputs secrets op =
     go_bind (deref (output_AzureMonitor o')) (\<lambda>azm.
       ret (oid,
         KAzureMonitorLogs
           \<lparr>azmsink_Inputs = sort inputs, azmsink_AzureResourceId = azm_AzureResourceId azm,
            azmsink_CustomerId = azm_CustomerId azm, azmsink_Host = azm_Host azm,
            azmsink_LogType = azm_LogType azm, azmsink_SharedKey = azureSharedKey azm,
            azmsink_Base = base_of env o' [] [] secrets op\<rparr>,
         Map.empty))"

definition AzureDefaultMaxBytes :: "64 word" where
  "AzureDefaultMaxBytes = 1000000"

definition ServiceAccountBasePath :: "string \<Rightarrow> string" where
  "ServiceAccountBasePath name = rooted_Join [''/var/run/ocp-collector/serviceaccount'', name]"

definition RemapReservedKeywords :: "string list \<Rightarrow> Transform" where
  "RemapReservedKeywords inputs = NewRemap RemapReservedKeywords_VRL inputs"

definition azli_auth :: "AzureLogsIngestion \<Rightarrow> AzureLogsIngestionAuth option" where
  "azli_auth azli =
     map_option (\<lambda>a.
       let zero = \<lparr>azsinkauth_AzureCredentialKind = [], azsinkauth_AzureTenantId = [],
                   azsinkauth_AzureClientId = [], azsinkauth_AzureClientSecret = [],
                   azsinkauth_TenantId = [], azsinkauth_ClientId = [], azsinkauth_TokenFilePath = []\<rparr>
       in case azauth_Type a of
            AzureLogsIngestionAuthTypeWorkloadIdentity \<Rightarrow>
              (let auth = zero\<lparr>azsinkauth_AzureCredentialKind := ''workload_identity''\<rparr>
               in case azauth_WorkloadIdentity a of
                    None \<Rightarrow> auth
                  | Some wi \<Rightarrow>
                      auth\<lparr>azsinkauth_TenantId := azwi_TenantId wi, azsinkauth_ClientId := azwi_ClientId wi,
                           azsinkauth_TokenFilePath :=
                             (case azwi_Token wi of
                                None \<Rightarrow> []
                              | Some token \<Rightarrow>
                                  if token_From token = BearerTokenFromSecret
                                  then (case token_Secret token of
                                          None \<Rightarrow> []
                                        | Some s \<Rightarrow> SecretPath FormatPlain (btsk_Name s) (btsk_Key s))
                                  else ServiceAccountBasePath TokenKey)\<rparr>)
          | _ \<Rightarrow>
              (let auth = zero\<lparr>azsinkauth_AzureCredentialKind := ''client_secret_credential''\<rparr>
               in case azauth_ClientSecret a of
                    None \<Rightarrow> auth
                  | Some cs \<Rightarrow>
                      auth\<lparr>azsinkauth_AzureTenantId := azcs_TenantId cs,
                           azsinkauth_AzureClientId := azcs_ClientId cs,
                           azsinkauth_AzureClientSecret := SecretFrom (azcs_Secret cs)\<rparr>))
       (azli_Authentication azli)"

definition azurelogsingestion_New ::
  "Env \<Rightarrow> string \<Rightarrow> OutputSpec \<Rightarrow> string list \<Rightarrow> Secrets \<Rightarrow> Options \<Rightarrow> output_parts go" where
  "azurelogsingestion_New env oid o' inputs secrets op =
     go_bind (deref (output_AzureLogsIngestion o')) (\<lambda>azli.
       let remapReservedKeywordsID = MakeID [oid, ''remap_reserved_keywords'']
       in ret (oid,
            KAzureLogsIngestion
              \<lparr>azlisink_Inputs = [remapReservedKeywordsID], azlisink_Endpoint = azli_URL azli,
               azlisink_DcrImmutableId = azli_DcrImmutableId azli, azlisink_StreamName = azli_StreamName azli,
               azlisink_TokenScope = azli_TokenScope azli, azlisink_TimestampField = azli_TimestampField azli,
               azlisink_Auth = azli_auth azli,
               azlisink_Base = (base_of env o' [] [] secrets op)
                  \<lparr>bsink_Batch := Some (limited_batch AzureDefaultMaxBytes o')\<rparr>\<rparr>,
            [remapReservedKeywordsID \<mapsto> RemapReservedKeywords inputs]))"

section \<open>Elasticsearch (output/elasticsearch)\<close>

definition mergeEndpoints :: "Elasticsearch \<Rightarrow> string list" where
  "mergeEndpoints es = (if es_URL es \<noteq> [] then [es_URL es] else []) @ es_Endpoints es"

definition apiVersionFrom :: "int \<Rightarrow> string" where
  "apiVersionFrom version = (if version = 6 then ''v6'' else if version = 7 then ''v7'' else ''v8'')"

text \<open>
  The headers of the request and the authentication. The map of headers is the one of the
  specification, which the code extends in place.
\<close>

definition elasticsearch_request :: "Elasticsearch \<Rightarrow> Options \<Rightarrow> Request option \<Rightarrow> Request option" where
  "elasticsearch_request es op request =
     (let withHeaders =
        (if es_Headers es \<noteq> Map.empty
         then Some ((case request of None \<Rightarrow> Request_zero | Some r \<Rightarrow> r)\<lparr>request_Headers := Some (es_Headers es)\<rparr>)
         else request)
      in case Option.bind (es_Authentication es) httpauth_Token of
           None \<Rightarrow> withHeaders
         | Some key \<Rightarrow>
             (let r = (case withHeaders of None \<Rightarrow> Request_zero | Some r \<Rightarrow> r);
                  headers = (case request_Headers r of None \<Rightarrow> Map.empty | Some h \<Rightarrow> h)
              in Some (r\<lparr>request_Headers := Some (headers(''Authorization'' \<mapsto> ''Bearer '' @ bearer_token key op))\<rparr>)))"

definition elasticsearchAuth :: "Elasticsearch \<Rightarrow> HttpAuth option" where
  "elasticsearchAuth es =
     (case es_Authentication es of
        None \<Rightarrow> None
      | Some a \<Rightarrow>
          (case (httpauth_Token a, httpauth_Username a, httpauth_Password a) of
             (None, Some user, Some password) \<Rightarrow>
               Some \<lparr>auth_Strategy = ''basic'', auth_User = SecretFrom (Some user),
                     auth_Password = SecretFrom (Some password), auth_Token = []\<rparr>
           | _ \<Rightarrow> None))"

definition elasticsearch_New ::
  "Env \<Rightarrow> string \<Rightarrow> OutputSpec \<Rightarrow> string list \<Rightarrow> Secrets \<Rightarrow> Options \<Rightarrow> output_parts go" where
  "elasticsearch_New env oid o' inputs secrets op =
     go_bind (deref (output_Elasticsearch o')) (\<lambda>es.
       let componentID = MakeID [oid, ''index''];
           addID = MakeID [oid, ''add_id''];
           v6 = (es_Version es = 6);
           tfs = (if v6 then [addID \<mapsto> NewRemap add_id_VRL inputs] else Map.empty);
           indexInputs = (if v6 then [addID] else inputs);
           base = base_of env o' (tuning_Compression (GetTuning o')) [] secrets op
       in ret (oid,
            KElasticsearch
              \<lparr>essink_Inputs = [componentID], essink_Endpoints = mergeEndpoints es,
               essink_IdKey = (if v6 then ''_id'' else []), essink_ApiVersion = apiVersionFrom (es_Version es),
               essink_Base = base\<lparr>bsink_Request := elasticsearch_request es op (bsink_Request base)\<rparr>,
               essink_BulkIndex = internal_field componentID, essink_BulkAction = ''create'',
               essink_Auth = elasticsearchAuth es, essink_Proxy = None\<rparr>,
            tfs(componentID \<mapsto> NewTemplateRemap (env_PatternOrder env) indexInputs (es_Index es) componentID)))"

section \<open>Google Cloud Logging (output/gcl)\<close>

definition gcl_auth :: "GoogleCloudLoggingAuthentication option \<Rightarrow> string" where
  "gcl_auth spec =
     (case Option.bind spec gclauth_Credentials of
        None \<Rightarrow> [] | Some c \<Rightarrow> SecretPath FormatPlain (sref_SecretName c) (sref_Key c))"

definition LogDestination :: "GoogleCloudLogging \<Rightarrow> GcpStackdriverLogs \<Rightarrow> GcpStackdriverLogs" where
  "LogDestination g sink =
     (case gclid_Type (gcl_ID g) of
        GoogleCloudLoggingIdTypeFolder \<Rightarrow> sink\<lparr>gclsink_FolderId := gclid_Value (gcl_ID g)\<rparr>
      | GoogleCloudLoggingIdTypeProject \<Rightarrow> sink\<lparr>gclsink_ProjectId := gclid_Value (gcl_ID g)\<rparr>
      | GoogleCloudLoggingIdTypeBillingAccount \<Rightarrow> sink\<lparr>gclsink_BillingAccountId := gclid_Value (gcl_ID g)\<rparr>
      | GoogleCloudLoggingIdTypeOrganization \<Rightarrow> sink\<lparr>gclsink_OrganizationId := gclid_Value (gcl_ID g)\<rparr>
      | GoogleCloudLoggingIdTypeOther _ \<Rightarrow> sink)"

definition NormalizeSeverity :: "string list \<Rightarrow> Transform" where
  "NormalizeSeverity inputs = NewRemap NormalizeSeverity_VRL inputs"

definition gcl_New ::
  "Env \<Rightarrow> string \<Rightarrow> OutputSpec \<Rightarrow> string list \<Rightarrow> Secrets \<Rightarrow> Options \<Rightarrow> output_parts option" where
  "gcl_New env oid o' inputs secrets op =
     (case output_GoogleCloudLogging o' of
        None \<Rightarrow> None
      | Some g \<Rightarrow>
          (let componentID = MakeID [oid, ''log_id'']; gclSeverityID = MakeID [oid, ''normalize_severity'']
           in Some (oid,
                KGcpStackdriverLogs (LogDestination g
                  \<lparr>gclsink_Inputs = [gclSeverityID], gclsink_BillingAccountId = [],
                   gclsink_CredentialsPath = gcl_auth (gcl_Authentication g),
                   gclsink_LogId = internal_field componentID, gclsink_SeverityKey = ''level'',
                   gclsink_FolderId = [], gclsink_ProjectId = [], gclsink_OrganizationId = [],
                   gclsink_Resource = [''type'' \<mapsto> ''k8s_node'', ''node_name'' \<mapsto> ''{{hostname}}''],
                   gclsink_Base = base_of env o' [] [] secrets op\<rparr>),
                [gclSeverityID \<mapsto> NormalizeSeverity [componentID],
                 componentID \<mapsto> NewTemplateRemap (env_PatternOrder env) inputs (gcl_LogId g) componentID])))"

section \<open>HTTP (output/http)\<close>

definition framing :: "HTTP \<Rightarrow> string option" where
  "framing h = (if http_Format h = ''ndjson'' then Some ''newline_delimited'' else None)"

definition http_method :: "HTTP \<Rightarrow> string" where
  "http_method h = (if http_Method h = [] then ''post'' else ToLower (http_Method h))"

definition http_request :: "Env \<Rightarrow> OutputSpec \<Rightarrow> HTTP \<Rightarrow> Request option" where
  "http_request env o' h =
     (let r1 = NewApiRequest env (GetTuning o');
          r2 = (if http_Timeout h \<noteq> 0
                then Some ((case r1 of None \<Rightarrow> Request_zero | Some r \<Rightarrow> r)
                             \<lparr>request_TimeoutSecs := of_int (http_Timeout h)\<rparr>)
                else r1)
      in if http_Headers h \<noteq> Map.empty
         then Some ((case r2 of None \<Rightarrow> Request_zero | Some r \<Rightarrow> r)\<lparr>request_Headers := Some (http_Headers h)\<rparr>)
         else r2)"

definition http_New ::
  "Env \<Rightarrow> string \<Rightarrow> OutputSpec \<Rightarrow> string list \<Rightarrow> Secrets \<Rightarrow> Options \<Rightarrow> output_parts go" where
  "http_New env oid o' inputs secrets op =
     go_bind (deref (output_HTTP o')) (\<lambda>h.
       ret (oid,
         KHttp
           \<lparr>httpsink_Inputs = sort inputs, httpsink_URI = http_URL h, httpsink_Method = http_method h,
            httpsink_Base = (base_of env o' (tuning_Compression (GetTuning o')) ''json'' secrets op)
               \<lparr>bsink_Request := http_request env o' h\<rparr>,
            httpsink_Framing = framing h, httpsink_Auth = NewHttpAuth (http_Authentication h) op,
            httpsink_Proxy = proxy_of (http_ProxyURL h)\<rparr>,
         Map.empty))"

section \<open>Kafka (output/kafka)\<close>

definition kafka_topic :: "Kafka \<Rightarrow> string go" where
  "kafka_topic k =
     (if kafka_Topic k \<noteq> [] then ret (kafka_Topic k)
      else
        go_bind (deref (url_Parse (kafka_URL k))) (\<lambda>url.
          let topicName = dropWhile (\<lambda>c. c = CHR ''/'') (url_Path url)
          in ret (if topicName \<noteq> [] then topicName else ''topic'')))"

definition brokers :: "Kafka \<Rightarrow> string" where
  "brokers k =
     (let brokerUrls = (if kafka_URL k \<noteq> [] then [kafka_URL k] else []) @ kafka_Brokers k
      in Join (List.map_filter (\<lambda>s. map_option url_Host (url_Parse s)) brokerUrls) '','')"

definition isTlsBrokers :: "Kafka \<Rightarrow> bool" where
  "isTlsBrokers k = list_all (\<lambda>b. HasPrefix b ''tls:'') (kafka_Brokers k)"

definition kafka_sasl :: "KafkaAuthentication option \<Rightarrow> Sasl option" where
  "kafka_sasl spec =
     (case Option.bind spec kafkaauth_SASL of
        None \<Rightarrow> None
      | Some a \<Rightarrow>
          (case (sasl_Username a, sasl_Password a) of
             (Some user, Some password) \<Rightarrow>
               Some \<lparr>saslsink_Enabled = True, saslsink_Username = SecretFrom (Some user),
                     saslsink_Password = SecretFrom (Some password),
                     saslsink_Mechanism = (if sasl_Mechanism a \<noteq> [] then sasl_Mechanism a else ''PLAIN'')\<rparr>
           | _ \<Rightarrow> None))"

definition kafkaTls :: "OutputSpec \<Rightarrow> Kafka \<Rightarrow> Secrets \<Rightarrow> Options \<Rightarrow> TlsEnabled option" where
  "kafkaTls o' k secrets op =
     NewTlsEnabled (output_TLS o' \<noteq> None \<and> isTlsBrokers k) (Some (Output_TLS o')) secrets op"

definition librdKafkaOptions :: "OutputSpec \<Rightarrow> Kafka \<Rightarrow> (string \<rightharpoonup> string)" where
  "librdKafkaOptions o' k =
     (let opts = (case output_TLS o' of
                    Some t \<Rightarrow>
                      if isTlsBrokers k \<and> outtls_InsecureSkipVerify t
                      then [''enable.ssl.certificate.verification'' \<mapsto> ''false''] else Map.empty
                  | None \<Rightarrow> Map.empty)
      in case base_MaxWrite (tuning_Base (GetTuning o')) of
           None \<Rightarrow> opts
         | Some maxWrite \<Rightarrow> opts(''message.max.bytes'' \<mapsto> fmt_d (Quantity_Value maxWrite)))"

definition kafka_New ::
  "Env \<Rightarrow> string \<Rightarrow> OutputSpec \<Rightarrow> string list \<Rightarrow> Secrets \<Rightarrow> Options \<Rightarrow> output_parts go" where
  "kafka_New env oid o' inputs secrets op =
     go_bind (deref (output_Kafka o')) (\<lambda>k.
     go_bind (kafka_topic k) (\<lambda>topic.
       let componentID = MakeID [oid, ''topic'']
       in ret (oid,
            KKafka
              \<lparr>kafkasink_Inputs = [componentID], kafkasink_BootstrapServers = brokers k,
               kafkasink_Topic = internal_field componentID, kafkasink_HealthCheck = Some False,
               kafkasink_Base =
                 \<lparr>bsink_Compression = tuning_Compression (GetTuning o'),
                  bsink_Encoding = Some ((NewApiEncoding ''json'')\<lparr>encoding_TimestampFormat := ''rfc3339''\<rparr>),
                  bsink_Batch = NewApiBatch (GetTuning o'), bsink_Buffer = NewApiBuffer (GetTuning o'),
                  bsink_Request = None, bsink_TLS = None\<rparr>,
               kafkasink_Sasl = kafka_sasl (kafka_Authentication k),
               kafkasink_TLS = kafkaTls o' k secrets op,
               kafkasink_LibrdKafka_Options = librdKafkaOptions o' k\<rparr>,
            [componentID \<mapsto> NewTemplateRemap (env_PatternOrder env) inputs topic componentID])))"

section \<open>Splunk (output/splunk)\<close>

definition hasIndexKey :: "Splunk \<Rightarrow> bool" where
  "hasIndexKey s = (splunk_Index s \<noteq> [])"

definition splunk_tenant :: "Splunk \<Rightarrow> string \<Rightarrow> string" where
  "splunk_tenant s index = (if hasIndexKey s then ''{{ ._internal.'' @ index @ '' }}'' else [])"

definition defaultToken :: "Splunk \<Rightarrow> string" where
  "defaultToken s =
     (case Option.bind (splunk_Authentication s) splunkauth_Token of
        None \<Rightarrow> [] | Some token \<Rightarrow> SecretFrom (Some token))"

definition fixTimestampFormat :: "string list \<Rightarrow> Transform" where
  "fixTimestampFormat inputs = NewRemap fixTimestampFormat_VRL inputs"

text \<open>The text of the metadata transform. An empty list of indexed fields stands for a nil one.\<close>

definition splunk_metadata :: "Env \<Rightarrow> Splunk \<Rightarrow> string" where
  "splunk_metadata env s =
     (if splunk_Source s \<noteq> []
      then ''._internal.splunk.source = '' @ TransformUserTemplateToVRL (env_PatternOrder env) (splunk_Source s)
      else sourceTmpl)
     @ (if splunk_PayloadKey s \<noteq> []
        then (let quotedPathArray = ''['' @ Join (QuotePathSegments (SplitPath (splunk_PayloadKey s))) '','' @ '']''
              in if splunk_SourceType s \<noteq> []
                 then payloadKeysourceTypeTmpl quotedPathArray
                        (TransformUserTemplateToVRL (env_PatternOrder env) (splunk_SourceType s))
                 else payloadKeyTmpl quotedPathArray)
        else [newline] @ ''._internal.splunk.sourcetype = '' @ [dq] @ ''_json'' @ [dq, newline])
     @ (if splunk_IndexedFields s \<noteq> []
        then indexedFieldsRemap (fst (GenerateQuotedPathSegmentArrayStr (splunk_IndexedFields s))) else [])"

definition splunk_New ::
  "Env \<Rightarrow> string \<Rightarrow> OutputSpec \<Rightarrow> string list \<Rightarrow> Secrets \<Rightarrow> Options \<Rightarrow> output_parts go" where
  "splunk_New env oid o' inputs secrets op =
     go_bind (deref (output_Splunk o')) (\<lambda>s.
       let timestampID = MakeID [oid, ''timestamp''];
           splunkIndexID = (if hasIndexKey s then MakeID [oid, ''splunk_index''] else []);
           indexed = (if hasIndexKey s
                      then [splunkIndexID \<mapsto>
                              NewTemplateRemap (env_PatternOrder env) [timestampID] (splunk_Index s) splunkIndexID]
                      else Map.empty);
           inputID = (if hasIndexKey s then splunkIndexID else timestampID);
           splunkMetadataID = MakeID [oid, ''metadata'']
       in ret (oid,
            KSplunkHecLogs
              \<lparr>splunksink_Inputs = [splunkMetadataID], splunksink_Endpoint = splunk_URL s,
               splunksink_DefaultToken = defaultToken s, splunksink_Index = splunk_tenant s splunkIndexID,
               splunksink_TimestampKey = ''._internal.timestamp'',
               splunksink_IndexedFields =
                 (if splunk_IndexedFields s \<noteq> []
                  then snd (GenerateQuotedPathSegmentArrayStr (splunk_IndexedFields s)) else []),
               splunksink_Source = ''{{ ._internal.splunk.source }}'',
               splunksink_SourceType = ''{{ ._internal.splunk.sourcetype }}'',
               splunksink_HostKey = ''._internal.hostname'',
               splunksink_Base = base_of env o' (tuning_Compression (GetTuning o')) ''json'' secrets op\<rparr>,
            indexed(splunkMetadataID \<mapsto> NewRemap (splunk_metadata env s) [inputID],
                    timestampID \<mapsto> fixTimestampFormat inputs)))"

section \<open>What the components in front of a sink deliver\<close>

text \<open>A list of identifiers feeds a component when it is not empty and each of them delivers.\<close>

definition feeds :: "Sources \<Rightarrow> Transforms \<Rightarrow> string list \<Rightarrow> bool" where
  "feeds S T is \<longleftrightarrow> is \<noteq> [] \<and> (\<forall>j\<in>set is. delivers S T j)"

lemma feeds_sort [simp]: "feeds S T (sort is) = feeds S T is"
proof -
  have "sort is = [] \<longleftrightarrow> is = []" by (metis length_0_conv length_sort)
  then show ?thesis by (simp add: feeds_def)
qed

lemma feeds_Cons: "feeds S T [i] \<Longrightarrow> feeds S T is \<Longrightarrow> feeds S T (i # is)"
  by (simp add: feeds_def)

lemma feeds_append: "feeds S T xs \<Longrightarrow> feeds S T ys \<Longrightarrow> feeds S T (xs @ ys)"
  by (auto simp: feeds_def)

lemma feeds_link:
  assumes "feeds S T (transform_inputs t)" "T i = Some t" "\<not> is_route t"
  shows "feeds S T [i]"
  using assms by (auto simp: feeds_def intro: delivers_transform)

lemma NewTemplateRemap_simps [simp]:
  "transform_inputs (NewTemplateRemap order inputs t f) = sort inputs"
  "\<not> is_route (NewTemplateRemap order inputs t f)"
  by (simp_all add: NewTemplateRemap_def)

lemma MakeID_eq_iff: "MakeID [a, b] = MakeID [a, c] \<longleftrightarrow> FormatComponentID b = FormatComponentID c"
proof -
  have "''_'' @ b = [CHR ''_''] @ b" for b :: string by simp
  then show ?thesis by (simp only: MakeID_def Join.simps FormatComponentID_append same_append_eq)
qed

text \<open>What formats an identifier, for identifiers that are literals.\<close>

lemmas format_defs = FormatComponentID_def ToLower_def Replacer_char_def char_to_lower_def char_of_def bit_0

lemma sink_purposes_differ:
  "FormatComponentID ''normalize_streams'' \<noteq> FormatComponentID ''group_name''"
  "FormatComponentID ''add_id'' \<noteq> FormatComponentID ''index''"
  "FormatComponentID ''log_id'' \<noteq> FormatComponentID ''normalize_severity''"
  "FormatComponentID ''timestamp'' \<noteq> FormatComponentID ''metadata''"
  "FormatComponentID ''timestamp'' \<noteq> FormatComponentID ''splunk_index''"
  "FormatComponentID ''splunk_index'' \<noteq> FormatComponentID ''metadata''"
  by (simp_all add: format_defs)

lemma throttle_differs:
  "purpose \<in> {''normalize_streams'', ''group_name'', ''key_prefix'', ''remap_reserved_keywords'', ''add_id'',
     ''index'', ''log_id'', ''normalize_severity'', ''topic'', ''timestamp'', ''splunk_index'', ''metadata'',
     ''parse_encoding'', ''remap'', ''remap_label'', ''loki_tenant''}
   \<Longrightarrow> FormatComponentID ''throttle'' \<noteq> FormatComponentID purpose"
proof -
  have "list_all (\<lambda>p. FormatComponentID ''throttle'' \<noteq> FormatComponentID p)
    [''normalize_streams'', ''group_name'', ''key_prefix'', ''remap_reserved_keywords'', ''add_id'',
     ''index'', ''log_id'', ''normalize_severity'', ''topic'', ''timestamp'', ''splunk_index'', ''metadata'',
     ''parse_encoding'', ''remap'', ''remap_label'', ''loki_tenant'']" by (simp add: format_defs)
  then show "purpose \<in> {''normalize_streams'', ''group_name'', ''key_prefix'', ''remap_reserved_keywords'', ''add_id'',
     ''index'', ''log_id'', ''normalize_severity'', ''topic'', ''timestamp'', ''splunk_index'', ''metadata'',
     ''parse_encoding'', ''remap'', ''remap_label'', ''loki_tenant''} \<Longrightarrow> ?thesis"
    by (simp only: list_all_iff list.set) blast
qed

lemmas sink_ids_differ = MakeID_eq_iff sink_purposes_differ sink_purposes_differ [symmetric] throttle_differs

text \<open>Two transforms in a row, one transform, and none; the transforms leave room for a throttle.\<close>

lemma feeds_one:
  assumes "tfs \<subseteq>\<^sub>m T" "feeds S T inputs" "tfs a = Some t" "transform_inputs t = sort inputs" "\<not> is_route t"
  shows "feeds S T [a]"
  using assms(2,4,5) map_le_lookup [OF assms(1,3)] by (intro feeds_link [of S T t]) simp_all

lemma feeds_two:
  assumes "tfs \<subseteq>\<^sub>m T" "feeds S T inputs"
    and "tfs a = Some t" "transform_inputs t = sort inputs" "\<not> is_route t"
    and "tfs b = Some u" "transform_inputs u = [a]" "\<not> is_route u"
  shows "feeds S T [b]"
  using feeds_one [OF assms(1-5)] feeds_one [OF assms(1) _ assms(6) _ assms(8), of S "[a]"] assms(7) by simp

definition sink_fed :: "Sources \<Rightarrow> Transforms \<Rightarrow> string \<Rightarrow> string list \<Rightarrow> output_parts \<Rightarrow> bool" where
  "sink_fed S T oid inputs parts =
     (case parts of (i, sink, tfs) \<Rightarrow>
        i = oid \<and> tfs (MakeID [oid, ''throttle'']) = None
        \<and> (tfs \<subseteq>\<^sub>m T \<longrightarrow> feeds S T inputs \<longrightarrow> feeds S T (sink_inputs sink)))"

lemmas remap_transforms = NormalizeStreamName_def RemapReservedKeywords_def NormalizeSeverity_def fixTimestampFormat_def

lemma cloudwatch_fed:
  "cloudwatch_New env oid o' inputs secrets op = Inr parts \<Longrightarrow> sink_fed S T oid inputs parts"
  by (auto simp: cloudwatch_New_def Let_def go_bind_Inr_iff sink_fed_def sink_ids_differ remap_transforms
      intro!: feeds_two [where a = "MakeID [oid, ''normalize_streams'']"])

lemma s3_fed: "s3_New env oid o' inputs secrets op = Inr parts \<Longrightarrow> sink_fed S T oid inputs parts"
  by (auto simp: s3_New_def Let_def go_bind_Inr_iff sink_fed_def sink_ids_differ intro!: feeds_one)

lemma azuremonitor_fed:
  "azuremonitor_New env oid o' inputs secrets op = Inr parts \<Longrightarrow> sink_fed S T oid inputs parts"
  by (auto simp: azuremonitor_New_def go_bind_Inr_iff sink_fed_def)

lemma azurelogsingestion_fed:
  "azurelogsingestion_New env oid o' inputs secrets op = Inr parts \<Longrightarrow> sink_fed S T oid inputs parts"
  by (auto simp: azurelogsingestion_New_def Let_def go_bind_Inr_iff sink_fed_def sink_ids_differ remap_transforms
      intro!: feeds_one)

lemma elasticsearch_fed:
  "elasticsearch_New env oid o' inputs secrets op = Inr parts \<Longrightarrow> sink_fed S T oid inputs parts"
proof (cases "es_Version (the (output_Elasticsearch o')) = 6")
  case True
  then show "elasticsearch_New env oid o' inputs secrets op = Inr parts \<Longrightarrow> sink_fed S T oid inputs parts"
    by (auto simp: elasticsearch_New_def Let_def go_bind_Inr_iff sink_fed_def sink_ids_differ deref_def
        intro!: feeds_two [where a = "MakeID [oid, ''add_id'']"] split: option.splits)
next
  case False
  then show "elasticsearch_New env oid o' inputs secrets op = Inr parts \<Longrightarrow> sink_fed S T oid inputs parts"
    by (auto simp: elasticsearch_New_def Let_def go_bind_Inr_iff sink_fed_def sink_ids_differ deref_def
        intro!: feeds_one split: option.splits)
qed

lemma LogDestination_inputs [simp]: "gclsink_Inputs (LogDestination g s) = gclsink_Inputs s"
  by (simp add: LogDestination_def split: GoogleCloudLoggingIdType.split)

lemma gcl_fed: "gcl_New env oid o' inputs secrets op = Some parts \<Longrightarrow> sink_fed S T oid inputs parts"
  by (auto simp: gcl_New_def Let_def sink_fed_def sink_ids_differ remap_transforms
      intro!: feeds_two [where a = "MakeID [oid, ''log_id'']"] split: option.splits)

lemma http_fed: "http_New env oid o' inputs secrets op = Inr parts \<Longrightarrow> sink_fed S T oid inputs parts"
  by (auto simp: http_New_def go_bind_Inr_iff sink_fed_def)

lemma kafka_fed: "kafka_New env oid o' inputs secrets op = Inr parts \<Longrightarrow> sink_fed S T oid inputs parts"
  by (auto simp: kafka_New_def Let_def go_bind_Inr_iff sink_fed_def sink_ids_differ intro!: feeds_one)

lemma feeds_three:
  assumes "tfs \<subseteq>\<^sub>m T" "feeds S T inputs"
    and "tfs a = Some t" "transform_inputs t = sort inputs" "\<not> is_route t"
    and "tfs b = Some u" "transform_inputs u = [a]" "\<not> is_route u"
    and "tfs c = Some v" "transform_inputs v = [b]" "\<not> is_route v"
  shows "feeds S T [c]"
  using feeds_two [OF assms(1-8)] feeds_one [OF assms(1) _ assms(9) _ assms(11), of S "[b]"] assms(10) by simp

lemma splunk_fed: "splunk_New env oid o' inputs secrets op = Inr parts \<Longrightarrow> sink_fed S T oid inputs parts"
proof (cases "hasIndexKey (the (output_Splunk o'))")
  case True
  then show "splunk_New env oid o' inputs secrets op = Inr parts \<Longrightarrow> sink_fed S T oid inputs parts"
    by (auto simp: splunk_New_def Let_def go_bind_Inr_iff sink_fed_def sink_ids_differ remap_transforms deref_def
        intro!: feeds_three [where a = "MakeID [oid, ''timestamp'']" and b = "MakeID [oid, ''splunk_index'']"]
        split: option.splits)
next
  case False
  then show "splunk_New env oid o' inputs secrets op = Inr parts \<Longrightarrow> sink_fed S T oid inputs parts"
    by (auto simp: splunk_New_def Let_def go_bind_Inr_iff sink_fed_def sink_ids_differ remap_transforms deref_def
        intro!: feeds_two [where a = "MakeID [oid, ''timestamp'']"] split: option.splits)
qed

lemma limited_batch_le: "batch_MaxBytes (limited_batch limit o') \<le> limit"
  by (auto simp: limited_batch_def split: option.split)

section \<open>Properties\<close>


definition sample_cloudwatch :: OutputSpec where
  "sample_cloudwatch = OutputSpec_zero
     \<lparr>output_Name := ''cw'', output_Type := OutputTypeCloudwatch,
      output_Cloudwatch := Some \<lparr>cw_URL = [], cw_Authentication = None, cw_Tuning = None,
        cw_Region = ''us-east-1'', cw_GroupName = ''logs''\<rparr>\<rparr>"

definition sample_azure :: OutputSpec where
  "sample_azure = OutputSpec_zero
     \<lparr>output_Name := ''azure'', output_Type := OutputTypeAzureLogsIngestion,
      output_AzureLogsIngestion := Some \<lparr>azli_URL = ''https://ingest'', azli_Authentication = None,
        azli_DcrImmutableId = ''dcr'', azli_StreamName = ''stream'', azli_TokenScope = [],
        azli_TimestampField = [], azli_Tuning = Some (base_zero\<lparr>base_MaxWrite := Some 500000\<rparr>)\<rparr>\<rparr>"


end
