(* ===== verification/Vector_Loki.thy ===== *)
theory Vector_Loki
  imports Vector_Sinks
begin

text \<open>
  The outputs of Loki and OTLP (\<open>output/loki\<close>, \<open>output/otlp\<close>), and the transform that counts
  unmatched events (\<open>vector/metrics\<close>). The options are one map that the code
  updates on the way; a function that updates them returns them.
\<close>

section \<open>Loki (output/loki)\<close>

definition logType :: string where "logType = ''log_type''"
definition lokiNamespaceName :: string where "lokiNamespaceName = ''kubernetes.namespace_name''"
definition lokiPodName :: string where "lokiPodName = ''kubernetes.pod_name''"
definition lokiHost :: string where "lokiHost = ''kubernetes.host''"
definition lokiContainerName :: string where "lokiContainerName = ''kubernetes.container_name''"
definition otellogType :: string where "otellogType = ''openshift.log_type''"
definition otelNamespaceName :: string where "otelNamespaceName = ''k8s.namespace_name''"
definition otelPodName :: string where "otelPodName = ''k8s.pod_name''"
definition otelContainerName :: string where "otelContainerName = ''k8s.container_name''"
definition otelNodeName :: string where "otelNodeName = ''k8s.node_name''"

lemmas loki_label_defs = logType_def lokiNamespaceName_def lokiPodName_def lokiHost_def
  lokiContainerName_def otellogType_def otelNamespaceName_def otelPodName_def otelContainerName_def
  otelNodeName_def

definition DefaultLabelKeys :: "string list" where
  "DefaultLabelKeys =
     [logType, lokiNamespaceName, lokiPodName, lokiContainerName,
      otellogType, otelNamespaceName, otelPodName, otelContainerName]"

definition containerLabels :: "string list" where
  "containerLabels = [lokiNamespaceName, lokiPodName, lokiContainerName]"

definition requiredLabelKeys :: "string list" where
  "requiredLabelKeys = [otelNodeName, lokiHost]"

definition viaqOtelLabelMap :: "string \<rightharpoonup> string" where
  "viaqOtelLabelMap =
     [logType \<mapsto> otellogType, lokiNamespaceName \<mapsto> otelNamespaceName, lokiPodName \<mapsto> otelPodName,
      lokiContainerName \<mapsto> otelContainerName]"

definition addOtelEquivalentLabels :: "string list \<Rightarrow> string list" where
  "addOtelEquivalentLabels customLabelKeys = List.map_filter viaqOtelLabelMap customLabelKeys"

definition lokiLabelKeys :: "Loki \<Rightarrow> string list" where
  "lokiLabelKeys l =
     sorted_set ((if loki_LabelKeys l \<noteq> []
                  then loki_LabelKeys l @ addOtelEquivalentLabels (loki_LabelKeys l)
                  else DefaultLabelKeys) @ requiredLabelKeys)"

definition generateCustomLabelValues :: "string \<Rightarrow> string" where
  "generateCustomLabelValues v =
     (let label = (\<lambda>l. ''{{'' @ l @ ''}}'')
      in if v = otellogType then label logType
         else if v = otelContainerName then label lokiContainerName
         else if v = lokiNamespaceName \<or> v = otelNamespaceName then label lokiNamespaceName
         else if v = otelPodName then label lokiPodName
         else if v = lokiHost \<or> v = otelNodeName then ''${VECTOR_SELF_NODE_NAME}''
         else [])"

text \<open>\<open>strings.SplitAfterN\<close> cuts behind the first occurrence.\<close>

definition formatLokiLabelValue :: "string \<Rightarrow> string" where
  "formatLokiLabelValue v =
     (let cut = (case Index v ''labels.'' of None \<Rightarrow> length v | Some k \<Rightarrow> k + 7);
          v' = (if HasPrefix v ''kubernetes.labels.'' \<or> HasPrefix v ''kubernetes.namespace_labels.''
                then take cut v @ Quote (map (\<lambda>c. if c = CHR ''/'' \<or> c = dot then CHR ''_'' else c) (drop cut v))
                else v)
      in ''{{'' @ v' @ ''}}'')"

definition label_name :: "string \<Rightarrow> string" where
  "label_name k = map (\<lambda>c. if c \<in> {dot, CHR ''/'', bslash, CHR ''-''} then CHR ''_'' else c) k"

definition label_value :: "string \<Rightarrow> string" where
  "label_value k = (if generateCustomLabelValues k \<noteq> [] then generateCustomLabelValues k
                    else formatLokiLabelValue k)"

definition lokiLabels :: "Loki \<Rightarrow> (string \<rightharpoonup> string)" where
  "lokiLabels l = foldl (\<lambda>ls k. ls(label_name k \<mapsto> label_value k)) Map.empty (lokiLabelKeys l)"

definition remapLabelsVrl :: "string list \<Rightarrow> string" where
  "remapLabelsVrl labels = concat (map (\<lambda>v. k8sEventLabel v v) labels)"

definition RemapLabels :: "string list \<Rightarrow> Transform" where
  "RemapLabels inputs = NewRemap (remapLabelsVrl containerLabels) inputs"

definition CleanupFields :: "string list \<Rightarrow> Transform" where
  "CleanupFields inputs = NewRemap ''del(.tag)'' inputs"

definition hasTenantKey :: "Loki \<Rightarrow> bool" where
  "hasTenantKey l = (loki_TenantKey l \<noteq> [])"

definition loki_New ::
  "Env \<Rightarrow> string \<Rightarrow> OutputSpec \<Rightarrow> string list \<Rightarrow> Secrets \<Rightarrow> Options \<Rightarrow> output_parts go" where
  "loki_New env oid o' inputs secrets op =
     go_bind (deref (output_Loki o')) (\<lambda>l.
       let componentID = MakeID [oid, ''remap'']; remapLabelID = MakeID [oid, ''remap_label''];
           lokiTenantID = MakeID [oid, ''loki_tenant''];
           tfs = [componentID \<mapsto> CleanupFields inputs, remapLabelID \<mapsto> RemapLabels [componentID]];
           sink = \<lparr>lokisink_Inputs = [remapLabelID], lokisink_Endpoint = loki_URL l,
                   lokisink_OutOfOrderAction = ''accept'', lokisink_TenantId = [],
                   lokisink_Base = base_of env o' (tuning_Compression (GetTuning o')) ''json'' secrets op,
                   lokisink_HealthCheck = Some False,
                   lokisink_Auth = NewHttpAuth (loki_Authentication l) op,
                   lokisink_Proxy = proxy_of (loki_ProxyURL l), lokisink_Labels = lokiLabels l\<rparr>
       in ret (if hasTenantKey l
               then (oid,
                     KLoki (sink\<lparr>lokisink_Inputs := [lokiTenantID],
                                 lokisink_TenantId := internal_field lokiTenantID\<rparr>),
                     tfs(lokiTenantID \<mapsto>
                           NewTemplateRemap (env_PatternOrder env) [remapLabelID] (loki_TenantKey l) lokiTenantID))
               else (oid, KLoki sink, tfs)))"

section \<open>Unmatched events (vector/metrics/unmatched.go)\<close>

definition NewUnmatched :: "string \<Rightarrow> Options \<Rightarrow> (string \<rightharpoonup> string) \<Rightarrow> Transform \<times> Options" where
  "NewUnmatched routeID op labels =
     (TLogToMetric (NewLogToMetric ''component_event_unmatched_count'' ''counter''
        ([''log_type'' \<mapsto> ''{{ log_type }}'', ''log_source'' \<mapsto> ''{{ log_source }}'',
          ''output_type'' \<mapsto> ToLower (OutputType_String OutputTypeLokiStack), ''component_id'' \<mapsto> routeID] ++ labels)
        [UnmatchedRoute routeID]),
      op\<lparr>op_LogsToMetricInputs := AddToStringSet (op_LogsToMetricInputs op) [MakeID [routeID, Unmatched]]\<rparr>)"

section \<open>OTLP (output/otlp)\<close>

definition otlp_reduce :: "string list \<Rightarrow> string list \<Rightarrow> Transform" where
  "otlp_reduce groupBy inputs =
     NewReduce (\<lambda>r. r\<lparr>reduce_ExpireAfterMs := 15000, reduce_MaxEvents := 1, reduce_GroupBy := groupBy,
       reduce_MergeStrategies := Some \<lparr>merge_Resource = ''retain'', merge_LogRecords = ''array''\<rparr>\<rparr>) inputs"

definition GroupByContainer :: "string list \<Rightarrow> Transform" where
  "GroupByContainer inputs =
     otlp_reduce [''.openshift.cluster_id'', ''.kubernetes.namespace_name'', ''.kubernetes.pod_name'',
       ''.kubernetes.container_name''] inputs"

definition GroupBySource :: "string list \<Rightarrow> Transform" where
  "GroupBySource inputs =
     otlp_reduce [''.openshift.cluster_id'', ''.openshift.log_type'', ''.openshift.log_source''] inputs"

definition GroupByHost :: "string list \<Rightarrow> Transform" where
  "GroupByHost inputs =
     otlp_reduce [''.openshift.cluster_id'', ''.openshift.hostname'', ''.openshift.log_type'',
       ''.openshift.log_source''] inputs"

definition otlp_VRL :: "string list \<Rightarrow> string" where
  "otlp_VRL parts = Join (TrimSpaces parts) [newline]"

definition containerLogsVRL :: string where
  "containerLogsVRL =
     otlp_VRL [BaseResourceAttributes, ContainerResourceAttributes, BackwardCompatBaseResourceAttributes,
       BackwardCompatContainerResourceAttributes, LogRecord, LogRecordSeverity, BodyFromMessage,
       LogRecordTraceContext, LogAttributes, ContainerLogAttributes, FinalGroupingContainers]"

definition nodeLogsVRL :: string where
  "nodeLogsVRL =
     otlp_VRL [BaseResourceAttributes, BackwardCompatBaseResourceAttributes, NodeResourceAttributes,
       LogRecord, LogRecordSeverity, BodyFromMessage, LogRecordTraceContext, LogAttributes,
       NodeLogAttributes, FinalGrouping]"

definition auditHostLogsVRL :: string where
  "auditHostLogsVRL =
     otlp_VRL [BaseResourceAttributes, BackwardCompatBaseResourceAttributes, LogRecord, BodyFromInternal,
       LogRecordTraceContext, LogAttributes, HostLogAttributes, FinalGrouping]"

definition auditAPILogsVRL :: string where
  "auditAPILogsVRL =
     otlp_VRL [BaseResourceAttributes, BackwardCompatBaseResourceAttributes, LogRecord, BodyFromInternal,
       LogRecordTraceContext, LogAttributes, FinalGrouping]"

definition auditOVNLogsVRL :: string where
  "auditOVNLogsVRL =
     otlp_VRL [BaseResourceAttributes, BackwardCompatBaseResourceAttributes, LogRecord, BodyFromInternal,
       LogRecordTraceContext, LogAttributes, OVNLogAttributes, FinalGrouping]"

definition TransformContainer :: "string list \<Rightarrow> Transform" where
  "TransformContainer inputs = NewRemap containerLogsVRL inputs"

definition TransformJournal :: "string list \<Rightarrow> Transform" where
  "TransformJournal inputs = NewRemap nodeLogsVRL inputs"

definition TransformAuditHost :: "string list \<Rightarrow> Transform" where
  "TransformAuditHost inputs = NewRemap auditHostLogsVRL inputs"

definition TransformAuditKube :: "string list \<Rightarrow> Transform" where
  "TransformAuditKube inputs = NewRemap auditAPILogsVRL inputs"

definition TransformAuditOpenshift :: "string list \<Rightarrow> Transform" where
  "TransformAuditOpenshift inputs = NewRemap auditAPILogsVRL inputs"

definition TransformAuditOvn :: "string list \<Rightarrow> Transform" where
  "TransformAuditOvn inputs = NewRemap auditOVNLogsVRL inputs"

definition FormatResourceLog :: "string list \<Rightarrow> Transform" where
  "FormatResourceLog inputs = NewRemap FormatResourceLog_VRL inputs"

definition TransformTraceContext :: "string list \<Rightarrow> Transform" where
  "TransformTraceContext inputs = NewRemap (TrimSpace AddLogRecordTraceContexts) inputs"

definition RouteBySource :: "string list \<Rightarrow> string list \<Rightarrow> Transform" where
  "RouteBySource inputs logSources =
     NewRoute (\<lambda>r. r\<lparr>route_Routes :=
       foldl (\<lambda>routes source. routes(ToLower source \<mapsto> ''.log_source == '' @ Quote source))
         Map.empty (sort logSources)\<rparr>) inputs"

definition allLogSources :: "string list" where
  "allLogSources = [''container'', ''node'', ''auditd'', ''kubeAPI'', ''openshiftAPI'', ''ovn'']"

text \<open>
  A log source with a branch of its own: its transform reads the route of the source and goes into
  one of three groups.
\<close>

datatype otlp_group = ByContainer | BySource | ByHost

definition otlp_branches :: "(string \<times> (string list \<Rightarrow> Transform) \<times> otlp_group) list" where
  "otlp_branches =
     [(''container'', TransformContainer, ByContainer), (''node'', TransformJournal, ByHost),
      (''auditd'', TransformAuditHost, ByHost), (''kubeAPI'', TransformAuditKube, BySource),
      (''openshiftAPI'', TransformAuditOpenshift, BySource), (''ovn'', TransformAuditOvn, BySource)]"

definition group_inputs :: "string \<Rightarrow> string list \<Rightarrow> otlp_group \<Rightarrow> string list" where
  "group_inputs oid sources g =
     map (\<lambda>(source, _). MakeID [oid, source])
       (filter (\<lambda>(source, _, g'). g' = g \<and> source \<in> set sources) otlp_branches)"

fun group_component :: "string \<Rightarrow> otlp_group \<Rightarrow> string" where
  "group_component oid ByContainer = MakeID [oid, ''groupby'', ''container'']"
| "group_component oid BySource = MakeID [oid, ''groupby'', ''source'']"
| "group_component oid ByHost = MakeID [oid, ''groupby'', ''host'']"

fun group_transform :: "otlp_group \<Rightarrow> string list \<Rightarrow> Transform" where
  "group_transform ByContainer = GroupByContainer"
| "group_transform BySource = GroupBySource"
| "group_transform ByHost = GroupByHost"

definition branch_transforms :: "string \<Rightarrow> string \<Rightarrow> string list \<Rightarrow> Transforms" where
  "branch_transforms oid rerouteID sources =
     foldl (\<lambda>tfs (source, transform, _).
       if source \<in> set sources
       then tfs(MakeID [oid, source] \<mapsto> transform [MakeRouteInputID rerouteID source]) else tfs)
       Map.empty otlp_branches"

definition group_transforms :: "string \<Rightarrow> string list \<Rightarrow> Transforms" where
  "group_transforms oid sources =
     foldl (\<lambda>tfs g. if group_inputs oid sources g \<noteq> []
         then tfs(group_component oid g \<mapsto> group_transform g (group_inputs oid sources g)) else tfs)
       Map.empty [ByContainer, BySource, ByHost]"

definition reduce_inputs :: "string \<Rightarrow> string list \<Rightarrow> string list" where
  "reduce_inputs oid sources =
     map (group_component oid) (filter (\<lambda>g. group_inputs oid sources g \<noteq> []) [ByContainer, BySource, ByHost])"

definition otlp_sink :: "Env \<Rightarrow> OutputSpec \<Rightarrow> OTLP \<Rightarrow> string \<Rightarrow> Secrets \<Rightarrow> Options \<Rightarrow> OpenTelemetry" where
  "otlp_sink env o' otlp input secrets op =
     \<lparr>otelsink_Inputs = [input],
      otelsink_Protocol =
        \<lparr>otelp_URI = otlp_URL otlp, otelp_Type = ''http'', otelp_Method = ''post'',
         otelp_PayloadPrefix = ''{'' @ [dq] @ ''resourceLogs'' @ [dq] @ '':'', otelp_PayloadSuffix = ''}'',
         otelp_Compression = (case otlp_Tuning otlp of None \<Rightarrow> [] | Some t \<Rightarrow> ctune_Compression t),
         otelp_TLS = (if output_TLS o' \<noteq> None \<and> IsSecure (otlp_URL otlp)
                      then output_TlsConf o' secrets op else None),
         otelp_Encoding = Some (NewApiEncoding ''json''),
         otelp_Auth = NewHttpAuth (otlp_Authentication otlp) op,
         otelp_Request = (if otlp_Tuning otlp \<noteq> None then NewApiRequest env (GetTuning o') else None)\<rparr>,
      otelsink_Batch = (if otlp_Tuning otlp \<noteq> None then NewApiBatch (GetTuning o') else None),
      otelsink_Buffer = (if otlp_Tuning otlp \<noteq> None then NewApiBuffer (GetTuning o') else None)\<rparr>"

definition otlp_New ::
  "Env \<Rightarrow> string \<Rightarrow> OutputSpec \<Rightarrow> string list \<Rightarrow> Secrets \<Rightarrow> Options \<Rightarrow> (output_parts \<times> Options) go" where
  "otlp_New env oid o' inputs secrets op =
     (let sources = fst (GetOption (op_OtlpLogSources op) allLogSources);
          fromLokistack = fst (GetOption (op_MigratedFromLokistack op) False);
          rerouteID = MakeID [oid, ''reroute''];
          traceID = MakeID [oid, ''trace'', ''context''];
          formatID = MakeID [oid, ''resource'', ''logs''];
          routed = (if fromLokistack then [rerouteID \<mapsto> RouteBySource inputs sources]
                    else [traceID \<mapsto> TransformTraceContext inputs,
                          rerouteID \<mapsto> RouteBySource [traceID] sources])
      in if sources = [] then Inl (PanicWith ''InputSources not found while generating config'')
         else
           (case NewUnmatched rerouteID op Map.empty of
              (unmatched, op') \<Rightarrow>
                go_bind (deref (output_OTLP o')) (\<lambda>otlp.
                  ret ((oid, KOpenTelemetry (otlp_sink env o' otlp formatID secrets op'),
                        (routed(MakeID [rerouteID, Unmatched] \<mapsto> unmatched)
                           ++ branch_transforms oid rerouteID sources ++ group_transforms oid sources)
                          (formatID \<mapsto> FormatResourceLog (reduce_inputs oid sources))), op'))))"

section \<open>What the transforms of an output deliver\<close>

lemma loki_purposes_differ:
  "FormatComponentID ''remap'' \<noteq> FormatComponentID ''remap_label''"
  "FormatComponentID ''remap'' \<noteq> FormatComponentID ''loki_tenant''"
  "FormatComponentID ''remap_label'' \<noteq> FormatComponentID ''loki_tenant''"
  by (simp_all add: format_defs)

lemmas loki_ids_differ = MakeID_eq_iff loki_purposes_differ loki_purposes_differ [symmetric] throttle_differs

lemma loki_fed: "loki_New env oid o' inputs secrets op = Inr parts \<Longrightarrow> sink_fed S T oid inputs parts"
proof (cases "hasTenantKey (the (output_Loki o'))")
  case True
  then show "loki_New env oid o' inputs secrets op = Inr parts \<Longrightarrow> sink_fed S T oid inputs parts"
    by (auto simp: loki_New_def Let_def go_bind_Inr_iff sink_fed_def loki_ids_differ deref_def
        CleanupFields_def RemapLabels_def
        intro!: feeds_three [where a = "MakeID [oid, ''remap'']" and b = "MakeID [oid, ''remap_label'']"]
        split: option.splits)
next
  case False
  then show "loki_New env oid o' inputs secrets op = Inr parts \<Longrightarrow> sink_fed S T oid inputs parts"
    by (auto simp: loki_New_def Let_def go_bind_Inr_iff sink_fed_def loki_ids_differ deref_def
        CleanupFields_def RemapLabels_def
        intro!: feeds_two [where a = "MakeID [oid, ''remap'']"] split: option.splits)
qed

text \<open>The identifiers of an OTLP output are its own identifier and a fixed purpose.\<close>

lemma MakeID_MakeID: "MakeID [MakeID [oid, a], b] = MakeID [oid, a @ ''_'' @ b]"
  by (simp only: MakeID_def Join.simps FormatComponentID_append FormatComponentID_idem append_assoc)

lemma otlp_ids:
  "MakeID [oid, ''groupby'', x] = MakeID [oid, ''groupby_'' @ x]"
  "MakeID [oid, ''trace'', ''context''] = MakeID [oid, ''trace_context'']"
  "MakeID [oid, ''resource'', ''logs''] = MakeID [oid, ''resource_logs'']"
  "MakeID [MakeID [oid, ''reroute''], Unmatched] = MakeID [oid, ''reroute_unmatched'']"
  unfolding MakeID_MakeID by (simp_all add: MakeID_def Unmatched_def)

lemma otlp_purposes:
  "FormatComponentID ''container'' = ''container''" "FormatComponentID ''node'' = ''node''"
  "FormatComponentID ''auditd'' = ''auditd''" "FormatComponentID ''kubeAPI'' = ''kubeapi''"
  "FormatComponentID ''openshiftAPI'' = ''openshiftapi''" "FormatComponentID ''ovn'' = ''ovn''"
  "FormatComponentID ''groupby_container'' = ''groupby_container''"
  "FormatComponentID ''groupby_source'' = ''groupby_source''"
  "FormatComponentID ''groupby_host'' = ''groupby_host''"
  "FormatComponentID ''trace_context'' = ''trace_context''"
  "FormatComponentID ''resource_logs'' = ''resource_logs''"
  "FormatComponentID ''throttle'' = ''throttle''"
  "FormatComponentID ''reroute'' = ''reroute''" "FormatComponentID ''reroute_unmatched'' = ''reroute_unmatched''"
  by (simp_all add: format_defs)

lemmas otlp_id_simps = otlp_ids MakeID_eq_iff otlp_purposes group_component.simps

declare group_component.simps [simp del]

text \<open>A loop that adds an entry for some elements, under keys that differ.\<close>

lemma foldl_update_other:
  "k \<notin> key ` {x \<in> set xs. P x} \<Longrightarrow> foldl (\<lambda>m x. if P x then m(key x \<mapsto> v x) else m) init xs k = init k"
proof (induction xs arbitrary: init)
  case (Cons y xs)
  have "(if P y then init(key y \<mapsto> v y) else init) k = init k" using Cons.prems by auto
  moreover have "k \<notin> key ` {x \<in> set xs. P x}" using Cons.prems by auto
  ultimately show ?case using Cons.IH by simp
qed simp

lemma foldl_update_lookup:
  "distinct (map key xs) \<Longrightarrow> x \<in> set xs \<Longrightarrow> P x \<Longrightarrow>
   foldl (\<lambda>m x. if P x then m(key x \<mapsto> v x) else m) init xs (key x) = Some (v x)"
proof (induction xs arbitrary: init)
  case (Cons y xs)
  show ?case
  proof (cases "x = y")
    case True
    then have "key x \<notin> key ` {x \<in> set xs. P x}" using Cons.prems(1) by auto
    then show ?thesis using True Cons.prems(3) by (simp add: foldl_update_other)
  next
    case False
    then show ?thesis using Cons by simp
  qed
qed simp

lemma branch_transforms_eq:
  "branch_transforms oid r sources =
     foldl (\<lambda>m b. if fst b \<in> set sources
        then m(MakeID [oid, fst b] \<mapsto> fst (snd b) [MakeRouteInputID r (fst b)]) else m) Map.empty otlp_branches"
  by (simp only: branch_transforms_def split_def)

lemma group_transforms_eq:
  "group_transforms oid sources =
     foldl (\<lambda>m g. if group_inputs oid sources g \<noteq> []
         then m(group_component oid g \<mapsto> group_transform g (group_inputs oid sources g)) else m)
       Map.empty [ByContainer, BySource, ByHost]"
  by (simp only: group_transforms_def)

lemma branch_names: "map fst otlp_branches = allLogSources"
  by (simp add: otlp_branches_def allLogSources_def)

lemma distinct_branches: "distinct (map (\<lambda>b. MakeID [oid, fst b]) otlp_branches)"
  by (simp add: otlp_branches_def otlp_id_simps)

lemma distinct_groups: "distinct (map (group_component oid) [ByContainer, BySource, ByHost])"
  by (simp add: otlp_id_simps)

lemma groups_are: "g \<in> set [ByContainer, BySource, ByHost]"
  by (cases g) simp_all

lemma branch_lookup:
  assumes "(source, tr, g) \<in> set otlp_branches" "source \<in> set sources"
  shows "branch_transforms oid r sources (MakeID [oid, source]) = Some (tr [MakeRouteInputID r source])"
  using foldl_update_lookup [OF distinct_branches assms(1), where P = "\<lambda>b. fst b \<in> set sources"
      and v = "\<lambda>b. fst (snd b) [MakeRouteInputID r (fst b)]" and init = Map.empty] assms(2)
  by (simp only: branch_transforms_eq fst_conv snd_conv)

lemma group_lookup:
  assumes "group_inputs oid sources g \<noteq> []"
  shows "group_transforms oid sources (group_component oid g) = Some (group_transform g (group_inputs oid sources g))"
  unfolding group_transforms_eq
  by (rule foldl_update_lookup [OF distinct_groups groups_are]) (rule assms)

lemma branch_other:
  "k \<notin> (\<lambda>source. MakeID [oid, source]) ` set allLogSources \<Longrightarrow> branch_transforms oid r sources k = None"
  unfolding branch_transforms_eq branch_names [symmetric] by (subst foldl_update_other) auto

lemma group_other: "k \<notin> range (group_component oid) \<Longrightarrow> group_transforms oid sources k = None"
  unfolding group_transforms_eq by (subst foldl_update_other) auto

lemma branch_not_group:
  "source \<in> set allLogSources \<Longrightarrow> MakeID [oid, source] \<noteq> group_component oid g"
  by (cases g) (auto simp: allLogSources_def otlp_id_simps)

definition has_branch :: "string list \<Rightarrow> bool" where
  "has_branch sources \<longleftrightarrow> set sources \<inter> set allLogSources \<noteq> {}"

lemma branch_of_source:
  assumes "source \<in> set allLogSources"
  obtains tr g where "(source, tr, g) \<in> set otlp_branches"
  using assms that unfolding branch_names [symmetric] by force

lemma source_of_branch: "(source, tr, g) \<in> set otlp_branches \<Longrightarrow> source \<in> set allLogSources"
  unfolding branch_names [symmetric] by force

lemma branch_transform_simps:
  assumes "(source, tr, g) \<in> set otlp_branches"
  shows "transform_inputs (tr is) = sort is" "\<not> is_route (tr is)"
  using assms
  by (auto simp: otlp_branches_def TransformContainer_def TransformJournal_def TransformAuditHost_def
      TransformAuditKube_def TransformAuditOpenshift_def TransformAuditOvn_def)

lemma group_transform_simps [simp]:
  "transform_inputs (group_transform g is) = sort is" "\<not> is_route (group_transform g is)"
  by (cases g; simp add: GroupByContainer_def GroupBySource_def GroupByHost_def otlp_reduce_def NewReduce_def)+

lemma group_inputs_ne:
  "group_inputs oid sources g \<noteq> [] \<longleftrightarrow> (\<exists>source tr. (source, tr, g) \<in> set otlp_branches \<and> source \<in> set sources)"
  by (auto simp: group_inputs_def filter_empty_conv)

lemma reduce_inputs_ne: "reduce_inputs oid sources \<noteq> [] \<longleftrightarrow> (\<exists>g. group_inputs oid sources g \<noteq> [])"
proof -
  have "(\<exists>g. Q g) \<longleftrightarrow> Q ByContainer \<or> Q BySource \<or> Q ByHost" for Q by (metis otlp_group.exhaust)
  then show ?thesis by (auto simp: reduce_inputs_def)
qed

lemma reduce_inputs_has_branch: "reduce_inputs oid sources \<noteq> [] \<longleftrightarrow> has_branch sources"
proof -
  have "has_branch sources \<longleftrightarrow> (\<exists>source tr g. (source, tr, g) \<in> set otlp_branches \<and> source \<in> set sources)"
    unfolding has_branch_def by (meson disjoint_iff branch_of_source source_of_branch)
  then show ?thesis unfolding reduce_inputs_ne group_inputs_ne by blast
qed

lemma ToLower_twice [simp]: "ToLower (ToLower s) = ToLower s"
  by (simp add: ToLower_def char_to_lower_idem comp_def)

lemma ToLower_append: "ToLower (a @ b) = ToLower a @ ToLower b"
  by (simp add: ToLower_def)

lemma ToLower_MakeID [simp]: "ToLower (MakeID xs) = MakeID xs"
  by (simp add: MakeID_def FormatComponentID_def)

lemma MakeRouteInputID_MakeID: "MakeRouteInputID (MakeID xs) source = MakeID xs @ ''.'' @ ToLower source"
  unfolding MakeRouteInputID_def Join.simps ToLower_append ToLower_MakeID by (simp add: ToLower_def char_to_lower_def)

lemma foldl_routes:
  "k \<in> f ` set xs \<Longrightarrow> foldl (\<lambda>m x. m(f x \<mapsto> v x)) init xs k \<noteq> None"
  "k \<notin> f ` set xs \<Longrightarrow> foldl (\<lambda>m x. m(f x \<mapsto> v x)) init xs k = init k"
proof -
  have dom: "dom (foldl (\<lambda>m x. m(f x \<mapsto> v x)) init xs) = dom init \<union> f ` set xs"
    by (induction xs arbitrary: init) auto
  show "k \<in> f ` set xs \<Longrightarrow> foldl (\<lambda>m x. m(f x \<mapsto> v x)) init xs k \<noteq> None" using dom by blast
  show "k \<notin> f ` set xs \<Longrightarrow> foldl (\<lambda>m x. m(f x \<mapsto> v x)) init xs k = init k"
    by (induction xs arbitrary: init) auto
qed

text \<open>Every branch reads its route, every group its branches, and the last transform the groups.\<close>

lemma route_delivers:
  assumes "T (MakeID xs) = Some (TRoute r)" "feeds S T (route_Inputs r)" "route_Routes r (ToLower name) \<noteq> None"
  shows "delivers S T (MakeRouteInputID (MakeID xs) name)"
  unfolding MakeRouteInputID_MakeID
  using assms by (intro delivers_route [of T "MakeID xs" r]) (auto simp: feeds_def)

lemma RouteBySource_route:
  "\<exists>r. RouteBySource is sources = TRoute r \<and> route_Inputs r = sort is
     \<and> (\<forall>source\<in>set sources. route_Routes r (ToLower source) \<noteq> None)"
proof (intro exI conjI ballI)
  show "RouteBySource is sources = TRoute \<lparr>route_Inputs = sort is, route_Routes =
      foldl (\<lambda>routes source. routes(ToLower source \<mapsto> ''.log_source == '' @ Quote source)) Map.empty (sort sources)\<rparr>"
    by (simp add: RouteBySource_def NewRoute_def)
qed (simp_all add: foldl_routes(1) del: not_None_eq)

lemma otlp_chain:
  assumes route: "T (MakeID [oid, ''reroute'']) = Some (RouteBySource is sources)" "feeds S T is"
    and branches: "\<And>source tr g. (source, tr, g) \<in> set otlp_branches \<Longrightarrow> source \<in> set sources \<Longrightarrow>
        T (MakeID [oid, source]) = Some (tr [MakeRouteInputID (MakeID [oid, ''reroute'']) source])"
    and groups: "\<And>g. group_inputs oid sources g \<noteq> [] \<Longrightarrow>
        T (group_component oid g) = Some (group_transform g (group_inputs oid sources g))"
    and formatted: "T (MakeID [oid, ''resource_logs'']) = Some (FormatResourceLog (reduce_inputs oid sources))"
    and "has_branch sources"
  shows "feeds S T [MakeID [oid, ''resource_logs'']]"
proof -
  obtain r where r: "RouteBySource is sources = TRoute r" "route_Inputs r = sort is"
    "\<forall>source\<in>set sources. route_Routes r (ToLower source) \<noteq> None"
    using RouteBySource_route [of "is" sources] by blast
  have routed: "delivers S T (MakeRouteInputID (MakeID [oid, ''reroute'']) source)" if "source \<in> set sources" for source
    using route bspec [OF r(3) that] by (intro route_delivers [where r = r]) (simp_all add: r(1,2))
  have branch: "delivers S T (MakeID [oid, source])"
    if "(source, tr, g) \<in> set otlp_branches" "source \<in> set sources" for source tr g
    by (rule delivers_single
          [of T "MakeID [oid, source]" "tr [MakeRouteInputID (MakeID [oid, ''reroute'']) source]"
              "MakeRouteInputID (MakeID [oid, ''reroute'']) source" S])
      (use branches [OF that] branch_transform_simps [OF that(1)] routed [OF that(2)] in simp_all)
  have group: "delivers S T (group_component oid g)" if "group_inputs oid sources g \<noteq> []" for g
  proof -
    have "feeds S T (group_inputs oid sources g)"
      using that branch by (force simp: feeds_def group_inputs_def)
    then have "feeds S T [group_component oid g]"
      using feeds_link [of S T "group_transform g (group_inputs oid sources g)" "group_component oid g"]
        groups [OF that] by simp
    then show ?thesis by (simp add: feeds_def)
  qed
  have "feeds S T (reduce_inputs oid sources)"
    using group reduce_inputs_has_branch [of oid sources] assms(6)
    by (auto simp: feeds_def reduce_inputs_def simp del: filter.simps)
  then show ?thesis
    using feeds_link [of S T "FormatResourceLog (reduce_inputs oid sources)" "MakeID [oid, ''resource_logs'']"]
      formatted by (simp add: FormatResourceLog_def)
qed

lemma otlp_purpose_not_group:
  "MakeID [oid, ''reroute''] \<notin> range (group_component oid)"
  "MakeID [oid, ''trace_context''] \<notin> range (group_component oid)"
  "MakeID [oid, ''resource_logs''] \<notin> range (group_component oid)"
proof -
  have "p \<in> {''reroute'', ''trace_context'', ''resource_logs''} \<Longrightarrow> MakeID [oid, p] \<noteq> group_component oid g" for p g
    by (cases g) (auto simp: otlp_id_simps)
  then show "MakeID [oid, ''reroute''] \<notin> range (group_component oid)"
    "MakeID [oid, ''trace_context''] \<notin> range (group_component oid)"
    "MakeID [oid, ''resource_logs''] \<notin> range (group_component oid)" by blast+
qed

lemma otlp_purpose_not_branch:
  "MakeID [oid, ''reroute''] \<notin> (\<lambda>source. MakeID [oid, source]) ` set allLogSources"
  "MakeID [oid, ''trace_context''] \<notin> (\<lambda>source. MakeID [oid, source]) ` set allLogSources"
  "MakeID [oid, ''resource_logs''] \<notin> (\<lambda>source. MakeID [oid, source]) ` set allLogSources"
  by (simp_all add: allLogSources_def otlp_id_simps)

definition otlp_sources :: "Options \<Rightarrow> string list" where
  "otlp_sources op = fst (GetOption (op_OtlpLogSources op) allLogSources)"

lemma otlp_New_result:
  assumes "otlp_New env oid o' inputs secrets op = Inr ((i, sink, tfs), op')"
  shows "i = oid" "sink_inputs sink = [MakeID [oid, ''resource_logs'']]" "otlp_sources op \<noteq> []"
    "\<exists>is. tfs (MakeID [oid, ''reroute'']) = Some (RouteBySource is (otlp_sources op))
       \<and> (if op_MigratedFromLokistack op = Some True then is = inputs \<and> tfs (MakeID [oid, ''trace_context'']) = None
          else is = [MakeID [oid, ''trace_context'']]
               \<and> tfs (MakeID [oid, ''trace_context'']) = Some (TransformTraceContext inputs))"
    "\<And>source tr g. (source, tr, g) \<in> set otlp_branches \<Longrightarrow> source \<in> set (otlp_sources op) \<Longrightarrow>
        tfs (MakeID [oid, source]) = Some (tr [MakeRouteInputID (MakeID [oid, ''reroute'']) source])"
    "\<And>g. group_inputs oid (otlp_sources op) g \<noteq> [] \<Longrightarrow>
        tfs (group_component oid g) = Some (group_transform g (group_inputs oid (otlp_sources op) g))"
    "tfs (MakeID [oid, ''resource_logs'']) = Some (FormatResourceLog (reduce_inputs oid (otlp_sources op)))"
    "dom tfs \<subseteq> (\<lambda>p. MakeID [oid, p]) ` ({''reroute'', ''reroute_unmatched'', ''trace_context'', ''resource_logs'',
        ''groupby_container'', ''groupby_source'', ''groupby_host''} \<union> set allLogSources)"
proof -
  define lokistack where "lokistack \<longleftrightarrow> op_MigratedFromLokistack op = Some True"
  have from_lokistack: "fst (GetOption (op_MigratedFromLokistack op) False) = lokistack"
    by (cases "op_MigratedFromLokistack op") (simp_all add: GetOption_def lokistack_def)
  define routed where "routed = (if lokistack then [MakeID [oid, ''reroute''] \<mapsto> RouteBySource inputs (otlp_sources op)]
    else [MakeID [oid, ''trace_context''] \<mapsto> TransformTraceContext inputs,
          MakeID [oid, ''reroute''] \<mapsto> RouteBySource [MakeID [oid, ''trace_context'']] (otlp_sources op)])"
  obtain unmatched otlp op1 where parts: "i = oid"
      "sink = KOpenTelemetry (otlp_sink env o' otlp (MakeID [oid, ''resource_logs'']) secrets op1)"
      "otlp_sources op \<noteq> []"
    and tfs: "tfs = (routed(MakeID [oid, ''reroute_unmatched''] \<mapsto> unmatched)
        ++ branch_transforms oid (MakeID [oid, ''reroute'']) (otlp_sources op) ++ group_transforms oid (otlp_sources op))
        (MakeID [oid, ''resource_logs''] \<mapsto> FormatResourceLog (reduce_inputs oid (otlp_sources op)))"
    using assms unfolding otlp_New_def Let_def otlp_sources_def [symmetric] from_lokistack otlp_ids routed_def [symmetric]
    by (auto simp: go_bind_Inr_iff split: if_splits prod.splits)
  show "i = oid" "otlp_sources op \<noteq> []" by fact+
  show "sink_inputs sink = [MakeID [oid, ''resource_logs'']]" by (simp add: parts otlp_sink_def)
  show "tfs (MakeID [oid, ''resource_logs'']) = Some (FormatResourceLog (reduce_inputs oid (otlp_sources op)))"
    by (simp add: tfs)
  show "tfs (MakeID [oid, source]) = Some (tr [MakeRouteInputID (MakeID [oid, ''reroute'']) source])"
    if "(source, tr, g) \<in> set otlp_branches" "source \<in> set (otlp_sources op)" for source tr g
  proof -
    have s: "source \<in> set allLogSources" using source_of_branch [OF that(1)] .
    then have "MakeID [oid, source] \<notin> range (group_component oid)" using branch_not_group by blast
    moreover have "MakeID [oid, source] \<noteq> MakeID [oid, ''resource_logs'']"
      using imageI [OF s, of "\<lambda>source. MakeID [oid, source]"] otlp_purpose_not_branch(3) [of oid] by metis
    ultimately show ?thesis using branch_lookup [OF that] by (simp add: tfs group_other map_add_Some_iff)
  qed
  show "tfs (group_component oid g) = Some (group_transform g (group_inputs oid (otlp_sources op) g))"
    if "group_inputs oid (otlp_sources op) g \<noteq> []" for g
  proof -
    have "group_component oid g \<noteq> MakeID [oid, ''resource_logs'']" using otlp_purpose_not_group(3) by (metis rangeI)
    then show ?thesis using group_lookup [OF that] by (simp add: tfs map_add_Some_iff)
  qed
  have other: "tfs k = (routed(MakeID [oid, ''reroute_unmatched''] \<mapsto> unmatched)) k"
    if "k \<notin> (\<lambda>source. MakeID [oid, source]) ` set allLogSources" "k \<notin> range (group_component oid)"
      "k \<noteq> MakeID [oid, ''resource_logs'']" for k
    using that by (simp add: tfs map_add_def group_other branch_other)
  have groups: "range (group_component oid) \<subseteq> (\<lambda>p. MakeID [oid, p]) ` {''groupby_container'', ''groupby_source'', ''groupby_host''}"
  proof
    fix k assume "k \<in> range (group_component oid)"
    then obtain g where "k = group_component oid g" by blast
    then show "k \<in> (\<lambda>p. MakeID [oid, p]) ` {''groupby_container'', ''groupby_source'', ''groupby_host''}"
      by (cases g) (simp_all add: group_component.simps otlp_ids)
  qed
  have routes: "dom routed \<subseteq> (\<lambda>p. MakeID [oid, p]) ` {''reroute'', ''trace_context''}"
    by (auto simp: routed_def)
  show "dom tfs \<subseteq> (\<lambda>p. MakeID [oid, p]) ` ({''reroute'', ''reroute_unmatched'', ''trace_context'', ''resource_logs'',
        ''groupby_container'', ''groupby_source'', ''groupby_host''} \<union> set allLogSources)"
  proof
    fix k assume k: "k \<in> dom tfs"
    consider "k \<in> (\<lambda>source. MakeID [oid, source]) ` set allLogSources" | "k \<in> range (group_component oid)"
      | "k = MakeID [oid, ''resource_logs'']" | "k = MakeID [oid, ''reroute_unmatched'']" | "k \<in> dom routed"
    proof -
      have "k = MakeID [oid, ''reroute_unmatched''] \<or> k \<in> dom routed"
        if "k \<notin> (\<lambda>source. MakeID [oid, source]) ` set allLogSources" "k \<notin> range (group_component oid)"
          "k \<noteq> MakeID [oid, ''resource_logs'']"
        using other [OF that] k by (simp add: domIff split: if_splits)
      then show ?thesis using that by blast
    qed
    then show "k \<in> (\<lambda>p. MakeID [oid, p]) ` ({''reroute'', ''reroute_unmatched'', ''trace_context'', ''resource_logs'',
        ''groupby_container'', ''groupby_source'', ''groupby_host''} \<union> set allLogSources)"
      by cases (auto simp: image_Un simp del: image_eqI dest!: subsetD [OF groups] subsetD [OF routes])
  qed
  have "tfs (MakeID [oid, ''reroute'']) = routed (MakeID [oid, ''reroute''])"
    "tfs (MakeID [oid, ''trace_context'']) = routed (MakeID [oid, ''trace_context''])"
    using other otlp_purpose_not_branch otlp_purpose_not_group by (simp_all add: otlp_id_simps)
  then show "\<exists>is. tfs (MakeID [oid, ''reroute'']) = Some (RouteBySource is (otlp_sources op))
       \<and> (if op_MigratedFromLokistack op = Some True then is = inputs \<and> tfs (MakeID [oid, ''trace_context'']) = None
          else is = [MakeID [oid, ''trace_context'']]
               \<and> tfs (MakeID [oid, ''trace_context'']) = Some (TransformTraceContext inputs))"
    by (simp add: routed_def lokistack_def otlp_id_simps)
qed

lemma otlp_fed:
  assumes "otlp_New env oid o' inputs secrets op = Inr (parts, op')" "has_branch (otlp_sources op)"
  shows "sink_fed S T oid inputs parts"
proof -
  obtain i sink tfs where parts: "parts = (i, sink, tfs)" by (cases parts)
  note result = otlp_New_result [OF assms(1) [unfolded parts]]
  have "feeds S T (sink_inputs sink)" if le: "tfs \<subseteq>\<^sub>m T" and "feeds S T inputs"
  proof -
    obtain "is" where route: "tfs (MakeID [oid, ''reroute'']) = Some (RouteBySource is (otlp_sources op))"
      and "is": "if op_MigratedFromLokistack op = Some True
          then is = inputs \<and> tfs (MakeID [oid, ''trace_context'']) = None
          else is = [MakeID [oid, ''trace_context'']]
               \<and> tfs (MakeID [oid, ''trace_context'']) = Some (TransformTraceContext inputs)"
      using result(4) by blast
    have "feeds S T is"
    proof (cases "op_MigratedFromLokistack op = Some True")
      case True
      then show ?thesis using "is" that(2) by simp
    next
      case False
      then have t: "tfs (MakeID [oid, ''trace_context'']) = Some (TransformTraceContext inputs)"
        and i: "is = [MakeID [oid, ''trace_context'']]" using "is" by simp_all
      show ?thesis
        unfolding i using that(2) by (intro feeds_one [OF le that(2) t]) (simp_all add: TransformTraceContext_def)
    qed
    note fed = this
    have branches: "T (MakeID [oid, source]) = Some (tr [MakeRouteInputID (MakeID [oid, ''reroute'']) source])"
      if "(source, tr, g) \<in> set otlp_branches" "source \<in> set (otlp_sources op)" for source tr g
      by (rule map_le_lookup [OF le, OF result(5) [OF that]])
    have groups: "T (group_component oid g) = Some (group_transform g (group_inputs oid (otlp_sources op) g))"
      if "group_inputs oid (otlp_sources op) g \<noteq> []" for g
      by (rule map_le_lookup [OF le, OF result(6) [OF that]])
    show ?thesis
      unfolding result(2)
    proof (rule otlp_chain [of T oid "is" "otlp_sources op" S])
      show "T (MakeID [oid, ''reroute'']) = Some (RouteBySource is (otlp_sources op))"
        by (rule map_le_lookup [OF le, OF route])
      show "T (MakeID [oid, ''resource_logs'']) = Some (FormatResourceLog (reduce_inputs oid (otlp_sources op)))"
        by (rule map_le_lookup [OF le, OF result(7)])
    qed (use fed branches groups assms(2) in simp_all)
  qed
  moreover have "tfs (MakeID [oid, ''throttle'']) = None"
    using result(8) by (auto simp: allLogSources_def otlp_id_simps)
  ultimately show ?thesis by (simp add: sink_fed_def parts result(1))
qed

end
