(* ===== verification/Vector_Inputs.thy ===== *)
theory Vector_Inputs
  imports Vector_Common Vector_Text
begin

text \<open>
  The sources of an input (\<open>vector/input\<close>), with the path patterns and label selectors they are
  given (\<open>generator/helpers\<close>): the collector's source, the transforms that put its records into
  the internal data model, the throttle of a limited container input, and the identifiers that
  pipelines read. \<open>NewSource\<close> returns these identifiers where the code appends them to the input
  adapter. A map of labels is ranged over in the order \<open>lks\<close>.
\<close>

section \<open>Path patterns (container_path_glob_builder.go)\<close>

text \<open>\<open>collapseWildcards\<close>: a run of asterisks becomes one.\<close>

fun collapseWildcards :: "string \<Rightarrow> string" where
  "collapseWildcards [] = []"
| "collapseWildcards (c # s) =
     (if c = CHR ''*'' \<and> s \<noteq> [] \<and> hd s = CHR ''*'' then collapseWildcards s else c # collapseWildcards s)"

definition normalizeNamespace :: "string \<Rightarrow> string" where
  "normalizeNamespace ns =
     (if ns = ''*'' then ns
      else if \<not> Contains ns ''*'' then ns @ ''_*''
      else collapseWildcards ns @ ''_*'')"

record GlobBuilder =
  gb_containers :: "string list"
  gb_namespaces :: "string list"
  gb_nsContainers :: "string list"
  gb_paths :: "string list"

definition NewContainerPathGlobBuilder :: GlobBuilder where
  "NewContainerPathGlobBuilder =
     \<lparr>gb_containers = [], gb_namespaces = [], gb_nsContainers = [], gb_paths = []\<rparr>"

definition AddCombined :: "NamespaceContainerSpec list \<Rightarrow> GlobBuilder \<Rightarrow> GlobBuilder" where
  "AddCombined ncs b = b\<lparr>gb_nsContainers := gb_nsContainers b @ map (\<lambda>n.
     normalizeNamespace (if ncs_Namespace n = [] then ''*'' else ncs_Namespace n) @ ''/''
     @ collapseWildcards (if ncs_Container n = [] then ''*'' else ncs_Container n)) ncs\<rparr>"

definition AddOther :: "string list \<Rightarrow> GlobBuilder \<Rightarrow> GlobBuilder" where
  "AddOther other b = b\<lparr>gb_paths := gb_paths b @ map (\<lambda>n. ''/var/log/pods/'' @ collapseWildcards n) other\<rparr>"

definition AddNamespaces :: "string list \<Rightarrow> GlobBuilder \<Rightarrow> GlobBuilder" where
  "AddNamespaces namespaces b =
     b\<lparr>gb_namespaces := gb_namespaces b @ map normalizeNamespace (filter (\<lambda>n. n \<noteq> []) namespaces)\<rparr>"

definition AddContainers :: "string list \<Rightarrow> GlobBuilder \<Rightarrow> GlobBuilder" where
  "AddContainers containers b =
     b\<lparr>gb_containers := gb_containers b @ map collapseWildcards (filter (\<lambda>c. c \<noteq> []) containers)\<rparr>"

definition AddExtensions :: "string list \<Rightarrow> GlobBuilder \<Rightarrow> GlobBuilder" where
  "AddExtensions extensions b =
     b\<lparr>gb_paths := gb_paths b @ map (\<lambda>e. ''/var/log/pods/*/*/*.'' @ collapseWildcards e) extensions\<rparr>"

definition crioNamespaceAndContainerPath :: "string \<Rightarrow> string \<Rightarrow> string" where
  "crioNamespaceAndContainerPath n c = ''/var/log/pods/'' @ n @ ''/'' @ c @ ''/*.log''"

definition crioEverything :: string where
  "crioEverything = ''/var/log/pods/*/*/*.log''"

text \<open>The sets of the builder are lists here; \<open>List\<close> sorts them and drops duplicates.\<close>

definition Build :: "string list \<Rightarrow> GlobBuilder \<Rightarrow> string list" where
  "Build excludeNSFromContainers b =
     (let namespacesNotToCombine = map normalizeNamespace excludeNSFromContainers;
          combined = map (\<lambda>ncs. ''/var/log/pods/'' @ ncs @ ''/*.log'') (sorted_set (gb_nsContainers b));
          cs = sorted_set (gb_containers b);
          ns = sorted_set (gb_namespaces b);
          crossed =
            (if cs = [] \<and> ns \<noteq> [] then map (\<lambda>n. crioNamespaceAndContainerPath n ''*'') ns
             else if ns = [] \<and> cs \<noteq> [] then map (crioNamespaceAndContainerPath ''*'') cs
             else concat (map (\<lambda>c. map (\<lambda>n.
               crioNamespaceAndContainerPath n (if n \<in> set namespacesNotToCombine then ''*'' else c)) ns) cs));
          paths = sorted_set (gb_paths b @ combined @ crossed)
      in if paths = [] \<or> paths = [crioEverything] then [] else paths)"

section \<open>Label selectors (label_selector.go)\<close>

definition matchLabels :: "string list \<Rightarrow> (string \<rightharpoonup> string) \<Rightarrow> string list" where
  "matchLabels lks labels =
     sort (map (\<lambda>k. if the (labels k) = [] then k else k @ ''='' @ the (labels k)) lks)"

definition match_expression :: "LabelSelectorRequirement \<Rightarrow> string list" where
  "match_expression r =
     (if lsr_Operator r = ''Exists'' then [lsr_Key r]
      else if lsr_Operator r = ''DoesNotExist'' then [''!'' @ lsr_Key r]
      else if lsr_Operator r = ''In''
      then [lsr_Key r @ '' in ('' @ Join (sort (lsr_Values r)) '','' @ '')'']
      else if lsr_Operator r = ''NotIn''
      then [lsr_Key r @ '' notin ('' @ Join (lsr_Values r) '','' @ '')'']
      else [])"

definition matchExpressions :: "LabelSelectorRequirement list \<Rightarrow> string list" where
  "matchExpressions expressions = sort (concat (map match_expression expressions))"

definition LabelSelectorFrom :: "string list \<Rightarrow> LabelSelector option \<Rightarrow> string" where
  "LabelSelectorFrom lks selector =
     (case selector of
        None \<Rightarrow> []
      | Some s \<Rightarrow> Join (matchLabels lks (ls_MatchLabels s) @ matchExpressions (ls_MatchExpressions s)) '','')"

section \<open>Normalization to the internal data model (internal.go)\<close>

datatype LogSource =
    FromInfrastructure InfrastructureSource
  | FromAudit AuditSource
  | FromReceiver ReceiverType

fun LogSource_String :: "LogSource \<Rightarrow> string" where
  "LogSource_String (FromInfrastructure s) = InfrastructureSource_String s"
| "LogSource_String (FromAudit s) = AuditSource_String s"
| "LogSource_String (FromReceiver s) = ReceiverType_String s"

definition NewAuditInternalNormalization :: "AuditSource \<Rightarrow> string \<Rightarrow> bool \<Rightarrow> string list \<Rightarrow> Transform" where
  "NewAuditInternalNormalization logSource inputs parseIntoStructured addVRLs =
     NewRemap (Join (
       [setEnvelope]
       @ (if parseIntoStructured then [parseStructured, parseStructuredAuditTimestamp] else [])
       @ [fmtLogSource (AuditSource_String logSource), fmtLogType (InputType_String InputTypeAudit),
          setHostName, setClusterID, setOpenshiftSequence]
       @ addVRLs) [newline]) [inputs]"

definition NewInternalNormalization :: "LogSource \<Rightarrow> InputType \<Rightarrow> string \<Rightarrow> string list \<Rightarrow> Transform" where
  "NewInternalNormalization logSource logType inputs addVRLs =
     (let container = (logSource = FromInfrastructure InfrastructureSourceContainer)
      in NewRemap (Join (
       [setEnvelope]
       @ (if container then [setKubernetesContainerIOStream, recoverMetadataFromFilePath] else [])
       @ [fmtLogSource (LogSource_String logSource),
          if container then logTypeContainer else fmtLogType (InputType_String logType),
          setHostName, setClusterID, setOpenshiftSequence, SetLogLevel]
       @ addVRLs) [newline]) [inputs])"

definition NewJournalInternalNormalization :: "LogSource \<Rightarrow> string \<Rightarrow> string \<Rightarrow> string list \<Rightarrow> Transform" where
  "NewJournalInternalNormalization logSource envelopeVrl inputs addVRLs =
     NewRemap (Join (
       [envelopeVrl, fmtLogSource (LogSource_String logSource),
        fmtLogType (InputType_String InputTypeInfrastructure), setClusterID, setOpenshiftSequence]
       @ addVRLs) [newline]) [inputs]"

definition NewReceiverInternalNormalization :: "LogSource \<Rightarrow> string \<Rightarrow> string \<Rightarrow> string list \<Rightarrow> Transform" where
  "NewReceiverInternalNormalization logSource envelopeVrl inputs addVRLs =
     NewRemap (Join (
       [envelopeVrl, fmtLogSource (LogSource_String logSource),
        fmtLogType (InputType_String InputTypeReceiver),
        ''._internal.timestamp = del(._internal.structured.timestamp)'',
        ''._internal.message = del(._internal.structured.message)'']
       @ addVRLs) [newline]) [inputs]"

section \<open>Sources\<close>

text \<open>The result of a source function: identifier, source, transforms, and the adapter's identifiers.\<close>

type_synonym source_parts = "string \<times> Source \<times> (string \<rightharpoonup> Transform) \<times> string list"

definition AddThrottleToInput :: "string \<Rightarrow> int \<Rightarrow> Transform" where
  "AddThrottleToInput inp maxRecordsPerSec = NewThrottle [inp] maxRecordsPerSec ''{{ _internal.file }}''"

definition max_message_size :: "Env \<Rightarrow> InputSpec \<Rightarrow> int" where
  "max_message_size env spec =
     (let app = Option.bind (Option.bind (Option.bind (input_Application spec) app_Tuning) citune_MaxMessageSize)
                  (env_AsInt64 env);
          infra = Option.bind (input_Infrastructure spec) (\<lambda>i.
            if infra_Sources i = [] \<or> InfrastructureSourceContainer \<in> set (infra_Sources i)
            then Option.bind (Option.bind (Option.bind (infra_Tuning i) infratune_Container) citune_MaxMessageSize)
                   (env_AsInt64 env)
            else None)
      in case infra of Some sz \<Rightarrow> sz | None \<Rightarrow> (case app of Some sz \<Rightarrow> sz | None \<Rightarrow> 0))"

definition NewContainerSource ::
  "Env \<Rightarrow> string list \<Rightarrow> InputSpec \<Rightarrow> string list \<Rightarrow> string list \<Rightarrow> InputType \<Rightarrow> LogSource \<Rightarrow> source_parts go" where
  "NewContainerSource env lks spec includes excludes logType logSource =
     (let base = MakeInputID [input_Name spec, ''container''];
          selector = Option.bind (input_Application spec) app_Selector;
          metaID = MakeID [base, ''meta''];
          source = NewKubernetesLogs (\<lambda>kl. kl
            \<lparr>klogs_MaxReadBytes := 3145728, klogs_GlobMinimumCooldownMillis := 15000,
             klogs_AutoPartialMerge := True, klogs_MaxMergedLineBytes := of_int (max_message_size env spec),
             klogs_IncludePathsGlobPatterns := includes, klogs_ExcludePathsGlobPatterns := excludes,
             klogs_ExtraLabelSelector := LabelSelectorFrom lks selector,
             klogs_PodAnnotationFields := Some
               \<lparr>podann_PodLabels = ''kubernetes.labels'', podann_PodNamespace = ''kubernetes.namespace_name'',
                podann_PodAnnotations = ''kubernetes.annotations'', podann_PodUid = ''kubernetes.pod_id'',
                podann_PodNodeName = ''hostname''\<rparr>,
             klogs_NamespaceUid := Some ''kubernetes.namespace_id'', klogs_RotateWaitSecs := 5,
             klogs_UseApiServerCache := True\<rparr>);
          tfs = [metaID \<mapsto> NewInternalNormalization logSource logType base []]
      in go_bind (MaxRecordsPerSecond spec) (\<lambda>(threshold, hasPolicy).
           if hasPolicy
           then (let throttleID = MakeID [base, ''throttle'']
                 in Inr (base, source, tfs(throttleID \<mapsto> AddThrottleToInput metaID threshold), [throttleID]))
           else Inr (base, source, tfs, [metaID])))"

definition IgnoreOlderSecs :: int where
  "IgnoreOlderSecs = 3600"

definition int64_Seconds :: "Env \<Rightarrow> Duration \<Rightarrow> int" where
  "int64_Seconds env d = (if d mod time_Second = 0 then d div time_Second else env_Seconds env d)"

definition auditIgnoreOlderSecs :: "Env \<Rightarrow> InputSpec \<Rightarrow> int" where
  "auditIgnoreOlderSecs env inp =
     (case Option.bind (Option.bind (input_Audit inp) audit_Tuning) audittune_IgnoreOlder of
        Some d \<Rightarrow> int64_Seconds env d | None \<Rightarrow> IgnoreOlderSecs)"

definition audit_file :: "Env \<Rightarrow> InputSpec \<Rightarrow> string list \<Rightarrow> Source" where
  "audit_file env inp paths =
     SFile ((NewFile paths)
       \<lparr>file_HostKey := ''hostname'', file_GlobalMinimumCooldownMilliSeconds := 15000,
        file_IgnoreOlderSecs := auditIgnoreOlderSecs env inp, file_MaxLineBytes := 3145728,
        file_MaxReadBytes := 262144, file_RotateWaitSecs := 5\<rparr>)"

definition NewAuditAuditdSource :: "Env \<Rightarrow> InputSpec \<Rightarrow> source_parts" where
  "NewAuditAuditdSource env inp =
     (let i = MakeInputID [input_Name inp, ''host'']; metaID = MakeID [i, ''meta'']
      in (i, audit_file env inp [''/var/log/audit/audit.log''],
          [metaID \<mapsto> NewInternalNormalization (FromAudit AuditSourceAuditd) InputTypeAudit i [ParseHostAuditLogs]],
          [metaID]))"

definition NewK8sAuditSource :: "Env \<Rightarrow> InputSpec \<Rightarrow> source_parts" where
  "NewK8sAuditSource env inp =
     (let i = MakeInputID [input_Name inp, ''kube'']; metaID = MakeID [i, ''meta'']
      in (i, audit_file env inp [''/var/log/kube-apiserver/audit.log''],
          [metaID \<mapsto> NewAuditInternalNormalization AuditSourceKube i True []], [metaID]))"

definition NewOpenshiftAuditSource :: "Env \<Rightarrow> InputSpec \<Rightarrow> source_parts" where
  "NewOpenshiftAuditSource env inp =
     (let i = MakeInputID [input_Name inp, ''openshift'']; metaID = MakeID [i, ''meta'']
      in (i, audit_file env inp [''/var/log/oauth-apiserver/audit.log'', ''/var/log/openshift-apiserver/audit.log'',
                                 ''/var/log/oauth-server/audit.log''],
          [metaID \<mapsto> NewAuditInternalNormalization AuditSourceOpenShift i True []], [metaID]))"

definition NewOVNAuditSource :: "Env \<Rightarrow> InputSpec \<Rightarrow> source_parts" where
  "NewOVNAuditSource env inp =
     (let i = MakeInputID [input_Name inp, ''ovn'']; metaID = MakeID [i, ''meta'']
      in (i, audit_file env inp [''/var/log/ovn/acl-audit-log.log''],
          [metaID \<mapsto> NewInternalNormalization (FromAudit AuditSourceOVN) InputTypeAudit i [ParseOVNAuditLogTimestamp]],
          [metaID]))"

definition NewJournalInput :: "InputSpec \<Rightarrow> source_parts" where
  "NewJournalInput inp =
     (let i = MakeInputID [input_Name inp, ''journal'']; metaID = MakeID [i, ''meta'']
      in (i, SJournald NewJournalD,
          [metaID \<mapsto> NewJournalInternalNormalization (FromInfrastructure InfrastructureSourceNode) setEnvelope i
             [FixJournalLogLevel, SetJournalMessage, SystemK, SystemT, SystemU]], [metaID]))"

definition newItemsTransform :: "string \<Rightarrow> Transform" where
  \<open>newItemsTransform inputs =
     NewRemap (text_lines
     ['''',
      ''if exists(.items) {'',
      ''  r = array([])'',
      ''  for_each(array!(.items)) -> |_index, i| {'',
      ''    r = push(r, {"structured": i})'',
      ''  }'',
      ''  . = r'',
      ''} else {'',
      ''  . = {"structured": .}'',
      ''}'',
      '''']) [inputs]\<close>

definition NewViaqReceiverSource :: "Env \<Rightarrow> InputSpec \<Rightarrow> Secrets \<Rightarrow> Options \<Rightarrow> source_parts go" where
  "NewViaqReceiverSource env spec secrets op =
     (let base = MakeInputID [input_Name spec];
          metaID = MakeID [base, ''meta''];
          serverTls = NewTlsEnabled False (Some (Input_TLS spec)) secrets op
      in go_bind (deref (input_Receiver spec)) (\<lambda>recv.
           case recv_Type recv of
             ReceiverTypeSyslog \<Rightarrow>
               Inr (base, SSyslog ((NewSyslogServer (env_ListenAddress env) (recv_Port recv) ''tcp'')\<lparr>syslogsrv_TLS := serverTls\<rparr>),
                    [metaID \<mapsto> NewReceiverInternalNormalization (FromReceiver ReceiverTypeSyslog) setEnvelopeToStructured base []],
                    [metaID])
           | ReceiverTypeHTTP \<Rightarrow>
               (let itemsID = MakeID [base, ''items'']
                in Inr (base, SHttpServer ((NewHttpServer (env_ListenAddress env) (recv_Port recv))
                               \<lparr>httpsrv_TLS := serverTls, httpsrv_Codec := Some ''json''\<rparr>),
                        [itemsID \<mapsto> newItemsTransform base,
                         metaID \<mapsto> NewAuditInternalNormalization AuditSourceKube itemsID False
                                     [parseReceiverStructuredAuditTimestamp]],
                        [metaID]))
           | ReceiverTypeOther t \<Rightarrow> Inl (PanicWith (''Unsupported receiver type '' @ Quote t))))"

section \<open>Namespaces of a container input (container.go)\<close>

definition infraNamespaces :: "string list" where
  "infraNamespaces = [''default'', ''openshift*'', ''kube*'']"

definition excludeExtensions :: "string list" where
  "excludeExtensions = [''gz'', ''tmp'', ''log.*'']"

definition OpenshiftNS_logging :: string where
  "OpenshiftNS_logging = ''openshift-logging''"

definition loggingExcludes :: "string list" where
  "loggingExcludes =
     Build [] (AddExtensions excludeExtensions
       (AddOther (map (\<lambda>c. OpenshiftNS_logging @ ''_*/'' @ c @ ''/*.log'') [''loki*'', ''gateway'', ''opa''])
         (AddOther (map (\<lambda>p. OpenshiftNS_logging @ ''_'' @ p @ ''-*/*/*.log'')
                     [''logfilesmetricexporter'', ''elasticsearch'', ''kibana''])
           NewContainerPathGlobBuilder)))"

definition group_namespace :: "infra_group \<Rightarrow> string" where
  "group_namespace g =
     (case g of GroupDefault \<Rightarrow> ''default'' | GroupOpenshift \<Rightarrow> ''openshift*'' | GroupKube \<Rightarrow> ''kube*'')"

definition pruneInfraNS :: "string list \<Rightarrow> string list" where
  "pruneInfraNS includes =
     sorted_set (filter (\<lambda>ns. ns \<notin> set (map group_namespace (List.map_filter InfraNSRegex includes))) infraNamespaces)"

section \<open>NewSource (source.go)\<close>

definition add_parts ::
  "(string \<rightharpoonup> Source) \<times> (string \<rightharpoonup> Transform) \<times> string list \<Rightarrow> source_parts
   \<Rightarrow> (string \<rightharpoonup> Source) \<times> (string \<rightharpoonup> Transform) \<times> string list" where
  "add_parts acc parts =
     (case acc of (sources, tfs, ids) \<Rightarrow> case parts of (sourceId, source, ctfs, cids) \<Rightarrow>
        (sources(sourceId \<mapsto> source), tfs ++ ctfs, ids @ cids))"

definition application_globs :: "InputSpec \<Rightarrow> string list \<times> string list" where
  "application_globs inp =
     (let includes = (case input_Application inp of None \<Rightarrow> [] | Some app \<Rightarrow> app_Includes app);
          excludes = (case input_Application inp of None \<Rightarrow> [] | Some app \<Rightarrow> app_Excludes app);
          ib = AddCombined includes NewContainerPathGlobBuilder;
          infra = map (\<lambda>ns. \<lparr>ncs_Namespace = ns, ncs_Container = []\<rparr>) (pruneInfraNS (map ncs_Namespace includes));
          eb = AddExtensions excludeExtensions
                 (AddCombined excludes (AddCombined infra NewContainerPathGlobBuilder))
      in (Build [] ib, Build infraNamespaces eb))"

definition infra_sources_of :: "InputSpec \<Rightarrow> InfrastructureSource set" where
  "infra_sources_of inp =
     (case input_Infrastructure inp of
        None \<Rightarrow> set InfrastructureSources
      | Some infra \<Rightarrow> if infra_Sources infra = [] then set InfrastructureSources else set (infra_Sources infra))"

definition audit_sources_of :: "InputSpec \<Rightarrow> AuditSource set" where
  "audit_sources_of inp =
     (case input_Audit inp of
        None \<Rightarrow> set AuditSources
      | Some audit \<Rightarrow> if audit_Sources audit = [] then set AuditSources else set (audit_Sources audit))"

definition NewSource ::
  "Env \<Rightarrow> string list \<Rightarrow> InputSpec \<Rightarrow> Secrets \<Rightarrow> Options
   \<Rightarrow> (((string \<rightharpoonup> Source) \<times> (string \<rightharpoonup> Transform) \<times> string list) \<times> Options) go" where
  "NewSource env lks inp secrets op0 =
     (let op = SetTLSProfileOptionsFrom env (Some (Input_TLS inp)) op0;
          none = (Map.empty, Map.empty, []);
          container = FromInfrastructure InfrastructureSourceContainer
      in case input_Type inp of
           InputTypeApplication \<Rightarrow>
             go_bind (NewContainerSource env lks inp (fst (application_globs inp)) (snd (application_globs inp))
                        InputTypeApplication container)
               (\<lambda>parts. Inr (add_parts none parts, op))
         | InputTypeInfrastructure \<Rightarrow>
             go_bind
               (if InfrastructureSourceContainer \<in> infra_sources_of inp
                then go_bind (NewContainerSource env lks inp
                       (Build [] (AddNamespaces infraNamespaces NewContainerPathGlobBuilder)) loggingExcludes
                       InputTypeInfrastructure container)
                       (\<lambda>parts. Inr (add_parts none parts))
                else Inr none)
               (\<lambda>acc. Inr (if InfrastructureSourceNode \<in> infra_sources_of inp
                            then add_parts acc (NewJournalInput inp) else acc, op))
         | InputTypeAudit \<Rightarrow>
             Inr (foldl add_parts none
               ((if AuditSourceAuditd \<in> audit_sources_of inp then [NewAuditAuditdSource env inp] else [])
                @ (if AuditSourceKube \<in> audit_sources_of inp then [NewK8sAuditSource env inp] else [])
                @ (if AuditSourceOpenShift \<in> audit_sources_of inp then [NewOpenshiftAuditSource env inp] else [])
                @ (if AuditSourceOVN \<in> audit_sources_of inp then [NewOVNAuditSource env inp] else [])), op)
         | InputTypeReceiver \<Rightarrow>
             go_bind (NewViaqReceiverSource env inp secrets op) (\<lambda>parts. Inr (add_parts none parts, op))
         | InputTypeOther _ \<Rightarrow> Inr (none, op))"

section \<open>Identifiers of an input's components\<close>

text \<open>Every identifier of an input starts with the input's name and ends with a purpose.\<close>

definition input_id :: "string \<Rightarrow> string" where
  "input_id name = FormatComponentID (''input_'' @ name)"

lemma input_id_idem [simp]: "FormatComponentID (input_id name) = input_id name"
  unfolding input_id_def by (rule FormatComponentID_idem)

lemma MakeInputID_single: "MakeInputID [name] = input_id name"
  by (simp add: MakeInputID_def MakeID_def input_id_def FormatComponentID_append [symmetric])

lemma MakeInputID_pair: "MakeInputID [name, purpose] = input_id name @ FormatComponentID (''_'' @ purpose)"
  by (simp add: MakeInputID_def MakeID_def input_id_def FormatComponentID_append [symmetric])

lemma MakeID_pair: "MakeID [a, b] = FormatComponentID a @ FormatComponentID (''_'' @ b)"
  by (simp add: MakeID_def FormatComponentID_append [symmetric])

lemma purposes [simp]:
  "FormatComponentID ''_meta'' = ''_meta''" "FormatComponentID ''_throttle'' = ''_throttle''"
  "FormatComponentID ''_items'' = ''_items''" "FormatComponentID ''_container'' = ''_container''"
  "FormatComponentID ''_journal'' = ''_journal''" "FormatComponentID ''_host'' = ''_host''"
  "FormatComponentID ''_kube'' = ''_kube''" "FormatComponentID ''_openshift'' = ''_openshift''"
  "FormatComponentID ''_ovn'' = ''_ovn''"
  by code_simp+

lemmas input_ids = MakeInputID_single MakeInputID_pair MakeID_pair

section \<open>What the components of an input deliver\<close>

text \<open>
  The components built so far are in order when every transform and every identifier handed on
  delivers from a source, and no source is left unread.
\<close>

definition parts_ok :: "(string \<rightharpoonup> Source) \<times> (string \<rightharpoonup> Transform) \<times> string list \<Rightarrow> bool" where
  "parts_ok acc =
     (case acc of (sources, tfs, ids) \<Rightarrow>
        (\<forall>i. i \<in> set ids \<or> tfs i \<noteq> None \<longrightarrow> delivers sources tfs i)
        \<and> (\<forall>i. sources i \<noteq> None \<longrightarrow> (\<exists>j\<in>set ids. (reads tfs)\<^sup>+\<^sup>+ j i)))"

lemma parts_ok_delivers: "parts_ok (S, T, ids) \<Longrightarrow> i \<in> set ids \<or> T i \<noteq> None \<Longrightarrow> delivers S T i"
  unfolding parts_ok_def prod.case by blast

lemma parts_ok_read: "parts_ok (S, T, ids) \<Longrightarrow> S i \<noteq> None \<Longrightarrow> \<exists>j\<in>set ids. (reads T)\<^sup>+\<^sup>+ j i"
  unfolding parts_ok_def prod.case by blast

lemma parts_okI:
  assumes "\<And>i. i \<in> set ids \<or> T i \<noteq> None \<Longrightarrow> delivers S T i"
    and "\<And>i. S i \<noteq> None \<Longrightarrow> \<exists>j\<in>set ids. (reads T)\<^sup>+\<^sup>+ j i"
  shows "parts_ok (S, T, ids)"
  unfolding parts_ok_def prod.case using assms by blast

lemma parts_ok_union:
  assumes ok: "parts_ok (S, T, ids)" and ok': "parts_ok ([i \<mapsto> source], T', ids')"
    and le: "S \<subseteq>\<^sub>m S(i \<mapsto> source)" "[i \<mapsto> source] \<subseteq>\<^sub>m S(i \<mapsto> source)"
      "T \<subseteq>\<^sub>m T ++ T'" "T' \<subseteq>\<^sub>m T ++ T'"
  shows "parts_ok (S(i \<mapsto> source), T ++ T', ids @ ids')"
proof (rule parts_okI)
  fix j
  assume "j \<in> set (ids @ ids') \<or> (T ++ T') j \<noteq> None"
  then consider "j \<in> set ids \<or> T j \<noteq> None" | "j \<in> set ids' \<or> T' j \<noteq> None"
    by (auto simp: map_add_None)
  then show "delivers (S(i \<mapsto> source)) (T ++ T') j"
  proof cases
    case 1
    show ?thesis by (rule delivers_mono [OF parts_ok_delivers [OF ok 1] le(1,3)])
  next
    case 2
    show ?thesis by (rule delivers_mono [OF parts_ok_delivers [OF ok' 2] le(2,4)])
  qed
next
  fix j
  assume j: "(S(i \<mapsto> source)) j \<noteq> None"
  show "\<exists>k\<in>set (ids @ ids'). (reads (T ++ T'))\<^sup>+\<^sup>+ k j"
  proof (cases "j = i")
    case True
    then have "\<exists>k\<in>set ids'. (reads T')\<^sup>+\<^sup>+ k j" by (intro parts_ok_read [OF ok']) simp
    then show ?thesis using reads_mono [OF le(4)] unfolding set_append by blast
  next
    case False
    with j have "\<exists>k\<in>set ids. (reads T)\<^sup>+\<^sup>+ k j" by (intro parts_ok_read [OF ok]) simp
    then show ?thesis using reads_mono [OF le(3)] unfolding set_append by blast
  qed
qed

definition part_ids :: "string \<Rightarrow> string \<Rightarrow> string set" where
  "part_ids name x = {input_id name @ x @ ''_meta'', input_id name @ x @ ''_throttle'', input_id name @ x @ ''_items''}"

definition part_at :: "string \<Rightarrow> string \<Rightarrow> source_parts \<Rightarrow> bool" where
  "part_at name x p =
     (case p of (i, source, tfs, ids) \<Rightarrow>
        i = input_id name @ x \<and> dom tfs \<subseteq> part_ids name x \<and> parts_ok ([i \<mapsto> source], tfs, ids))"

definition parts_at :: "string \<Rightarrow> string set \<Rightarrow> (string \<rightharpoonup> Source) \<times> (string \<rightharpoonup> Transform) \<times> string list \<Rightarrow> bool" where
  "parts_at name X acc =
     (case acc of (sources, tfs, ids) \<Rightarrow>
        parts_ok acc \<and> dom sources \<subseteq> (\<lambda>x. input_id name @ x) ` X \<and> dom tfs \<subseteq> (\<Union>x\<in>X. part_ids name x))"

definition apart :: "string \<Rightarrow> string set \<Rightarrow> bool" where
  "apart x X = (\<forall>x'\<in>X. \<forall>y y'. x @ y \<noteq> x' @ y')"

lemma parts_at_none: "parts_at name {} (Map.empty, Map.empty, [])"
  by (simp add: parts_at_def parts_ok_def)

lemma parts_at_mono: "parts_at name X acc \<Longrightarrow> parts_at name (insert x X) acc"
  by (auto simp: parts_at_def split: prod.splits)

lemma parts_at_add:
  assumes acc: "parts_at name X acc" and p: "part_at name x p" and x: "apart x X"
  shows "parts_at name (insert x X) (add_parts acc p)"
proof -
  obtain S T ids where A: "acc = (S, T, ids)" by (cases acc)
  obtain i source T' ids' where P: "p = (i, source, T', ids')" by (cases p)
  have i: "i = input_id name @ x" and dT': "dom T' \<subseteq> part_ids name x"
    and ok': "parts_ok ([i \<mapsto> source], T', ids')"
    using p unfolding part_at_def P prod.case by blast+
  have dS: "dom S \<subseteq> (\<lambda>x. input_id name @ x) ` X" and dT: "dom T \<subseteq> (\<Union>x\<in>X. part_ids name x)"
    and ok: "parts_ok (S, T, ids)"
    using acc unfolding parts_at_def A prod.case by blast+
  have "i \<notin> dom S" using dS x [unfolded apart_def] by (auto simp: i dest: spec [of _ "[]"])
  moreover have "dom T \<inter> dom T' = {}"
    using dT dT' x by (fastforce simp: part_ids_def apart_def)
  ultimately have le: "S \<subseteq>\<^sub>m S(i \<mapsto> source)" "[i \<mapsto> source] \<subseteq>\<^sub>m S(i \<mapsto> source)"
    "T \<subseteq>\<^sub>m T ++ T'" "T' \<subseteq>\<^sub>m T ++ T'"
    by (auto simp: map_le_def map_add_def dom_def split: option.splits)
  have "parts_ok (S(i \<mapsto> source), T ++ T', ids @ ids')"
    by (rule parts_ok_union [OF ok ok' le])
  then show ?thesis
    using dS dT dT' by (auto simp: parts_at_def add_parts_def A P i)
qed

lemma parts_at_if:
  assumes "parts_at name X acc" "part_at name x p" "apart x X"
  shows "parts_at name (insert x X) (if b then add_parts acc p else acc)"
  using assms parts_at_add parts_at_mono by (cases b) simp_all

text \<open>The two shapes of what stands behind a source.\<close>

lemma part_single:
  assumes "transform_inputs t = [input_id name @ x]" "\<not> is_route t"
  shows "part_at name x (input_id name @ x, source, [input_id name @ x @ ''_meta'' \<mapsto> t],
           [input_id name @ x @ ''_meta''])"
proof -
  let ?i = "input_id name @ x" and ?m = "input_id name @ x @ ''_meta''"
  let ?S = "[?i \<mapsto> source]" and ?T = "[?m \<mapsto> t]"
  have "delivers ?S ?T ?i" by (rule delivers_source) simp
  then have m: "delivers ?S ?T ?m"
    by (rule delivers_single [rotated 3, of _ _ ?i ?m t]) (use assms in simp_all)
  have "parts_ok (?S, ?T, [?m])"
  proof (rule parts_okI)
    fix i assume "i \<in> set [?m] \<or> ?T i \<noteq> None"
    then have "i = ?m" by (simp split: if_splits)
    then show "delivers ?S ?T i" using m by simp
  next
    fix i assume "?S i \<noteq> None"
    then have "reads ?T ?m i" using assms(1) by (simp add: reads_def split: if_splits)
    then show "\<exists>j\<in>set [?m]. (reads ?T)\<^sup>+\<^sup>+ j i" by auto
  qed
  then show ?thesis by (simp add: part_at_def part_ids_def)
qed

lemma part_double:
  assumes "transform_inputs t = [input_id name @ x]" "\<not> is_route t"
    and "transform_inputs u = [input_id name @ x @ a]" "\<not> is_route u"
    and "a \<noteq> b" "{a, b} \<subseteq> {''_meta'', ''_throttle'', ''_items''}"
  shows "part_at name x (input_id name @ x, source,
           [input_id name @ x @ a \<mapsto> t, input_id name @ x @ b \<mapsto> u], [input_id name @ x @ b])"
proof -
  let ?i = "input_id name @ x" and ?a = "input_id name @ x @ a" and ?b = "input_id name @ x @ b"
  let ?S = "[?i \<mapsto> source]" and ?T = "[?a \<mapsto> t, ?b \<mapsto> u]"
  have T: "?T ?a = Some t" "?T ?b = Some u" using assms(5) by simp_all
  have "delivers ?S ?T ?i" by (rule delivers_source) simp
  then have da: "delivers ?S ?T ?a"
    by (rule delivers_single [rotated 3, of _ _ ?i ?a t]) (use assms T in simp_all)
  then have db: "delivers ?S ?T ?b"
    by (rule delivers_single [rotated 3, of _ _ ?a ?b u]) (use assms T in simp_all)
  have "parts_ok (?S, ?T, [?b])"
  proof (rule parts_okI)
    fix i assume "i \<in> set [?b] \<or> ?T i \<noteq> None"
    then have "i = ?a \<or> i = ?b" by (auto split: if_splits)
    then show "delivers ?S ?T i" using da db by auto
  next
    fix i assume "?S i \<noteq> None"
    then have "i = ?i" by (simp split: if_splits)
    then have "reads ?T ?b ?a" "reads ?T ?a i" using assms(1,3) T by (simp_all add: reads_def)
    then have "(reads ?T)\<^sup>+\<^sup>+ ?b i" by (meson tranclp.r_into_trancl tranclp.trancl_into_trancl)
    then show "\<exists>j\<in>set [?b]. (reads ?T)\<^sup>+\<^sup>+ j i" by simp
  qed
  moreover have "dom ?T \<subseteq> part_ids name x" using assms(6) by (auto simp: part_ids_def)
  ultimately show ?thesis by (simp add: part_at_def)
qed

lemma part_singleI:
  assumes "i = input_id name @ x" "m = input_id name @ x @ ''_meta''"
    and "transform_inputs t = [i]" "\<not> is_route t"
  shows "part_at name x (i, source, [m \<mapsto> t], [m])"
  using part_single assms by simp

lemma part_doubleI:
  assumes "i = input_id name @ x" "m = input_id name @ x @ a" "n = input_id name @ x @ b"
    and "transform_inputs t = [i]" "\<not> is_route t" "transform_inputs u = [m]" "\<not> is_route u"
    and "a \<noteq> b" "{a, b} \<subseteq> {''_meta'', ''_throttle'', ''_items''}"
  shows "part_at name x (i, source, [m \<mapsto> t, n \<mapsto> u], [n])"
  using part_double assms by simp

lemma NewThrottle_simps [simp]:
  "transform_inputs (NewThrottle inputs n k) = sort inputs" "\<not> is_route (NewThrottle inputs n k)"
  by (simp_all add: NewThrottle_def NewThrottleTransform_def)

lemmas normalization_defs =
  NewAuditInternalNormalization_def NewInternalNormalization_def NewJournalInternalNormalization_def
  NewReceiverInternalNormalization_def Let_def

lemma normalization_inputs [simp]:
  "transform_inputs (NewAuditInternalNormalization src i b vs) = [i]"
  "transform_inputs (NewInternalNormalization lsrc t i vs) = [i]"
  "transform_inputs (NewJournalInternalNormalization lsrc e i vs) = [i]"
  "transform_inputs (NewReceiverInternalNormalization lsrc e i vs) = [i]"
  "transform_inputs (newItemsTransform i) = [i]"
  by (simp_all only: normalization_defs newItemsTransform_def NewRemap_simps) simp_all

lemma normalization_not_route [simp]:
  "\<not> is_route (NewAuditInternalNormalization src i b vs)"
  "\<not> is_route (NewInternalNormalization lsrc t i vs)"
  "\<not> is_route (NewJournalInternalNormalization lsrc e i vs)"
  "\<not> is_route (NewReceiverInternalNormalization lsrc e i vs)"
  "\<not> is_route (newItemsTransform i)"
  by (simp_all only: normalization_defs newItemsTransform_def NewRemap_simps) simp_all

lemmas part_defs = Let_def input_ids FormatComponentID_append

lemma container_part:
  assumes "NewContainerSource env lks inp includes excludes t src = Inr p"
  shows "part_at (input_Name inp) ''_container'' p"
proof -
  obtain threshold hasPolicy where r: "MaxRecordsPerSecond inp = Inr (threshold, hasPolicy)"
    using assms by (auto simp: NewContainerSource_def Let_def go_bind_Inr_iff)
  show ?thesis
  proof (cases hasPolicy)
    case True
    obtain src' where "p = (input_id (input_Name inp) @ ''_container'', src',
        [input_id (input_Name inp) @ ''_container_meta''
           \<mapsto> NewInternalNormalization src t (input_id (input_Name inp) @ ''_container'') [],
         input_id (input_Name inp) @ ''_container_throttle''
           \<mapsto> AddThrottleToInput (input_id (input_Name inp) @ ''_container_meta'') threshold],
        [input_id (input_Name inp) @ ''_container_throttle''])"
      using assms r True by (auto simp: NewContainerSource_def part_defs)
    then show ?thesis
      by (auto simp: AddThrottleToInput_def
            intro!: part_doubleI [where a = "''_meta''" and b = "''_throttle''"])
  next
    case False
    then show ?thesis
      using assms r by (auto simp: NewContainerSource_def part_defs intro!: part_singleI)
  qed
qed

lemma audit_parts:
  "part_at (input_Name inp) ''_host'' (NewAuditAuditdSource env inp)"
  "part_at (input_Name inp) ''_kube'' (NewK8sAuditSource env inp)"
  "part_at (input_Name inp) ''_openshift'' (NewOpenshiftAuditSource env inp)"
  "part_at (input_Name inp) ''_ovn'' (NewOVNAuditSource env inp)"
  by (simp_all add: NewAuditAuditdSource_def NewK8sAuditSource_def NewOpenshiftAuditSource_def
        NewOVNAuditSource_def part_defs part_singleI)

lemma journal_part: "part_at (input_Name inp) ''_journal'' (NewJournalInput inp)"
  by (simp add: NewJournalInput_def part_defs part_singleI)

lemma receiver_part:
  assumes "NewViaqReceiverSource env inp secrets op = Inr p"
  shows "part_at (input_Name inp) [] p"
proof -
  obtain recv where recv: "input_Receiver inp = Some recv"
    using assms by (cases "input_Receiver inp") (simp_all add: NewViaqReceiverSource_def Let_def)
  show ?thesis
    using assms recv
    by (cases "recv_Type recv")
      (auto simp: NewViaqReceiverSource_def part_defs
         intro!: part_singleI part_doubleI [where a = "''_items''" and b = "''_meta''"])
qed

lemma apart_purposes:
  "apart x {}" "apart ''_journal'' {''_container''}" "apart ''_kube'' {''_host''}"
  "apart ''_openshift'' {''_kube'', ''_host''}" "apart ''_ovn'' {''_openshift'', ''_kube'', ''_host''}"
  by (simp_all add: apart_def)

lemma parts_at_ok: "parts_at name X acc \<Longrightarrow> parts_ok acc"
  by (simp add: parts_at_def split: prod.splits)

lemma foldl_if: "foldl f a (if b then [p] else []) = (if b then f a p else a)"
  by simp

text \<open>The invariant of every branch of \<open>NewSource\<close>: its parts are in order, and lie at known places.\<close>

definition input_places :: "string set" where
  "input_places = {[], ''_container'', ''_journal'', ''_host'', ''_kube'', ''_openshift'', ''_ovn''}"

lemma parts_at_places:
  assumes "parts_at name X acc" "X \<subseteq> input_places"
  shows "parts_at name input_places acc"
  using assms unfolding parts_at_def by (blast dest: subsetD)

lemma parts_at_one: "part_at name x p \<Longrightarrow> parts_at name {x} (add_parts (Map.empty, Map.empty, []) p)"
  by (rule parts_at_add [OF parts_at_none _ apart_purposes(1)])

lemma infrastructure_parts:
  assumes "(if b then go_bind (NewContainerSource env lks inp incl excl t src)
              (\<lambda>parts. Inr (add_parts (Map.empty, Map.empty, []) parts)) else Inr (Map.empty, Map.empty, []))
           = Inr acc"
  shows "parts_at (input_Name inp) {''_journal'', ''_container''} (if c then add_parts acc (NewJournalInput inp) else acc)"
proof -
  have "parts_at (input_Name inp) {''_container''} acc"
    using assms parts_at_one [OF container_part] parts_at_mono [OF parts_at_none]
    by (auto simp: go_bind_Inr_iff split: if_splits)
  from parts_at_if [OF this journal_part apart_purposes(2)] show ?thesis .
qed

lemma audit_parts_at:
  "parts_at (input_Name inp) {''_ovn'', ''_openshift'', ''_kube'', ''_host''} (foldl add_parts (Map.empty, Map.empty, [])
     ((if b1 then [NewAuditAuditdSource env inp] else []) @ (if b2 then [NewK8sAuditSource env inp] else [])
      @ (if b3 then [NewOpenshiftAuditSource env inp] else []) @ (if b4 then [NewOVNAuditSource env inp] else [])))"
proof -
  note host = parts_at_if [OF parts_at_none audit_parts(1) apart_purposes(1), of inp b1 env]
  note kube = parts_at_if [OF host audit_parts(2) apart_purposes(3), of b2 env]
  note openshift = parts_at_if [OF kube audit_parts(3) apart_purposes(4), of b3 env]
  note ovn = parts_at_if [OF openshift audit_parts(4) apart_purposes(5), of b4 env]
  show ?thesis unfolding foldl_append foldl_if by (rule ovn)
qed

lemma NewSource_parts_at:
  assumes "NewSource env lks inp secrets op = Inr (parts, op')"
  shows "parts_at (input_Name inp) input_places parts"
proof (cases "input_Type inp")
  case InputTypeApplication
  then obtain p where p: "NewContainerSource env lks inp (fst (application_globs inp))
      (snd (application_globs inp)) InputTypeApplication (FromInfrastructure InfrastructureSourceContainer) = Inr p"
    and parts: "parts = add_parts (Map.empty, Map.empty, []) p"
    using assms by (auto simp: NewSource_def Let_def go_bind_Inr_iff)
  show ?thesis
    unfolding parts
    by (rule parts_at_places [OF parts_at_one [OF container_part [OF p]]]) (simp add: input_places_def)
next
  case InputTypeInfrastructure
  then obtain acc where acc: "(if InfrastructureSourceContainer \<in> infra_sources_of inp
       then go_bind (NewContainerSource env lks inp
              (Build [] (AddNamespaces infraNamespaces NewContainerPathGlobBuilder)) loggingExcludes
              InputTypeInfrastructure (FromInfrastructure InfrastructureSourceContainer))
              (\<lambda>parts. Inr (add_parts (Map.empty, Map.empty, []) parts))
       else Inr (Map.empty, Map.empty, [])) = Inr acc"
    and parts: "parts = (if InfrastructureSourceNode \<in> infra_sources_of inp
                         then add_parts acc (NewJournalInput inp) else acc)"
    using assms by (auto simp: NewSource_def Let_def go_bind_Inr_iff simp del: split_paired_Ex)
  show ?thesis
    unfolding parts by (rule parts_at_places [OF infrastructure_parts [OF acc]]) (simp add: input_places_def)
next
  case InputTypeAudit
  then have "parts = foldl add_parts (Map.empty, Map.empty, [])
     ((if AuditSourceAuditd \<in> audit_sources_of inp then [NewAuditAuditdSource env inp] else [])
      @ (if AuditSourceKube \<in> audit_sources_of inp then [NewK8sAuditSource env inp] else [])
      @ (if AuditSourceOpenShift \<in> audit_sources_of inp then [NewOpenshiftAuditSource env inp] else [])
      @ (if AuditSourceOVN \<in> audit_sources_of inp then [NewOVNAuditSource env inp] else []))"
    using assms by (simp only: NewSource_def Let_def InputType.case) simp
  then show ?thesis
    by (simp only:) (rule parts_at_places [OF audit_parts_at], simp add: input_places_def)
next
  case InputTypeReceiver
  then obtain p op1 where p: "NewViaqReceiverSource env inp secrets op1 = Inr p"
    and parts: "parts = add_parts (Map.empty, Map.empty, []) p"
    using assms by (auto simp: NewSource_def Let_def go_bind_Inr_iff)
  show ?thesis
    unfolding parts
    by (rule parts_at_places [OF parts_at_one [OF receiver_part [OF p]]]) (simp add: input_places_def)
next
  case (InputTypeOther x)
  then have "parts = (Map.empty, Map.empty, [])" using assms by (simp add: NewSource_def Let_def)
  then show ?thesis using parts_at_places [OF parts_at_none] by simp
qed

lemma NewSource_parts: "NewSource env lks inp secrets op = Inr (parts, op') \<Longrightarrow> parts_ok parts"
  by (rule parts_at_ok [OF NewSource_parts_at])

section \<open>When a source can be made\<close>

lemma returns_MaxRecordsPerSecond:
  "returns (MaxRecordsPerSecond inp) \<longleftrightarrow>
     (\<exists>limit. Option.bind (input_Application inp) (\<lambda>app. Option.bind (app_Tuning app) citune_RateLimitPerContainer) = Some limit)
     \<or> returns (infra_rate_limit inp)"
  by (auto simp: MaxRecordsPerSecond_def returns_go_bind split: option.splits)

lemma returns_NewContainerSource:
  "returns (NewContainerSource env lks inp incl excl t src) \<longleftrightarrow> returns (MaxRecordsPerSecond inp)"
  by (auto simp: NewContainerSource_def Let_def returns_go_bind split: prod.splits)

definition infra_tuning_ok :: "InputSpec \<Rightarrow> bool" where
  "infra_tuning_ok inp =
     (case Option.bind (input_Infrastructure inp) infra_Tuning of
        None \<Rightarrow> True | Some tuning \<Rightarrow> infratune_Container tuning \<noteq> None)"

lemma returns_infra_rate_limit: "returns (infra_rate_limit inp) \<longleftrightarrow> infra_tuning_ok inp"
  by (auto simp: infra_rate_limit_def infra_tuning_ok_def returns_go_bind split: option.splits)

definition receiver_known :: "InputSpec \<Rightarrow> bool" where
  "receiver_known inp =
     (case input_Receiver inp of
        None \<Rightarrow> False
      | Some recv \<Rightarrow> recv_Type recv = ReceiverTypeSyslog \<or> recv_Type recv = ReceiverTypeHTTP)"

lemma returns_receiver: "returns (NewViaqReceiverSource env inp secrets op) \<longleftrightarrow> receiver_known inp"
  by (auto simp: NewViaqReceiverSource_def receiver_known_def Let_def returns_go_bind
        split: option.splits ReceiverType.splits)

definition sample_audit :: InputSpec where
  "sample_audit =
     InputSpec_zero\<lparr>input_Name := ''my-audit'', input_Type := InputTypeAudit,
       input_Audit := Some \<lparr>audit_Sources = [AuditSourceAuditd], audit_Tuning = None\<rparr>\<rparr>"

section \<open>Properties\<close>

text \<open>
  C19. Whatever the input, the identifiers that its source hands to the pipelines, and all the
  transforms it adds, are fed by chains that start at its sources, and every source of the input
  is read by one of these identifiers: no record that a source collects is lost before a pipeline.
\<close>

theorem NewSource_delivers:
  assumes "NewSource env lks inp secrets op = Inr ((sources, tfs, ids), op')"
  shows "(\<forall>i. i \<in> set ids \<or> tfs i \<noteq> None \<longrightarrow> delivers sources tfs i)
         \<and> (\<forall>i. sources i \<noteq> None \<longrightarrow> (\<exists>j\<in>set ids. (reads tfs)\<^sup>+\<^sup>+ j i))"
  using NewSource_parts [OF assms] unfolding parts_ok_def prod.case .

theorem NewSource_delivers_witness:
  "\<exists>sources tfs ids op'. NewSource sample_env [] sample_audit Map.empty NoOptions = Inr ((sources, tfs, ids), op')
     \<and> ids = [''input_my_audit_host_meta''] \<and> delivers sources tfs ''input_my_audit_host_meta''"
proof -
  have id: "input_id ''my-audit'' = ''input_my_audit''"
    "FormatComponentID ''input_my_audit_host'' = ''input_my_audit_host''" by code_simp+
  obtain sources tfs ids op' where
    r: "NewSource sample_env [] sample_audit Map.empty NoOptions = Inr ((sources, tfs, ids), op')"
    and ids: "ids = [''input_my_audit_host_meta'']"
    using id by (auto simp: NewSource_def sample_audit_def audit_sources_of_def add_parts_def
        NewAuditAuditdSource_def part_defs)
  with NewSource_delivers [OF r] show ?thesis by auto
qed

text \<open>
  C29. The source of an input is made exactly when the code does not panic: a receiver needs its
  block and a known type, and a container input with infrastructure tuning needs the container
  block in it, unless the limit of an application is found first.
\<close>

theorem NewSource_returns_iff:
  "returns (NewSource env lks inp secrets op) \<longleftrightarrow>
     (input_Type inp = InputTypeReceiver \<and> receiver_known inp)
     \<or> (input_Type inp = InputTypeInfrastructure \<and> InfrastructureSourceContainer \<notin> infra_sources_of inp)
     \<or> ((input_Type inp = InputTypeApplication
          \<or> (input_Type inp = InputTypeInfrastructure \<and> InfrastructureSourceContainer \<in> infra_sources_of inp))
        \<and> (infra_tuning_ok inp
           \<or> Option.bind (input_Application inp) (\<lambda>app. Option.bind (app_Tuning app) citune_RateLimitPerContainer) \<noteq> None))
     \<or> input_Type inp = InputTypeAudit \<or> (\<exists>t. input_Type inp = InputTypeOther t)"
  by (cases "input_Type inp")
    (auto simp: NewSource_def Let_def returns_go_bind returns_receiver returns_NewContainerSource
      returns_MaxRecordsPerSecond returns_infra_rate_limit)

theorem NewSource_returns_iff_witness: "returns (NewSource sample_env [] sample_audit Map.empty NoOptions)"
  using NewSource_returns_iff [of sample_env "[]" sample_audit Map.empty NoOptions]
  by (simp add: sample_audit_def)

end
