(* ===== verification/Vector_Lokistack.thy ===== *)
theory Vector_Lokistack
  imports Vector_Loki Vector_Inputs
begin

text \<open>
  The LokiStack output (\<open>output/lokistack\<close>): one Loki or OTLP sink for each tenant that the inputs of
  the output belong to, behind a route by the type of the log.
\<close>

section \<open>LokiStack (output/lokistack)\<close>

definition getTenantForReceiver :: "ReceiverType \<Rightarrow> string" where
  "getTenantForReceiver t =
     (if t = ReceiverTypeHTTP then InputType_String InputTypeAudit else InputType_String InputTypeInfrastructure)"

definition tenants_of :: "InputSpec \<Rightarrow> string list go" where
  "tenants_of i =
     (case input_Type i of
        InputTypeApplication \<Rightarrow>
          ret ([InputType_String InputTypeApplication]
               @ (if IncludesInfraNamespace (input_Application i)
                  then [InputType_String InputTypeInfrastructure] else []))
      | InputTypeAudit \<Rightarrow> ret [InputType_String InputTypeAudit]
      | InputTypeInfrastructure \<Rightarrow> ret [InputType_String InputTypeInfrastructure]
      | InputTypeReceiver \<Rightarrow>
          go_bind (deref (input_Receiver i)) (\<lambda>r. ret [getTenantForReceiver (recv_Type r)])
      | InputTypeOther _ \<Rightarrow> ret [])"

definition determineTenants :: "InputSpec list \<Rightarrow> string list go" where
  "determineTenants inputSpecs = go_bind (go_mapM tenants_of inputSpecs) (\<lambda>ts. ret (sorted_set (concat ts)))"

definition buildRoutes :: "string list \<Rightarrow> (string \<rightharpoonup> string)" where
  "buildRoutes tenants =
     foldl (\<lambda>routes tenant. routes(tenant \<mapsto> ''.log_type == '' @ Quote tenant)) Map.empty tenants"

definition addReceiverSources :: "InputSpec list \<Rightarrow> string \<Rightarrow> string list go" where
  "addReceiverSources inputSpecs inputType =
     go_bind (go_mapM (\<lambda>is.
         if input_Type is \<noteq> InputTypeReceiver then ret []
         else if inputType = InputType_String InputTypeAudit
         then go_bind (deref (input_Receiver is)) (\<lambda>r.
                ret (if recv_Type r = ReceiverTypeHTTP then [''receiver.http''] else []))
         else if inputType = InputType_String InputTypeInfrastructure
         then go_bind (deref (input_Receiver is)) (\<lambda>r.
                ret (if recv_Type r = ReceiverTypeSyslog then [''receiver.syslog''] else []))
         else ret []) inputSpecs)
       (\<lambda>xs. ret (concat xs))"

text \<open>The type of input that a tenant's name stands for; names of tenants are reserved input types.\<close>

definition tenant_type :: "string \<Rightarrow> InputType" where
  "tenant_type t =
     (if t = InputType_String InputTypeApplication then InputTypeApplication
      else if t = InputType_String InputTypeInfrastructure then InputTypeInfrastructure
      else if t = InputType_String InputTypeAudit then InputTypeAudit else InputTypeOther t)"

definition getInputSources :: "InputSpec list \<Rightarrow> string \<Rightarrow> string list go" where
  "getInputSources inputSpecs inputType =
     go_bind (addReceiverSources inputSpecs inputType) (\<lambda>extra.
       ret (InputSources inputSpecs (tenant_type inputType) @ extra))"

definition lokiStackGatewayService :: "string \<Rightarrow> string" where
  "lokiStackGatewayService name = name @ ''-gateway-http''"

definition lokiStackURL :: "LokiStack \<Rightarrow> string \<Rightarrow> bool \<Rightarrow> string" where
  "lokiStackURL ls tenant otlp =
     (if tenant \<notin> set ReservedInputTypes then []
      else
        (let baseURL = ''https://'' @ lokiStackGatewayService (lstarget_Name (lokistack_Target ls)) @ ''.''
               @ lstarget_Namespace (lokistack_Target ls) @ ''.svc:8080/api/logs/v1/'' @ tenant
         in if otlp then baseURL @ ''/otlp/v1/logs'' else baseURL))"

definition lokiStackLabelKeysForTenant ::
  "LokiStackLabelKeys option \<Rightarrow> string \<Rightarrow> string list \<Rightarrow> string list" where
  "lokiStackLabelKeysForTenant labelKeys tenant defaultKeys =
     (case labelKeys of
        None \<Rightarrow> []
      | Some lk \<Rightarrow>
          (let tenantConfig = (case tenant_type tenant of
                 InputTypeApplication \<Rightarrow> labelkeys_Application lk
               | InputTypeInfrastructure \<Rightarrow> labelkeys_Infrastructure lk
               | InputTypeAudit \<Rightarrow> labelkeys_Audit lk
               | _ \<Rightarrow> None);
               own = (case tenantConfig of None \<Rightarrow> [] | Some c \<Rightarrow> tenantkeys_LabelKeys c);
               ignoreGlobal = (case tenantConfig of None \<Rightarrow> False | Some c \<Rightarrow> tenantkeys_IgnoreGlobal c);
               keys = (if ignoreGlobal then own
                       else if labelkeys_Global lk \<noteq> [] then own @ labelkeys_Global lk
                       else if own \<noteq> [] then own @ defaultKeys else own)
           in if 1 < length keys then remdups_adj (sort keys) else keys))"

definition GenerateLokiSpec :: "LokiStack \<Rightarrow> string \<Rightarrow> Loki go" where
  "GenerateLokiSpec ls tenant =
     (let url = lokiStackURL ls tenant False
      in if url = [] then Inl (PanicWith ''LokiStack output has no valid URL'')
         else
           go_bind (deref (lokistack_Authentication ls)) (\<lambda>auth.
             ret \<lparr>loki_Authentication = Some \<lparr>httpauth_Token = lsauth_Token auth, httpauth_Username = None,
                                              httpauth_Password = None\<rparr>,
                  loki_Tuning = lokistack_Tuning ls, loki_URL = url,
                  loki_LabelKeys = lokiStackLabelKeysForTenant (lokistack_LabelKeys ls) tenant DefaultLabelKeys,
                  loki_TenantKey = [], loki_ProxyURL = []\<rparr>))"

definition GenerateOtlpSpec :: "LokiStack \<Rightarrow> string \<Rightarrow> OTLP go" where
  "GenerateOtlpSpec ls tenant =
     go_bind (deref (lokistack_Authentication ls)) (\<lambda>auth.
       ret \<lparr>otlp_URL = lokiStackURL ls tenant True,
            otlp_Authentication = Some \<lparr>httpauth_Token = lsauth_Token auth, httpauth_Username = None,
                                        httpauth_Password = None\<rparr>,
            otlp_Tuning = lokistack_Tuning ls\<rparr>)"

definition GenerateOutput :: "OutputSpec \<Rightarrow> string \<Rightarrow> OutputSpec go" where
  "GenerateOutput outSpec tenant =
     (let obsOut = OutputSpec_zero\<lparr>output_Name := output_Name outSpec @ ''-'' @ tenant,
                                   output_TLS := output_TLS outSpec, output_Limit := output_Limit outSpec\<rparr>
      in go_bind (deref (output_LokiStack outSpec)) (\<lambda>ls.
           if lokistack_DataModel ls = LokiStackDataModelOpenTelemetry
           then go_bind (GenerateOtlpSpec ls tenant) (\<lambda>spec.
                  ret (obsOut\<lparr>output_Type := OutputTypeOTLP, output_OTLP := Some spec\<rparr>))
           else go_bind (GenerateLokiSpec ls tenant) (\<lambda>spec.
                  ret (obsOut\<lparr>output_Type := OutputTypeLoki, output_Loki := Some spec\<rparr>))))"

definition generateSinkForTenant ::
  "Env \<Rightarrow> string \<Rightarrow> string \<Rightarrow> string \<Rightarrow> OutputSpec \<Rightarrow> InputSpec list \<Rightarrow> Secrets \<Rightarrow> Options
   \<Rightarrow> (output_parts \<times> Options) go" where
  "generateSinkForTenant env oid routeID inputType o' inputSpecs secrets op =
     (let outputID = MakeID [oid, inputType]; factoryInput = MakeRouteInputID routeID inputType
      in go_bind (GenerateOutput o' inputType) (\<lambda>migrated.
           if output_Type migrated = OutputTypeOTLP
           then go_bind (getInputSources inputSpecs inputType) (\<lambda>sources.
                  otlp_New env outputID migrated [factoryInput] secrets
                    (op\<lparr>op_OtlpLogSources := Some sources, op_MigratedFromLokistack := Some True\<rparr>))
           else go_bind (loki_New env outputID migrated [factoryInput] secrets op) (\<lambda>parts. ret (parts, op))))"

text \<open>A turn of the loop over tenants.\<close>

definition add_tenant ::
  "Env \<Rightarrow> string \<Rightarrow> string \<Rightarrow> OutputSpec \<Rightarrow> InputSpec list \<Rightarrow> Secrets
   \<Rightarrow> (Sinks \<times> Transforms) \<times> Options \<Rightarrow> string \<Rightarrow> ((Sinks \<times> Transforms) \<times> Options) go" where
  "add_tenant env oid routeID o' inputSpecs secrets st tenant =
     (case st of ((sinks, tfs), op) \<Rightarrow>
        go_bind (generateSinkForTenant env oid routeID tenant o' inputSpecs secrets op)
          (\<lambda>((tenantId, tenantSink, tenantTfs), op).
             ret ((sinks(tenantId \<mapsto> tenantSink), tfs ++ tenantTfs), op)))"

definition lokistack_New ::
  "Env \<Rightarrow> string \<Rightarrow> OutputSpec \<Rightarrow> string list \<Rightarrow> Secrets \<Rightarrow> Options \<Rightarrow> ((Sinks \<times> Transforms) \<times> Options) go" where
  "lokistack_New env oid o' inputs secrets op =
     (case op_CLFSpec op of
        None \<Rightarrow> Inl (PanicWith ''ClusterLogForwarderSpec not found while generating LokiStack config'')
      | Some clfSpec \<Rightarrow>
          if spec_Inputs clfSpec = [] \<or> spec_Pipelines clfSpec = [] \<or> spec_Outputs clfSpec = []
          then Inl (PanicWith ''ClusterLogForwarderSpec not found while generating LokiStack config'')
          else
            (let otel = (case output_LokiStack o' of
                           None \<Rightarrow> False | Some ls \<Rightarrow> lokistack_DataModel ls = LokiStackDataModelOpenTelemetry);
                 traceID = MakeID [oid, ''trace'', ''context''];
                 traced = (if otel then [traceID \<mapsto> TransformTraceContext inputs] else Map.empty);
                 routeInputs = (if otel then [traceID] else inputs);
                 inputSpecs = InputSpecsTo (env_InputOrder env o') clfSpec o';
                 routeID = MakeID [oid, ''route'']
             in go_bind (determineTenants inputSpecs) (\<lambda>tenants.
                  case NewUnmatched routeID op
                         [''output_type'' \<mapsto> ToLower (OutputType_String OutputTypeLokiStack)] of
                    (unmatched, op') \<Rightarrow>
                      go_fold (add_tenant env oid routeID o' inputSpecs secrets)
                        ((Map.empty,
                          traced(routeID \<mapsto> NewRoute (\<lambda>r. r\<lparr>route_Routes := buildRoutes tenants\<rparr>) routeInputs,
                                 MakeID [routeID, Unmatched] \<mapsto> unmatched)), op') tenants)))"


section \<open>Tenants and their sources\<close>

text \<open>What the loops over inputs collect when every receiver has a known type.\<close>

definition tenant_names :: "InputSpec \<Rightarrow> string list" where
  "tenant_names i =
     (case input_Type i of
        InputTypeApplication \<Rightarrow>
          ''application'' # (if IncludesInfraNamespace (input_Application i) then [''infrastructure''] else [])
      | InputTypeAudit \<Rightarrow> [''audit'']
      | InputTypeInfrastructure \<Rightarrow> [''infrastructure'']
      | InputTypeReceiver \<Rightarrow>
          [if map_option recv_Type (input_Receiver i) = Some ReceiverTypeHTTP then ''audit'' else ''infrastructure'']
      | InputTypeOther _ \<Rightarrow> [])"

definition receiver_sources :: "string \<Rightarrow> InputSpec \<Rightarrow> string list" where
  "receiver_sources t i =
     (if input_Type i \<noteq> InputTypeReceiver then []
      else if t = ''audit'' \<and> map_option recv_Type (input_Receiver i) = Some ReceiverTypeHTTP then [''receiver.http'']
      else if t = ''infrastructure'' \<and> map_option recv_Type (input_Receiver i) = Some ReceiverTypeSyslog
      then [''receiver.syslog''] else [])"

definition receivers_known :: "InputSpec list \<Rightarrow> bool" where
  "receivers_known ins \<longleftrightarrow> (\<forall>i\<in>set ins. input_Type i = InputTypeReceiver \<longrightarrow> receiver_known i)"

lemma receivers_knownD:
  "receivers_known ins \<Longrightarrow> i \<in> set ins \<Longrightarrow> input_Type i = InputTypeReceiver \<Longrightarrow>
   \<exists>r. input_Receiver i = Some r \<and> (recv_Type r = ReceiverTypeHTTP \<or> recv_Type r = ReceiverTypeSyslog)"
  by (auto simp: receivers_known_def receiver_known_def split: option.splits)

lemma determineTenants_names:
  assumes "receivers_known ins"
  shows "determineTenants ins = Inr (sorted_set (concat (map tenant_names ins)))"
proof -
  have "tenants_of i = Inr (tenant_names i)" if "i \<in> set ins" for i
    using receivers_knownD [OF assms that]
    by (cases "input_Type i") (auto simp: tenants_of_def tenant_names_def getTenantForReceiver_def)
  then show ?thesis by (simp add: determineTenants_def go_mapM_ret [of ins tenants_of tenant_names])
qed

lemma addReceiverSources_names:
  assumes "receivers_known ins"
  shows "addReceiverSources ins t = Inr (concat (map (receiver_sources t) ins))"
  unfolding addReceiverSources_def
proof (subst go_mapM_ret [of ins _ "receiver_sources t"])
  fix i assume "i \<in> set ins"
  then have "input_Type i = InputTypeReceiver \<longrightarrow>
      (\<exists>r. input_Receiver i = Some r \<and> (recv_Type r = ReceiverTypeHTTP \<or> recv_Type r = ReceiverTypeSyslog))"
    using receivers_knownD [OF assms] by blast
  then show "(if input_Type i \<noteq> InputTypeReceiver then ret []
         else if t = InputType_String InputTypeAudit
         then go_bind (deref (input_Receiver i)) (\<lambda>r.
                ret (if recv_Type r = ReceiverTypeHTTP then [''receiver.http''] else []))
         else if t = InputType_String InputTypeInfrastructure
         then go_bind (deref (input_Receiver i)) (\<lambda>r.
                ret (if recv_Type r = ReceiverTypeSyslog then [''receiver.syslog''] else []))
         else ret []) = Inr (receiver_sources t i)"
    by (auto simp: receiver_sources_def)
qed simp

lemma input_sources_ne:
  "input_Type i \<in> {InputTypeApplication, InputTypeInfrastructure, InputTypeAudit} \<Longrightarrow> input_sources_of i \<noteq> []"
proof -
  have "ReservedApplicationSources \<noteq> []" "ReservedInfrastructureSources \<noteq> []" "ReservedAuditSources \<noteq> []"
    by (code_simp)+
  then show "input_Type i \<in> {InputTypeApplication, InputTypeInfrastructure, InputTypeAudit} \<Longrightarrow> ?thesis"
    by (auto simp: input_sources_of_def split: option.splits)
qed

definition tenant_sources :: "InputSpec list \<Rightarrow> string \<Rightarrow> string list" where
  "tenant_sources ins t = InputSources ins (tenant_type t) @ concat (map (receiver_sources t) ins)"

lemma getInputSources_names: "receivers_known ins \<Longrightarrow> getInputSources ins t = Inr (tenant_sources ins t)"
  by (simp add: getInputSources_def addReceiverSources_names tenant_sources_def)

lemma sorted_set_Nil_iff: "sorted_set xs = [] \<longleftrightarrow> xs = []"
  by (metis set_empty set_sorted_set)

lemma tenant_sources_ne:
  assumes "tenant_type t \<in> {InputTypeApplication, InputTypeInfrastructure, InputTypeAudit}"
  shows "tenant_sources ins t \<noteq> [] \<longleftrightarrow> (\<exists>i\<in>set ins. input_Type i = tenant_type t \<or> receiver_sources t i \<noteq> [])"
  using assms input_sources_ne
  by (fastforce simp: tenant_sources_def InputSources_def sorted_set_Nil_iff)

lemma tenant_is:
  assumes "t \<in> set (tenant_names i)"
  shows "t = ''application'' \<or> t = ''infrastructure'' \<or> t = ''audit''"
  using assms by (auto simp: tenant_names_def split: InputType.splits if_splits)

lemma tenant_type_simps [simp]:
  "tenant_type ''application'' = InputTypeApplication" "tenant_type ''infrastructure'' = InputTypeInfrastructure"
  "tenant_type ''audit'' = InputTypeAudit"
  by (simp_all add: tenant_type_def)

lemma tenant_has_source:
  assumes "t \<in> set (tenant_names i)" "t \<noteq> ''infrastructure''"
  shows "input_Type i = tenant_type t \<or> receiver_sources t i \<noteq> []"
proof (cases "input_Type i")
  case InputTypeApplication
  then have "t = ''application''"
    using assms by (cases "IncludesInfraNamespace (input_Application i)") (auto simp only: tenant_names_def InputType.simps if_True if_False list.set insert_iff empty_iff)
  then show ?thesis using InputTypeApplication by simp
next
  case InputTypeAudit
  then have "t = ''audit''" using assms(1) by (simp add: tenant_names_def)
  then show ?thesis using InputTypeAudit by simp
next
  case InputTypeInfrastructure
  then have "t = ''infrastructure''" using assms(1) by (simp add: tenant_names_def)
  with assms(2) show ?thesis by contradiction
next
  case InputTypeReceiver
  have "map_option recv_Type (input_Receiver i) = Some ReceiverTypeHTTP \<and> t = ''audit''"
  proof (cases "map_option recv_Type (input_Receiver i) = Some ReceiverTypeHTTP")
    case True
    then show ?thesis using assms(1) InputTypeReceiver by (simp add: tenant_names_def)
  next
    case False
    then have "t = ''infrastructure''" using assms(1) InputTypeReceiver by (simp add: tenant_names_def)
    with assms(2) show ?thesis by contradiction
  qed
  then show ?thesis using InputTypeReceiver by (simp add: receiver_sources_def)
next
  case (InputTypeOther s)
  then show ?thesis using assms(1) by (simp add: tenant_names_def)
qed

lemma tenant_reserved: "t \<in> set (tenant_names i) \<Longrightarrow> t \<in> set ReservedInputTypes"
  using tenant_is [of t i] by (auto simp: ReservedInputTypes_def)

section \<open>When the sinks can be made\<close>

lemma returns_loki_New: "returns (loki_New env oid o' inputs secrets op) \<longleftrightarrow> output_Loki o' \<noteq> None"
  by (auto simp: loki_New_def Let_def returns_go_bind)

lemma returns_otlp_New:
  "returns (otlp_New env oid o' inputs secrets op) \<longleftrightarrow> otlp_sources op \<noteq> [] \<and> output_OTLP o' \<noteq> None"
  by (auto simp: otlp_New_def Let_def returns_go_bind otlp_sources_def split: prod.splits)

lemma GenerateOutput_result:
  assumes "output_LokiStack o' = Some ls" "lokistack_Authentication ls = Some auth" "t \<in> set ReservedInputTypes"
  shows "\<exists>m. GenerateOutput o' t = Inr m
     \<and> (if lokistack_DataModel ls = LokiStackDataModelOpenTelemetry
         then output_Type m = OutputTypeOTLP \<and> output_OTLP m \<noteq> None
         else output_Type m = OutputTypeLoki \<and> output_Loki m \<noteq> None)"
  using assms
  by (auto simp: GenerateOutput_def GenerateOtlpSpec_def GenerateLokiSpec_def lokiStackURL_def Let_def)

lemma returns_generateSinkForTenant:
  assumes "output_LokiStack o' = Some ls" "lokistack_Authentication ls = Some auth" "t \<in> set ReservedInputTypes"
    and "receivers_known ins"
  shows "returns (generateSinkForTenant env oid routeID t o' ins secrets op) \<longleftrightarrow>
    (lokistack_DataModel ls = LokiStackDataModelOpenTelemetry \<longrightarrow> tenant_sources ins t \<noteq> [])"
proof -
  obtain m where m: "GenerateOutput o' t = Inr m"
    "if lokistack_DataModel ls = LokiStackDataModelOpenTelemetry
     then output_Type m = OutputTypeOTLP \<and> output_OTLP m \<noteq> None
     else output_Type m = OutputTypeLoki \<and> output_Loki m \<noteq> None"
    using GenerateOutput_result [OF assms(1-3)] by blast
  show ?thesis
    using m(2)
    by (auto simp: generateSinkForTenant_def Let_def m(1) getInputSources_names [OF assms(4)] returns_go_bind
        returns_otlp_New returns_loki_New otlp_sources_def GetOption_def split: if_splits)
qed

lemma returns_go_fold:
  assumes "\<And>s x. x \<in> set xs \<Longrightarrow> returns (f s x) \<longleftrightarrow> P x"
  shows "returns (go_fold f s xs) \<longleftrightarrow> (\<forall>x\<in>set xs. P x)"
  using assms
proof (induction xs arbitrary: s)
  case (Cons x xs)
  then show ?case by (auto simp: returns_go_bind)
qed simp

definition spec_complete :: "ClusterLogForwarderSpec \<Rightarrow> bool" where
  "spec_complete spec \<longleftrightarrow> spec_Inputs spec \<noteq> [] \<and> spec_Pipelines spec \<noteq> [] \<and> spec_Outputs spec \<noteq> []"

lemma returns_lokistack_New:
  assumes "op_CLFSpec op = Some spec" "spec_complete spec"
    and "output_LokiStack o' = Some ls" "lokistack_Authentication ls = Some auth"
    and "ins = InputSpecsTo (env_InputOrder env o') spec o'" "receivers_known ins"
  shows "returns (lokistack_New env oid o' inputs secrets op) \<longleftrightarrow>
    (lokistack_DataModel ls = LokiStackDataModelOpenTelemetry \<longrightarrow>
       (\<forall>i\<in>set ins. \<forall>t\<in>set (tenant_names i). tenant_sources ins t \<noteq> []))"
proof -
  have "returns (add_tenant env oid (MakeID [oid, ''route'']) o' ins secrets s t)
      \<longleftrightarrow> (lokistack_DataModel ls = LokiStackDataModelOpenTelemetry \<longrightarrow> tenant_sources ins t \<noteq> [])"
    if "t \<in> set (sorted_set (concat (map tenant_names ins)))" for t s
  proof -
    have "t \<in> set ReservedInputTypes" using that tenant_reserved by auto
    then show ?thesis
      using returns_generateSinkForTenant [OF assms(3,4) _ assms(6)]
      by (simp add: add_tenant_def returns_go_bind split_beta)
  qed
  then have fold: "returns (go_fold (add_tenant env oid (MakeID [oid, ''route'']) o' ins secrets) s0
        (sorted_set (concat (map tenant_names ins))))
      \<longleftrightarrow> (\<forall>t\<in>set (sorted_set (concat (map tenant_names ins))).
            lokistack_DataModel ls = LokiStackDataModelOpenTelemetry \<longrightarrow> tenant_sources ins t \<noteq> [])" for s0
    by (rule returns_go_fold)
  show ?thesis
    using assms(1,2)
    by (simp add: lokistack_New_def Let_def assms(5) [symmetric] determineTenants_names [OF assms(6)]
        spec_complete_def split_beta fold)
qed

section \<open>Properties\<close>

text \<open>
  C20. The sinks of a LokiStack output whose inputs resolve are made without a panic, except with the
  OpenTelemetry data model when an application input selects a namespace of the infrastructure while
  no infrastructure input and no syslog receiver goes to the output: the infrastructure tenant then
  has no log source, and the generator panics.
\<close>

theorem lokistack_returns_iff:
  assumes "op_CLFSpec op = Some spec" "spec_complete spec"
    and "output_LokiStack o' = Some ls" "lokistack_Authentication ls = Some auth"
    and "ins = InputSpecsTo (env_InputOrder env o') spec o'" "receivers_known ins"
  shows "returns (lokistack_New env oid o' inputs secrets op) \<longleftrightarrow>
    \<not> (lokistack_DataModel ls = LokiStackDataModelOpenTelemetry
       \<and> (\<exists>i\<in>set ins. input_Type i = InputTypeApplication \<and> IncludesInfraNamespace (input_Application i))
       \<and> (\<forall>i\<in>set ins. input_Type i \<noteq> InputTypeInfrastructure
            \<and> (input_Type i = InputTypeReceiver \<longrightarrow> map_option recv_Type (input_Receiver i) = Some ReceiverTypeHTTP)))"
proof -
  define infra where "infra j \<longleftrightarrow> input_Type j = InputTypeInfrastructure
      \<or> (input_Type j = InputTypeReceiver \<and> map_option recv_Type (input_Receiver j) \<noteq> Some ReceiverTypeHTTP)" for j :: InputSpec
  define app where "app i \<longleftrightarrow> input_Type i = InputTypeApplication \<and> IncludesInfraNamespace (input_Application i)" for i :: InputSpec
  have named: "''infrastructure'' \<in> set (tenant_names i) \<longleftrightarrow> infra i \<or> app i" for i
    by (auto simp: tenant_names_def infra_def app_def split: InputType.splits)
  have "input_Type j = InputTypeInfrastructure \<or> receiver_sources ''infrastructure'' j \<noteq> [] \<longleftrightarrow> infra j"
    if "j \<in> set ins" for j
    using receivers_knownD [OF assms(6) that] by (auto simp: receiver_sources_def infra_def)
  then have infra_sources: "tenant_sources ins ''infrastructure'' \<noteq> [] \<longleftrightarrow> (\<exists>j\<in>set ins. infra j)"
    by (simp add: tenant_sources_ne)
  have other: "tenant_sources ins t \<noteq> []" if "i \<in> set ins" "t \<in> set (tenant_names i)" "t \<noteq> ''infrastructure''" for i t
  proof -
    have "input_Type i = tenant_type t \<or> receiver_sources t i \<noteq> []"
      by (rule tenant_has_source [OF that(2,3)])
    moreover have "tenant_type t \<in> {InputTypeApplication, InputTypeInfrastructure, InputTypeAudit}"
      using tenant_is [OF that(2)] by auto
    ultimately show ?thesis using tenant_sources_ne that(1) by blast
  qed
  have "(\<forall>i\<in>set ins. \<forall>t\<in>set (tenant_names i). tenant_sources ins t \<noteq> [])
      \<longleftrightarrow> \<not> ((\<exists>i\<in>set ins. app i) \<and> (\<forall>j\<in>set ins. \<not> infra j))"
  proof
    assume all: "\<forall>i\<in>set ins. \<forall>t\<in>set (tenant_names i). tenant_sources ins t \<noteq> []"
    show "\<not> ((\<exists>i\<in>set ins. app i) \<and> (\<forall>j\<in>set ins. \<not> infra j))"
    proof
      assume "(\<exists>i\<in>set ins. app i) \<and> (\<forall>j\<in>set ins. \<not> infra j)"
      then obtain i where i: "i \<in> set ins" "app i" and none: "\<not> (\<exists>j\<in>set ins. infra j)" by blast
      have "''infrastructure'' \<in> set (tenant_names i)" using named [of i] i(2) by simp
      with all i(1) have "tenant_sources ins ''infrastructure'' \<noteq> []" by simp
      with none infra_sources show False by simp
    qed
  next
    assume fed: "\<not> ((\<exists>i\<in>set ins. app i) \<and> (\<forall>j\<in>set ins. \<not> infra j))"
    show "\<forall>i\<in>set ins. \<forall>t\<in>set (tenant_names i). tenant_sources ins t \<noteq> []"
    proof (intro ballI)
      fix i t assume it: "i \<in> set ins" "t \<in> set (tenant_names i)"
      show "tenant_sources ins t \<noteq> []"
      proof (cases "t = ''infrastructure''")
        case True
        then have "infra i \<or> app i" using it(2) named by simp
        then have "\<exists>j\<in>set ins. infra j" using fed it(1) by blast
        then show ?thesis using infra_sources True by simp
      next
        case False
        then show ?thesis by (rule other [OF it])
      qed
    qed
  qed
  moreover have "\<not> infra j \<longleftrightarrow> input_Type j \<noteq> InputTypeInfrastructure
      \<and> (input_Type j = InputTypeReceiver \<longrightarrow> map_option recv_Type (input_Receiver j) = Some ReceiverTypeHTTP)" for j
    by (auto simp: infra_def)
  ultimately show ?thesis
    unfolding returns_lokistack_New [OF assms] app_def by simp
qed

definition sample_namespace_input :: InputSpec where
  "sample_namespace_input = InputSpec_zero
     \<lparr>input_Name := ''app'', input_Type := InputTypeApplication,
      input_Application := Some \<lparr>app_Selector = None, app_Tuning = None,
        app_Includes = [\<lparr>ncs_Namespace = ''openshift-dns'', ncs_Container = []\<rparr>], app_Excludes = []\<rparr>\<rparr>"

definition sample_lokistack :: LokiStack where
  "sample_lokistack =
     \<lparr>lokistack_Authentication = Some \<lparr>lsauth_Token = None\<rparr>,
      lokistack_Target = \<lparr>lstarget_Namespace = ''ns'', lstarget_Name = ''ls''\<rparr>,
      lokistack_Tuning = None, lokistack_LabelKeys = None, lokistack_DataModel = LokiStackDataModelOpenTelemetry\<rparr>"

definition sample_lokistack_output :: OutputSpec where
  "sample_lokistack_output = OutputSpec_zero
     \<lparr>output_Name := ''loki'', output_Type := OutputTypeLokiStack, output_LokiStack := Some sample_lokistack\<rparr>"

definition sample_lokistack_spec :: ClusterLogForwarderSpec where
  "sample_lokistack_spec =
     \<lparr>spec_ManagementState = ManagementStateManaged, spec_Collector = None,
      spec_Inputs = [sample_namespace_input], spec_Outputs = [sample_lokistack_output], spec_Filters = [],
      spec_Pipelines = [\<lparr>pipeline_Name = ''p'', pipeline_InputRefs = [''app''],
        pipeline_OutputRefs = [''loki''], pipeline_FilterRefs = []\<rparr>],
      spec_ServiceAccount = \<lparr>sa_Name = ''collector''\<rparr>\<rparr>"

theorem lokistack_returns_iff_witness:
  "\<not> returns (lokistack_New (sample_env\<lparr>env_InputOrder := \<lambda>_. [''app'']\<rparr>) ''output_loki'' sample_lokistack_output
      [''pipeline_p''] Map.empty (NoOptions\<lparr>op_CLFSpec := Some sample_lokistack_spec\<rparr>))"
proof -
  have ins: "InputSpecsTo [''app''] sample_lokistack_spec sample_lokistack_output = [sample_namespace_input]"
    by (simp add: InputSpecsTo_def inputs_found_def sample_lokistack_spec_def sample_lokistack_output_def
        sample_namespace_input_def Inputs_Map_def Let_def)
  have infra: "IncludesInfraNamespace (input_Application sample_namespace_input)" by code_simp
  have "spec_complete sample_lokistack_spec" by (simp add: spec_complete_def sample_lokistack_spec_def)
  moreover have "receivers_known [sample_namespace_input]"
    by (simp add: receivers_known_def sample_namespace_input_def)
  ultimately show ?thesis
    using infra
    by (subst lokistack_returns_iff [where spec = sample_lokistack_spec and ls = sample_lokistack
          and auth = "\<lparr>lsauth_Token = None\<rparr>" and ins = "[sample_namespace_input]"])
      (simp_all add: ins, simp_all add: sample_lokistack_output_def sample_lokistack_def sample_namespace_input_def)
qed

end
