(* ===== verification/Vector_Syslog.thy ===== *)
theory Vector_Syslog
  imports Vector_Sinks
begin

text \<open>
  The syslog output (\<open>output/syslog/syslog.go\<close>): the program that fills the fields of a syslog
  message, and the socket it is sent to.
\<close>

section \<open>Default rules\<close>

record defaultRule =
  rule_cond :: string
  rule_appName :: string
  rule_procId :: string
  rule_severity :: string
  rule_facility :: string
  rule_msgId :: string

definition defaultRule_zero :: defaultRule where
  "defaultRule_zero =
     \<lparr>rule_cond = [], rule_appName = [], rule_procId = [], rule_severity = [], rule_facility = [],
      rule_msgId = []\<rparr>"

definition defaultIfEmpty :: "string \<Rightarrow> string \<Rightarrow> string" where
  "defaultIfEmpty val defaultVal = (if val = [] then defaultVal else [])"

definition buildRFC3164Rules :: "Syslog \<Rightarrow> defaultRule list" where
  "buildRFC3164Rules s =
     (if syslog_ProcId s = [] \<or> syslog_AppName s = []
      then [defaultRule_zero
              \<lparr>rule_cond := isInfrastructureNodeLogCond,
               rule_appName := defaultIfEmpty (syslog_AppName s) nodeAppNameRFC3164,
               rule_procId := defaultIfEmpty (syslog_ProcId s) nodeProcIdRFC3164\<rparr>]
      else [])
     @ (if syslog_AppName s = [] \<or> syslog_Severity s = [] \<or> syslog_Facility s = []
        then [defaultRule_zero
                \<lparr>rule_cond := isContainerLogCond,
                 rule_appName := defaultIfEmpty (syslog_AppName s) containerAppNameRFC3164,
                 rule_severity := defaultIfEmpty (syslog_Severity s) containerSeverity,
                 rule_facility := defaultIfEmpty (syslog_Facility s) containerFacility\<rparr>,
              defaultRule_zero
                \<lparr>rule_cond := isAuditLogCond,
                 rule_appName := defaultIfEmpty (syslog_AppName s) auditAppName,
                 rule_severity := defaultIfEmpty (syslog_Severity s) auditSeverity,
                 rule_facility := defaultIfEmpty (syslog_Facility s) auditFacility\<rparr>]
        else [])"

definition buildRFC5424Rules :: "Syslog \<Rightarrow> defaultRule list" where
  "buildRFC5424Rules s =
     (if syslog_MsgId s = [] then [defaultRule_zero\<lparr>rule_msgId := syslog_msgId\<rparr>] else [])
     @ (if syslog_ProcId s = [] \<or> syslog_AppName s = []
        then [defaultRule_zero
                \<lparr>rule_cond := isInfrastructureNodeLogCond,
                 rule_appName := defaultIfEmpty (syslog_AppName s) nodeAppNameRFC5424,
                 rule_procId := defaultIfEmpty (syslog_ProcId s) nodeProcIdRFC5424\<rparr>]
        else [])
     @ (if syslog_AppName s = [] \<or> syslog_ProcId s = [] \<or> syslog_Severity s = [] \<or> syslog_Facility s = []
        then [defaultRule_zero
                \<lparr>rule_cond := isContainerLogCond,
                 rule_appName := defaultIfEmpty (syslog_AppName s) containerAppNameRFC5424,
                 rule_procId := defaultIfEmpty (syslog_ProcId s) containerProcId,
                 rule_severity := defaultIfEmpty (syslog_Severity s) containerSeverity,
                 rule_facility := defaultIfEmpty (syslog_Facility s) containerFacility\<rparr>,
              defaultRule_zero
                \<lparr>rule_cond := isAuditLogCond,
                 rule_appName := defaultIfEmpty (syslog_AppName s) auditAppName,
                 rule_procId := defaultIfEmpty (syslog_ProcId s) auditProcId,
                 rule_severity := defaultIfEmpty (syslog_Severity s) auditSeverity,
                 rule_facility := defaultIfEmpty (syslog_Facility s) auditFacility\<rparr>]
        else [])"

definition rule_vrl :: "defaultRule \<Rightarrow> string" where
  "rule_vrl rule =
     (if rule_cond rule \<noteq> [] then ''if '' @ rule_cond rule @ '' {'' @ [newline] else [])
     @ concat (map (\<lambda>s. if s \<noteq> [] then s @ [newline] else [])
         [rule_appName rule, rule_procId rule, rule_severity rule, rule_facility rule, rule_msgId rule])
     @ (if rule_cond rule \<noteq> [] then ''}'' @ [newline] else [])"

definition buildDefaults :: "Syslog \<Rightarrow> string" where
  "buildDefaults s =
     concat (map rule_vrl
       (case syslog_RFC s of
          SyslogRFC3164 \<Rightarrow> buildRFC3164Rules s
        | SyslogRFC5424 \<Rightarrow> buildRFC5424Rules s
        | SyslogRFCOther _ \<Rightarrow> []))"

section \<open>The program\<close>

definition normalizeSeverity :: "string \<Rightarrow> string" where
  "normalizeSeverity s =
     (let lower = ToLower s
      in if lower = ''emergency'' then ''emerg''
         else if lower = ''critical'' then ''crit''
         else if lower = ''informational'' then ''info''
         else lower)"

text \<open>Taking the braces off a payload key of one character is a slice out of bounds.\<close>

definition PayloadKey :: "string \<Rightarrow> string go" where
  "PayloadKey plKey = (if plKey = [] then ret [] else slice plKey 1 (length plKey - 1))"

definition appendField :: "Env \<Rightarrow> string \<Rightarrow> string \<Rightarrow> string \<Rightarrow> string list" where
  "appendField env field userValue defaultValue =
     (let vrl = (if userValue \<noteq> [] then TransformUserTemplateToVRL (env_PatternOrder env) userValue
                 else defaultValue)
      in if vrl \<noteq> [] then [field @ '' = '' @ vrl] else [])"

definition parseEncoding :: "Env \<Rightarrow> string list \<Rightarrow> Syslog \<Rightarrow> Transform go" where
  "parseEncoding env inputs s =
     (let isDynamicSeverity = Contains (syslog_Severity s) ''{'';
          severity = (if \<not> isDynamicSeverity \<and> syslog_Severity s \<noteq> []
                      then normalizeSeverity (syslog_Severity s) else syslog_Severity s);
          fields =
            (if syslog_RFC s = SyslogRFC3164
             then appendField env vrlKeySyslogProcID (syslog_ProcId s) defProcIdRFC3164
                  @ appendField env vrlKeySyslogAppName (syslog_AppName s) defAppNameRFC3164
             else appendField env vrlKeySyslogProcID (syslog_ProcId s) []
                  @ appendField env vrlKeySyslogAppName (syslog_AppName s) []
                  @ appendField env vrlKeySyslogMsgID (syslog_MsgId s) []);
          normVRL = (if isDynamicSeverity then severityNormalizationInfallibleVRL
                     else if severity = [] then severityNormalizationFallibleVRL else [])
      in go_bind (PayloadKey (syslog_PayloadKey s)) (\<lambda>key.
           ret (NewRemap (Join
             ([newline # ''._syslog = {}'', buildDefaults s]
              @ appendField env vrlKeySyslogFacility (syslog_Facility s) []
              @ appendField env vrlKeySyslogSeverity severity []
              @ fields
              @ [facilityConversionVRL, severityValidationVRL normVRL,
                 if key \<noteq> []
                 then payloadKeyConfiguredVRL (concat (map (\<lambda>c. if c = dq then [bslash, dq] else [c]) key))
                 else payloadKeyDefaultVRL]
              @ (if syslog_Enrichment s = EnrichmentTypeKubernetesMinimal
                 then [kubernetesMinimalEnrichmentVRL] else []))
             [newline]) inputs)))"

section \<open>The socket\<close>

definition socketMode :: "string \<Rightarrow> string" where
  "socketMode urlScheme =
     (let scheme = ToLower urlScheme in if scheme = ''tcp'' \<or> scheme = ''tls'' then ''tcp'' else scheme)"

fun SyslogRFCType_String :: "SyslogRFCType \<Rightarrow> string" where
  "SyslogRFCType_String SyslogRFC3164 = ''RFC3164''"
| "SyslogRFCType_String SyslogRFC5424 = ''RFC5424''"
| "SyslogRFCType_String (SyslogRFCOther s) = s"

definition buildSocketEncoding :: "Syslog \<Rightarrow> SocketEncoding" where
  "buildSocketEncoding s =
     \<lparr>sockenc_Codec = ''syslog'',
      sockenc_Syslog =
        Some \<lparr>sysenc_RFC = ToLower (SyslogRFCType_String (syslog_RFC s)),
              sysenc_Facility = ''._syslog.facility'', sysenc_Severity = ''._syslog.severity'',
              sysenc_AppName = ''._syslog.app_name'',
              sysenc_MsgID = (if syslog_RFC s = SyslogRFC5424 then ''._syslog.msg_id'' else []),
              sysenc_ProcID = ''._syslog.proc_id''\<rparr>\<rparr>"

text \<open>The code ignores the error of \<open>url.Parse\<close> and follows the pointer.\<close>

definition syslog_New ::
  "Env \<Rightarrow> string \<Rightarrow> OutputSpec \<Rightarrow> string list \<Rightarrow> Secrets \<Rightarrow> Options \<Rightarrow> output_parts go" where
  "syslog_New env oid o' inputs secrets op =
     go_bind (deref (output_Syslog o')) (\<lambda>s.
     go_bind (parseEncoding env inputs s) (\<lambda>parse.
     go_bind (deref (url_Parse (syslog_URL s))) (\<lambda>u.
       let parseEncodingID = MakeID [oid, ''parse_encoding'']; mode = socketMode (url_Scheme u)
       in ret (oid,
            KSocket
              \<lparr>socksink_Inputs = [parseEncodingID], socksink_Address = url_Host u, socksink_Mode = mode,
               socksink_KeepaliveSecs = (if mode = ''tcp'' then Some 60 else None),
               socksink_Encoding = Some (buildSocketEncoding s),
               socksink_Buffer = NewApiBuffer (GetTuning o'),
               socksink_TLS = NewTlsEnabled False (Some (Output_TLS o')) secrets op\<rparr>,
            [parseEncodingID \<mapsto> parse]))))"

section \<open>What the transform delivers\<close>

lemma parseEncoding_simps:
  "parseEncoding env inputs s = Inr t \<Longrightarrow> transform_inputs t = sort inputs \<and> \<not> is_route t"
  by (auto simp: parseEncoding_def Let_def go_bind_Inr_iff)

lemma syslog_fed: "syslog_New env oid o' inputs secrets op = Inr parts \<Longrightarrow> sink_fed S T oid inputs parts"
  by (auto simp: syslog_New_def Let_def go_bind_Inr_iff sink_fed_def sink_ids_differ dest!: parseEncoding_simps
      intro!: feeds_one)

end
