(* ===== verification/Vector_Conf.thy ===== *)
theory Vector_Conf
  imports Vector_Pipelines Vector_Lokistack Vector_Syslog
begin

text \<open>
  The whole configuration: the factory of outputs (\<open>output/factory.go\<close>), the metrics of the
  collector itself (\<open>output/metrics/prometheus.go\<close>), and \<open>Conf\<close> (\<open>conf/conf.go\<close>, \<open>conf/global.go\<close>), which
  builds inputs, pipelines and outputs, each in the order of their names.
\<close>

section \<open>Outputs (output/factory.go)\<close>

definition single_sink :: "output_parts \<Rightarrow> Options \<Rightarrow> (Sinks \<times> Transforms) \<times> Options" where
  "single_sink parts op = (case parts of (sinkId, sink, tfs) \<Rightarrow> (([sinkId \<mapsto> sink], tfs), op))"

definition sinks_of ::
  "Env \<Rightarrow> string \<Rightarrow> OutputSpec \<Rightarrow> string list \<Rightarrow> Secrets \<Rightarrow> Options \<Rightarrow> ((Sinks \<times> Transforms) \<times> Options) go" where
  "sinks_of env baseID o' inputs secrets op =
     (let single = (\<lambda>new. go_bind (new env baseID o' inputs secrets op) (\<lambda>parts. ret (single_sink parts op)))
      in case output_Type o' of
           OutputTypeKafka \<Rightarrow> single kafka_New
         | OutputTypeLoki \<Rightarrow> single loki_New
         | OutputTypeLokiStack \<Rightarrow> lokistack_New env baseID o' inputs secrets op
         | OutputTypeElasticsearch \<Rightarrow> single elasticsearch_New
         | OutputTypeCloudwatch \<Rightarrow> single cloudwatch_New
         | OutputTypeS3 \<Rightarrow> single s3_New
         | OutputTypeGoogleCloudLogging \<Rightarrow>
             ret (case gcl_New env baseID o' inputs secrets op of
                    None \<Rightarrow> ((Map.empty, Map.empty), op)
                  | Some parts \<Rightarrow> single_sink parts op)
         | OutputTypeSplunk \<Rightarrow> single splunk_New
         | OutputTypeHTTP \<Rightarrow> single http_New
         | OutputTypeSyslog \<Rightarrow> single syslog_New
         | OutputTypeAzureLogsIngestion \<Rightarrow> single azurelogsingestion_New
         | OutputTypeAzureMonitor \<Rightarrow> single azuremonitor_New
         | OutputTypeOTLP \<Rightarrow>
             go_bind (otlp_New env baseID o' inputs secrets op) (\<lambda>(parts, op). ret (single_sink parts op))
         | OutputTypeOther _ \<Rightarrow> ret ((Map.empty, Map.empty), op))"

definition output_New ::
  "Env \<Rightarrow> OutputSpec \<Rightarrow> string list \<Rightarrow> Secrets \<Rightarrow> Options \<Rightarrow> ((Sinks \<times> Transforms) \<times> Options) go" where
  "output_New env o' inputs secrets op0 =
     (let op = SetTLSProfileOptionsFrom env (Some (Output_TLS o')) op0;
          baseID = MakeOutputID [output_Name o'];
          throttleID = MakeID [baseID, ''throttle'']
      in case Threshold (output_Limit o') of
           (threshold, hasPolicy) \<Rightarrow>
             if hasPolicy \<and> 0 < threshold
             then go_bind (sinks_of env baseID o' [throttleID] secrets op) (\<lambda>((sinks, tfs), op).
                    ret ((sinks, [throttleID \<mapsto> NewThrottle inputs threshold []] ++ tfs), op))
             else sinks_of env baseID o' inputs secrets op)"

section \<open>Metrics of the collector (output/metrics/prometheus.go)\<close>

definition TlsEnabled_zero :: TlsEnabled where
  "TlsEnabled_zero = \<lparr>tlsen_TLS = emptyTLSConf, tlsen_Enabled = False\<rparr>"

definition PrometheusOutput :: "Env \<Rightarrow> string list \<Rightarrow> Options \<Rightarrow> Sink" where
  "PrometheusOutput env inputs op =
     (let tls0 = (case NewTlsEnabled False None Map.empty op of None \<Rightarrow> TlsEnabled_zero | Some t \<Rightarrow> t);
          tls = (tlsen_TLS tls0)\<lparr>tls_KeyFile := ''/etc/collector/metrics/tls.key'',
                                 tls_CRTFile := ''/etc/collector/metrics/tls.crt''\<rparr>
      in KPrometheusExporter
           \<lparr>promsink_Inputs = sort (inputs @ GetStringSet (op_LogsToMetricInputs op)),
            promsink_Address = env_ListenAddress env @ '':'' @ ''24231'',
            promsink_DefaultNamespace = ''collector'',
            promsink_TLS = Some \<lparr>tlsen_TLS = SetTLSProfile op tls, tlsen_Enabled = True\<rparr>,
            promsink_Auth = Some \<lparr>promauth_Strategy = ''sar'', promauth_Path = ''/metrics'',
                                  promauth_Verb = ''get''\<rparr>\<rparr>)"

definition AddNodeNameToMetric :: "string list \<Rightarrow> Transform" where
  "AddNodeNameToMetric inputs =
     NewRemap (''.tags.hostname = get_env_var!('' @ [dq] @ ''VECTOR_SELF_NODE_NAME'' @ [dq] @ '')'') inputs"

definition InternalMetricsSourceName :: string where
  "InternalMetricsSourceName = ''internal_metrics''"

definition AddNodenameToMetricTransformName :: string where
  "AddNodenameToMetricTransformName = ''add_nodename_to_metric''"

definition PrometheusOutputSinkName :: string where
  "PrometheusOutputSinkName = ''prometheus_output''"

section \<open>Global settings (conf/global.go, collector/vector)\<close>

definition DefaultDataPath :: string where
  "DefaultDataPath = ''/var/lib/vector''"

definition GetDataPath :: "string \<Rightarrow> string \<Rightarrow> string" where
  "GetDataPath namespace forwarderName =
     (if namespace = ''openshift-logging'' \<and> forwarderName = ''instance'' then DefaultDataPath
      else rooted_Join [DefaultDataPath, namespace, forwarderName])"

definition conf_Global :: "string \<Rightarrow> string \<Rightarrow> Config \<Rightarrow> Config" where
  "conf_Global namespace forwarderName c =
     (let dataDir = GetDataPath namespace forwarderName
      in c\<lparr>cfg_Api := Some \<lparr>api_Enabled = True, api_Address = ''127.0.0.1:8686'', api_Playground = False\<rparr>,
           cfg_LogSchema := Some ''hostname'',
           cfg_Global := \<lparr>global_ExpireMetricsSec = 60,
                          global_DataDir = (if dataDir = DefaultDataPath then [] else dataDir)\<rparr>,
           cfg_Secret := [VectorSecretID \<mapsto> NewDirectorySecret CollectorSecretsDir]\<rparr>)"

section \<open>The configuration (conf/conf.go)\<close>

text \<open>
  \<open>sortAdapters\<close>: the values of a map of adapters in the order of their names. The maps are built
  from lists, so their keys are the names in the list.
\<close>

definition sortAdapters :: "string list \<Rightarrow> (string \<rightharpoonup> 'a) \<Rightarrow> 'a list" where
  "sortAdapters keys m = map (\<lambda>k. the (m k)) (sorted_set keys)"

text \<open>
  The pipelines, in the order of the specification: each is made with its index, and hands its last
  identifier to its outputs.
\<close>

definition conf_pipelines ::
  "(string \<Rightarrow> string list) \<Rightarrow> ClusterLogForwarderSpec
   \<Rightarrow> ((string \<rightharpoonup> Pipeline) \<times> OutputInputs) go" where
  "conf_pipelines lord clfspec =
     go_fold (\<lambda>(pipelineMap, outputs) (i, p).
       go_bind (NewPipeline i p (set (Inputs_Names (spec_Inputs clfspec))) outputs
                  (NewInternalFilterMap lord (FilterMap clfspec)) (spec_Inputs clfspec) AddSystemFilters)
         (\<lambda>(a, outputs). ret (pipelineMap(pipeline_Name p \<mapsto> a), outputs)))
       (Map.empty, \<lambda>n. map_option (\<lambda>_. []) (Outputs_Map (spec_Outputs clfspec) n))
       (enumerate 0 (spec_Pipelines clfspec))"

text \<open>
  The state of the loops: the configuration, the options, and the identifiers that each input has
  handed to the pipelines so far. A map of labels is ranged over in the order \<open>lks\<close> gives.
\<close>

type_synonym conf_state = "Config \<times> Options \<times> (string \<Rightarrow> string list)"

definition add_input ::
  "Env \<Rightarrow> (InputSpec \<Rightarrow> string list) \<Rightarrow> Secrets \<Rightarrow> conf_state \<Rightarrow> InputSpec \<Rightarrow> conf_state go" where
  "add_input env lks secrets st i =
     (case st of (config, op, ids) \<Rightarrow>
        go_bind (NewSource env (lks i) i secrets op) (\<lambda>((sources, tfs, is), op).
          ret (AddTransforms tfs (AddSources sources config), op, ids(input_Name i := is))))"

definition add_pipeline :: "(string \<Rightarrow> string list) \<Rightarrow> string + Config \<Rightarrow> Pipeline \<Rightarrow> (string + Config) go" where
  "add_pipeline ids r p =
     (case r of
        Inl e \<Rightarrow> ret (Inl e)
      | Inr config \<Rightarrow>
          go_bind (Pipeline_Transforms ids p) (\<lambda>res.
            ret (case res of
                   Inl e \<Rightarrow> Inl (''generating pipeline transforms: '' @ e)
                 | Inr tfs \<Rightarrow> Inr (AddTransforms tfs config))))"

definition add_output ::
  "Env \<Rightarrow> OutputInputs \<Rightarrow> Secrets \<Rightarrow> Config \<times> Options \<Rightarrow> OutputSpec \<Rightarrow> (Config \<times> Options) go" where
  "add_output env outputs secrets st o' =
     (case st of (config, op) \<Rightarrow>
        go_bind (output_New env o' (the (outputs (output_Name o'))) secrets op) (\<lambda>((sinks, tfs), op).
          ret (AddTransforms tfs (AddSinks sinks config), op)))"

definition conf_init :: "string \<Rightarrow> string \<Rightarrow> Config" where
  "conf_init namespace forwarderName =
     NewConfig (\<lambda>c. (conf_Global namespace forwarderName c)
       \<lparr>cfg_Sources := [InternalMetricsSourceName \<mapsto> NewInternalMetrics]\<rparr>)"

definition conf_metrics :: "Env \<Rightarrow> Options \<Rightarrow> Config \<Rightarrow> Config" where
  "conf_metrics env op config =
     config\<lparr>cfg_Transforms := (cfg_Transforms config)
                (AddNodenameToMetricTransformName \<mapsto> AddNodeNameToMetric [InternalMetricsSourceName]),
            cfg_Sinks := (cfg_Sinks config)
                (PrometheusOutputSinkName \<mapsto> PrometheusOutput env [AddNodenameToMetricTransformName] op)\<rparr>"

definition Conf ::
  "Env \<Rightarrow> (InputSpec \<Rightarrow> string list) \<Rightarrow> (string \<Rightarrow> string list) \<Rightarrow> Secrets \<Rightarrow> ClusterLogForwarderSpec
   \<Rightarrow> string \<Rightarrow> string \<Rightarrow> Options \<Rightarrow> (string + Config) go" where
  "Conf env lks lord secrets clfspec namespace forwarderName op0 =
     (let op = op0\<lparr>op_CLFSpec := Some clfspec, op_ForwarderName := Some forwarderName\<rparr>
      in go_bind (conf_pipelines lord clfspec) (\<lambda>(pipelineMap, outputs).
         go_bind (go_fold (add_input env lks secrets) (conf_init namespace forwarderName, op, \<lambda>_. [])
                    (sortAdapters (Inputs_Names (spec_Inputs clfspec)) (Inputs_Map (spec_Inputs clfspec))))
           (\<lambda>(config, op, ids).
         go_bind (go_fold (add_pipeline ids) (Inr config)
                    (sortAdapters (Pipelines_Names (spec_Pipelines clfspec)) pipelineMap)) (\<lambda>r.
           case r of
             Inl e \<Rightarrow> ret (Inl e)
           | Inr config \<Rightarrow>
               go_bind (go_fold (add_output env outputs secrets) (config, op)
                          (sortAdapters (Outputs_Names (spec_Outputs clfspec)) (Outputs_Map (spec_Outputs clfspec))))
                 (\<lambda>(config, op). ret (Inr (conf_metrics env op config)))))))"

end
