(* ===== verification/Vector_Identifiers.thy ===== *)
theory Vector_Identifiers
  imports Vector_Conf
begin

text \<open>
  The identifiers that the components of a configuration can have: those of an output by its name
  and the purposes of its transforms, those of a pipeline by its name and filters, those of an input
  by its name and kind of source. Every builder stays within them.
\<close>

section \<open>Outputs\<close>

definition plain_purposes :: "string list" where
  "plain_purposes =
     [''normalize_streams'', ''group_name'', ''key_prefix'', ''remap_reserved_keywords'', ''add_id'',
      ''index'', ''log_id'', ''normalize_severity'', ''topic'', ''timestamp'', ''splunk_index'', ''metadata'',
      ''parse_encoding'', ''remap'', ''remap_label'', ''loki_tenant'']"

definition otlp_purposes :: "string list" where
  "otlp_purposes =
     [''reroute'', ''reroute_unmatched'', ''trace_context'', ''resource_logs'', ''groupby_container'',
      ''groupby_source'', ''groupby_host'']"

definition sink_purposes :: "string list" where
  "sink_purposes = plain_purposes @ otlp_purposes @ allLogSources"

definition sink_ids :: "string \<Rightarrow> string list" where
  "sink_ids oid = map (\<lambda>p. MakeID [oid, p]) sink_purposes"

definition within :: "string \<Rightarrow> Transforms \<Rightarrow> bool" where
  "within oid tfs \<longleftrightarrow> dom tfs \<subseteq> set (sink_ids oid)"

lemma within_empty: "within oid Map.empty"
  by (simp add: within_def)

lemma within_update: "within oid tfs \<Longrightarrow> p \<in> set sink_purposes \<Longrightarrow> within oid (tfs(MakeID [oid, p] \<mapsto> t))"
  by (auto simp: within_def sink_ids_def)

lemma within_if: "within oid a \<Longrightarrow> within oid b \<Longrightarrow> within oid (if c then a else b)"
  by simp

lemma sink_purposes_mem:
  "''normalize_streams'' \<in> set sink_purposes" "''group_name'' \<in> set sink_purposes"
  "''key_prefix'' \<in> set sink_purposes" "''remap_reserved_keywords'' \<in> set sink_purposes"
  "''add_id'' \<in> set sink_purposes" "''index'' \<in> set sink_purposes" "''log_id'' \<in> set sink_purposes"
  "''normalize_severity'' \<in> set sink_purposes" "''topic'' \<in> set sink_purposes"
  "''timestamp'' \<in> set sink_purposes" "''splunk_index'' \<in> set sink_purposes" "''metadata'' \<in> set sink_purposes"
  "''parse_encoding'' \<in> set sink_purposes" "''remap'' \<in> set sink_purposes"
  "''remap_label'' \<in> set sink_purposes" "''loki_tenant'' \<in> set sink_purposes"
  by (simp_all add: sink_purposes_def plain_purposes_def)

lemmas within_intros = within_update within_empty within_if sink_purposes_mem

lemma cloudwatch_within: "cloudwatch_New env oid o' inputs secrets op = Inr (i, sink, tfs) \<Longrightarrow> within oid tfs"
  by (auto simp: cloudwatch_New_def Let_def go_bind_Inr_iff intro!: within_intros)

lemma s3_within: "s3_New env oid o' inputs secrets op = Inr (i, sink, tfs) \<Longrightarrow> within oid tfs"
  by (auto simp: s3_New_def Let_def go_bind_Inr_iff intro!: within_intros)

lemma azuremonitor_within: "azuremonitor_New env oid o' inputs secrets op = Inr (i, sink, tfs) \<Longrightarrow> within oid tfs"
  by (auto simp: azuremonitor_New_def Let_def go_bind_Inr_iff intro!: within_intros)

lemma azurelogsingestion_within:
  "azurelogsingestion_New env oid o' inputs secrets op = Inr (i, sink, tfs) \<Longrightarrow> within oid tfs"
  by (auto simp: azurelogsingestion_New_def Let_def go_bind_Inr_iff intro!: within_intros)

lemma elasticsearch_within: "elasticsearch_New env oid o' inputs secrets op = Inr (i, sink, tfs) \<Longrightarrow> within oid tfs"
  by (auto simp: elasticsearch_New_def Let_def go_bind_Inr_iff intro!: within_intros split: if_splits)

lemma gcl_within: "gcl_New env oid o' inputs secrets op = Some (i, sink, tfs) \<Longrightarrow> within oid tfs"
  by (auto simp: gcl_New_def Let_def intro!: within_intros split: option.splits)

lemma http_within: "http_New env oid o' inputs secrets op = Inr (i, sink, tfs) \<Longrightarrow> within oid tfs"
  by (auto simp: http_New_def Let_def go_bind_Inr_iff intro!: within_intros split: if_splits)

lemma kafka_within: "kafka_New env oid o' inputs secrets op = Inr (i, sink, tfs) \<Longrightarrow> within oid tfs"
  by (auto simp: kafka_New_def Let_def go_bind_Inr_iff intro!: within_intros split: if_splits)

lemma splunk_within: "splunk_New env oid o' inputs secrets op = Inr (i, sink, tfs) \<Longrightarrow> within oid tfs"
  by (auto simp: splunk_New_def Let_def go_bind_Inr_iff intro!: within_intros split: if_splits)

lemma syslog_within: "syslog_New env oid o' inputs secrets op = Inr (i, sink, tfs) \<Longrightarrow> within oid tfs"
  by (auto simp: syslog_New_def Let_def go_bind_Inr_iff intro!: within_intros split: if_splits)

lemma loki_within: "loki_New env oid o' inputs secrets op = Inr (i, sink, tfs) \<Longrightarrow> within oid tfs"
  by (auto simp: loki_New_def Let_def go_bind_Inr_iff intro!: within_intros split: if_splits)

lemma otlp_within:
  assumes "otlp_New env oid o' inputs secrets op = Inr ((i, sink, tfs), op')"
  shows "within oid tfs"
proof -
  have "dom tfs \<subseteq> (\<lambda>p. MakeID [oid, p]) ` (set otlp_purposes \<union> set allLogSources)"
    using otlp_New_result(8) [OF assms] by (simp only: otlp_purposes_def list.set)
  then show ?thesis unfolding within_def sink_ids_def set_map sink_purposes_def set_append by blast
qed

text \<open>A LokiStack has components of its own, and those of a Loki or OTLP sink for each tenant.\<close>

definition known_tenants :: "string list" where
  "known_tenants = [''application'', ''infrastructure'', ''audit'']"

definition lokistack_purposes :: "string list" where
  "lokistack_purposes =
     [''trace_context'', ''route'', ''route_unmatched'']
     @ concat (map (\<lambda>t. map (\<lambda>p. t @ ''_'' @ p) sink_purposes) known_tenants)"

definition output_purposes :: "OutputType \<Rightarrow> string list" where
  "output_purposes t =
     ''throttle'' # (if t = OutputTypeLokiStack then lokistack_purposes else sink_purposes)"

definition output_ids :: "OutputSpec \<Rightarrow> string list" where
  "output_ids o' = map (\<lambda>p. MakeID [MakeOutputID [output_Name o'], p]) (output_purposes (output_Type o'))"

lemma formatted_purposes:
  "map FormatComponentID (''throttle'' # sink_purposes) =
     [''throttle'', ''normalize_streams'', ''group_name'', ''key_prefix'', ''remap_reserved_keywords'', ''add_id'',
      ''index'', ''log_id'', ''normalize_severity'', ''topic'', ''timestamp'', ''splunk_index'', ''metadata'',
      ''parse_encoding'', ''remap'', ''remap_label'', ''loki_tenant'', ''reroute'', ''reroute_unmatched'',
      ''trace_context'', ''resource_logs'', ''groupby_container'', ''groupby_source'', ''groupby_host'',
      ''container'', ''node'', ''auditd'', ''kubeapi'', ''openshiftapi'', ''ovn'']"
  by (simp add: format_defs sink_purposes_def plain_purposes_def otlp_purposes_def allLogSources_def)

lemma sink_purposes_distinct: "distinct (map FormatComponentID (''throttle'' # sink_purposes))"
  unfolding formatted_purposes by simp

lemma formatted_tenants:
  "FormatComponentID ''throttle'' = ''throttle''" "FormatComponentID ''trace_context'' = ''trace_context''"
  "FormatComponentID ''route'' = ''route''" "FormatComponentID ''route_unmatched'' = ''route_unmatched''"
  "map (\<lambda>t. FormatComponentID (t @ ''_'')) known_tenants = [''application_'', ''infrastructure_'', ''audit_'']"
  by (simp_all add: format_defs known_tenants_def)

lemma format_tenant: "FormatComponentID (t @ ''_'' @ p) = FormatComponentID (t @ ''_'') @ FormatComponentID p"
  by (simp only: append_assoc [symmetric] FormatComponentID_append)

lemma lokistack_purposes_distinct: "distinct (map FormatComponentID (''throttle'' # lokistack_purposes))"
proof -
  define F where "F = map FormatComponentID sink_purposes"
  have F: "distinct F" using sink_purposes_distinct by (simp add: F_def)
  have "map FormatComponentID (concat (map (\<lambda>t. map (\<lambda>p. t @ ''_'' @ p) sink_purposes) ts))
      = concat (map (\<lambda>f. map ((@) f) F) (map (\<lambda>t. FormatComponentID (t @ ''_'')) ts))" for ts
    by (induction ts) (simp_all only: list.map concat.simps map_append map_map comp_def F_def format_tenant)
  then have "map FormatComponentID (''throttle'' # lokistack_purposes)
      = [''throttle'', ''trace_context'', ''route'', ''route_unmatched'']
        @ concat (map (\<lambda>f. map ((@) f) F) [''application_'', ''infrastructure_'', ''audit_''])"
    unfolding lokistack_purposes_def formatted_tenants(5) [symmetric]
    by (simp only: list.map map_append append_Cons append_Nil formatted_tenants(1-4))
  also have "distinct \<dots>"
    using F by (auto simp: distinct_map inj_on_def)
  finally show ?thesis .
qed

lemma distinct_ids:
  assumes "distinct (map FormatComponentID ps)"
  shows "distinct (map (\<lambda>p. MakeID [oid, p]) ps)"
  using assms by (simp add: distinct_map inj_on_def MakeID_eq_iff)

lemma output_ids_distinct: "distinct (output_ids o')"
  unfolding output_ids_def output_purposes_def
  using sink_purposes_distinct lokistack_purposes_distinct by (intro distinct_ids) simp

section \<open>Outputs are fed\<close>

text \<open>The sinks of an output are fed when its transforms are in the configuration and its inputs deliver.\<close>

definition sinks_fed :: "string list \<Rightarrow> Sinks \<times> Transforms \<Rightarrow> bool" where
  "sinks_fed inputs parts =
     (\<forall>S T sink. sink \<in> ran (fst parts) \<longrightarrow> snd parts \<subseteq>\<^sub>m T \<longrightarrow> feeds S T inputs \<longrightarrow> feeds S T (sink_inputs sink))"

lemma sinks_fedD:
  "sinks_fed inputs (sinks, tfs) \<Longrightarrow> sink \<in> ran sinks \<Longrightarrow> tfs \<subseteq>\<^sub>m T \<Longrightarrow> feeds S T inputs \<Longrightarrow> feeds S T (sink_inputs sink)"
  by (simp add: sinks_fed_def)

text \<open>The options that the sources of OTLP outputs depend on.\<close>

definition options_ok :: "ClusterLogForwarderSpec \<Rightarrow> Options \<Rightarrow> bool" where
  "options_ok spec op \<longleftrightarrow> op_CLFSpec op = Some spec \<and> has_branch (otlp_sources op)"

lemma options_ok_TLS [simp]: "options_ok spec (SetTLSProfileOptionsFrom env t op) = options_ok spec op"
  by (simp add: options_ok_def otlp_sources_def SetTLSProfileOptionsFrom_def split: prod.split)

lemma otlp_New_options:
  "otlp_New env oid o' inputs secrets op = Inr (parts, op') \<Longrightarrow> options_ok spec op' = options_ok spec op"
  by (auto simp: otlp_New_def Let_def go_bind_Inr_iff NewUnmatched_def options_ok_def otlp_sources_def
      split: if_splits)

lemma NewSource_options:
  "NewSource env lks inp secrets op = Inr (parts, op') \<Longrightarrow> options_ok spec op' = options_ok spec op"
  by (cases "input_Type inp") (auto simp: NewSource_def Let_def go_bind_Inr_iff)

text \<open>The types of output whose sink carries the identifier of the output, whatever the specification.\<close>

definition one_sink :: "OutputType \<Rightarrow> bool" where
  "one_sink t =
     (case t of OutputTypeLokiStack \<Rightarrow> False | OutputTypeGoogleCloudLogging \<Rightarrow> False | OutputTypeOther _ \<Rightarrow> False
      | _ \<Rightarrow> True)"

lemma single_sink_ok:
  assumes "\<And>S T. sink_fed S T oid inputs parts" "within oid (snd (snd parts))"
    and "single_sink parts op = ((sinks, tfs), op')"
  shows "within oid tfs \<and> op' = op \<and> sinks_fed inputs (sinks, tfs) \<and> oid \<in> dom sinks"
  using assms by (auto simp: single_sink_def sink_fed_def sinks_fed_def split: prod.splits)

lemma single_ok:
  assumes "go_bind (new env oid o' inputs secrets op) (\<lambda>parts. ret (single_sink parts op)) = Inr ((sinks, tfs), op')"
    and "\<And>parts S T. new env oid o' inputs secrets op = Inr parts \<Longrightarrow> sink_fed S T oid inputs parts"
    and "\<And>i sink tfs. new env oid o' inputs secrets op = Inr (i, sink, tfs) \<Longrightarrow> within oid tfs"
  shows "within oid tfs \<and> op' = op \<and> sinks_fed inputs (sinks, tfs) \<and> oid \<in> dom sinks"
proof -
  obtain i sink tfs' where new: "new env oid o' inputs secrets op = Inr (i, sink, tfs')"
    and parts: "single_sink (i, sink, tfs') op = ((sinks, tfs), op')"
    using assms(1) by (auto simp: go_bind_Inr_iff)
  show ?thesis by (rule single_sink_ok [OF assms(2) [OF new] _ parts]) (simp add: assms(3) [OF new])
qed

end
