(* ===== verification/Vector_Fed.thy ===== *)
theory Vector_Fed
  imports Vector_Identifiers "HOL-Library.Sublist"
begin

text \<open>
  Every sink of an output is fed: when the transforms that the factory returns are part of the
  configuration and the inputs of the output deliver, so do the inputs of its sinks, through the
  throttle, the transforms of its type and, for a LokiStack, the route by tenant.
\<close>

section \<open>The sinks of a LokiStack are fed\<close>

lemma tenant_ids_apart:
  assumes "t \<in> set known_tenants" "t' \<in> set known_tenants" "t \<noteq> t'"
  shows "set (sink_ids (MakeID [oid, t])) \<inter> set (sink_ids (MakeID [oid, t'])) = {}"
proof -
  have f: "FormatComponentID (''application_'') = ''application_''" "FormatComponentID (''infrastructure_'') = ''infrastructure_''"
    "FormatComponentID (''audit_'') = ''audit_''" by (simp_all add: format_defs)
  have "FormatComponentID (t @ ''_'' @ p) \<noteq> FormatComponentID (t' @ ''_'' @ q)" for p q
    unfolding format_tenant using assms f by (auto simp: known_tenants_def)
  then show ?thesis
    by (auto simp: sink_ids_def MakeID_MakeID MakeID_eq_iff)
qed

lemma own_ids_apart:
  assumes "t \<in> set known_tenants" "p \<in> {''trace_context'', ''route'', ''route_unmatched''}"
  shows "MakeID [oid, p] \<notin> set (sink_ids (MakeID [oid, t]))"
proof -
  have f: "FormatComponentID (''application_'') = ''application_''" "FormatComponentID (''infrastructure_'') = ''infrastructure_''"
    "FormatComponentID (''audit_'') = ''audit_''" by (simp_all add: format_defs)
  have "FormatComponentID p \<noteq> FormatComponentID (t @ ''_'' @ q)" for q
    unfolding format_tenant using assms f by (auto simp: known_tenants_def formatted_tenants)
  then show ?thesis by (auto simp: sink_ids_def MakeID_MakeID MakeID_eq_iff)
qed

lemma sink_ids_lokistack:
  "t \<in> set known_tenants \<Longrightarrow> set (sink_ids (MakeID [oid, t])) \<subseteq> (\<lambda>p. MakeID [oid, p]) ` set lokistack_purposes"
  by (auto simp: sink_ids_def MakeID_MakeID lokistack_purposes_def)

text \<open>The condition on the log sources of the tenants: with the data model of OpenTelemetry each has a branch.\<close>

definition tenants_branch :: "OutputSpec \<Rightarrow> InputSpec list \<Rightarrow> bool" where
  "tenants_branch o' ins =
     (case output_LokiStack o' of
        None \<Rightarrow> True
      | Some ls \<Rightarrow>
          lokistack_DataModel ls = LokiStackDataModelOpenTelemetry \<longrightarrow>
          list_all (\<lambda>t. case getInputSources ins t of Inr s \<Rightarrow> has_branch s | Inl _ \<Rightarrow> True) known_tenants)"

lemma GenerateOutput_OTLP:
  "GenerateOutput o' t = Inr m \<Longrightarrow> output_Type m = OutputTypeOTLP \<Longrightarrow>
   \<exists>ls. output_LokiStack o' = Some ls \<and> lokistack_DataModel ls = LokiStackDataModelOpenTelemetry"
  by (auto simp: GenerateOutput_def Let_def go_bind_Inr_iff deref_def split: if_splits option.splits)

lemma generateSinkForTenant_fed:
  assumes "generateSinkForTenant env oid routeID t o' ins secrets op = Inr ((i, sink, tfs), op')"
    and "tenants_branch o' ins" "t \<in> set known_tenants" "options_ok spec op"
  shows "sink_fed S T (MakeID [oid, t]) [MakeRouteInputID routeID t] (i, sink, tfs)"
    and "within (MakeID [oid, t]) tfs" "options_ok spec op'"
proof -
  obtain m where m: "GenerateOutput o' t = Inr m"
    using assms(1) by (auto simp: generateSinkForTenant_def Let_def go_bind_Inr_iff)
  have "sink_fed S T (MakeID [oid, t]) [MakeRouteInputID routeID t] (i, sink, tfs)
      \<and> within (MakeID [oid, t]) tfs \<and> options_ok spec op'"
  proof (cases "output_Type m = OutputTypeOTLP")
    case True
    obtain ls where ls: "output_LokiStack o' = Some ls" "lokistack_DataModel ls = LokiStackDataModelOpenTelemetry"
      using GenerateOutput_OTLP [OF m True] by blast
    obtain s op1 where s: "getInputSources ins t = Inr s"
      and op1: "op1 = op\<lparr>op_OtlpLogSources := Some s, op_MigratedFromLokistack := Some True\<rparr>"
      and new: "otlp_New env (MakeID [oid, t]) m [MakeRouteInputID routeID t] secrets op1 = Inr ((i, sink, tfs), op')"
      using assms(1) m True by (auto simp: generateSinkForTenant_def Let_def go_bind_Inr_iff)
    have "has_branch s" using assms(2,3) ls s by (auto simp: tenants_branch_def list_all_iff)
    moreover have "otlp_sources op1 = s" by (simp add: otlp_sources_def op1 GetOption_def)
    ultimately have "has_branch (otlp_sources op1)" "options_ok spec op1"
      using assms(4) by (simp_all add: options_ok_def op1)
    then show ?thesis
      using otlp_fed [OF new] otlp_within [OF new] otlp_New_options [OF new] by simp
  next
    case False
    then have new: "loki_New env (MakeID [oid, t]) m [MakeRouteInputID routeID t] secrets op = Inr (i, sink, tfs)"
      and "op' = op"
      using assms(1) m by (auto simp: generateSinkForTenant_def Let_def go_bind_Inr_iff)
    then show ?thesis using loki_fed [OF new] loki_within [OF new] assms(4) by simp
  qed
  then show "sink_fed S T (MakeID [oid, t]) [MakeRouteInputID routeID t] (i, sink, tfs)"
    "within (MakeID [oid, t]) tfs" "options_ok spec op'" by blast+
qed

text \<open>The loop over the tenants: what holds when the tenants \<open>ts\<close> are done.\<close>

definition tenants_done ::
  "string \<Rightarrow> string \<Rightarrow> Route \<Rightarrow> Transforms \<Rightarrow> ClusterLogForwarderSpec \<Rightarrow> string list
   \<Rightarrow> (Sinks \<times> Transforms) \<times> Options \<Rightarrow> bool" where
  "tenants_done oid routeID r base spec ts st =
     (case st of ((sinks, tfs), op) \<Rightarrow>
        base \<subseteq>\<^sub>m tfs \<and> dom tfs \<subseteq> dom base \<union> (\<Union>t\<in>set ts. set (sink_ids (MakeID [oid, t])))
        \<and> options_ok spec op
        \<and> (\<forall>S T sink. sink \<in> ran sinks \<longrightarrow> tfs \<subseteq>\<^sub>m T \<longrightarrow> feeds S T (route_Inputs r) \<longrightarrow> feeds S T (sink_inputs sink)))"

lemma ran_update_subset: "ran (m(k \<mapsto> v)) \<subseteq> insert v (ran m)"
  by (auto simp: ran_def)

lemma map_le_add_disjoint:
  assumes "dom m \<inter> dom m' = {}"
  shows "m \<subseteq>\<^sub>m m ++ m'" "m' \<subseteq>\<^sub>m m ++ m'"
  using assms by (auto simp: map_le_def map_add_def dom_def split: option.splits)

lemma tenants_done_step:
  assumes inv: "tenants_done oid (MakeID [oid, ''route'']) r base spec ts st"
    and step: "add_tenant env oid (MakeID [oid, ''route'']) o' ins secrets st t = Inr st'"
    and t: "t \<in> set known_tenants" "t \<notin> set ts" and ts: "set ts \<subseteq> set known_tenants"
    and branch: "tenants_branch o' ins"
    and base: "base (MakeID [oid, ''route'']) = Some (TRoute r)" "route_Routes r (ToLower t) \<noteq> None"
      "dom base \<subseteq> (\<lambda>p. MakeID [oid, p]) ` {''trace_context'', ''route'', ''route_unmatched''}"
  shows "tenants_done oid (MakeID [oid, ''route'']) r base spec (ts @ [t]) st'"
proof -
  obtain sinks tfs op where st: "st = ((sinks, tfs), op)" by (metis surj_pair)
  have inv': "base \<subseteq>\<^sub>m tfs" "dom tfs \<subseteq> dom base \<union> (\<Union>t\<in>set ts. set (sink_ids (MakeID [oid, t])))"
    "options_ok spec op"
    and fed: "\<And>S T sink. sink \<in> ran sinks \<Longrightarrow> tfs \<subseteq>\<^sub>m T \<Longrightarrow> feeds S T (route_Inputs r) \<Longrightarrow> feeds S T (sink_inputs sink)"
    using inv unfolding tenants_done_def st prod.case by blast+
  obtain i sink ttfs op' where gen: "generateSinkForTenant env oid (MakeID [oid, ''route'']) t o' ins secrets op
      = Inr ((i, sink, ttfs), op')" and st': "st' = ((sinks(i \<mapsto> sink), tfs ++ ttfs), op')"
    using step by (auto simp: add_tenant_def st go_bind_Inr_iff)
  note tenant = generateSinkForTenant_fed [OF gen branch t(1) inv'(3)]
  have "MakeID [oid, p] \<notin> dom ttfs" if "p \<in> {''trace_context'', ''route'', ''route_unmatched''}" for p
    using own_ids_apart [OF t(1) that, of oid] tenant(2) unfolding within_def by blast
  then have own: "dom base \<inter> dom ttfs = {}" using base(3) by blast
  have "set (sink_ids (MakeID [oid, t'])) \<inter> dom ttfs = {}" if "t' \<in> set ts" for t'
  proof -
    have "t' \<in> set known_tenants" "t' \<noteq> t" using that ts t(2) by blast+
    then show ?thesis using tenant_ids_apart [OF _ t(1), of t' oid] tenant(2) unfolding within_def by blast
  qed
  then have disjoint: "dom tfs \<inter> dom ttfs = {}" using own inv'(2) by blast
  note le = map_le_add_disjoint [OF disjoint]
  have "feeds S T (sink_inputs s)" if s: "s \<in> ran (sinks(i \<mapsto> sink))" and T: "tfs ++ ttfs \<subseteq>\<^sub>m T"
    and r: "feeds S T (route_Inputs r)" for S T s
  proof (cases "s \<in> ran sinks")
    case True
    then show ?thesis by (rule fed [OF _ map_le_trans [OF le(1) T] r])
  next
    case False
    then have s: "s = sink" using s ran_update_subset [of sinks i sink] by blast
    have "base \<subseteq>\<^sub>m T" using inv'(1) map_le_trans [OF le(1) T] by (rule map_le_trans)
    from map_le_lookup [OF this, OF base(1)] have "T (MakeID [oid, ''route'']) = Some (TRoute r)" .
    then have "delivers S T (MakeRouteInputID (MakeID [oid, ''route'']) t)"
      using r base(2) by (rule route_delivers)
    then have "feeds S T [MakeRouteInputID (MakeID [oid, ''route'']) t]" by (simp add: feeds_def)
    then show ?thesis
      using tenant(1) [of S T] map_le_trans [OF le(2) T] by (simp add: sink_fed_def s)
  qed
  moreover have "dom (tfs ++ ttfs) \<subseteq> dom base \<union> (\<Union>t\<in>set (ts @ [t]). set (sink_ids (MakeID [oid, t])))"
    using inv'(2) tenant(2) by (auto simp: within_def)
  ultimately show ?thesis
    using map_le_trans [OF inv'(1) le(1)] tenant(3) unfolding tenants_done_def st' prod.case by blast
qed

lemma go_fold_snoc_invariant:
  assumes "go_fold f s xs = Inr s'" "I [] s"
    and "\<And>ys x s s'. I ys s \<Longrightarrow> f s x = Inr s' \<Longrightarrow> prefix (ys @ [x]) xs \<Longrightarrow> I (ys @ [x]) s'"
  shows "I xs s'"
  using assms
proof (induction xs arbitrary: s' rule: rev_induct)
  case (snoc x xs)
  from snoc.prems(1) obtain s1 where s1: "go_fold f s xs = Inr s1" "f s1 x = Inr s'"
    by (auto simp: go_fold_append go_bind_Inr_iff)
  have "I xs s1"
  proof (rule snoc.IH [OF s1(1) snoc.prems(2)])
    fix ys y u u'
    assume "I ys u" "f u y = Inr u'" "prefix (ys @ [y]) xs"
    then show "I (ys @ [y]) u'" using snoc.prems(3) prefix_prefix by blast
  qed
  then show ?case using snoc.prems(3) s1(2) by simp
qed simp

lemma determineTenants_known:
  assumes "determineTenants ins = Inr ts"
  shows "set ts \<subseteq> set known_tenants" "distinct ts"
proof -
  obtain tss where tss: "go_mapM tenants_of ins = Inr tss" "ts = sorted_set (concat tss)"
    using assms by (auto simp: determineTenants_def go_bind_Inr_iff)
  have one: "set t \<subseteq> set known_tenants" if "tenants_of i = Inr t" for i t
    using that
    by (cases "input_Type i")
      (auto simp: tenants_of_def known_tenants_def getTenantForReceiver_def go_bind_Inr_iff split: if_splits)
  have "list_all2 (\<lambda>i t. tenants_of i = Inr t) ins tss" using tss(1) by (simp only: go_mapM_Inr_iff)
  then have "\<forall>t\<in>set tss. set t \<subseteq> set known_tenants"
    by (induction rule: list_all2_induct) (use one in simp_all)
  then show "set ts \<subseteq> set known_tenants" by (auto simp: tss(2))
  show "distinct ts" by (simp add: tss(2))
qed

lemma ToLower_tenant: "t \<in> set known_tenants \<Longrightarrow> ToLower t = t"
  by (auto simp: known_tenants_def ToLower_def char_to_lower_def)

lemma buildRoutes_ne: "t \<in> set ts \<Longrightarrow> buildRoutes ts t \<noteq> None"
  unfolding buildRoutes_def by (rule foldl_routes(1) [where f = "\<lambda>t. t"]) simp

lemma tenants_loop:
  assumes loop: "go_fold (add_tenant env oid (MakeID [oid, ''route'']) o' ins secrets) ((Map.empty, base), op) ts = Inr st"
    and ts: "set ts \<subseteq> set known_tenants" "distinct ts"
    and opts: "options_ok spec op" and branch: "tenants_branch o' ins"
    and base: "base (MakeID [oid, ''route'']) = Some (TRoute r)" "\<forall>t\<in>set ts. route_Routes r t \<noteq> None"
      "dom base \<subseteq> (\<lambda>p. MakeID [oid, p]) ` {''trace_context'', ''route'', ''route_unmatched''}"
  shows "tenants_done oid (MakeID [oid, ''route'']) r base spec ts st"
proof (rule go_fold_snoc_invariant [OF loop, where I = "tenants_done oid (MakeID [oid, ''route'']) r base spec"])
  show "tenants_done oid (MakeID [oid, ''route'']) r base spec [] ((Map.empty, base), op)"
    using opts by (simp add: tenants_done_def)
next
  fix ys t s s'
  assume inv: "tenants_done oid (MakeID [oid, ''route'']) r base spec ys s"
    and step: "add_tenant env oid (MakeID [oid, ''route'']) o' ins secrets s t = Inr s'"
    and pre: "prefix (ys @ [t]) ts"
  then obtain zs where split: "ts = ys @ t # zs" by (auto simp: prefix_def)
  then have t: "t \<in> set known_tenants" "t \<notin> set ys" "set ys \<subseteq> set known_tenants" "t \<in> set ts"
    using ts by auto
  then have "route_Routes r (ToLower t) \<noteq> None" using base(2) by (simp add: ToLower_tenant)
  from tenants_done_step [OF inv step t(1-3) branch base(1) this base(3)]
  show "tenants_done oid (MakeID [oid, ''route'']) r base spec (ys @ [t]) s'" .
qed

lemma lokistack_ids:
  "MakeID [oid, ''trace'', ''context''] = MakeID [oid, ''trace_context'']"
  "MakeID [MakeID [oid, ''route''], Unmatched] = MakeID [oid, ''route_unmatched'']"
  unfolding MakeID_MakeID by (simp_all add: MakeID_def Unmatched_def)

lemma lokistack_own_differ:
  "MakeID [oid, ''trace_context''] \<noteq> MakeID [oid, ''route'']"
  "MakeID [oid, ''trace_context''] \<noteq> MakeID [oid, ''route_unmatched'']"
  "MakeID [oid, ''route''] \<noteq> MakeID [oid, ''route_unmatched'']"
  unfolding MakeID_eq_iff formatted_tenants by simp_all

lemma lokistack_ok:
  assumes new: "lokistack_New env oid o' inputs secrets op = Inr ((sinks, tfs), op')"
    and opts: "options_ok spec op" and branch: "tenants_branch o' (InputSpecsTo (env_InputOrder env o') spec o')"
  shows "dom tfs \<subseteq> (\<lambda>p. MakeID [oid, p]) ` set lokistack_purposes" "options_ok spec op'"
    "sinks_fed inputs (sinks, tfs)"
proof -
  let ?ins = "InputSpecsTo (env_InputOrder env o') spec o'"
  define otel where "otel = (case output_LokiStack o' of
                   None \<Rightarrow> False | Some ls \<Rightarrow> lokistack_DataModel ls = LokiStackDataModelOpenTelemetry)"
  define ris where "ris = (if otel then [MakeID [oid, ''trace_context'']] else inputs)"
  define traced where "traced = (if otel then [MakeID [oid, ''trace_context''] \<mapsto> TransformTraceContext inputs] else Map.empty)"
  have spec: "op_CLFSpec op = Some spec" using opts by (simp add: options_ok_def)
  define u where "u = NewUnmatched (MakeID [oid, ''route'']) op
      [''output_type'' \<mapsto> ToLower (OutputType_String OutputTypeLokiStack)]"
  obtain ts where ts: "determineTenants ?ins = Inr ts"
    and loop: "go_fold (add_tenant env oid (MakeID [oid, ''route'']) o' ?ins secrets)
        ((Map.empty, traced(MakeID [oid, ''route''] \<mapsto> NewRoute (\<lambda>r. r\<lparr>route_Routes := buildRoutes ts\<rparr>) ris,
                            MakeID [oid, ''route_unmatched''] \<mapsto> fst u)), snd u) ts = Inr ((sinks, tfs), op')"
    using new spec
    unfolding lokistack_New_def Let_def lokistack_ids otel_def [symmetric] ris_def traced_def u_def [symmetric]
    by (auto simp: go_bind_Inr_iff split_beta split: if_splits)
  define r where "r = \<lparr>route_Inputs = sort ris, route_Routes = buildRoutes ts\<rparr>"
  define base where "base = traced(MakeID [oid, ''route''] \<mapsto> TRoute r, MakeID [oid, ''route_unmatched''] \<mapsto> fst u)"
  have route: "NewRoute (\<lambda>r. r\<lparr>route_Routes := buildRoutes ts\<rparr>) ris = TRoute r" by (simp add: NewRoute_def r_def)
  have "options_ok spec (snd u)" using opts by (simp add: u_def NewUnmatched_def options_ok_def otlp_sources_def)
  moreover have base: "base (MakeID [oid, ''route'']) = Some (TRoute r)"
    using lokistack_own_differ [of oid] by (simp add: base_def)
  moreover have "\<forall>t\<in>set ts. route_Routes r t \<noteq> None"
    using buildRoutes_ne by (simp add: r_def del: not_None_eq)
  moreover have dom: "dom base \<subseteq> (\<lambda>p. MakeID [oid, p]) ` {''trace_context'', ''route'', ''route_unmatched''}"
    by (auto simp: base_def traced_def)
  ultimately have done': "tenants_done oid (MakeID [oid, ''route'']) r base spec ts ((sinks, tfs), op')"
    using tenants_loop [OF loop [unfolded route base_def [symmetric]] determineTenants_known [OF ts] _ branch] by blast
  then show "options_ok spec op'" unfolding tenants_done_def prod.case by blast
  have tsd: "set ts \<subseteq> set known_tenants" by (rule determineTenants_known(1) [OF ts])
  have "(\<Union>t\<in>set ts. set (sink_ids (MakeID [oid, t]))) \<subseteq> (\<lambda>p. MakeID [oid, p]) ` set lokistack_purposes"
    using sink_ids_lokistack tsd by blast
  moreover have "{''trace_context'', ''route'', ''route_unmatched''} \<subseteq> set lokistack_purposes"
    by (simp add: lokistack_purposes_def)
  then have "dom base \<subseteq> (\<lambda>p. MakeID [oid, p]) ` set lokistack_purposes" using dom by blast
  ultimately show "dom tfs \<subseteq> (\<lambda>p. MakeID [oid, p]) ` set lokistack_purposes"
    using done' unfolding tenants_done_def prod.case by blast
  have "feeds S T (sink_inputs sink)" if "sink \<in> ran sinks" "tfs \<subseteq>\<^sub>m T" "feeds S T inputs" for S T sink
  proof -
    have "base \<subseteq>\<^sub>m tfs" using done' unfolding tenants_done_def prod.case by blast
    then have le: "base \<subseteq>\<^sub>m T" using that(2) by (rule map_le_trans)
    have "feeds S T ris"
    proof (cases otel)
      case True
      then have "base (MakeID [oid, ''trace_context'']) = Some (TransformTraceContext inputs)"
        using lokistack_own_differ [of oid] by (simp add: base_def traced_def)
      from feeds_one [OF le that(3) this] show ?thesis
        using True by (simp add: ris_def TransformTraceContext_def)
    next
      case False
      then show ?thesis using that(3) by (simp add: ris_def)
    qed
    then have "feeds S T (route_Inputs r)" by (simp add: r_def)
    then show ?thesis using done' that(1,2) unfolding tenants_done_def prod.case by blast
  qed
  then show "sinks_fed inputs (sinks, tfs)" by (simp add: sinks_fed_def)
qed

section \<open>The sinks of an output are fed\<close>

lemma sinks_of_ok:
  assumes new: "sinks_of env oid o' inputs secrets op = Inr ((sinks, tfs), op')" and "options_ok spec op"
    and branch: "tenants_branch o' (InputSpecsTo (env_InputOrder env o') spec o')"
  shows "(if output_Type o' = OutputTypeLokiStack
          then dom tfs \<subseteq> (\<lambda>p. MakeID [oid, p]) ` set lokistack_purposes else within oid tfs)
         \<and> options_ok spec op' \<and> sinks_fed inputs (sinks, tfs) \<and> (one_sink (output_Type o') \<longrightarrow> oid \<in> dom sinks)"
proof -
  note kind = sinks_of_def Let_def
  have plain: "?thesis" if "output_Type o' = t" "t \<noteq> OutputTypeLokiStack"
      "go_bind (sink_New env oid o' inputs secrets op) (\<lambda>parts. ret (single_sink parts op)) = Inr ((sinks, tfs), op')"
      "\<And>parts S T. sink_New env oid o' inputs secrets op = Inr parts \<Longrightarrow> sink_fed S T oid inputs parts"
      "\<And>i sink tfs. sink_New env oid o' inputs secrets op = Inr (i, sink, tfs) \<Longrightarrow> within oid tfs"
    for t sink_New
    using single_ok [of sink_New, OF that(3-5)] that(1,2) assms(2) by simp
  show ?thesis
  proof (cases "output_Type o'")
    case OutputTypeLokiStack
    then have "lokistack_New env oid o' inputs secrets op = Inr ((sinks, tfs), op')"
      using new by (simp add: sinks_of_def)
    from lokistack_ok [OF this assms(2) branch] OutputTypeLokiStack show ?thesis by (simp add: one_sink_def)
  next
    case OutputTypeOTLP
    then obtain parts op1 where otlp: "otlp_New env oid o' inputs secrets op = Inr (parts, op1)"
      and single: "single_sink parts op1 = ((sinks, tfs), op')"
      using new by (auto simp: sinks_of_def go_bind_Inr_iff split_beta)
    have b: "has_branch (otlp_sources op)" using assms(2) by (simp add: options_ok_def)
    obtain i sink tfs' where p: "parts = (i, sink, tfs')" by (cases parts)
    have "within oid (snd (snd parts))" using otlp_within [OF otlp [unfolded p]] by (simp add: p)
    from single_sink_ok [OF otlp_fed [OF otlp b] this single] show ?thesis
      using OutputTypeOTLP otlp_New_options [OF otlp, of spec] assms(2) by simp
  next
    case OutputTypeGoogleCloudLogging
    show ?thesis
    proof (cases "gcl_New env oid o' inputs secrets op")
      case None
      then show ?thesis
        using new OutputTypeGoogleCloudLogging assms(2) by (auto simp: sinks_of_def sinks_fed_def within_def one_sink_def)
    next
      case (Some parts)
      then have single: "single_sink parts op = ((sinks, tfs), op')"
        using new OutputTypeGoogleCloudLogging by (simp add: sinks_of_def)
      obtain i sink tfs' where p: "parts = (i, sink, tfs')" by (cases parts)
      have "within oid (snd (snd parts))" using gcl_within [OF Some [unfolded p]] by (simp add: p)
      from single_sink_ok [OF gcl_fed [OF Some] this single] show ?thesis
        using OutputTypeGoogleCloudLogging assms(2) by simp
    qed
  next
    case (OutputTypeOther t)
    then show ?thesis using new assms(2) by (auto simp: sinks_of_def sinks_fed_def within_def one_sink_def)
  next
    case OutputTypeKafka
    show ?thesis
      by (rule plain [of OutputTypeKafka kafka_New, OF OutputTypeKafka _ new [unfolded kind OutputTypeKafka OutputType.case]])
        (simp, (rule kafka_fed kafka_within, assumption)+)
  next
    case OutputTypeLoki
    show ?thesis
      by (rule plain [of OutputTypeLoki loki_New, OF OutputTypeLoki _ new [unfolded kind OutputTypeLoki OutputType.case]])
        (simp, (rule loki_fed loki_within, assumption)+)
  next
    case OutputTypeElasticsearch
    show ?thesis
      by (rule plain [of OutputTypeElasticsearch elasticsearch_New, OF OutputTypeElasticsearch _ new [unfolded kind OutputTypeElasticsearch OutputType.case]])
        (simp, (rule elasticsearch_fed elasticsearch_within, assumption)+)
  next
    case OutputTypeCloudwatch
    show ?thesis
      by (rule plain [of OutputTypeCloudwatch cloudwatch_New, OF OutputTypeCloudwatch _ new [unfolded kind OutputTypeCloudwatch OutputType.case]])
        (simp, (rule cloudwatch_fed cloudwatch_within, assumption)+)
  next
    case OutputTypeS3
    show ?thesis
      by (rule plain [of OutputTypeS3 s3_New, OF OutputTypeS3 _ new [unfolded kind OutputTypeS3 OutputType.case]])
        (simp, (rule s3_fed s3_within, assumption)+)
  next
    case OutputTypeSplunk
    show ?thesis
      by (rule plain [of OutputTypeSplunk splunk_New, OF OutputTypeSplunk _ new [unfolded kind OutputTypeSplunk OutputType.case]])
        (simp, (rule splunk_fed splunk_within, assumption)+)
  next
    case OutputTypeHTTP
    show ?thesis
      by (rule plain [of OutputTypeHTTP http_New, OF OutputTypeHTTP _ new [unfolded kind OutputTypeHTTP OutputType.case]])
        (simp, (rule http_fed http_within, assumption)+)
  next
    case OutputTypeSyslog
    show ?thesis
      by (rule plain [of OutputTypeSyslog syslog_New, OF OutputTypeSyslog _ new [unfolded kind OutputTypeSyslog OutputType.case]])
        (simp, (rule syslog_fed syslog_within, assumption)+)
  next
    case OutputTypeAzureLogsIngestion
    show ?thesis
      by (rule plain [of OutputTypeAzureLogsIngestion azurelogsingestion_New, OF OutputTypeAzureLogsIngestion _ new [unfolded kind OutputTypeAzureLogsIngestion OutputType.case]])
        (simp, (rule azurelogsingestion_fed azurelogsingestion_within, assumption)+)
  next
    case OutputTypeAzureMonitor
    show ?thesis
      by (rule plain [of OutputTypeAzureMonitor azuremonitor_New, OF OutputTypeAzureMonitor _ new [unfolded kind OutputTypeAzureMonitor OutputType.case]])
        (simp, (rule azuremonitor_fed azuremonitor_within, assumption)+)
  qed
qed

text \<open>The factory: the throttle of an output with a limit stands in front of everything else.\<close>

lemma sinks_of_ids:
  assumes "sinks_of env (MakeOutputID [output_Name o']) o' inputs secrets op = Inr ((sinks, tfs), op')"
    and "options_ok spec op" "tenants_branch o' (InputSpecsTo (env_InputOrder env o') spec o')"
  shows "dom tfs \<subseteq> set (tl (output_ids o'))" "options_ok spec op'" "sinks_fed inputs (sinks, tfs)"
    "one_sink (output_Type o') \<Longrightarrow> MakeOutputID [output_Name o'] \<in> dom sinks"
proof -
  have tl: "tl (output_ids o') = map (\<lambda>p. MakeID [MakeOutputID [output_Name o'], p])
      (if output_Type o' = OutputTypeLokiStack then lokistack_purposes else sink_purposes)"
    by (simp add: output_ids_def output_purposes_def)
  note ok = sinks_of_ok [OF assms]
  show "dom tfs \<subseteq> set (tl (output_ids o'))"
    using ok unfolding tl within_def sink_ids_def set_map by (simp split: if_splits)
  show "options_ok spec op'" "sinks_fed inputs (sinks, tfs)"
    "one_sink (output_Type o') \<Longrightarrow> MakeOutputID [output_Name o'] \<in> dom sinks" using ok by blast+
qed

lemma throttle_not_in_sink_ids: "MakeID [MakeOutputID [output_Name o'], ''throttle''] \<notin> set (tl (output_ids o'))"
  using output_ids_distinct [of o'] by (simp add: output_ids_def output_purposes_def)

lemma output_New_ok:
  assumes new: "output_New env o' inputs secrets op = Inr ((sinks, tfs), op')"
    and opts: "options_ok spec op" and branch: "tenants_branch o' (InputSpecsTo (env_InputOrder env o') spec o')"
  shows "dom tfs \<subseteq> set (output_ids o')" "options_ok spec op'" "sinks_fed inputs (sinks, tfs)"
    "one_sink (output_Type o') \<Longrightarrow> MakeOutputID [output_Name o'] \<in> dom sinks"
proof -
  let ?oid = "MakeOutputID [output_Name o']"
  let ?throttle = "MakeID [?oid, ''throttle'']"
  have tl: "set (tl (output_ids o')) \<subseteq> set (output_ids o')" "?throttle \<in> set (output_ids o')"
    by (auto simp: output_ids_def output_purposes_def)
  have opts': "options_ok spec (SetTLSProfileOptionsFrom env (Some (Output_TLS o')) op)" using opts by simp
  obtain threshold policy where limit: "Threshold (output_Limit o') = (threshold, policy)" by (metis surj_pair)
  have "dom tfs \<subseteq> set (output_ids o') \<and> options_ok spec op' \<and> sinks_fed inputs (sinks, tfs)
      \<and> (one_sink (output_Type o') \<longrightarrow> ?oid \<in> dom sinks)"
  proof (cases "policy \<and> 0 < threshold")
    case True
    then obtain tfs1 where sinks: "sinks_of env ?oid o' [?throttle] secrets
          (SetTLSProfileOptionsFrom env (Some (Output_TLS o')) op) = Inr ((sinks, tfs1), op')"
      and tfs: "tfs = [?throttle \<mapsto> NewThrottle inputs threshold []] ++ tfs1"
      using new limit by (auto simp: output_New_def Let_def go_bind_Inr_iff)
    note ok = sinks_of_ids [OF sinks opts' branch]
    have disjoint: "dom [?throttle \<mapsto> NewThrottle inputs threshold []] \<inter> dom tfs1 = {}"
      using ok(1) throttle_not_in_sink_ids [of o'] by auto
    note le = map_le_add_disjoint [OF disjoint, folded tfs]
    have "feeds S T (sink_inputs sink)" if "sink \<in> ran sinks" "tfs \<subseteq>\<^sub>m T" "feeds S T inputs" for S T sink
    proof -
      have "feeds S T [?throttle]"
        by (rule feeds_one [OF map_le_trans [OF le(1) that(2)] that(3), where t = "NewThrottle inputs threshold []"]) simp_all
      from sinks_fedD [OF ok(3) that(1) map_le_trans [OF le(2) that(2)] this] show ?thesis .
    qed
    moreover have "dom tfs \<subseteq> set (output_ids o')" using ok(1) tl by (auto simp: tfs)
    ultimately show ?thesis using ok(2,4) by (simp add: sinks_fed_def)
  next
    case False
    then have "sinks_of env ?oid o' inputs secrets (SetTLSProfileOptionsFrom env (Some (Output_TLS o')) op)
        = Inr ((sinks, tfs), op')"
      using new limit by (auto simp: output_New_def Let_def)
    from sinks_of_ids [OF this opts' branch] tl(1) show ?thesis by blast
  qed
  then show "dom tfs \<subseteq> set (output_ids o')" "options_ok spec op'" "sinks_fed inputs (sinks, tfs)"
    "one_sink (output_Type o') \<Longrightarrow> ?oid \<in> dom sinks" by blast+
qed

end
