(* ===== verification/Vector_Composition.thy ===== *)
theory Vector_Composition
  imports Vector_Fed
begin

text \<open>
  The whole configuration: every sink that \<open>Conf\<close> puts into it is fed from its sources, through the
  transforms of inputs, pipelines and outputs, when the identifiers of its components differ.
\<close>

section \<open>Growing configurations\<close>

definition conf_le :: "Config \<Rightarrow> Config \<Rightarrow> bool" where
  "conf_le c c' \<longleftrightarrow> cfg_Sources c \<subseteq>\<^sub>m cfg_Sources c' \<and> cfg_Transforms c \<subseteq>\<^sub>m cfg_Transforms c'"

definition conf_fed :: "Config \<Rightarrow> string list \<Rightarrow> bool" where
  "conf_fed c is \<longleftrightarrow> feeds (cfg_Sources c) (cfg_Transforms c) is"

text \<open>The identifiers in use: sources on the left, transforms on the right.\<close>

definition conf_used :: "Config \<Rightarrow> (string + string) set" where
  "conf_used c = Inl ` dom (cfg_Sources c) \<union> Inr ` dom (cfg_Transforms c)"

lemma conf_fed_mono: "conf_fed c is \<Longrightarrow> conf_le c c' \<Longrightarrow> conf_fed c' is"
  unfolding conf_fed_def conf_le_def feeds_def using delivers_mono by blast

lemma conf_le_trans: "conf_le a b \<Longrightarrow> conf_le b c \<Longrightarrow> conf_le a c"
  unfolding conf_le_def by (meson map_le_trans)

lemma conf_le_add:
  assumes "dom (cfg_Sources c) \<inter> dom S = {}" "dom (cfg_Transforms c) \<inter> dom T = {}"
  shows "conf_le c (AddTransforms T (AddSources S c))"
    "S \<subseteq>\<^sub>m cfg_Sources (AddTransforms T (AddSources S c))" "T \<subseteq>\<^sub>m cfg_Transforms (AddTransforms T (AddSources S c))"
  using map_le_add_disjoint [OF assms(1)] map_le_add_disjoint [OF assms(2)]
  by (simp_all add: conf_le_def Config_add_defs)

lemma conf_le_add_transforms:
  assumes "dom (cfg_Transforms c) \<inter> dom T = {}"
  shows "conf_le c (AddTransforms T c)" "T \<subseteq>\<^sub>m cfg_Transforms (AddTransforms T c)"
  using map_le_add_disjoint [OF assms] by (simp_all add: conf_le_def Config_add_defs)

lemma AddSinks_simps [simp]:
  "cfg_Sources (AddSinks s c) = cfg_Sources c" "cfg_Transforms (AddSinks s c) = cfg_Transforms c"
  "cfg_Sinks (AddSinks s c) = cfg_Sinks c ++ s" "cfg_Sinks (AddTransforms t c) = cfg_Sinks c"
  "cfg_Sinks (AddSources u c) = cfg_Sinks c" "cfg_Sources (AddTransforms t c) = cfg_Sources c"
  "cfg_Transforms (AddSources u c) = cfg_Transforms c"
  "cfg_Transforms (AddTransforms t c) = cfg_Transforms c ++ t" "cfg_Sources (AddSources u c) = cfg_Sources c ++ u"
  by (simp_all add: Config_add_defs)

text \<open>
  A loop whose turns each take identifiers of their own: an invariant \<open>P\<close> of the state, and a fact
  \<open>Q x\<close> that the turn of \<open>x\<close> establishes and the others keep.
\<close>

lemma growing_loop:
  fixes used :: "'s \<Rightarrow> 'u set" and room :: "'x \<Rightarrow> 'u set"
  assumes loop: "go_fold f s xs = Inr s'" and dist: "distinct xs"
    and step: "\<And>s x s'. x \<in> set xs \<Longrightarrow> f s x = Inr s' \<Longrightarrow> P s \<Longrightarrow> used s \<inter> room x = {} \<Longrightarrow>
        P s' \<and> used s' \<subseteq> used s \<union> room x \<and> Q x s' \<and> (\<forall>y\<in>set xs. y \<noteq> x \<longrightarrow> Q y s \<longrightarrow> Q y s')"
    and apart: "\<And>x y. x \<in> set xs \<Longrightarrow> y \<in> set xs \<Longrightarrow> x \<noteq> y \<Longrightarrow> room x \<inter> room y = {}"
    and init: "P s" "\<And>x. x \<in> set xs \<Longrightarrow> used s \<inter> room x = {}"
  shows "P s' \<and> used s' \<subseteq> used s \<union> (\<Union>x\<in>set xs. room x) \<and> (\<forall>x\<in>set xs. Q x s')"
proof (rule go_fold_snoc_invariant [OF loop, where I = "\<lambda>ys t. P t \<and> used t \<subseteq> used s \<union> (\<Union>x\<in>set ys. room x)
        \<and> (\<forall>x\<in>set ys. Q x t)"])
  show "P s \<and> used s \<subseteq> used s \<union> (\<Union>x\<in>set []. room x) \<and> (\<forall>x\<in>set []. Q x s)" using init(1) by simp
next
  fix ys x t t'
  assume inv: "P t \<and> used t \<subseteq> used s \<union> (\<Union>x\<in>set ys. room x) \<and> (\<forall>x\<in>set ys. Q x t)"
    and turn: "f t x = Inr t'" and pre: "prefix (ys @ [x]) xs"
  from pre obtain zs where xs: "xs = ys @ x # zs" by (auto simp: prefix_def)
  then have x: "x \<in> set xs" "x \<notin> set ys" "set ys \<subseteq> set xs" using dist by auto
  have "room y \<inter> room x = {}" if "y \<in> set ys" for y
    using apart [of y x] that x by blast
  then have "used t \<inter> room x = {}" using inv init(2) [OF x(1)] by blast
  from step [OF x(1) turn conjunct1 [OF inv] this]
  have t': "P t'" "used t' \<subseteq> used t \<union> room x" "Q x t'" "\<forall>y\<in>set xs. y \<noteq> x \<longrightarrow> Q y t \<longrightarrow> Q y t'" by blast+
  have "\<forall>y\<in>set ys. Q y t'"
  proof
    fix y assume y: "y \<in> set ys"
    then have "y \<in> set xs" "y \<noteq> x" "Q y t" using x(2,3) inv by auto
    then show "Q y t'" using t'(4) by simp
  qed
  then show "P t' \<and> used t' \<subseteq> used s \<union> (\<Union>x\<in>set (ys @ [x]). room x) \<and> (\<forall>x\<in>set (ys @ [x]). Q x t')"
    using inv t'(1-3) by auto
qed

lemma go_fold_map: "go_fold f s (map g xs) = go_fold (\<lambda>s x. f s (g x)) s xs"
  by (induction xs arbitrary: s) simp_all

lemma distinct_concat_apart:
  "distinct (concat (map f xs)) \<Longrightarrow> x \<in> set xs \<Longrightarrow> y \<in> set xs \<Longrightarrow> x \<noteq> y \<Longrightarrow> set (f x) \<inter> set (f y) = {}"
  by (induction xs) auto

section \<open>Inputs\<close>

definition input_transform_ids :: "string \<Rightarrow> string list" where
  "input_transform_ids name =
     concat (map (\<lambda>x. map (\<lambda>y. input_id name @ x @ y) [''_meta'', ''_throttle'', ''_items''])
       [[], ''_container'', ''_journal'', ''_host'', ''_kube'', ''_openshift'', ''_ovn''])"

definition input_source_ids :: "string \<Rightarrow> string list" where
  "input_source_ids name =
     map (\<lambda>x. input_id name @ x) [[], ''_container'', ''_journal'', ''_host'', ''_kube'', ''_openshift'', ''_ovn'']"

lemma NewSource_ids:
  assumes "NewSource env lks i secrets op = Inr ((S, T, is), op')"
  shows "dom S \<subseteq> set (input_source_ids (input_Name i))" "dom T \<subseteq> set (input_transform_ids (input_Name i))"
proof -
  have "dom S \<subseteq> (\<lambda>x. input_id (input_Name i) @ x) ` input_places"
    "dom T \<subseteq> (\<Union>x\<in>input_places. part_ids (input_Name i) x)"
    using NewSource_parts_at [OF assms] unfolding parts_at_def prod.case by blast+
  moreover have "input_places = set [[], ''_container'', ''_journal'', ''_host'', ''_kube'', ''_openshift'', ''_ovn'']"
    unfolding input_places_def list.set ..
  then have "(\<lambda>x. input_id (input_Name i) @ x) ` input_places = set (input_source_ids (input_Name i))"
    "(\<Union>x\<in>input_places. part_ids (input_Name i) x) = set (input_transform_ids (input_Name i))"
    unfolding input_source_ids_def input_transform_ids_def part_ids_def set_map set_concat image_image
    by (simp_all only: list.set image_insert image_empty)
  ultimately show "dom S \<subseteq> set (input_source_ids (input_Name i))" "dom T \<subseteq> set (input_transform_ids (input_Name i))"
    by simp_all
qed

text \<open>An input that collects anything at all.\<close>

definition input_collects :: "InputSpec \<Rightarrow> bool" where
  "input_collects i =
     (case input_Type i of
        InputTypeInfrastructure \<Rightarrow>
          InfrastructureSourceContainer \<in> infra_sources_of i \<or> InfrastructureSourceNode \<in> infra_sources_of i
      | InputTypeAudit \<Rightarrow>
          AuditSourceAuditd \<in> audit_sources_of i \<or> AuditSourceKube \<in> audit_sources_of i
          \<or> AuditSourceOpenShift \<in> audit_sources_of i \<or> AuditSourceOVN \<in> audit_sources_of i
      | InputTypeOther _ \<Rightarrow> False
      | _ \<Rightarrow> True)"

lemma add_parts_sources: "fst (add_parts acc p) \<noteq> Map.empty"
  by (simp add: add_parts_def split: prod.split)

lemma foldl_add_parts_sources: "ps \<noteq> [] \<Longrightarrow> fst (foldl add_parts acc ps) \<noteq> Map.empty"
  by (cases ps rule: rev_cases) (simp_all add: add_parts_sources)

lemma NewSource_collects:
  assumes "NewSource env lks i secrets op = Inr ((S, T, is), op')" "input_collects i"
  shows "is \<noteq> []"
proof -
  have "fst (S, T, is) \<noteq> Map.empty"
  proof (cases "input_Type i")
    case InputTypeAudit
    then have "(S, T, is) = foldl add_parts (Map.empty, Map.empty, [])
       ((if AuditSourceAuditd \<in> audit_sources_of i then [NewAuditAuditdSource env i] else [])
        @ (if AuditSourceKube \<in> audit_sources_of i then [NewK8sAuditSource env i] else [])
        @ (if AuditSourceOpenShift \<in> audit_sources_of i then [NewOpenshiftAuditSource env i] else [])
        @ (if AuditSourceOVN \<in> audit_sources_of i then [NewOVNAuditSource env i] else []))"
      using assms(1) by (simp only: NewSource_def Let_def InputType.case) simp
    then show ?thesis
      using assms(2) InputTypeAudit by (simp only:) (rule foldl_add_parts_sources, auto simp: input_collects_def)
  qed (use assms in \<open>auto simp: NewSource_def input_collects_def Let_def go_bind_Inr_iff split: if_splits
         dest!: arg_cong [where f = fst] simp: add_parts_sources\<close>)
  then obtain k where "S k \<noteq> None" by fastforce
  then show ?thesis using NewSource_parts [OF assms(1)] parts_ok_read by fastforce
qed

definition input_room :: "string \<Rightarrow> (string + string) set" where
  "input_room name = Inl ` set (input_source_ids name) \<union> Inr ` set (input_transform_ids name)"

lemma add_input_step:
  assumes add: "add_input env lks secrets (config, op, ids) i = Inr (config', op', ids')"
    and ok: "options_ok spec op" "input_collects i" and room: "conf_used config \<inter> input_room (input_Name i) = {}"
  shows "options_ok spec op'" "conf_le config config'" "conf_fed config' (ids' (input_Name i))"
    "ids' = ids(input_Name i := ids' (input_Name i))" "conf_used config' \<subseteq> conf_used config \<union> input_room (input_Name i)"
    "cfg_Sinks config' = cfg_Sinks config"
proof -
  obtain S T js where new: "NewSource env (lks i) i secrets op = Inr ((S, T, js), op')"
    and config': "config' = AddTransforms T (AddSources S config)" and ids': "ids' = ids(input_Name i := js)"
    using add by (auto simp: add_input_def go_bind_Inr_iff)
  note doms = NewSource_ids [OF new]
  show "options_ok spec op'" using NewSource_options [OF new] ok(1) by simp
  show "ids' = ids(input_Name i := ids' (input_Name i))" by (simp add: ids')
  show "cfg_Sinks config' = cfg_Sinks config" by (simp add: config')
  show "conf_used config' \<subseteq> conf_used config \<union> input_room (input_Name i)"
    using doms by (auto simp: conf_used_def input_room_def config')
  have "dom (cfg_Sources config) \<inter> dom S = {}" "dom (cfg_Transforms config) \<inter> dom T = {}"
    using room doms unfolding conf_used_def input_room_def by blast+
  note le = conf_le_add [OF this, folded config']
  show "conf_le config config'" by (rule le(1))
  have "delivers (cfg_Sources config') (cfg_Transforms config') j" if "j \<in> set js" for j
  proof (rule delivers_mono [OF _ le(2,3)])
    show "delivers S T j" using parts_ok_delivers [OF NewSource_parts [OF new]] that by blast
  qed
  then show "conf_fed config' (ids' (input_Name i))"
    using NewSource_collects [OF new ok(2)] by (simp add: conf_fed_def feeds_def ids')
qed

section \<open>Pipelines\<close>

definition pipeline_filter_ids :: "nat \<Rightarrow> PipelineSpec \<Rightarrow> (string \<rightharpoonup> InternalFilterSpec) \<Rightarrow> string list" where
  "pipeline_filter_ids index p filters =
     (let refs = system_refs filters p in map (filter_id (pipeline_title index p) refs) [0..<length refs])"

text \<open>The adapter that \<open>NewPipeline\<close> makes.\<close>

definition pipeline_made ::
  "nat \<Rightarrow> PipelineSpec \<Rightarrow> string set \<Rightarrow> (string \<rightharpoonup> InternalFilterSpec) \<Rightarrow> InputSpec list \<Rightarrow> Pipeline \<Rightarrow> bool" where
  "pipeline_made index p inputs filters specs pl \<longleftrightarrow>
     pl_Filters pl = (hd (chain_links index p filters specs))
        \<lparr>pf_Next := map (input_component inputs) (pipeline_InputRefs p)\<rparr> # tl (chain_links index p filters specs)"

lemma filter_factory_not_route: "filter_factory lord f ins = Inr (Some t) \<Longrightarrow> \<not> is_route t"
  by (cases "filter_Type f")
    (auto simp: filter_factory_def NewDrop_def NewPrune_def NewApiAudit_def NewParse_def NewMultiline_def
      NewLabels_def NewFilterTransform_def NewRemap_def Let_def go_bind_Inr_iff split: if_splits option.splits)

lemma pipeline_transforms_ran:
  assumes "pipeline_transforms ids name pfs = Inr (Inr tfs)" "t \<in> ran tfs"
  shows "\<exists>pf\<in>set pfs. pf_Transform ids pf = Inr (Some t)"
  using assms
proof (induction pfs arbitrary: tfs)
  case (Cons pf pfs)
  then obtain u r where u: "pf_Transform ids pf = Inr (Some u)" and r: "pipeline_transforms ids name pfs = Inr r"
    "(case r of Inl e \<Rightarrow> ret (Inl e) | Inr us \<Rightarrow> ret (Inr ([pf_ID pf \<mapsto> u] ++ us))) = Inr (Inr tfs)"
    by (auto simp: go_bind_Inr_iff split: option.split_asm)
  then obtain us where us: "r = Inr us" "tfs = [pf_ID pf \<mapsto> u] ++ us" by (cases r) auto
  have "t = u \<or> t \<in> ran us" using Cons.prems(2) by (auto simp: us(2) ran_def map_add_Some_iff split: if_splits)
  then show ?case using Cons.IH [OF r(1) [unfolded us(1)]] u by auto
qed simp

lemma pipeline_not_route:
  assumes "pipeline_made index p inputs (NewInternalFilterMap lord filters) specs pl"
    and "refs_known (NewInternalFilterMap lord filters) p"
    and "Pipeline_Transforms ids pl = Inr (Inr tfs)" "t \<in> ran tfs"
  shows "\<not> is_route t"
proof -
  let ?fm = "NewInternalFilterMap lord filters"
  obtain pf where pf: "pf \<in> set (pl_Filters pl)" "pf_Transform ids pf = Inr (Some t)"
    using pipeline_transforms_ran assms(3,4) unfolding Pipeline_Transforms_def by blast
  let ?links = "chain_links index p ?fm specs"
  have "?links \<noteq> []" by (simp add: chain_links_def)
  then have "hd ?links \<in> set ?links" "set (tl ?links) \<subseteq> set ?links" by (simp_all add: list.set_sel(2) subsetI)
  then obtain link where link: "link \<in> set ?links" "pf_Factory pf = pf_Factory link"
    using pf(1) assms(1) by (auto simp: pipeline_made_def)
  then obtain i where i: "i < length (system_refs ?fm p)"
    "pf_Factory pf = ifs_Factory (the (pl_filterMap (pipeline_start index p ?fm specs) (system_refs ?fm p ! i)))"
    by (auto simp: chain_links_def filter_link_def)
  obtain ins where t: "pf_Factory pf ins = Inr (Some t)"
    using pf(2) by (auto simp: pf_Transform_def)
  show ?thesis
  proof (cases "system_refs ?fm p ! i = Viaq")
    case True
    then show ?thesis using t i(2) by (auto simp: pipeline_start_fields NewViaq_def NewRemap_def)
  next
    case False
    have "system_refs ?fm p ! i \<in> set (pipeline_FilterRefs p)"
      using False set_system_refs [of ?fm p] nth_mem [OF i(1)] by auto
    then obtain f where f: "filters (system_refs ?fm p ! i) = Some f"
      using assms(2) False by (auto simp: refs_known_def NewInternalFilterMap_def)
    then have "filter_factory lord f ins = Inr (Some t)"
      using t i(2) False by (simp add: pipeline_start_fields NewInternalFilterMap_def)
    then show ?thesis by (rule filter_factory_not_route)
  qed
qed

text \<open>The chain of a pipeline delivers when its inputs do.\<close>

lemma chain_delivers:
  assumes edges: "chain_edges ids inputs index p filters tfs" and "\<forall>t\<in>ran tfs. \<not> is_route t"
    and "tfs \<subseteq>\<^sub>m T" "feeds S T (concat (map ids (filter (\<lambda>r. r \<in> inputs) (pipeline_InputRefs p))))"
  shows "feeds S T [last_filter_id index p filters]"
proof -
  let ?refs = "system_refs filters p"
  let ?fid = "filter_id (pipeline_title index p) ?refs"
  have dom: "dom tfs = ?fid ` {..<length ?refs}"
    and first: "transform_inputs (the (tfs (?fid 0)))
        = sort (concat (map ids (filter (\<lambda>r. r \<in> inputs) (pipeline_InputRefs p))))"
    and rest: "\<forall>i\<in>{1..<length ?refs}. transform_inputs (the (tfs (?fid i))) = [?fid (i - 1)]"
    using edges unfolding chain_edges_def Let_def by blast+
  have "feeds S T [?fid i]" if "i < length ?refs" for i
    using that
  proof (induction i)
    case 0
    then have "?fid 0 \<in> dom tfs" unfolding dom by blast
    then obtain t where t: "tfs (?fid 0) = Some t" by blast
    then have "\<not> is_route t" using assms(2) by (auto intro: ranI)
    with t first show ?case using feeds_one [OF assms(3,4), of "?fid 0" t] by simp
  next
    case (Suc i)
    then have "?fid (Suc i) \<in> dom tfs" unfolding dom by blast
    then obtain t where t: "tfs (?fid (Suc i)) = Some t" by blast
    moreover have "transform_inputs t = [?fid i]" using rest Suc.prems t by force
    moreover have "\<not> is_route t" using assms(2) t by (auto intro: ranI)
    moreover have "feeds S T [?fid i]" using Suc by simp
    ultimately show ?case using feeds_one [OF assms(3), of S "[?fid i]" "?fid (Suc i)" t] by simp
  qed
  then show ?thesis by (simp add: last_filter_id_def)
qed

lemma pipeline_made_transforms:
  assumes made: "pipeline_made index p inputs (NewInternalFilterMap lord filters) specs pl"
    and known: "refs_known (NewInternalFilterMap lord filters) p"
    and valid: "\<forall>f\<in>ran filters. filter_ok compiles f \<and> filter_usable f
             \<and> range_order (filter_OpenshiftLabels f) (lord (filter_Name f))"
  shows "\<exists>tfs. Pipeline_Transforms ids pl = Inr (Inr tfs)
      \<and> dom tfs = set (pipeline_filter_ids index p (NewInternalFilterMap lord filters))
      \<and> (\<forall>S T. tfs \<subseteq>\<^sub>m T \<longrightarrow> feeds S T (concat (map ids (filter (\<lambda>r. r \<in> inputs) (pipeline_InputRefs p))))
           \<longrightarrow> feeds S T [last_filter_id index p (NewInternalFilterMap lord filters)])"
proof -
  let ?fm = "NewInternalFilterMap lord filters"
  obtain tfs where tfs: "Pipeline_Transforms ids pl = Inr (Inr tfs)" "chain_edges ids inputs index p ?fm tfs"
    using chain_transforms [OF known NewInternalFilterMap_makes [OF valid] made [unfolded pipeline_made_def]] by blast
  have routes: "\<forall>t\<in>ran tfs. \<not> is_route t" using pipeline_not_route [OF made known tfs(1)] by blast
  have "dom tfs = set (pipeline_filter_ids index p ?fm)"
    using tfs(2) by (auto simp: chain_edges_def pipeline_filter_ids_def Let_def)
  then show ?thesis using tfs(1) chain_delivers [OF tfs(2) routes] by blast
qed

text \<open>The loop over the pipelines of the specification.\<close>

definition pipelines_made ::
  "(string \<rightharpoonup> InternalFilterSpec) \<Rightarrow> ClusterLogForwarderSpec \<Rightarrow> (nat \<times> PipelineSpec) list
   \<Rightarrow> (string \<rightharpoonup> Pipeline) \<times> OutputInputs \<Rightarrow> bool" where
  "pipelines_made fm spec ps st =
     (case st of (pipelineMap, outputs) \<Rightarrow>
        (\<forall>(i, p)\<in>set ps. refs_known fm p \<and>
           (\<exists>pl. pipelineMap (pipeline_Name p) = Some pl
              \<and> pipeline_made i p (set (Inputs_Names (spec_Inputs spec))) fm (spec_Inputs spec) pl))
        \<and> (\<forall>n. if Outputs_Map (spec_Outputs spec) n = None then outputs n = None
               else \<exists>xs. outputs n = Some xs
                    \<and> set xs = {last_filter_id i p fm |i p. (i, p) \<in> set ps \<and> n \<in> set (pipeline_OutputRefs p)}))"

lemma collect_snoc:
  "{f i p |i p. (i, p) \<in> set (ys @ [(a, b)]) \<and> R p} = {f i p |i p. (i, p) \<in> set ys \<and> R p} \<union> (if R b then {f a b} else {})"
  by (cases "R b") auto

lemma conf_pipelines_made:
  assumes loop: "conf_pipelines lord spec = Inr st" and names: "distinct (map pipeline_Name (spec_Pipelines spec))"
  shows "pipelines_made (NewInternalFilterMap lord (FilterMap spec)) spec (enumerate 0 (spec_Pipelines spec)) st"
proof (rule go_fold_snoc_invariant [OF loop [unfolded conf_pipelines_def]])
  let ?fm = "NewInternalFilterMap lord (FilterMap spec)"
  show "pipelines_made ?fm spec [] (Map.empty, \<lambda>n. map_option (\<lambda>_. []) (Outputs_Map (spec_Outputs spec) n))"
    by (simp add: pipelines_made_def)
  fix ys ip s s'
  assume inv: "pipelines_made ?fm spec ys s"
    and step: "(case s of (pipelineMap, outputs) \<Rightarrow> \<lambda>(i, p).
       go_bind (NewPipeline i p (set (Inputs_Names (spec_Inputs spec))) outputs ?fm (spec_Inputs spec) AddSystemFilters)
         (\<lambda>(a, outputs). ret (pipelineMap(pipeline_Name p \<mapsto> a), outputs))) ip = Inr s'"
    and pre: "prefix (ys @ [ip]) (enumerate 0 (spec_Pipelines spec))"
  obtain i p where ip: "ip = (i, p)" by (cases ip)
  obtain pm outs where s: "s = (pm, outs)" by (cases s)
  from pre obtain zs where "enumerate 0 (spec_Pipelines spec) = ys @ (i, p) # zs" by (auto simp: prefix_def ip)
  then have "map (pipeline_Name \<circ> snd) (ys @ (i, p) # zs) = map pipeline_Name (spec_Pipelines spec)"
    by (metis map_map map_snd_enumerate)
  then have "distinct (map (pipeline_Name \<circ> snd) (ys @ (i, p) # zs))" using names by (simp only:)
  then have new: "pipeline_Name p \<notin> (pipeline_Name \<circ> snd) ` set ys" by (auto simp: distinct_map)
  obtain pl outs' where np: "NewPipeline i p (set (Inputs_Names (spec_Inputs spec))) outs ?fm (spec_Inputs spec)
      AddSystemFilters = Inr (pl, outs')" and s': "s' = (pm(pipeline_Name p \<mapsto> pl), outs')"
    using step by (auto simp: ip s go_bind_Inr_iff)
  have known: "refs_known ?fm p" using np NewPipeline_returns by (metis sum.disc(2))
  have made: "pipeline_made i p (set (Inputs_Names (spec_Inputs spec))) ?fm (spec_Inputs spec) pl"
    and outs': "outs' = foldl (add_output_input [last_filter_id i p ?fm]) outs (pipeline_OutputRefs p)"
    using NewPipeline_result [OF known, of i "set (Inputs_Names (spec_Inputs spec))" outs "spec_Inputs spec"] np
    by (auto simp: pipeline_made_def)
  have old: "\<forall>(j, q)\<in>set ys. refs_known ?fm q \<and> (\<exists>pl. pm (pipeline_Name q) = Some pl
        \<and> pipeline_made j q (set (Inputs_Names (spec_Inputs spec))) ?fm (spec_Inputs spec) pl)"
    and outs: "\<forall>n. if Outputs_Map (spec_Outputs spec) n = None then outs n = None
               else \<exists>xs. outs n = Some xs
                    \<and> set xs = {last_filter_id i p ?fm |i p. (i, p) \<in> set ys \<and> n \<in> set (pipeline_OutputRefs p)}"
    using inv unfolding pipelines_made_def s prod.case by blast+
  have "\<forall>(j, q)\<in>set (ys @ [ip]). refs_known ?fm q \<and> (\<exists>pl'. (pm(pipeline_Name p \<mapsto> pl)) (pipeline_Name q) = Some pl'
        \<and> pipeline_made j q (set (Inputs_Names (spec_Inputs spec))) ?fm (spec_Inputs spec) pl')"
  proof (intro ballI, clarify)
    fix j q assume jq: "(j, q) \<in> set (ys @ [ip])"
    show "refs_known ?fm q \<and> (\<exists>pl'. (pm(pipeline_Name p \<mapsto> pl)) (pipeline_Name q) = Some pl'
        \<and> pipeline_made j q (set (Inputs_Names (spec_Inputs spec))) ?fm (spec_Inputs spec) pl')"
    proof (cases "(j, q) \<in> set ys")
      case True
      then have "pipeline_Name q \<noteq> pipeline_Name p" using new by force
      then show ?thesis using old True by auto
    next
      case False
      then show ?thesis using jq known made by (simp add: ip)
    qed
  qed
  moreover have "\<forall>n. if Outputs_Map (spec_Outputs spec) n = None then outs' n = None
               else \<exists>xs. outs' n = Some xs
                    \<and> set xs = {last_filter_id i p ?fm |i p. (i, p) \<in> set (ys @ [ip]) \<and> n \<in> set (pipeline_OutputRefs p)}"
  proof
    fix n
    show "if Outputs_Map (spec_Outputs spec) n = None then outs' n = None
               else \<exists>xs. outs' n = Some xs
                    \<and> set xs = {last_filter_id i p ?fm |i p. (i, p) \<in> set (ys @ [ip]) \<and> n \<in> set (pipeline_OutputRefs p)}"
    proof (cases "Outputs_Map (spec_Outputs spec) n")
      case None
      then show ?thesis using spec [OF outs, of n] by (simp add: outs' add_output_input_None)
    next
      case (Some out)
      then obtain xs where xs: "outs n = Some xs"
        "set xs = {last_filter_id i p ?fm |i p. (i, p) \<in> set ys \<and> n \<in> set (pipeline_OutputRefs p)}"
        using spec [OF outs, of n] by (simp del: not_None_eq) blast
      have "set (concat (replicate (count_list (pipeline_OutputRefs p) n) [last_filter_id i p ?fm]))
          = (if n \<in> set (pipeline_OutputRefs p) then {last_filter_id i p ?fm} else {})"
        by (auto simp: count_list_0_iff)
      then have "set (xs @ concat (replicate (count_list (pipeline_OutputRefs p) n) [last_filter_id i p ?fm]))
          = {last_filter_id i p ?fm |i p. (i, p) \<in> set ys \<and> n \<in> set (pipeline_OutputRefs p)}
            \<union> (if n \<in> set (pipeline_OutputRefs p) then {last_filter_id i p ?fm} else {})"
        by (simp only: set_append xs(2))
      also have "\<dots> = {last_filter_id i p ?fm |i p. (i, p) \<in> set (ys @ [ip]) \<and> n \<in> set (pipeline_OutputRefs p)}"
        unfolding ip collect_snoc ..
      finally show ?thesis
        using add_output_input_apply [of outs n xs "[last_filter_id i p ?fm]" "pipeline_OutputRefs p", OF xs(1)]
        by (simp add: outs' Some)
    qed
  qed
  ultimately show "pipelines_made ?fm spec (ys @ [ip]) s'" unfolding pipelines_made_def s' prod.case by blast
qed

section \<open>The loops of Conf\<close>

lemma map_of_names:
  assumes "n \<in> set (map k xs)"
  obtains x where "map_insert_all k id Map.empty xs n = Some x" "x \<in> set xs" "k x = n"
proof -
  have "n \<in> dom (map_insert_all k id Map.empty xs)" using assms by (simp add: dom_map_insert_all)
  then obtain x where x: "map_insert_all k id Map.empty xs n = Some x" by blast
  show thesis using map_insert_all_Some_elem [OF x] x that by auto
qed

definition source_ids_apart :: "ClusterLogForwarderSpec \<Rightarrow> bool" where
  "source_ids_apart spec \<longleftrightarrow>
     distinct (InternalMetricsSourceName # concat (map (input_source_ids \<circ> input_Name) (spec_Inputs spec)))"

definition transform_ids_apart :: "(string \<Rightarrow> string list) \<Rightarrow> ClusterLogForwarderSpec \<Rightarrow> bool" where
  "transform_ids_apart lord spec \<longleftrightarrow>
     distinct (AddNodenameToMetricTransformName # concat (map (input_transform_ids \<circ> input_Name) (spec_Inputs spec))
       @ concat (map (\<lambda>(i, p). pipeline_filter_ids i p (NewInternalFilterMap lord (FilterMap spec)))
                  (enumerate 0 (spec_Pipelines spec)))
       @ concat (map output_ids (spec_Outputs spec)))"

lemma input_rooms_apart:
  assumes "source_ids_apart spec" "transform_ids_apart lord spec"
    and "n \<in> set (Inputs_Names (spec_Inputs spec))" "m \<in> set (Inputs_Names (spec_Inputs spec))" "n \<noteq> m"
  shows "input_room n \<inter> input_room m = {}"
proof -
  obtain i j where ij: "i \<in> set (spec_Inputs spec)" "j \<in> set (spec_Inputs spec)" "input_Name i = n" "input_Name j = m"
    using assms(3,4) by (auto simp: Inputs_Names_def)
  then have "i \<noteq> j" using assms(5) by blast
  moreover have "distinct (concat (map (input_source_ids \<circ> input_Name) (spec_Inputs spec)))"
    "distinct (concat (map (input_transform_ids \<circ> input_Name) (spec_Inputs spec)))"
    using assms(1,2) unfolding source_ids_apart_def transform_ids_apart_def distinct.simps distinct_append by blast+
  ultimately have "set (input_source_ids n) \<inter> set (input_source_ids m) = {}"
    "set (input_transform_ids n) \<inter> set (input_transform_ids m) = {}"
    using distinct_concat_apart ij by (metis comp_apply)+
  then show ?thesis unfolding input_room_def by blast
qed

lemma inputs_loop:
  assumes loop: "go_fold (add_input env lks secrets) (config, op, ids)
      (sortAdapters (Inputs_Names (spec_Inputs spec)) (Inputs_Map (spec_Inputs spec))) = Inr (config', op', ids')"
    and apart: "source_ids_apart spec" "transform_ids_apart lord spec"
    and collects: "\<forall>i\<in>set (spec_Inputs spec). input_collects i"
    and opts: "options_ok spec op"
    and init: "\<forall>n\<in>set (Inputs_Names (spec_Inputs spec)). conf_used config \<inter> input_room n = {}"
  shows "options_ok spec op'" "cfg_Sinks config' = cfg_Sinks config"
    "conf_used config' \<subseteq> conf_used config \<union> (\<Union>n\<in>set (Inputs_Names (spec_Inputs spec)). input_room n)"
    "\<forall>n\<in>set (Inputs_Names (spec_Inputs spec)). conf_fed config' (ids' n)"
proof -
  let ?names = "sorted_set (Inputs_Names (spec_Inputs spec))"
  let ?input = "\<lambda>n. the (Inputs_Map (spec_Inputs spec) n)"
  define P where "P s = (case s of (c, op, ids) \<Rightarrow> options_ok spec op \<and> cfg_Sinks c = cfg_Sinks config)"
    for s :: conf_state
  define Q where "Q n s = (case s of (c, op, ids) \<Rightarrow> conf_fed c (ids n))" for n and s :: conf_state
  have loop': "go_fold (\<lambda>s n. add_input env lks secrets s (?input n)) (config, op, ids) ?names = Inr (config', op', ids')"
    using loop by (simp add: sortAdapters_def go_fold_map)
  have "P (config', op', ids') \<and> conf_used (fst (config', op', ids')) \<subseteq> conf_used (fst (config, op, ids))
      \<union> (\<Union>n\<in>set ?names. input_room n) \<and> (\<forall>n\<in>set ?names. Q n (config', op', ids'))"
  proof (rule growing_loop [OF loop' distinct_sorted_set, where used = "\<lambda>s. conf_used (fst s)"])
    fix s n s'
    assume n: "n \<in> set ?names" and step: "add_input env lks secrets s (?input n) = Inr s'"
      and s: "P s" "conf_used (fst s) \<inter> input_room n = {}"
    obtain i where i: "Inputs_Map (spec_Inputs spec) n = Some i" "i \<in> set (spec_Inputs spec)" "input_Name i = n"
      using map_of_names [of n input_Name "spec_Inputs spec"] n by (auto simp: Inputs_Names_def Inputs_Map_def)
    obtain c op1 ids1 c' op2 ids2 where ss: "s = (c, op1, ids1)" "s' = (c', op2, ids2)" by (metis prod_cases3)
    have "options_ok spec op1" "input_collects i" "conf_used c \<inter> input_room (input_Name i) = {}"
      using s collects i by (simp_all add: P_def ss)
    from add_input_step [OF step [unfolded ss i(1) option.sel] this]
    have new: "options_ok spec op2" "conf_le c c'" "conf_fed c' (ids2 n)" "ids2 = ids1(n := ids2 n)"
      "conf_used c' \<subseteq> conf_used c \<union> input_room n" "cfg_Sinks c' = cfg_Sinks c"
      unfolding i(3) by blast+
    have "Q m s'" if "m \<noteq> n" "Q m s" for m
      using that conf_fed_mono [OF _ new(2)] fun_cong [OF new(4), of m] by (simp add: Q_def ss)
    then show "P s' \<and> conf_used (fst s') \<subseteq> conf_used (fst s) \<union> input_room n \<and> Q n s'
        \<and> (\<forall>m\<in>set ?names. m \<noteq> n \<longrightarrow> Q m s \<longrightarrow> Q m s')"
      using new(1,3,5,6) s(1) by (simp add: P_def Q_def ss)
  next
    show "P (config, op, ids)" using opts by (simp add: P_def)
  next
    fix n assume "n \<in> set ?names"
    then show "conf_used (fst (config, op, ids)) \<inter> input_room n = {}" using init by simp
  next
    fix n m assume "n \<in> set ?names" "m \<in> set ?names" "n \<noteq> m"
    then show "input_room n \<inter> input_room m = {}" using input_rooms_apart [OF apart] by simp
  qed
  then show "options_ok spec op'" "cfg_Sinks config' = cfg_Sinks config"
    "conf_used config' \<subseteq> conf_used config \<union> (\<Union>n\<in>set (Inputs_Names (spec_Inputs spec)). input_room n)"
    "\<forall>n\<in>set (Inputs_Names (spec_Inputs spec)). conf_fed config' (ids' n)"
    by (simp_all add: P_def Q_def)
qed

definition pipeline_room :: "(string \<rightharpoonup> InternalFilterSpec) \<Rightarrow> ClusterLogForwarderSpec \<Rightarrow> string \<Rightarrow> (string + string) set" where
  "pipeline_room fm spec n =
     Inr ` {k. \<exists>(i, p)\<in>set (enumerate 0 (spec_Pipelines spec)). pipeline_Name p = n \<and> k \<in> set (pipeline_filter_ids i p fm)}"

lemma pipeline_rooms_apart:
  assumes "transform_ids_apart lord spec" "n \<noteq> m"
  shows "pipeline_room (NewInternalFilterMap lord (FilterMap spec)) spec n
    \<inter> pipeline_room (NewInternalFilterMap lord (FilterMap spec)) spec m = {}"
proof -
  let ?ids = "\<lambda>(i, p). pipeline_filter_ids i p (NewInternalFilterMap lord (FilterMap spec))"
  have "distinct (concat (map ?ids (enumerate 0 (spec_Pipelines spec))))"
    using assms(1) unfolding transform_ids_apart_def distinct.simps distinct_append by blast
  then have "set (?ids ip) \<inter> set (?ids jq) = {}"
    if "ip \<in> set (enumerate 0 (spec_Pipelines spec))" "jq \<in> set (enumerate 0 (spec_Pipelines spec))" "ip \<noteq> jq" for ip jq
    using that by (rule distinct_concat_apart)
  then show ?thesis using assms(2) by (fastforce simp: pipeline_room_def)
qed

definition pipelines_resolve :: "ClusterLogForwarderSpec \<Rightarrow> bool" where
  "pipelines_resolve spec \<longleftrightarrow>
     (\<forall>p\<in>set (spec_Pipelines spec). pipeline_InputRefs p \<noteq> []
        \<and> set (pipeline_InputRefs p) \<subseteq> set (Inputs_Names (spec_Inputs spec)))"

lemma pipelines_loop:
  assumes loop: "go_fold (add_pipeline ids) (Inr config)
      (sortAdapters (Pipelines_Names (spec_Pipelines spec)) pm) = Inr (Inr config')"
    and made: "pipelines_made fm spec (enumerate 0 (spec_Pipelines spec)) (pm, outputs)"
    and fm: "fm = NewInternalFilterMap lord (FilterMap spec)"
    and names: "distinct (Pipelines_Names (spec_Pipelines spec))" and apart: "transform_ids_apart lord spec"
    and valid: "\<forall>f\<in>ran (FilterMap spec). filter_ok compiles f \<and> filter_usable f
             \<and> range_order (filter_OpenshiftLabels f) (lord (filter_Name f))"
    and resolve: "pipelines_resolve spec"
    and fed: "\<forall>n\<in>set (Inputs_Names (spec_Inputs spec)). conf_fed config (ids n)"
    and init: "\<forall>n\<in>set (Pipelines_Names (spec_Pipelines spec)). conf_used config \<inter> pipeline_room fm spec n = {}"
  shows "cfg_Sinks config' = cfg_Sinks config"
    "conf_used config' \<subseteq> conf_used config \<union> (\<Union>n\<in>set (Pipelines_Names (spec_Pipelines spec)). pipeline_room fm spec n)"
    "\<forall>(i, p)\<in>set (enumerate 0 (spec_Pipelines spec)). conf_fed config' [last_filter_id i p fm]"
proof -
  let ?names = "sorted_set (Pipelines_Names (spec_Pipelines spec))"
  let ?enum = "set (enumerate 0 (spec_Pipelines spec))"
  define P where "P r = (case r of Inl e \<Rightarrow> True | Inr c \<Rightarrow> conf_le config c \<and> cfg_Sinks c = cfg_Sinks config)"
    for r :: "string + Config"
  define Q where "Q n r = (case r of Inl e \<Rightarrow> True
      | Inr c \<Rightarrow> \<forall>(i, p)\<in>?enum. pipeline_Name p = n \<longrightarrow> conf_fed c [last_filter_id i p fm])" for n and r :: "string + Config"
  define used where "used r = (case r of Inl e \<Rightarrow> {} | Inr c \<Rightarrow> conf_used c)" for r :: "string + Config"
  have loop': "go_fold (\<lambda>r n. add_pipeline ids r (the (pm n))) (Inr config) ?names = Inr (Inr config')"
    using loop by (simp add: sortAdapters_def go_fold_map)
  have "P (Inr config') \<and> used (Inr config') \<subseteq> used (Inr config) \<union> (\<Union>n\<in>set ?names. pipeline_room fm spec n)
      \<and> (\<forall>n\<in>set ?names. Q n (Inr config'))"
  proof (rule growing_loop [OF loop' distinct_sorted_set])
    fix r n r'
    assume n: "n \<in> set ?names" and step: "add_pipeline ids r (the (pm n)) = Inr r'"
      and r: "P r" "used r \<inter> pipeline_room fm spec n = {}"
    show "P r' \<and> used r' \<subseteq> used r \<union> pipeline_room fm spec n \<and> Q n r' \<and> (\<forall>m\<in>set ?names. m \<noteq> n \<longrightarrow> Q m r \<longrightarrow> Q m r')"
    proof (cases r)
      case (Inl e)
      then have "r' = Inl e" using step by (simp add: add_pipeline_def)
      then show ?thesis by (simp add: P_def Q_def used_def)
    next
      case (Inr c)
      have "n \<in> pipeline_Name ` snd ` ?enum"
        using n by (simp add: Pipelines_Names_def set_map [symmetric] del: set_map)
      then obtain i p where ip: "(i, p) \<in> ?enum" "pipeline_Name p = n" by auto
      obtain pl where known: "refs_known fm p" and pl: "pm n = Some pl"
        "pipeline_made i p (set (Inputs_Names (spec_Inputs spec))) fm (spec_Inputs spec) pl"
        using made ip unfolding pipelines_made_def prod.case by blast
      obtain tfs where tfs: "Pipeline_Transforms ids pl = Inr (Inr tfs)" "dom tfs = set (pipeline_filter_ids i p fm)"
        and chain: "\<And>S T. tfs \<subseteq>\<^sub>m T
          \<Longrightarrow> feeds S T (concat (map ids (filter (\<lambda>r. r \<in> set (Inputs_Names (spec_Inputs spec))) (pipeline_InputRefs p))))
          \<Longrightarrow> feeds S T [last_filter_id i p fm]"
        using pipeline_made_transforms [OF pl(2) [unfolded fm] known [unfolded fm] valid, of ids]
        unfolding fm by blast
      have r': "r' = Inr (AddTransforms tfs c)" using step tfs(1) by (simp add: add_pipeline_def Inr pl(1))
      have room: "Inr ` set (pipeline_filter_ids i p fm) \<subseteq> pipeline_room fm spec n"
        using ip by (auto simp: pipeline_room_def)
      moreover have "used r = conf_used c" by (simp add: used_def Inr)
      ultimately have "dom (cfg_Transforms c) \<inter> dom tfs = {}"
        using r(2) unfolding tfs(2) conf_used_def by blast
      note le = conf_le_add_transforms [OF this]
      have p: "p \<in> set (spec_Pipelines spec)" using ip(1) by (auto simp: enumerate_eq_zip dest: set_zip_rightD)
      then have refs: "pipeline_InputRefs p \<noteq> []" "set (pipeline_InputRefs p) \<subseteq> set (Inputs_Names (spec_Inputs spec))"
        using resolve by (auto simp: pipelines_resolve_def)
      have "conf_le config c" using r(1) by (simp add: P_def Inr)
      then have "conf_fed (AddTransforms tfs c) (ids n)" if "n \<in> set (pipeline_InputRefs p)" for n
        using fed that refs(2) conf_fed_mono [OF conf_fed_mono le(1)] by blast
      moreover have "filter (\<lambda>r. r \<in> set (Inputs_Names (spec_Inputs spec))) (pipeline_InputRefs p) = pipeline_InputRefs p"
        using refs(2) by (auto intro: filter_True)
      ultimately have "conf_fed (AddTransforms tfs c) (concat (map ids
            (filter (\<lambda>r. r \<in> set (Inputs_Names (spec_Inputs spec))) (pipeline_InputRefs p))))"
        using refs(1) by (cases "pipeline_InputRefs p") (auto simp: conf_fed_def feeds_def)
      then have last: "conf_fed (AddTransforms tfs c) [last_filter_id i p fm]"
        unfolding conf_fed_def by (rule chain [OF le(2)])
      have "conf_used (AddTransforms tfs c) \<subseteq> conf_used c \<union> pipeline_room fm spec n"
        using room tfs(2) by (auto simp: conf_used_def)
      moreover have "Q m r'" if "m \<noteq> n" "Q m r" for m
        using that conf_fed_mono [OF _ le(1)] by (auto simp: Q_def r' Inr)
      moreover have "conf_le config (AddTransforms tfs c)"
        by (rule conf_le_trans [OF \<open>conf_le config c\<close> le(1)])
      moreover have "(j, q) = (i, p)" if "(j, q) \<in> ?enum" "pipeline_Name q = n" for j q
        using that ip names by (auto simp: Pipelines_Names_def in_set_enumerate_eq distinct_conv_nth)
      ultimately show ?thesis
        using last r(1) by (auto simp: P_def Q_def used_def r' Inr)
    qed
  next
    show "P (Inr config)" by (simp add: P_def conf_le_def)
  next
    fix n assume "n \<in> set ?names"
    then show "used (Inr config) \<inter> pipeline_room fm spec n = {}" using init by (simp add: used_def)
  next
    fix n m :: string assume "n \<noteq> m"
    then show "pipeline_room fm spec n \<inter> pipeline_room fm spec m = {}"
      unfolding fm by (rule pipeline_rooms_apart [OF apart])
  qed
  then show "cfg_Sinks config' = cfg_Sinks config"
    "conf_used config' \<subseteq> conf_used config \<union> (\<Union>n\<in>set (Pipelines_Names (spec_Pipelines spec)). pipeline_room fm spec n)"
    "\<forall>(i, p)\<in>?enum. conf_fed config' [last_filter_id i p fm]"
    by (auto simp: P_def Q_def used_def Pipelines_Names_def enumerate_eq_zip dest: set_zip_rightD)
qed

definition output_room :: "ClusterLogForwarderSpec \<Rightarrow> string \<Rightarrow> (string + string) set" where
  "output_room spec n = Inr ` set (output_ids (the (Outputs_Map (spec_Outputs spec) n)))"

lemma output_rooms_apart:
  assumes "transform_ids_apart lord spec" "n \<in> set (Outputs_Names (spec_Outputs spec))"
    "m \<in> set (Outputs_Names (spec_Outputs spec))" "n \<noteq> m"
  shows "output_room spec n \<inter> output_room spec m = {}"
proof -
  obtain x where x: "Outputs_Map (spec_Outputs spec) n = Some x" "x \<in> set (spec_Outputs spec)" "output_Name x = n"
    using map_of_names [of n output_Name "spec_Outputs spec"] assms(2) by (auto simp: Outputs_Names_def Outputs_Map_def)
  obtain y where y: "Outputs_Map (spec_Outputs spec) m = Some y" "y \<in> set (spec_Outputs spec)" "output_Name y = m"
    using map_of_names [of m output_Name "spec_Outputs spec"] assms(3) by (auto simp: Outputs_Names_def Outputs_Map_def)
  have "x \<noteq> y" using x(3) y(3) assms(4) by blast
  moreover have "distinct (concat (map output_ids (spec_Outputs spec)))"
    using assms(1) unfolding transform_ids_apart_def distinct.simps distinct_append by blast
  ultimately have "set (output_ids x) \<inter> set (output_ids y) = {}" using distinct_concat_apart x(2) y(2) by metis
  then show ?thesis by (auto simp: output_room_def x(1) y(1))
qed

lemma add_output_step:
  assumes add: "add_output env outputs secrets (config, op) o' = Inr (config', op')"
    and opts: "options_ok spec op" and branch: "tenants_branch o' (InputSpecsTo (env_InputOrder env o') spec o')"
    and room: "conf_used config \<inter> Inr ` set (output_ids o') = {}"
    and fed: "conf_fed config (the (outputs (output_Name o')))"
    and sinks: "\<forall>sink\<in>ran (cfg_Sinks config). conf_fed config (sink_inputs sink)"
  shows "options_ok spec op'" "conf_le config config'" "conf_used config' \<subseteq> conf_used config \<union> Inr ` set (output_ids o')"
    "\<forall>sink\<in>ran (cfg_Sinks config'). conf_fed config' (sink_inputs sink)"
    "dom (cfg_Sinks config) \<subseteq> dom (cfg_Sinks config')"
    "one_sink (output_Type o') \<Longrightarrow> MakeOutputID [output_Name o'] \<in> dom (cfg_Sinks config')"
proof -
  let ?inputs = "the (outputs (output_Name o'))"
  obtain ss tfs where new: "output_New env o' ?inputs secrets op = Inr ((ss, tfs), op')"
    and config': "config' = AddTransforms tfs (AddSinks ss config)"
    using add by (auto simp: add_output_def go_bind_Inr_iff)
  note ok = output_New_ok [OF new opts branch]
  show "options_ok spec op'" by (rule ok(2))
  show "dom (cfg_Sinks config) \<subseteq> dom (cfg_Sinks config')" by (simp add: config')
  show "MakeOutputID [output_Name o'] \<in> dom (cfg_Sinks config')" if "one_sink (output_Type o')"
    using ok(4) [OF that] by (simp add: config')
  show "conf_used config' \<subseteq> conf_used config \<union> Inr ` set (output_ids o')"
    using ok(1) by (auto simp: conf_used_def config')
  have "dom (cfg_Transforms (AddSinks ss config)) \<inter> dom tfs = {}"
    using room ok(1) unfolding conf_used_def AddSinks_simps by blast
  note le = conf_le_add_transforms [OF this, folded config']
  have le_config: "conf_le config config'" using le(1) by (simp add: conf_le_def)
  then show "conf_le config config'" .
  show "\<forall>sink\<in>ran (cfg_Sinks config'). conf_fed config' (sink_inputs sink)"
  proof
    fix sink assume "sink \<in> ran (cfg_Sinks config')"
    then consider "sink \<in> ran (cfg_Sinks config)" | "sink \<in> ran ss"
      by (auto simp: config' ran_def map_add_Some_iff)
    then show "conf_fed config' (sink_inputs sink)"
    proof cases
      case 1
      then show ?thesis using sinks conf_fed_mono [OF _ le_config] by blast
    next
      case 2
      have "conf_fed config' ?inputs" by (rule conf_fed_mono [OF fed le_config])
      then show ?thesis using sinks_fedD [OF ok(3) 2 le(2)] by (simp add: conf_fed_def)
    qed
  qed
qed

lemma add_outputs_loop:
  assumes loop: "go_fold (add_output env outputs secrets) (config, op)
      (sortAdapters (Outputs_Names (spec_Outputs spec)) (Outputs_Map (spec_Outputs spec))) = Inr (config', op')"
    and apart: "transform_ids_apart lord spec" and opts: "options_ok spec op"
    and branch: "\<forall>o'\<in>set (spec_Outputs spec). tenants_branch o' (InputSpecsTo (env_InputOrder env o') spec o')"
    and fed: "\<forall>n\<in>set (Outputs_Names (spec_Outputs spec)). conf_fed config (the (outputs n))"
    and none: "cfg_Sinks config = Map.empty"
    and init: "\<forall>n\<in>set (Outputs_Names (spec_Outputs spec)). conf_used config \<inter> output_room spec n = {}"
  shows "conf_used config' \<subseteq> conf_used config \<union> (\<Union>n\<in>set (Outputs_Names (spec_Outputs spec)). output_room spec n)"
    "\<forall>sink\<in>ran (cfg_Sinks config'). conf_fed config' (sink_inputs sink)"
    "\<forall>n\<in>set (Outputs_Names (spec_Outputs spec)). one_sink (output_Type (the (Outputs_Map (spec_Outputs spec) n)))
       \<longrightarrow> MakeOutputID [n] \<in> dom (cfg_Sinks config')"
proof -
  let ?names = "sorted_set (Outputs_Names (spec_Outputs spec))"
  let ?output = "\<lambda>n. the (Outputs_Map (spec_Outputs spec) n)"
  define P where "P s = (case s of (c, op) \<Rightarrow> options_ok spec op \<and> conf_le config c
      \<and> (\<forall>sink\<in>ran (cfg_Sinks c). conf_fed c (sink_inputs sink)))" for s :: "Config \<times> Options"
  define Q where "Q n s \<longleftrightarrow> one_sink (output_Type (?output n)) \<longrightarrow> MakeOutputID [n] \<in> dom (cfg_Sinks (fst s))"
    for n and s :: "Config \<times> Options"
  have loop': "go_fold (\<lambda>s n. add_output env outputs secrets s (?output n)) (config, op) ?names = Inr (config', op')"
    using loop by (simp add: sortAdapters_def go_fold_map)
  have "P (config', op') \<and> conf_used (fst (config', op')) \<subseteq> conf_used (fst (config, op))
      \<union> (\<Union>n\<in>set ?names. output_room spec n) \<and> (\<forall>n\<in>set ?names. Q n (config', op'))"
  proof (rule growing_loop [OF loop' distinct_sorted_set, where used = "\<lambda>s. conf_used (fst s)"])
    fix s n s'
    assume n: "n \<in> set ?names" and step: "add_output env outputs secrets s (?output n) = Inr s'"
      and s: "P s" "conf_used (fst s) \<inter> output_room spec n = {}"
    obtain o' where out: "Outputs_Map (spec_Outputs spec) n = Some o'" "o' \<in> set (spec_Outputs spec)" "output_Name o' = n"
      using map_of_names [of n output_Name "spec_Outputs spec"] n by (auto simp: Outputs_Names_def Outputs_Map_def)
    obtain c op1 c' op2 where ss: "s = (c, op1)" "s' = (c', op2)" by (cases s, cases s')
    have "conf_fed c (the (outputs (output_Name o')))"
      using conf_fed_mono [of config _ c] fed n s(1) by (simp add: P_def ss out(3))
    moreover have "conf_used c \<inter> Inr ` set (output_ids o') = {}" using s(2) by (simp add: ss output_room_def out(1))
    ultimately have new: "options_ok spec op2" "conf_le c c'" "conf_used c' \<subseteq> conf_used c \<union> Inr ` set (output_ids o')"
      "\<forall>sink\<in>ran (cfg_Sinks c'). conf_fed c' (sink_inputs sink)" "dom (cfg_Sinks c) \<subseteq> dom (cfg_Sinks c')"
      "one_sink (output_Type o') \<Longrightarrow> MakeOutputID [n] \<in> dom (cfg_Sinks c')"
      using add_output_step [OF step [unfolded ss out(1) option.sel] _ bspec [OF branch out(2)]] s(1)
      by (simp_all add: P_def ss out(3))
    have "Q m s'" if "Q m s" for m using that new(5) by (auto simp: Q_def ss)
    then show "P s' \<and> conf_used (fst s') \<subseteq> conf_used (fst s) \<union> output_room spec n \<and> Q n s'
        \<and> (\<forall>m\<in>set ?names. m \<noteq> n \<longrightarrow> Q m s \<longrightarrow> Q m s')"
      using s(1) conf_le_trans [OF _ new(2), of config] new(1,3,4,6)
      by (simp add: P_def Q_def ss output_room_def out(1))
  next
    show "P (config, op)" using opts none by (simp add: P_def conf_le_def)
  next
    fix n assume "n \<in> set ?names"
    then show "conf_used (fst (config, op)) \<inter> output_room spec n = {}" using init by simp
  next
    fix n m assume "n \<in> set ?names" "m \<in> set ?names" "n \<noteq> m"
    then show "output_room spec n \<inter> output_room spec m = {}" using output_rooms_apart [OF apart] by simp
  qed
  then show "conf_used config' \<subseteq> conf_used config \<union> (\<Union>n\<in>set (Outputs_Names (spec_Outputs spec)). output_room spec n)"
    "\<forall>sink\<in>ran (cfg_Sinks config'). conf_fed config' (sink_inputs sink)"
    "\<forall>n\<in>set (Outputs_Names (spec_Outputs spec)). one_sink (output_Type (?output n))
       \<longrightarrow> MakeOutputID [n] \<in> dom (cfg_Sinks config')"
    by (simp_all add: P_def Q_def)
qed

section \<open>Conf\<close>

lemma rooms_are:
  "n \<in> set (Inputs_Names (spec_Inputs spec)) \<Longrightarrow> input_room n \<subseteq>
     Inl ` set (concat (map (input_source_ids \<circ> input_Name) (spec_Inputs spec)))
     \<union> Inr ` set (concat (map (input_transform_ids \<circ> input_Name) (spec_Inputs spec)))"
  "pipeline_room fm spec n \<subseteq>
     Inr ` set (concat (map (\<lambda>(i, p). pipeline_filter_ids i p fm) (enumerate 0 (spec_Pipelines spec))))"
  "n \<in> set (Outputs_Names (spec_Outputs spec)) \<Longrightarrow>
     output_room spec n \<subseteq> Inr ` set (concat (map output_ids (spec_Outputs spec)))"
proof -
  show "n \<in> set (Inputs_Names (spec_Inputs spec)) \<Longrightarrow> input_room n \<subseteq>
     Inl ` set (concat (map (input_source_ids \<circ> input_Name) (spec_Inputs spec)))
     \<union> Inr ` set (concat (map (input_transform_ids \<circ> input_Name) (spec_Inputs spec)))"
    by (auto simp: input_room_def Inputs_Names_def)
  show "pipeline_room fm spec n \<subseteq>
     Inr ` set (concat (map (\<lambda>(i, p). pipeline_filter_ids i p fm) (enumerate 0 (spec_Pipelines spec))))"
    by (auto simp: pipeline_room_def)
  assume "n \<in> set (Outputs_Names (spec_Outputs spec))"
  then obtain x where "Outputs_Map (spec_Outputs spec) n = Some x" "x \<in> set (spec_Outputs spec)"
    using map_of_names [of n output_Name "spec_Outputs spec"] by (auto simp: Outputs_Names_def Outputs_Map_def)
  then show "output_room spec n \<subseteq> Inr ` set (concat (map output_ids (spec_Outputs spec)))"
    by (auto simp: output_room_def)
qed

lemma conf_init_simps:
  "conf_used (conf_init namespace forwarderName) = {Inl InternalMetricsSourceName}"
  "cfg_Sinks (conf_init namespace forwarderName) = Map.empty"
  by (auto simp: conf_init_def NewConfig_def conf_Global_def Let_def conf_used_def)

lemma options_ok_start:
  "op_OtlpLogSources op = None \<Longrightarrow> op_CLFSpec op = Some spec \<Longrightarrow> options_ok spec op"
proof -
  have "has_branch allLogSources" by (simp add: has_branch_def allLogSources_def)
  then show "op_OtlpLogSources op = None \<Longrightarrow> op_CLFSpec op = Some spec \<Longrightarrow> ?thesis"
    by (simp add: options_ok_def otlp_sources_def GetOption_def)
qed

definition outputs_used :: "ClusterLogForwarderSpec \<Rightarrow> bool" where
  "outputs_used spec \<longleftrightarrow>
     (\<forall>n\<in>set (Outputs_Names (spec_Outputs spec)). \<exists>p\<in>set (spec_Pipelines spec). n \<in> set (pipeline_OutputRefs p))"

lemma outputs_fed:
  assumes made: "pipelines_made fm spec (enumerate 0 (spec_Pipelines spec)) (pm, outputs)" and used: "outputs_used spec"
    and last: "\<forall>(i, p)\<in>set (enumerate 0 (spec_Pipelines spec)). conf_fed c [last_filter_id i p fm]"
    and n: "n \<in> set (Outputs_Names (spec_Outputs spec))"
  shows "conf_fed c (the (outputs n))"
proof -
  let ?enum = "set (enumerate 0 (spec_Pipelines spec))"
  have "Outputs_Map (spec_Outputs spec) n \<noteq> None"
    using map_of_names [of n output_Name "spec_Outputs spec"] n by (auto simp: Outputs_Names_def Outputs_Map_def)
  moreover have "if Outputs_Map (spec_Outputs spec) n = None then outputs n = None
      else \<exists>xs. outputs n = Some xs \<and> set xs = {last_filter_id i p fm |i p. (i, p) \<in> ?enum \<and> n \<in> set (pipeline_OutputRefs p)}"
    using made unfolding pipelines_made_def prod.case by blast
  ultimately obtain xs where xs: "outputs n = Some xs"
    "set xs = {last_filter_id i p fm |i p. (i, p) \<in> ?enum \<and> n \<in> set (pipeline_OutputRefs p)}"
    by (simp del: not_None_eq) blast
  obtain p where p: "p \<in> set (spec_Pipelines spec)" "n \<in> set (pipeline_OutputRefs p)"
    using used n unfolding outputs_used_def by blast
  obtain i where "i < length (spec_Pipelines spec)" "spec_Pipelines spec ! i = p"
    using p(1) unfolding in_set_conv_nth by blast
  then have "(i, p) \<in> ?enum" by (simp add: in_set_enumerate_eq)
  then have "last_filter_id i p fm \<in> set xs" using p(2) unfolding xs(2) by blast
  then have "xs \<noteq> []" by auto
  moreover have "delivers (cfg_Sources c) (cfg_Transforms c) k" if "k \<in> set xs" for k
    using that last unfolding xs(2) by (fastforce simp: conf_fed_def feeds_def)
  ultimately show ?thesis by (simp add: conf_fed_def feeds_def xs(1))
qed

text \<open>
  A specification whose configuration is in order: names differ within a kind, so do the identifiers
  of the components, every input collects something, every pipeline has inputs, every output is used.
\<close>

definition spec_composes :: "Env \<Rightarrow> (string \<Rightarrow> string list) \<Rightarrow> (string \<Rightarrow> bool) \<Rightarrow> ClusterLogForwarderSpec \<Rightarrow> bool" where
  "spec_composes env lord compiles spec \<longleftrightarrow>
     distinct (Pipelines_Names (spec_Pipelines spec))
     \<and> source_ids_apart spec \<and> transform_ids_apart lord spec
     \<and> (\<forall>i\<in>set (spec_Inputs spec). input_collects i)
     \<and> (\<forall>f\<in>ran (FilterMap spec). filter_ok compiles f \<and> filter_usable f
          \<and> range_order (filter_OpenshiftLabels f) (lord (filter_Name f)))
     \<and> pipelines_resolve spec \<and> outputs_used spec
     \<and> (\<forall>o'\<in>set (spec_Outputs spec). tenants_branch o' (InputSpecsTo (env_InputOrder env o') spec o'))"

lemma Conf_fed:
  assumes conf: "Conf env lks lord secrets spec namespace forwarderName op0 = Inr (Inr config)"
    and composes: "spec_composes env lord compiles spec" and start: "op_OtlpLogSources op0 = None"
  shows "\<forall>k sink. cfg_Sinks config k = Some sink \<longrightarrow> k \<noteq> PrometheusOutputSinkName \<longrightarrow> conf_fed config (sink_inputs sink)"
    "\<forall>n\<in>set (Outputs_Names (spec_Outputs spec)). one_sink (output_Type (the (Outputs_Map (spec_Outputs spec) n)))
       \<longrightarrow> MakeOutputID [n] \<in> dom (cfg_Sinks config)"
proof -
  define fm where "fm = NewInternalFilterMap lord (FilterMap spec)"
  define op1 where "op1 = op0\<lparr>op_CLFSpec := Some spec, op_ForwarderName := Some forwarderName\<rparr>"
  obtain pm outputs c1 op2 ids r where pipelines: "conf_pipelines lord spec = Inr (pm, outputs)"
    and inputs: "go_fold (add_input env lks secrets) (conf_init namespace forwarderName, op1, \<lambda>_. [])
          (sortAdapters (Inputs_Names (spec_Inputs spec)) (Inputs_Map (spec_Inputs spec))) = Inr (c1, op2, ids)"
    and r: "go_fold (add_pipeline ids) (Inr c1) (sortAdapters (Pipelines_Names (spec_Pipelines spec)) pm) = Inr r"
      "(case r of Inl e \<Rightarrow> ret (Inl e)
        | Inr config \<Rightarrow> go_bind (go_fold (add_output env outputs secrets) (config, op2)
              (sortAdapters (Outputs_Names (spec_Outputs spec)) (Outputs_Map (spec_Outputs spec))))
            (\<lambda>(config, op). ret (Inr (conf_metrics env op config)))) = Inr (Inr config)"
    using conf unfolding Conf_def Let_def op1_def go_bind_Inr_iff split_paired_Ex prod.case by blast
  obtain c2 where c2: "r = Inr c2" using r(2) by (cases r) simp_all
  note transforms = r(1) [unfolded c2]
  obtain c3 op3 where outs: "go_fold (add_output env outputs secrets) (c2, op2)
          (sortAdapters (Outputs_Names (spec_Outputs spec)) (Outputs_Map (spec_Outputs spec))) = Inr (c3, op3)"
    and config: "config = conf_metrics env op3 c3"
    using r(2) unfolding c2 by (auto simp: go_bind_Inr_iff)
  have names: "distinct (Pipelines_Names (spec_Pipelines spec))"
    and apart: "source_ids_apart spec" "transform_ids_apart lord spec"
    and collects: "\<forall>i\<in>set (spec_Inputs spec). input_collects i"
    and valid: "\<forall>f\<in>ran (FilterMap spec). filter_ok compiles f \<and> filter_usable f
          \<and> range_order (filter_OpenshiftLabels f) (lord (filter_Name f))"
    and resolve: "pipelines_resolve spec" and used: "outputs_used spec"
    and branch: "\<forall>o'\<in>set (spec_Outputs spec). tenants_branch o' (InputSpecsTo (env_InputOrder env o') spec o')"
    using composes unfolding spec_composes_def by blast+
  define I where "I = set (concat (map (input_transform_ids \<circ> input_Name) (spec_Inputs spec)))"
  define J where "J = set (concat (map (\<lambda>(i, p). pipeline_filter_ids i p fm) (enumerate 0 (spec_Pipelines spec))))"
  define K where "K = set (concat (map output_ids (spec_Outputs spec)))"
  define L where "L = set (concat (map (input_source_ids \<circ> input_Name) (spec_Inputs spec)))"
  have IJK: "I \<inter> J = {}" "I \<inter> K = {}" "J \<inter> K = {}" "AddNodenameToMetricTransformName \<notin> I \<union> J \<union> K"
    using apart(2) unfolding transform_ids_apart_def fm_def [symmetric] distinct.simps distinct_append set_append
      I_def [symmetric] J_def [symmetric] K_def [symmetric] by blast+
  have L: "InternalMetricsSourceName \<notin> L" using apart(1) unfolding source_ids_apart_def distinct.simps L_def by blast
  note rooms = rooms_are [of _ spec, folded I_def L_def] rooms_are(2) [of fm spec, folded J_def]
    rooms_are(3) [of _ spec, folded K_def]
  have opts: "options_ok spec op1" using start by (intro options_ok_start) (simp_all add: op1_def)
  have "\<forall>n\<in>set (Inputs_Names (spec_Inputs spec)). conf_used (conf_init namespace forwarderName) \<inter> input_room n = {}"
    using rooms(1) L by (fastforce simp: conf_init_simps)
  note c1 = inputs_loop [OF inputs apart collects opts this]
  have used1: "conf_used c1 \<subseteq> insert (Inl InternalMetricsSourceName) (Inl ` L \<union> Inr ` I)"
    using c1(3) rooms(1) unfolding conf_init_simps by blast
  note made = conf_pipelines_made [OF pipelines names [unfolded Pipelines_Names_def], folded fm_def]
  have "\<forall>n\<in>set (Pipelines_Names (spec_Pipelines spec)). conf_used c1 \<inter> pipeline_room fm spec n = {}"
    using used1 rooms_are(2) [of fm spec, folded J_def] IJK(1) by blast
  note c2 = pipelines_loop [OF transforms made fm_def names apart(2) valid resolve c1(4) this]
  have used2: "conf_used c2 \<subseteq> insert (Inl InternalMetricsSourceName) (Inl ` L \<union> Inr ` (I \<union> J))"
    using c2(2) used1 rooms_are(2) [of fm spec, folded J_def] by blast
  have apart2: "\<forall>n\<in>set (Outputs_Names (spec_Outputs spec)). conf_used c2 \<inter> output_room spec n = {}"
    using used2 rooms_are(3) [of _ spec, folded K_def] IJK(2,3) by blast
  have fed2: "\<forall>n\<in>set (Outputs_Names (spec_Outputs spec)). conf_fed c2 (the (outputs n))"
    by (intro ballI outputs_fed [OF made used c2(3)])
  have none: "cfg_Sinks c2 = Map.empty" using c1(2) c2(1) by (simp add: conf_init_simps)
  note c3 = add_outputs_loop [OF outs apart(2) c1(1) branch fed2 none apart2]
  have "conf_used c3 \<subseteq> insert (Inl InternalMetricsSourceName) (Inl ` L \<union> Inr ` (I \<union> J \<union> K))"
    using c3(1) used2 rooms_are(3) [of _ spec, folded K_def] by blast
  then have "AddNodenameToMetricTransformName \<notin> dom (cfg_Transforms c3)"
    using IJK(4) unfolding conf_used_def by blast
  then have le: "conf_le c3 config"
    by (auto simp: conf_le_def config conf_metrics_def map_le_def)
  have "conf_fed config (sink_inputs sink)" if "cfg_Sinks config k = Some sink" "k \<noteq> PrometheusOutputSinkName" for k sink
  proof -
    have "sink \<in> ran (cfg_Sinks c3)" using that by (auto simp: config conf_metrics_def intro: ranI)
    then show ?thesis using c3(2) conf_fed_mono [OF _ le] by blast
  qed
  then show "\<forall>k sink. cfg_Sinks config k = Some sink \<longrightarrow> k \<noteq> PrometheusOutputSinkName \<longrightarrow> conf_fed config (sink_inputs sink)"
    by blast
  have "dom (cfg_Sinks c3) \<subseteq> dom (cfg_Sinks config)" by (auto simp: config conf_metrics_def)
  then show "\<forall>n\<in>set (Outputs_Names (spec_Outputs spec)). one_sink (output_Type (the (Outputs_Map (spec_Outputs spec) n)))
       \<longrightarrow> MakeOutputID [n] \<in> dom (cfg_Sinks config)"
    using c3(3) by blast
qed

section \<open>When Conf returns\<close>

definition rate_known :: "InputSpec \<Rightarrow> bool" where
  "rate_known inp \<longleftrightarrow> infra_tuning_ok inp
     \<or> Option.bind (input_Application inp) (\<lambda>app. Option.bind (app_Tuning app) citune_RateLimitPerContainer) \<noteq> None"

definition source_complete :: "InputSpec \<Rightarrow> bool" where
  "source_complete inp =
     (case input_Type inp of
        InputTypeReceiver \<Rightarrow> receiver_known inp
      | InputTypeApplication \<Rightarrow> rate_known inp
      | InputTypeInfrastructure \<Rightarrow> InfrastructureSourceContainer \<in> infra_sources_of inp \<longrightarrow> rate_known inp
      | _ \<Rightarrow> True)"

lemma returns_NewSource: "returns (NewSource env lks inp secrets op) \<longleftrightarrow> source_complete inp"
  by (cases "input_Type inp")
    (auto simp: NewSource_def Let_def returns_go_bind returns_receiver returns_NewContainerSource
      returns_MaxRecordsPerSecond returns_infra_rate_limit source_complete_def rate_known_def)

definition aws_complete :: "AwsAuthentication option \<Rightarrow> bool" where
  "aws_complete auth =
     (case auth of None \<Rightarrow> True | Some a \<Rightarrow> aws_Type a = AwsAuthTypeAccessKey \<longrightarrow> aws_AwsAccessKey a \<noteq> None)"

lemma returns_aws_auth_New: "returns (aws_auth_New name auth op) \<longleftrightarrow> aws_complete auth"
  by (auto simp: aws_auth_New_def aws_complete_def returns_go_bind Let_def split: option.splits AwsAuthType.splits)

text \<open>What the sink of an output needs besides its type.\<close>

definition sink_complete :: "OutputSpec \<Rightarrow> bool" where
  "sink_complete o' =
     (case output_Type o' of
        OutputTypeKafka \<Rightarrow>
          (case output_Kafka o' of None \<Rightarrow> False | Some k \<Rightarrow> kafka_Topic k \<noteq> [] \<or> url_Parse (kafka_URL k) \<noteq> None)
      | OutputTypeLoki \<Rightarrow> output_Loki o' \<noteq> None
      | OutputTypeElasticsearch \<Rightarrow> output_Elasticsearch o' \<noteq> None
      | OutputTypeCloudwatch \<Rightarrow>
          (case output_Cloudwatch o' of None \<Rightarrow> False | Some cw \<Rightarrow> aws_complete (cw_Authentication cw))
      | OutputTypeS3 \<Rightarrow> (case output_S3 o' of None \<Rightarrow> False | Some s3 \<Rightarrow> aws_complete (s3_Authentication s3))
      | OutputTypeSplunk \<Rightarrow> output_Splunk o' \<noteq> None
      | OutputTypeHTTP \<Rightarrow> output_HTTP o' \<noteq> None
      | OutputTypeSyslog \<Rightarrow>
          (case output_Syslog o' of None \<Rightarrow> False
           | Some s \<Rightarrow> length (syslog_PayloadKey s) \<noteq> 1 \<and> url_Parse (syslog_URL s) \<noteq> None)
      | OutputTypeAzureLogsIngestion \<Rightarrow> output_AzureLogsIngestion o' \<noteq> None
      | OutputTypeAzureMonitor \<Rightarrow> output_AzureMonitor o' \<noteq> None
      | OutputTypeOTLP \<Rightarrow> output_OTLP o' \<noteq> None
      | _ \<Rightarrow> True)"

lemma returns_PayloadKey: "returns (PayloadKey k) \<longleftrightarrow> length k \<noteq> 1"
  by (cases k; cases "tl k") (auto simp: PayloadKey_def slice_def)

lemma returns_parseEncoding: "returns (parseEncoding env inputs s) \<longleftrightarrow> length (syslog_PayloadKey s) \<noteq> 1"
  by (simp add: parseEncoding_def Let_def returns_go_bind returns_PayloadKey)

lemma returns_sinks_of:
  assumes "output_Type o' \<noteq> OutputTypeLokiStack" "otlp_sources op \<noteq> []"
  shows "returns (sinks_of env oid o' inputs secrets op) \<longleftrightarrow> sink_complete o'"
  using assms
  by (cases "output_Type o'")
    (auto simp: sinks_of_def sink_complete_def Let_def returns_go_bind returns_aws_auth_New returns_loki_New
      returns_otlp_New returns_parseEncoding kafka_New_def kafka_topic_def elasticsearch_New_def cloudwatch_New_def
      s3_New_def splunk_New_def http_New_def syslog_New_def azurelogsingestion_New_def azuremonitor_New_def
      split: option.splits prod.splits)

definition lokistack_complete :: "Env \<Rightarrow> ClusterLogForwarderSpec \<Rightarrow> OutputSpec \<Rightarrow> bool" where
  "lokistack_complete env spec o' =
     (let ins = InputSpecsTo (env_InputOrder env o') spec o' in
      spec_complete spec \<and> receivers_known ins
      \<and> (case output_LokiStack o' of
           None \<Rightarrow> False
         | Some ls \<Rightarrow> lokistack_Authentication ls \<noteq> None
             \<and> (lokistack_DataModel ls = LokiStackDataModelOpenTelemetry \<longrightarrow>
                  (\<forall>i\<in>set ins. \<forall>t\<in>set (tenant_names i). tenant_sources ins t \<noteq> []))))"

definition output_complete :: "Env \<Rightarrow> ClusterLogForwarderSpec \<Rightarrow> OutputSpec \<Rightarrow> bool" where
  "output_complete env spec o' =
     (if output_Type o' = OutputTypeLokiStack then lokistack_complete env spec o' else sink_complete o')"

lemma returns_output_New:
  assumes "output_complete env spec o'" "options_ok spec op"
  shows "returns (output_New env o' inputs secrets op)"
proof -
  have "returns (sinks_of env oid o' inputs secrets op1)" if opts: "options_ok spec op1" for oid inputs op1
  proof (cases "output_Type o' = OutputTypeLokiStack")
    case True
    then obtain ls auth where ls: "output_LokiStack o' = Some ls" "lokistack_Authentication ls = Some auth"
      "spec_complete spec" "receivers_known (InputSpecsTo (env_InputOrder env o') spec o')"
      "lokistack_DataModel ls = LokiStackDataModelOpenTelemetry \<longrightarrow>
         (\<forall>i\<in>set (InputSpecsTo (env_InputOrder env o') spec o').
            \<forall>t\<in>set (tenant_names i). tenant_sources (InputSpecsTo (env_InputOrder env o') spec o') t \<noteq> [])"
      using assms(1) by (auto simp: output_complete_def lokistack_complete_def Let_def split: option.split_asm)
    have "op_CLFSpec op1 = Some spec" using opts by (simp add: options_ok_def)
    then have "returns (lokistack_New env oid o' inputs secrets op1)"
      using returns_lokistack_New [OF _ ls(3,1,2) refl ls(4)] ls(5) by blast
    then show ?thesis using True by (simp add: sinks_of_def)
  next
    case False
    have "otlp_sources op1 \<noteq> []" using opts by (auto simp: options_ok_def has_branch_def)
    then show ?thesis using returns_sinks_of [OF False] assms(1) False by (simp add: output_complete_def)
  qed
  then show ?thesis
    using assms(2) by (auto simp: output_New_def Let_def returns_go_bind split: prod.splits)
qed

lemma go_fold_total:
  assumes "I s" "\<And>s x. x \<in> set xs \<Longrightarrow> I s \<Longrightarrow> \<exists>s'. f s x = Inr s' \<and> I s'"
  shows "\<exists>s'. go_fold f s xs = Inr s' \<and> I s'"
  using assms
proof (induction xs arbitrary: s)
  case (Cons x xs)
  then obtain s1 where s1: "f s x = Inr s1" "I s1" by (meson list.set_intros(1))
  from Cons.IH [OF s1(2)] Cons.prems(2) obtain s' where "go_fold f s1 xs = Inr s' \<and> I s'" by (meson list.set_intros(2))
  then show ?case using s1(1) by simp
qed simp

lemma enumerate_snd: "ip \<in> set (enumerate n xs) \<Longrightarrow> snd ip \<in> set xs"
  by (metis imageI list.set_map map_snd_enumerate)

lemma conf_pipelines_total:
  assumes "\<forall>p\<in>set (spec_Pipelines spec). refs_known (NewInternalFilterMap lord (FilterMap spec)) p"
  shows "\<exists>st. conf_pipelines lord spec = Inr st"
proof -
  have "\<exists>st. conf_pipelines lord spec = Inr st \<and> True"
    unfolding conf_pipelines_def
  proof (rule go_fold_total [where I = "\<lambda>_. True"])
    fix s :: "(string \<rightharpoonup> Pipeline) \<times> OutputInputs" and ip
    assume "ip \<in> set (enumerate 0 (spec_Pipelines spec))"
    then have "snd ip \<in> set (spec_Pipelines spec)" by (rule enumerate_snd)
    then have "refs_known (NewInternalFilterMap lord (FilterMap spec)) (snd ip)" using assms by blast
    moreover obtain pm outs i p where s: "s = (pm, outs)" "ip = (i, p)" by (cases s; cases ip)
    ultimately have "refs_known (NewInternalFilterMap lord (FilterMap spec)) p" by simp
    from NewPipeline_result [OF this, of i "set (Inputs_Names (spec_Inputs spec))" outs "spec_Inputs spec"]
    show "\<exists>s'. (case s of (pipelineMap, outputs) \<Rightarrow> \<lambda>(i, p).
       go_bind (NewPipeline i p (set (Inputs_Names (spec_Inputs spec))) outputs
                  (NewInternalFilterMap lord (FilterMap spec)) (spec_Inputs spec) AddSystemFilters)
         (\<lambda>(a, outputs). ret (pipelineMap(pipeline_Name p \<mapsto> a), outputs))) ip = Inr s' \<and> True"
      unfolding s prod.case by auto
  qed simp
  then show ?thesis by blast
qed

lemma named_output:
  assumes "n \<in> set (Outputs_Names (spec_Outputs spec))"
  shows "the (Outputs_Map (spec_Outputs spec) n) \<in> set (spec_Outputs spec)"
proof -
  obtain x where "Outputs_Map (spec_Outputs spec) n = Some x" "x \<in> set (spec_Outputs spec)"
    using map_of_names [of n output_Name "spec_Outputs spec"] assms by (auto simp: Outputs_Names_def Outputs_Map_def)
  then show ?thesis by simp
qed

lemma named_input:
  assumes "n \<in> set (Inputs_Names (spec_Inputs spec))"
  shows "the (Inputs_Map (spec_Inputs spec) n) \<in> set (spec_Inputs spec)"
proof -
  obtain x where "Inputs_Map (spec_Inputs spec) n = Some x" "x \<in> set (spec_Inputs spec)"
    using map_of_names [of n input_Name "spec_Inputs spec"] assms by (auto simp: Inputs_Names_def Inputs_Map_def)
  then show ?thesis by simp
qed

lemma Conf_total:
  assumes composes: "spec_composes env lord compiles spec" and start: "op_OtlpLogSources op0 = None"
    and sources: "\<forall>i\<in>set (spec_Inputs spec). source_complete i"
    and known: "\<forall>p\<in>set (spec_Pipelines spec). refs_known (NewInternalFilterMap lord (FilterMap spec)) p"
    and sinks: "\<forall>o'\<in>set (spec_Outputs spec). output_complete env spec o'"
  shows "\<exists>config. Conf env lks lord secrets spec namespace forwarderName op0 = Inr (Inr config)"
proof -
  define op1 where "op1 = op0\<lparr>op_CLFSpec := Some spec, op_ForwarderName := Some forwarderName\<rparr>"
  have opts: "options_ok spec op1" using start by (intro options_ok_start) (simp_all add: op1_def)
  have names: "distinct (Pipelines_Names (spec_Pipelines spec))"
    and valid: "\<forall>f\<in>ran (FilterMap spec). filter_ok compiles f \<and> filter_usable f
          \<and> range_order (filter_OpenshiftLabels f) (lord (filter_Name f))"
    and branch: "\<forall>o'\<in>set (spec_Outputs spec). tenants_branch o' (InputSpecsTo (env_InputOrder env o') spec o')"
    using composes unfolding spec_composes_def by blast+
  obtain pm outputs where pipelines: "conf_pipelines lord spec = Inr (pm, outputs)"
    using conf_pipelines_total [OF known] by auto
  note made = conf_pipelines_made [OF pipelines names [unfolded Pipelines_Names_def]]
  have "\<exists>s'. go_fold (add_input env lks secrets) (conf_init namespace forwarderName, op1, \<lambda>_. [])
          (sortAdapters (Inputs_Names (spec_Inputs spec)) (Inputs_Map (spec_Inputs spec))) = Inr s'
        \<and> options_ok spec (fst (snd s'))"
  proof (rule go_fold_total)
    fix s :: conf_state and i
    assume i: "i \<in> set (sortAdapters (Inputs_Names (spec_Inputs spec)) (Inputs_Map (spec_Inputs spec)))"
      and s: "options_ok spec (fst (snd s))"
    obtain c op ids where ss: "s = (c, op, ids)" by (metis prod_cases3)
    have "source_complete i" using i named_input sources by (auto simp: sortAdapters_def)
    then obtain parts op' where "NewSource env (lks i) i secrets op = Inr (parts, op')"
      using returns_NewSource [of env "lks i" i secrets op] by (auto elim!: returnsE)
    then show "\<exists>s'. add_input env lks secrets s i = Inr s' \<and> options_ok spec (fst (snd s'))"
      using s NewSource_options by (cases parts) (fastforce simp: add_input_def ss)
  qed (simp add: opts)
  then obtain c1 op2 ids where inputs: "go_fold (add_input env lks secrets) (conf_init namespace forwarderName, op1, \<lambda>_. [])
          (sortAdapters (Inputs_Names (spec_Inputs spec)) (Inputs_Map (spec_Inputs spec))) = Inr (c1, op2, ids)"
    and opts2: "options_ok spec op2" by auto
  have "\<exists>r. go_fold (add_pipeline ids) (Inr c1) (sortAdapters (Pipelines_Names (spec_Pipelines spec)) pm) = Inr r
      \<and> (\<exists>c. r = Inr c)"
  proof (rule go_fold_total)
    fix r :: "string + Config" and pl
    assume pl: "pl \<in> set (sortAdapters (Pipelines_Names (spec_Pipelines spec)) pm)" and r: "\<exists>c. r = Inr (c :: Config)"
    obtain n where n: "n \<in> set (Pipelines_Names (spec_Pipelines spec))" "pl = the (pm n)"
      using pl by (auto simp: sortAdapters_def)
    have "n \<in> pipeline_Name ` snd ` set (enumerate 0 (spec_Pipelines spec))"
      using n by (simp add: Pipelines_Names_def set_map [symmetric] del: set_map)
    then obtain i p where ip: "(i, p) \<in> set (enumerate 0 (spec_Pipelines spec))" "pipeline_Name p = n" by auto
    then obtain pl' where known': "refs_known (NewInternalFilterMap lord (FilterMap spec)) p" and pl': "pm n = Some pl'"
      "pipeline_made i p (set (Inputs_Names (spec_Inputs spec))) (NewInternalFilterMap lord (FilterMap spec))
         (spec_Inputs spec) pl'"
      using made unfolding pipelines_made_def prod.case by blast
    obtain tfs where "Pipeline_Transforms ids pl = Inr (Inr tfs)"
      using pipeline_made_transforms [OF pl'(2) known' valid, of ids] n(2) pl'(1) by auto
    then show "\<exists>r'. add_pipeline ids r pl = Inr r' \<and> (\<exists>c. r' = Inr c)" using r by (auto simp: add_pipeline_def)
  qed simp
  then obtain c2 where transforms: "go_fold (add_pipeline ids) (Inr c1)
      (sortAdapters (Pipelines_Names (spec_Pipelines spec)) pm) = Inr (Inr c2)" by blast
  have "\<exists>s'. go_fold (add_output env outputs secrets) (c2, op2)
          (sortAdapters (Outputs_Names (spec_Outputs spec)) (Outputs_Map (spec_Outputs spec))) = Inr s'
        \<and> options_ok spec (snd s')"
  proof (rule go_fold_total)
    fix s :: "Config \<times> Options" and o'
    assume o': "o' \<in> set (sortAdapters (Outputs_Names (spec_Outputs spec)) (Outputs_Map (spec_Outputs spec)))"
      and s: "options_ok spec (snd s)"
    obtain c op where ss: "s = (c, op)" by (cases s)
    have mem: "o' \<in> set (spec_Outputs spec)" using o' named_output by (auto simp: sortAdapters_def)
    then have "returns (output_New env o' (the (outputs (output_Name o'))) secrets op)"
      using returns_output_New [OF bspec [OF sinks mem], of op] s by (simp add: ss)
    then obtain ss' tfs op' where new: "output_New env o' (the (outputs (output_Name o'))) secrets op = Inr ((ss', tfs), op')"
      by (auto elim!: returnsE)
    have "options_ok spec op'" using output_New_ok(2) [OF new] s bspec [OF branch mem] by (simp add: ss)
    then show "\<exists>s'. add_output env outputs secrets s o' = Inr s' \<and> options_ok spec (snd s')"
      using new by (simp add: add_output_def ss)
  qed (simp add: opts2)
  then show ?thesis using pipelines inputs transforms by (auto simp: Conf_def op1_def Let_def)
qed

section \<open>Properties\<close>


definition sample_input :: InputSpec where
  "sample_input = InputSpec_zero \<lparr>input_Name := ''app'', input_Type := InputTypeApplication\<rparr>"

definition sample_http_output :: OutputSpec where
  "sample_http_output = OutputSpec_zero
     \<lparr>output_Name := ''out'', output_Type := OutputTypeHTTP,
      output_HTTP := Some \<lparr>http_URL = ''https://logs'', http_Authentication = None, http_Tuning = None,
        http_Headers = Map.empty, http_Timeout = 0, http_Method = ''POST'', http_ProxyURL = [], http_Format = []\<rparr>\<rparr>"

definition sample_spec :: ClusterLogForwarderSpec where
  "sample_spec =
     \<lparr>spec_ManagementState = ManagementStateManaged, spec_Collector = None,
      spec_Inputs = [sample_input], spec_Outputs = [sample_http_output], spec_Filters = [],
      spec_Pipelines = [\<lparr>pipeline_Name = ''p'', pipeline_InputRefs = [''app''],
        pipeline_OutputRefs = [''out''], pipeline_FilterRefs = []\<rparr>],
      spec_ServiceAccount = \<lparr>sa_Name = ''collector''\<rparr>\<rparr>"

lemma sample_input_ids:
  "input_source_ids ''app'' =
     [''input_app'', ''input_app_container'', ''input_app_journal'', ''input_app_host'', ''input_app_kube'',
      ''input_app_openshift'', ''input_app_ovn'']"
  "distinct (input_transform_ids ''app'')" "list_all (\<lambda>k. hd k = CHR ''i'') (input_transform_ids ''app'')"
proof -
  have "input_id ''app'' = ''input_app''" by (simp add: input_id_def MakeInputID_def MakeID_def format_defs)
  then show "input_source_ids ''app'' =
     [''input_app'', ''input_app_container'', ''input_app_journal'', ''input_app_host'', ''input_app_kube'',
      ''input_app_openshift'', ''input_app_ovn'']"
    "distinct (input_transform_ids ''app'')" "list_all (\<lambda>k. hd k = CHR ''i'') (input_transform_ids ''app'')"
    by (simp_all add: input_source_ids_def input_transform_ids_def)
qed

lemma sample_pipeline_ids:
  "pipeline_filter_ids 0 \<lparr>pipeline_Name = ''p'', pipeline_InputRefs = [''app''], pipeline_OutputRefs = [''out''],
     pipeline_FilterRefs = []\<rparr> fm = [MakePipelineID [''p'', MakeID [Viaq, Itoa 0]]]"
  by (simp add: pipeline_filter_ids_def system_refs_def pipeline_title_def filter_id_def)

lemma sample_output_ids: "list_all (\<lambda>k. hd k = CHR ''o'') (output_ids sample_http_output)"
  by (simp add: output_ids_def sample_http_output_def list_all_iff MakeOutputID_def MakeID_def format_defs)

lemma sample_pipeline_hd: "hd (MakePipelineID [''p'', MakeID [Viaq, Itoa 0]]) = CHR ''p''"
  by (simp add: MakePipelineID_def MakeID_def Viaq_def format_defs)

lemma sample_apart: "source_ids_apart sample_spec" "transform_ids_apart lord sample_spec"
proof -
  show "source_ids_apart sample_spec"
    by (simp add: source_ids_apart_def sample_spec_def sample_input_def sample_input_ids(1) InternalMetricsSourceName_def)
  have hd: "hd k = CHR ''i''" if "k \<in> set (input_transform_ids ''app'')" for k
    using that sample_input_ids(3) by (simp add: list_all_iff)
  have ho: "hd k = CHR ''o''" if "k \<in> set (output_ids sample_http_output)" for k
    using that sample_output_ids by (simp add: list_all_iff)
  have add: "hd AddNodenameToMetricTransformName = CHR ''a''" by (simp add: AddNodenameToMetricTransformName_def)
  have "distinct (AddNodenameToMetricTransformName # input_transform_ids ''app''
      @ [MakePipelineID [''p'', MakeID [Viaq, Itoa 0]]] @ output_ids sample_http_output)"
    using sample_input_ids(2) output_ids_distinct [of sample_http_output] add hd ho sample_pipeline_hd by fastforce
  then show "transform_ids_apart lord sample_spec"
    by (simp add: transform_ids_apart_def sample_spec_def sample_input_def sample_pipeline_ids)
qed

lemma sample_composes: "spec_composes sample_env lord compiles sample_spec"
  unfolding spec_composes_def using sample_apart
  by (simp add: sample_spec_def Pipelines_Names_def FilterMap_def pipelines_resolve_def outputs_used_def
      Inputs_Names_def Outputs_Names_def sample_input_def input_collects_def sample_http_output_def tenants_branch_def
      OutputSpec_zero_def)


end
