(* ===== verification/Vector_Options.thy ===== *)
theory Vector_Options
  imports Vector_Fed
begin

text \<open>
  The options are one map for all outputs of a configuration (\<open>utils.Options\<close>): what a LokiStack output
  sets in it for its own tenants stays there for the outputs that are made after it.
\<close>

section \<open>The options after a LokiStack\<close>

lemma otlp_New_keeps:
  "otlp_New env oid o' inputs secrets op = Inr (parts, op') \<Longrightarrow>
   op_OtlpLogSources op' = op_OtlpLogSources op \<and> op_MigratedFromLokistack op' = op_MigratedFromLokistack op"
  by (auto simp: otlp_New_def Let_def go_bind_Inr_iff NewUnmatched_def split: if_splits)

lemma GenerateOutput_OpenTelemetry:
  "GenerateOutput o' t = Inr m \<Longrightarrow> output_LokiStack o' = Some ls \<Longrightarrow>
   lokistack_DataModel ls = LokiStackDataModelOpenTelemetry \<Longrightarrow> output_Type m = OutputTypeOTLP"
  by (auto simp: GenerateOutput_def go_bind_Inr_iff Let_def split: if_splits)

lemma add_tenant_leaves:
  assumes "add_tenant env oid routeID o' ins secrets (parts, op) t = Inr (parts', op')"
    and "output_LokiStack o' = Some ls" "lokistack_DataModel ls = LokiStackDataModelOpenTelemetry"
  shows "op_MigratedFromLokistack op' = Some True"
    "\<exists>sources. getInputSources ins t = Inr sources \<and> op_OtlpLogSources op' = Some sources"
proof -
  obtain sinks tfs where parts: "parts = (sinks, tfs)" by (cases parts)
  obtain m sources ps where m: "GenerateOutput o' t = Inr m" and sources: "getInputSources ins t = Inr sources"
    and otlp: "otlp_New env (MakeID [oid, t]) m [MakeRouteInputID routeID t] secrets
          (op\<lparr>op_OtlpLogSources := Some sources, op_MigratedFromLokistack := Some True\<rparr>) = Inr (ps, op')"
    using assms(1) GenerateOutput_OpenTelemetry [OF _ assms(2,3)]
    by (auto simp: add_tenant_def generateSinkForTenant_def Let_def go_bind_Inr_iff parts split: if_splits)
  show "op_MigratedFromLokistack op' = Some True"
    "\<exists>sources. getInputSources ins t = Inr sources \<and> op_OtlpLogSources op' = Some sources"
    using otlp_New_keeps [OF otlp] sources by simp_all
qed

lemma lokistack_leaves:
  assumes new: "lokistack_New env oid o' inputs secrets op = Inr (parts, op1)" and spec: "op_CLFSpec op = Some spec"
    and model: "output_LokiStack o' = Some ls" "lokistack_DataModel ls = LokiStackDataModelOpenTelemetry"
    and tenants: "determineTenants (InputSpecsTo (env_InputOrder env o') spec o') = Inr tenants" "tenants \<noteq> []"
  shows "op_MigratedFromLokistack op1 = Some True"
    "\<exists>sources. getInputSources (InputSpecsTo (env_InputOrder env o') spec o') (last tenants) = Inr sources
       \<and> op_OtlpLogSources op1 = Some sources"
proof -
  let ?ins = "InputSpecsTo (env_InputOrder env o') spec o'"
  obtain s0 where loop: "go_fold (add_tenant env oid (MakeID [oid, ''route'']) o' ?ins secrets) s0
      (butlast tenants @ [last tenants]) = Inr (parts, op1)"
    using new tenants by (auto simp: lokistack_New_def Let_def spec go_bind_Inr_iff split: if_splits prod.splits)
  then obtain s1 where "add_tenant env oid (MakeID [oid, ''route'']) o' ?ins secrets s1 (last tenants) = Inr (parts, op1)"
    unfolding go_fold_append by (auto simp: go_bind_Inr_iff)
  moreover obtain parts1 op' where "s1 = (parts1, op')" by (cases s1)
  ultimately have turn: "add_tenant env oid (MakeID [oid, ''route'']) o' ?ins secrets (parts1, op') (last tenants) = Inr (parts, op1)"
    by simp
  show "op_MigratedFromLokistack op1 = Some True"
    "\<exists>sources. getInputSources ?ins (last tenants) = Inr sources \<and> op_OtlpLogSources op1 = Some sources"
    using add_tenant_leaves [OF turn model] by blast+
qed

lemma output_New_OTLP:
  assumes "output_New env o' inputs secrets op = Inr ((sinks, tfs), op')" "output_Type o' = OutputTypeOTLP"
    and "output_Limit o' = None"
  obtains i sink where "otlp_New env (MakeOutputID [output_Name o']) o' inputs secrets
      (SetTLSProfileOptionsFrom env (Some (Output_TLS o')) op) = Inr ((i, sink, tfs), op')"
  using assms
  by (auto simp: output_New_def sinks_of_def Threshold_def Let_def go_bind_Inr_iff single_sink_def split: prod.splits)

lemma SetTLSProfileOptionsFrom_keeps [simp]:
  "op_OtlpLogSources (SetTLSProfileOptionsFrom env t op) = op_OtlpLogSources op"
  "op_MigratedFromLokistack (SetTLSProfileOptionsFrom env t op) = op_MigratedFromLokistack op"
  by (simp_all add: SetTLSProfileOptionsFrom_def split: prod.split)

section \<open>Properties\<close>

text \<open>
  C30. The options of a LokiStack leak. An OTLP output that is made after a LokiStack output with the
  OpenTelemetry data model (the outputs are made in the order of their names) routes only the log
  sources of the last tenant of the LokiStack, and does not extract trace contexts; made with the
  options as they were before, it routes all log sources, behind the transform that extracts them.
\<close>

theorem lokistack_options_leak:
  assumes "lokistack_New env oid o' inputs secrets op = Inr (parts, op1)" "op_CLFSpec op = Some spec"
    and "output_LokiStack o' = Some ls" "lokistack_DataModel ls = LokiStackDataModelOpenTelemetry"
    and "determineTenants (InputSpecsTo (env_InputOrder env o') spec o') = Inr tenants" "tenants \<noteq> []"
    and "output_Type o2 = OutputTypeOTLP" "output_Limit o2 = None"
    and "output_New env o2 inputs2 secrets op1 = Inr ((sinks, tfs), op2)"
    and "op_OtlpLogSources op = None" "op_MigratedFromLokistack op = None"
    and "output_New env o2 inputs2 secrets op = Inr ((sinks', tfs'), op3)"
    and "rerouteID = MakeID [MakeOutputID [output_Name o2], ''reroute'']"
    and "traceID = MakeID [MakeOutputID [output_Name o2], ''trace_context'']"
  shows "\<exists>sources. getInputSources (InputSpecsTo (env_InputOrder env o') spec o') (last tenants) = Inr sources
    \<and> tfs rerouteID = Some (RouteBySource inputs2 sources) \<and> tfs traceID = None
    \<and> tfs' rerouteID = Some (RouteBySource [traceID] allLogSources)
    \<and> tfs' traceID = Some (TransformTraceContext inputs2)"
proof -
  note leaves = lokistack_leaves [OF assms(1-6)]
  obtain sources where sources: "getInputSources (InputSpecsTo (env_InputOrder env o') spec o') (last tenants) = Inr sources"
    "op_OtlpLogSources op1 = Some sources" using leaves(2) by blast
  obtain i sink where after: "otlp_New env (MakeOutputID [output_Name o2]) o2 inputs2 secrets
      (SetTLSProfileOptionsFrom env (Some (Output_TLS o2)) op1) = Inr ((i, sink, tfs), op2)"
    using output_New_OTLP [OF assms(9,7,8)] by blast
  obtain j sink' where before: "otlp_New env (MakeOutputID [output_Name o2]) o2 inputs2 secrets
      (SetTLSProfileOptionsFrom env (Some (Output_TLS o2)) op) = Inr ((j, sink', tfs'), op3)"
    using output_New_OTLP [OF assms(12,7,8)] by blast
  show ?thesis
    using otlp_New_result(4) [OF after] otlp_New_result(4) [OF before] leaves(1) sources assms(10,11,13,14)
    by (auto simp: otlp_sources_def GetOption_def)
qed

definition sample_audit_input :: InputSpec where
  "sample_audit_input = InputSpec_zero
     \<lparr>input_Name := ''audit'', input_Type := InputTypeAudit,
      input_Audit := Some \<lparr>audit_Sources = [AuditSourceOVN], audit_Tuning = None\<rparr>\<rparr>"

definition sample_audit_spec :: ClusterLogForwarderSpec where
  "sample_audit_spec = sample_lokistack_spec
     \<lparr>spec_Inputs := [sample_audit_input],
      spec_Pipelines := [\<lparr>pipeline_Name = ''p'', pipeline_InputRefs = [''audit''],
        pipeline_OutputRefs = [''loki''], pipeline_FilterRefs = []\<rparr>]\<rparr>"

definition sample_otlp_output :: OutputSpec where
  "sample_otlp_output = OutputSpec_zero
     \<lparr>output_Name := ''otlp'', output_Type := OutputTypeOTLP,
      output_OTLP := Some \<lparr>otlp_URL = ''https://otlp'', otlp_Authentication = None, otlp_Tuning = None\<rparr>\<rparr>"

text \<open>The audit records of OVN go to the LokiStack: container logs are no longer routed to the other output.\<close>

theorem lokistack_options_leak_witness:
  "\<exists>parts op1 sinks tfs op2.
     lokistack_New (sample_env\<lparr>env_InputOrder := \<lambda>_. [''audit'']\<rparr>) ''output_loki'' sample_lokistack_output
       [''pipeline_p''] Map.empty (NoOptions\<lparr>op_CLFSpec := Some sample_audit_spec\<rparr>) = Inr (parts, op1)
     \<and> output_New (sample_env\<lparr>env_InputOrder := \<lambda>_. [''audit'']\<rparr>) sample_otlp_output [''q''] Map.empty op1
         = Inr ((sinks, tfs), op2)
     \<and> tfs (MakeID [MakeOutputID [''otlp''], ''reroute'']) = Some (RouteBySource [''q''] [''ovn''])"
proof -
  let ?env = "sample_env\<lparr>env_InputOrder := \<lambda>_. [''audit'']\<rparr>"
  let ?op = "NoOptions\<lparr>op_CLFSpec := Some sample_audit_spec\<rparr>"
  have ins: "InputSpecsTo [''audit''] sample_audit_spec sample_lokistack_output = [sample_audit_input]"
    by (simp add: InputSpecsTo_def inputs_found_def sample_audit_spec_def sample_lokistack_spec_def
        sample_lokistack_output_def sample_audit_input_def Inputs_Map_def Let_def)
  have known: "receivers_known [sample_audit_input]" by (simp add: receivers_known_def sample_audit_input_def)
  have tenants: "determineTenants [sample_audit_input] = Inr [''audit'']" by code_simp
  have sources: "getInputSources [sample_audit_input] ''audit'' = Inr [''ovn'']" by code_simp
  have names: "tenant_names sample_audit_input = [''audit'']" by (simp add: tenant_names_def sample_audit_input_def)
  have tsources: "tenant_sources [sample_audit_input] ''audit'' \<noteq> []"
    using getInputSources_names [OF known, of "''audit''"] sources by (metis list.distinct(1) sum.inject(2))
  have complete: "spec_complete sample_audit_spec"
    by (simp add: spec_complete_def sample_audit_spec_def sample_lokistack_spec_def)
  have stack: "output_LokiStack sample_lokistack_output = Some sample_lokistack"
    "lokistack_Authentication sample_lokistack = Some \<lparr>lsauth_Token = None\<rparr>"
    "lokistack_DataModel sample_lokistack = LokiStackDataModelOpenTelemetry"
    by (simp_all add: sample_lokistack_output_def sample_lokistack_def)
  have ins': "[sample_audit_input] = InputSpecsTo (env_InputOrder ?env sample_lokistack_output) sample_audit_spec sample_lokistack_output"
    by (simp add: ins)
  have "returns (lokistack_New ?env ''output_loki'' sample_lokistack_output [''pipeline_p''] Map.empty ?op)"
    using names tsources by (subst returns_lokistack_New [OF _ complete stack(1,2) ins' known]) simp_all
  then obtain parts op1 where new: "lokistack_New ?env ''output_loki'' sample_lokistack_output [''pipeline_p''] Map.empty ?op
      = Inr (parts, op1)" by (auto elim!: returnsE)
  have otlp: "output_Type sample_otlp_output = OutputTypeOTLP" "output_Limit sample_otlp_output = None"
    "output_Name sample_otlp_output = ''otlp''"
    by (simp_all add: sample_otlp_output_def OutputSpec_zero_def)
  have made: "\<exists>sinks tfs op'. output_New ?env sample_otlp_output [''q''] Map.empty op = Inr ((sinks, tfs), op')"
    if "otlp_sources op \<noteq> []" for op
  proof -
    have "returns (otlp_New ?env (MakeOutputID [''otlp'']) sample_otlp_output [''q''] Map.empty
        (SetTLSProfileOptionsFrom ?env (Some (Output_TLS sample_otlp_output)) op))"
      using that by (simp add: returns_otlp_New otlp_sources_def sample_otlp_output_def)
    then show ?thesis
      using otlp by (auto simp: output_New_def sinks_of_def Threshold_def Let_def single_sink_def elim!: returnsE split: prod.splits)
  qed
  have tenants': "determineTenants (InputSpecsTo (env_InputOrder ?env sample_lokistack_output) sample_audit_spec
      sample_lokistack_output) = Inr [''audit'']" using tenants by (simp add: ins)
  have "op_OtlpLogSources op1 = Some [''ovn'']"
    using lokistack_leaves(2) [OF new _ stack(1,3) tenants'] sources by (simp add: ins)
  then obtain sinks tfs op2 where after: "output_New ?env sample_otlp_output [''q''] Map.empty op1 = Inr ((sinks, tfs), op2)"
    using made [of op1] by (auto simp: otlp_sources_def GetOption_def)
  have "otlp_sources ?op \<noteq> []" by (simp add: otlp_sources_def GetOption_def NoOptions_def allLogSources_def)
  then obtain sinks' tfs' op3 where before: "output_New ?env sample_otlp_output [''q''] Map.empty ?op = Inr ((sinks', tfs'), op3)"
    using made [of ?op] by blast
  have "tfs (MakeID [MakeOutputID [''otlp''], ''reroute'']) = Some (RouteBySource [''q''] [''ovn''])"
    using lokistack_options_leak [OF new _ stack(1,3) tenants' _ otlp(1,2) after _ _ before refl refl] sources
    by (simp add: ins otlp(3) NoOptions_def)
  then show ?thesis using new after by blast
qed

end
