(* ===== verification/Spec2Isabelle.thy ===== *)
theory Spec2Isabelle
  imports Reconcile Vector_Composition Vector_Options
begin

text \<open>
  \<^bold>\<open>Cluster logging operator: a verification development.\<close>

  The operator watches \<open>ClusterLogForwarder\<close> resources. A run of its controller
  (\<open>internal/controller/observability\<close>) fetches one, fills in what the user left implicit, validates
  it, and brings the cluster into the state it asks for: role bindings, a generated Vector
  configuration, a collector workload, services and monitors; the outcome is reported in the status.

  \<^bold>\<open>The theories and the code.\<close>
  \<^item> \<open>Go_Prelude\<close>, \<open>Go_Time\<close>, \<open>Go_Url\<close>: what the code uses of Go's standard library (strings, sets,
    formatted quoting, time parsing, URL parsing). A Go function that may panic returns
    \<open>go_fault + 'a\<close>; ranging over a map takes the order as an argument, constrained by
    \<open>range_order\<close>.
  \<^item> \<open>Obs_Types\<close>, \<open>Obs_Output_Types\<close>: the resource (\<open>api/observability/v1\<close>), one record per struct,
    one datatype per enumeration.
  \<^item> \<open>Obs_Status\<close>, \<open>Obs_Inputs\<close>, \<open>Obs_Outputs\<close>, \<open>Obs_Secrets\<close>: \<open>internal/api/observability\<close>.
  \<^item> \<open>Initialize\<close>: \<open>internal/api/initialize\<close>; the generated secrets are threaded state.
  \<^item> \<open>Vrl_Paths\<close>: \<open>internal/generator/vector/helpers\<close>.
  \<^item> \<open>Validate_Common\<close> to \<open>Validate_Forwarder\<close>: \<open>internal/validations/observability\<close>. Each validator
    maps the context to the context with conditions set; the locale \<open>item_validator\<close> relates the
    conditions to the verdict of \<open>forwarder.go\<close>.
  \<^item> \<open>Cluster_Rbac\<close>: \<open>internal/auth/rbac.go\<close>, \<open>internal/reconcile/rbac.go\<close> over a store of objects and
    an API that may refuse any call; the locale \<open>object_reconciler\<close> is the contract of its parts.
  \<^item> \<open>Collector_Deploy\<close>: \<open>ReconcileCollector\<close> and what it calls, as traces of cluster operations.
  \<^item> \<open>Reconcile\<close>: the controller's \<open>Reconcile\<close>, composed of all of the above.
  \<^item> \<open>Vector_Api\<close>, \<open>Vector_Config\<close>: the types of the generated configuration
    (\<open>internal/generator/vector/api\<close>), a record per struct and a constructor per kind of source,
    transform and sink, and the normalization of VRL texts; \<open>Config\<close> (with \<open>Options\<close> below) is the state that
    the generator threads. \<open>Vector_Text\<close>, \<open>Output_Text\<close>: the VRL texts of inputs, filters and outputs.
  \<^item> \<open>Vector_Common\<close>: TLS profiles, tuning and authentication (\<open>internal/tls\<close>, \<open>output/common\<close>);
    \<open>Vrl_Template\<close>: user templates with fields and timestamps (\<open>output/common/template\<close>).
  \<^item> \<open>Vector_Inputs\<close>, \<open>Vector_Filters\<close>, \<open>Vector_Pipelines\<close>: \<open>input\<close>, \<open>filter\<close> and \<open>adapters/pipeline.go\<close>.
  \<^item> \<open>Vector_Sinks\<close>, \<open>Vector_Syslog\<close>, \<open>Vector_Loki\<close>, \<open>Vector_Lokistack\<close>: a function \<open><type>_New\<close> for each
    type of output (\<open>output/*\<close>), its sink and its transforms.
  \<^item> \<open>Vector_Conf\<close>: the factory of outputs, the metrics and \<open>Conf\<close> (\<open>conf/conf.go\<close>), the three loops over
    inputs, pipelines and outputs.
  \<^item> \<open>Vector_Identifiers\<close>, \<open>Vector_Fed\<close>, \<open>Vector_Composition\<close>, \<open>Vector_Options\<close>: lemmas about the
    configuration as a whole: the identifiers each builder stays within, what feeds a sink, the loops,
    the options that outputs share.

  \<^bold>\<open>What is shown.\<close> In \<open>Reconcile\<close>: a collector is deployed only for a valid and authorized forwarder,
  and for each such; the status is reported once and last. In \<open>Collector_Deploy\<close> and \<open>Cluster_Rbac\<close>:
  the order of deployment, exactness of the clean-up, convergence under retries. In the validators:
  the conditions and the verdict are equivalent to declarative checks. In \<open>Initialize\<close>: names resolve,
  and initialization is idempotent. In the generator: the filters of a pipeline form a chain, the
  identifiers an input hands on are fed by its sources, and, composed over the whole specification,
  \<open>Conf\<close> returns and every sink of an output has inputs that lead back to sources (\<open>delivers\<close>, \<open>feeds\<close>);
  the cases in which builders panic are characterized exactly; curves on FIPS hosts, retry durations
  and sizes of requests stay within bounds at their width in bits; normalization of VRL is
  idempotent; the loop over a template ends and loses no text. Where the code falls short of what it
  means to do, the theorem states what it does.

  \<^bold>\<open>Loops.\<close> No definition takes fuel. A loop over a list is \<open>go_fold\<close>, which stops at the first panic;
  the loop over a template is a \<open>partial_function\<close>, whose termination is the theorem
  \<open>template_loop_total\<close>. The order in which a Go map is ranged over is an argument.

  \<^bold>\<open>Not modelled.\<close> The marshalling of the configuration to TOML (a library's), the specification of
  the collector's pods, network policies and ports, the builders and reconcilers of the other
  Kubernetes objects (services, monitors, config maps: their calls are operations in the traces), the
  second controller, the dashboard and telemetry, and the command-line tools. Kubernetes, cloud
  services and Go's regular expressions, as far as the code applies user patterns, are arguments.
\<close>

end
